(* ===== verification/Prelude.thy ===== *)
theory Prelude
  imports Complex_Main "HOL-Library.Char_ord" "HOL-Library.List_Lexorder" "HOL-Library.Multiset"
begin

text \<open>
  Shared base of the development.

  \<^item> Go's 64-bit integers: values are \<open>int\<close>, every arithmetic operation of the
    source that can wrap is written with \<open>i64\<close>, the two's complement reduction.
  \<^item> Errors: \<open>go_error\<close> is the sum of the error values the services return. An
    \<open>AppErr\<close> is an \<open>httpx.AppError\<close> (status, code, message, details); a
    \<open>Sentinel\<close> is a package-level \<open>errors.New\<close> value, named by its Go
    identifier; \<open>DbFail\<close> is an error of the database connection and
    \<open>RecordNotFound\<close> is gorm's sentinel; \<open>Constraint\<close> is a violated constraint
    of the schema; \<open>Panic\<close> is a run-time panic. The Persian
    texts of messages are represented by short ASCII strings.
  \<^item> Effects: the services are written in an error monad over a \<open>world\<close>, which
    holds the database and the answers of the environment: the values that
    \<open>uuid.New()\<close> and \<open>time.Now()\<close> return, and a schedule of database failures,
    each with the position of the next answer. Every database call consumes one
    entry of the schedule.
  \<^item> Sorting with a Go comparison function.
\<close>

section \<open>Collections of facts\<close>

named_theorems monad "evaluation rules of the error monad"
named_theorems pres "rules for invariants kept by monadic code"
named_theorems atom "rules for all-or-nothing monadic code"

section \<open>64-bit integers\<close>

definition i64 :: "int \<Rightarrow> int" where
  "i64 x = (x + 2 ^ 63) mod 2 ^ 64 - 2 ^ 63"

definition in64 :: "int \<Rightarrow> bool" where
  "in64 x \<longleftrightarrow> - (2 ^ 63) \<le> x \<and> x < 2 ^ 63"

lemma i64_id [simp]: "in64 x \<Longrightarrow> i64 x = x"
  by (simp add: i64_def in64_def)

lemma in64_i64 [simp]: "in64 (i64 x)"
proof -
  have "0 \<le> (x + 2 ^ 63) mod 2 ^ 64" "(x + 2 ^ 63) mod 2 ^ 64 < (2 ^ 64 :: int)"
    by (rule pos_mod_sign, simp) (rule pos_mod_bound, simp)
  thus ?thesis by (simp add: i64_def in64_def)
qed

lemma i64_add_left [simp]: "i64 (i64 x + y) = i64 (x + y)"
proof -
  have "(i64 x + y + 2 ^ 63) = ((x + 2 ^ 63) mod 2 ^ 64 + y)"
    by (simp add: i64_def)
  moreover have "((x + 2 ^ 63) mod 2 ^ 64 + y) mod 2 ^ 64 = (x + 2 ^ 63 + y) mod 2 ^ 64"
    by (rule mod_add_left_eq)
  ultimately show ?thesis
    by (simp add: i64_def ac_simps)
qed

lemma i64_add_right [simp]: "i64 (x + i64 y) = i64 (x + y)"
  using i64_add_left [of y x] by (simp add: add.commute)

definition sum64 :: "int list \<Rightarrow> int" where
  "sum64 xs = foldl (\<lambda>s x. i64 (s + x)) 0 xs"

lemma foldl_i64: "i64 (foldl (\<lambda>s x. i64 (s + x)) a xs) = i64 (a + sum_list xs)"
  by (induction xs arbitrary: a) (simp_all add: ac_simps)

lemma foldl_i64_in64: "in64 a \<Longrightarrow> in64 (foldl (\<lambda>s x. i64 (s + x)) a xs)"
  by (induction xs arbitrary: a) simp_all

lemma in64_0 [simp]: "in64 0"
  by (simp add: in64_def)

lemma sum64_eq: "sum64 xs = i64 (sum_list xs)"
  using foldl_i64 [of 0 xs] foldl_i64_in64 [of 0 xs] by (simp add: sum64_def)

lemma sum64_exact: "in64 (sum_list xs) \<Longrightarrow> sum64 xs = sum_list xs"
  by (simp add: sum64_eq)

section \<open>Errors\<close>

record field_error =
  Field :: string
  Rule :: string

record app_error =
  Status :: int
  Code :: string
  Message :: string
  Details :: "field_error list"

datatype go_error =
    AppErr app_error
  | Sentinel string
  | RecordNotFound
  | DbFail
  | Constraint string
  | Panic string

definition WithDetail :: "app_error \<Rightarrow> string \<Rightarrow> string \<Rightarrow> app_error" where
  "WithDetail e field rule =
     e\<lparr>Details := Details e @ [\<lparr>Field = field, Rule = rule\<rparr>]\<rparr>"

definition BadRequest :: "string \<Rightarrow> app_error" where
  "BadRequest msg = \<lparr>Status = 400, Code = ''VALIDATION_ERROR'', Message = msg, Details = []\<rparr>"

definition Unauthorized :: "string \<Rightarrow> app_error" where
  "Unauthorized msg = \<lparr>Status = 401, Code = ''UNAUTHENTICATED'', Message = msg, Details = []\<rparr>"

definition Forbidden :: "string \<Rightarrow> app_error" where
  "Forbidden msg = \<lparr>Status = 403, Code = ''FORBIDDEN'', Message = msg, Details = []\<rparr>"

definition NotFound :: "string \<Rightarrow> app_error" where
  "NotFound msg = \<lparr>Status = 404, Code = ''NOT_FOUND'', Message = msg, Details = []\<rparr>"

definition Conflict :: "string \<Rightarrow> app_error" where
  "Conflict msg = \<lparr>Status = 409, Code = ''CONFLICT'', Message = msg, Details = []\<rparr>"

definition RateLimited :: "string \<Rightarrow> app_error" where
  "RateLimited msg = \<lparr>Status = 429, Code = ''RATE_LIMITED'', Message = msg, Details = []\<rparr>"

definition Internal :: "string \<Rightarrow> app_error" where
  "Internal msg = \<lparr>Status = 500, Code = ''INTERNAL'', Message = msg, Details = []\<rparr>"

definition ErrInternal :: app_error where
  "ErrInternal = Internal ''internal server error''"

text \<open>\<open>WriteError\<close>: the status and the envelope written to the client.\<close>

definition WriteError :: "go_error \<Rightarrow> app_error" where
  "WriteError err =
     (let appErr = (case err of AppErr e \<Rightarrow> e | _ \<Rightarrow> ErrInternal)
      in if Status appErr \<ge> 500 \<and> Message appErr = Message ErrInternal
         then ErrInternal else appErr)"

text \<open>Pure fallible code: \<open>x, err := r; if err != nil { return err }\<close>.\<close>

definition bindR :: "go_error + 'a \<Rightarrow> ('a \<Rightarrow> go_error + 'b) \<Rightarrow> go_error + 'b" where
  "bindR r f = (case r of Inl e \<Rightarrow> Inl e | Inr x \<Rightarrow> f x)"

lemma bindR_simps [simp]: "bindR (Inl e) f = Inl e" "bindR (Inr x) f = f x"
  by (simp_all add: bindR_def)

lemma bindR_Inr_iff: "bindR r f = Inr y \<longleftrightarrow> (\<exists>x. r = Inr x \<and> f x = Inr y)"
  by (cases r) simp_all

section \<open>The world and the error monad\<close>

type_synonym uuid = nat

abbreviation (input) uuidNil :: uuid where
  "uuidNil \<equiv> 0"

record 'd world =
  db :: 'd
  uuids :: "nat \<Rightarrow> uuid"
  unext :: nat
  clock :: "nat \<Rightarrow> int"
  cnext :: nat
  faults :: "nat \<Rightarrow> bool"
  fnext :: nat

type_synonym 'a result = "go_error + 'a"
type_synonym ('d, 'a) m = "'d world \<Rightarrow> 'a result \<times> 'd world"

definition returnE :: "'a \<Rightarrow> ('d, 'a) m" where
  "returnE x w = (Inr x, w)"

definition throwE :: "go_error \<Rightarrow> ('d, 'a) m" where
  "throwE e w = (Inl e, w)"

definition bindE :: "('d, 'a) m \<Rightarrow> ('a \<Rightarrow> ('d, 'b) m) \<Rightarrow> ('d, 'b) m" where
  "bindE f g w = (case f w of (Inl e, w') \<Rightarrow> (Inl e, w') | (Inr x, w') \<Rightarrow> g x w')"

definition thenE :: "('d, unit) m \<Rightarrow> ('d, 'b) m \<Rightarrow> ('d, 'b) m" where
  "thenE f g = bindE f (\<lambda>_. g)"

definition whenE :: "bool \<Rightarrow> ('d, unit) m \<Rightarrow> ('d, unit) m" where
  "whenE b f = (if b then f else returnE ())"

definition throwIf :: "bool \<Rightarrow> go_error \<Rightarrow> ('d, unit) m" where
  "throwIf b e = (if b then throwE e else returnE ())"

definition liftE :: "'a result \<Rightarrow> ('d, 'a) m" where
  "liftE r w = (r, w)"

text \<open>\<open>tryE\<close> gives the caller the error as a value: \<open>x, err := f()\<close>.\<close>

definition tryE :: "('d, 'a) m \<Rightarrow> ('d, 'a result) m" where
  "tryE f w = (case f w of (r, w') \<Rightarrow> (Inr r, w'))"

text \<open>\<open>mapErr\<close> replaces an error: \<open>if err != nil { return h(err) }\<close>.\<close>

definition mapErr :: "(go_error \<Rightarrow> go_error) \<Rightarrow> ('d, 'a) m \<Rightarrow> ('d, 'a) m" where
  "mapErr h f w = (case f w of (Inl e, w') \<Rightarrow> (Inl (h e), w') | (Inr x, w') \<Rightarrow> (Inr x, w'))"

text \<open>\<open>ignoreE\<close> runs a call whose error the source discards.\<close>

definition ignoreE :: "('d, 'a) m \<Rightarrow> ('d, unit) m" where
  "ignoreE f w = (case f w of (r, w') \<Rightarrow> (Inr (), w'))"

fun forE :: "'a list \<Rightarrow> ('a \<Rightarrow> ('d, unit) m) \<Rightarrow> ('d, unit) m" where
  "forE [] f = returnE ()"
| "forE (x # xs) f = thenE (f x) (forE xs f)"

fun mapE :: "('a \<Rightarrow> ('d, 'b) m) \<Rightarrow> 'a list \<Rightarrow> ('d, 'b list) m" where
  "mapE f [] = returnE []"
| "mapE f (x # xs) = bindE (f x) (\<lambda>y. bindE (mapE f xs) (\<lambda>ys. returnE (y # ys)))"

text \<open>Environment calls.\<close>

definition newUUID :: "('d, uuid) m" where
  "newUUID w = (Inr (uuids w (unext w)), w\<lparr>unext := Suc (unext w)\<rparr>)"

definition timeNow :: "('d, int) m" where
  "timeNow w = (Inr (clock w (cnext w)), w\<lparr>cnext := Suc (cnext w)\<rparr>)"

definition tick :: "'d world \<Rightarrow> 'd world" where
  "tick w = w\<lparr>fnext := Suc (fnext w)\<rparr>"

definition setdb :: "'d \<Rightarrow> 'd world \<Rightarrow> 'd world" where
  "setdb d w = w\<lparr>db := d\<rparr>"

text \<open>A statement on the database: it fails when the schedule says so, or with the
  error of the statement, and leaves the tables as they were in both cases.\<close>

definition exec :: "('d \<Rightarrow> ('a \<times> 'd) result) \<Rightarrow> ('d, 'a) m" where
  "exec f w = (if faults w (fnext w) then (Inl DbFail, tick w)
     else case f (db w) of Inl e \<Rightarrow> (Inl e, tick w) | Inr (x, d) \<Rightarrow> (Inr x, setdb d (tick w)))"

definition query :: "('d \<Rightarrow> 'a result) \<Rightarrow> ('d, 'a) m" where
  "query f w = (if faults w (fnext w) then (Inl DbFail, tick w) else (f (db w), tick w))"

text \<open>\<open>db.Transaction(func(tx) error)\<close>: begin and commit are calls of their own; when
  the body or one of them fails the tables are what they were at the start.\<close>

definition transaction :: "('d, 'a) m \<Rightarrow> ('d, 'a) m" where
  "transaction f w =
     (if faults w (fnext w) then (Inl DbFail, tick w)
      else case f (tick w) of
        (Inl e, w') \<Rightarrow> (Inl e, setdb (db w) w')
      | (Inr x, w') \<Rightarrow>
          if faults w' (fnext w') then (Inl DbFail, setdb (db w) (tick w'))
          else (Inr x, tick w'))"

section \<open>Evaluation of monadic code\<close>

definition no_faults :: "'d world \<Rightarrow> bool" where
  "no_faults w \<longleftrightarrow> (\<forall>n. \<not> faults w n)"

lemma world_simps [simp]:
  "db (tick w) = db w" "db (setdb d w) = d"
  "faults (tick w) = faults w" "faults (setdb d w) = faults w"
  "uuids (tick w) = uuids w" "uuids (setdb d w) = uuids w"
  "unext (tick w) = unext w" "unext (setdb d w) = unext w"
  "clock (tick w) = clock w" "clock (setdb d w) = clock w"
  "cnext (tick w) = cnext w" "cnext (setdb d w) = cnext w"
  by (simp_all add: tick_def setdb_def)

lemma no_faults_simps [simp]:
  "no_faults (tick w) = no_faults w" "no_faults (setdb d w) = no_faults w"
  "no_faults (w\<lparr>unext := n\<rparr>) = no_faults w" "no_faults (w\<lparr>cnext := n\<rparr>) = no_faults w"
  by (simp_all add: no_faults_def)

lemma no_faultsD [simp]: "no_faults w \<Longrightarrow> \<not> faults w n"
  by (simp add: no_faults_def)

lemma returnE_run [monad]: "returnE x w = (Inr x, w)"
  by (simp add: returnE_def)

lemma throwE_run [monad]: "throwE e w = (Inl e, w)"
  by (simp add: throwE_def)

lemma bindE_run [monad]:
  "f w = (Inl e, w') \<Longrightarrow> bindE f g w = (Inl e, w')"
  "f w = (Inr x, w') \<Longrightarrow> bindE f g w = g x w'"
  by (simp_all add: bindE_def)

lemma bindE_assoc: "bindE (bindE f g) h = bindE f (\<lambda>x. bindE (g x) h)"
  by (rule ext) (simp add: bindE_def split: prod.splits sum.splits)

lemma bindE_return [simp]: "bindE (returnE x) f = f x" "bindE (throwE e) f = throwE e"
  by (rule ext, simp add: bindE_def returnE_def throwE_def)+

lemma thenE_return [simp]: "thenE (returnE ()) f = f" "thenE (throwE e) f = throwE e"
  by (simp_all add: thenE_def)

lemma whenE_simps [simp]: "whenE True f = f" "whenE False f = returnE ()"
  by (simp_all add: whenE_def)

lemma throwIf_simps [simp]: "throwIf True e = throwE e" "throwIf False e = returnE ()"
  by (simp_all add: throwIf_def)

lemma exec_run [monad]:
  "no_faults w \<Longrightarrow> f (db w) = Inl e \<Longrightarrow> exec f w = (Inl e, tick w)"
  "no_faults w \<Longrightarrow> f (db w) = Inr (x, d) \<Longrightarrow> exec f w = (Inr x, setdb d (tick w))"
  by (simp_all add: exec_def)

lemma query_run [monad]: "no_faults w \<Longrightarrow> query f w = (f (db w), tick w)"
  by (simp add: query_def)

lemma bindE_splitE:
  "bindE f g w = (Inr y, w'') \<Longrightarrow> (\<And>x w'. f w = (Inr x, w') \<Longrightarrow> g x w' = (Inr y, w'') \<Longrightarrow> P) \<Longrightarrow> P"
  by (auto simp: bindE_def split: prod.splits sum.splits)

lemma thenE_splitE:
  "thenE f g w = (Inr y, w'') \<Longrightarrow> (\<And>u w'. f w = (Inr u, w') \<Longrightarrow> g w' = (Inr y, w'') \<Longrightarrow> P) \<Longrightarrow> P"
  unfolding thenE_def by (erule bindE_splitE) blast

lemma throwIf_splitE: "throwIf b e w = (Inr u, w') \<Longrightarrow> (\<not> b \<Longrightarrow> w' = w \<Longrightarrow> P) \<Longrightarrow> P"
  by (simp add: throwIf_def throwE_def returnE_def split: if_splits)

lemma run_Inr: "\<not> isl (fst p) \<Longrightarrow> (\<And>x. p = (Inr x, snd p) \<Longrightarrow> P) \<Longrightarrow> P"
  by (cases p; cases "fst p") auto

section \<open>All-or-nothing code and kept invariants\<close>

text \<open>\<open>reads f\<close>: the tables are never changed. \<open>atomicE f\<close>: when \<open>f\<close> fails the tables are
  unchanged. \<open>preserves I f\<close>: \<open>I\<close> of the tables is kept, whatever the outcome.\<close>

definition reads :: "('d, 'a) m \<Rightarrow> bool" where
  "reads f \<longleftrightarrow> (\<forall>w. db (snd (f w)) = db w)"

definition atomicE :: "('d, 'a) m \<Rightarrow> bool" where
  "atomicE f \<longleftrightarrow> (\<forall>w e w'. f w = (Inl e, w') \<longrightarrow> db w' = db w)"

definition preserves :: "('d \<Rightarrow> bool) \<Rightarrow> ('d, 'a) m \<Rightarrow> bool" where
  "preserves I f \<longleftrightarrow> (\<forall>w. I (db w) \<longrightarrow> I (db (snd (f w))))"

lemma reads_rules [atom, pres, intro]:
  "reads (returnE x)" "reads (throwE e)" "reads (query q)" "reads newUUID" "reads timeNow"
  "reads (liftE r)" "reads (throwIf b e)"
  by (auto simp: reads_def returnE_def throwE_def query_def newUUID_def timeNow_def liftE_def
      throwIf_def)

lemma reads_bindE [atom, pres, intro]:
  assumes "reads f" and "\<And>x. reads (g x)"
  shows "reads (bindE f g)"
proof -
  have "db (snd (bindE f g w)) = db w" for w
    using assms(1) assms(2) unfolding reads_def bindE_def
    by (auto split: prod.splits sum.splits) (metis snd_conv)+
  thus ?thesis by (simp add: reads_def)
qed

lemma reads_thenE [atom, pres, intro]: "reads f \<Longrightarrow> reads g \<Longrightarrow> reads (thenE f g)"
  unfolding thenE_def by (rule reads_bindE)

lemma reads_whenE [atom, pres, intro]: "reads f \<Longrightarrow> reads (whenE b f)"
  by (auto simp: whenE_def)

lemma reads_mapErr [atom, pres, intro]: "reads f \<Longrightarrow> reads (mapErr h f)"
  unfolding reads_def mapErr_def by (auto split: prod.splits sum.splits) (metis snd_conv)+

lemma reads_tryE [atom, pres, intro]: "reads f \<Longrightarrow> reads (tryE f)"
  unfolding reads_def tryE_def by (auto split: prod.splits) (metis snd_conv)

lemma reads_ignoreE [atom, pres, intro]: "reads f \<Longrightarrow> reads (ignoreE f)"
  unfolding reads_def ignoreE_def by (auto split: prod.splits) (metis snd_conv)

lemma reads_mapE [atom, pres, intro]: "(\<And>x. reads (f x)) \<Longrightarrow> reads (mapE f xs)"
  by (induction xs) auto

lemma reads_run: "reads f \<Longrightarrow> f w = (r, w') \<Longrightarrow> db w' = db w"
  unfolding reads_def by (metis snd_conv)

lemma atomicE_reads [atom]: "reads f \<Longrightarrow> atomicE f"
  by (auto simp: atomicE_def dest: reads_run)

lemma atomicE_bindE [atom]: "reads f \<Longrightarrow> (\<And>x. atomicE (g x)) \<Longrightarrow> atomicE (bindE f g)"
  unfolding atomicE_def bindE_def
  by (auto split: prod.splits sum.splits dest: reads_run)

lemma atomicE_thenE [atom]: "reads f \<Longrightarrow> atomicE g \<Longrightarrow> atomicE (thenE f g)"
  unfolding thenE_def by (rule atomicE_bindE)

lemma atomicE_transaction [atom, intro]: "atomicE (transaction f)"
  by (auto simp: atomicE_def transaction_def split: prod.splits sum.splits if_splits)

lemma atomicE_exec [atom, intro]: "atomicE (exec f)"
  by (auto simp: atomicE_def exec_def split: prod.splits sum.splits if_splits)

lemma atomicE_D: "atomicE f \<Longrightarrow> f w = (Inl e, w') \<Longrightarrow> db w' = db w"
  by (auto simp: atomicE_def)

lemma preserves_reads [pres]: "reads f \<Longrightarrow> preserves I f"
  by (auto simp: reads_def preserves_def)

lemma preserves_bindE [pres]:
  assumes "preserves I f" and "\<And>x. preserves I (g x)"
  shows "preserves I (bindE f g)"
  using assms unfolding preserves_def bindE_def
  by (auto split: prod.splits sum.splits)

lemma preserves_thenE [pres]: "preserves I f \<Longrightarrow> preserves I g \<Longrightarrow> preserves I (thenE f g)"
  unfolding thenE_def by (rule preserves_bindE)

lemma preserves_whenE [pres]: "preserves I f \<Longrightarrow> preserves I (whenE b f)"
  by (auto simp: whenE_def intro: preserves_reads)

lemma preserves_exec [pres]:
  "(\<And>d x d'. I d \<Longrightarrow> f d = Inr (x, d') \<Longrightarrow> I d') \<Longrightarrow> preserves I (exec f)"
  by (auto simp: preserves_def exec_def split: sum.splits prod.splits)

lemma preserves_transaction [pres]: "preserves I f \<Longrightarrow> preserves I (transaction f)"
  unfolding preserves_def transaction_def
  by (auto split: prod.splits sum.splits) (metis snd_conv world_simps(1))

lemma preserves_tryE [pres]: "preserves I f \<Longrightarrow> preserves I (tryE f)"
  unfolding preserves_def tryE_def by (auto split: prod.splits)

lemma preserves_ignoreE [pres]: "preserves I f \<Longrightarrow> preserves I (ignoreE f)"
  unfolding preserves_def ignoreE_def by (auto split: prod.splits)

lemma preserves_mapErr [pres]: "preserves I f \<Longrightarrow> preserves I (mapErr h f)"
  unfolding preserves_def mapErr_def by (auto split: prod.splits sum.splits)

lemma preserves_forE [pres]: "(\<And>x. preserves I (f x)) \<Longrightarrow> preserves I (forE xs f)"
  by (induction xs) (auto intro: pres)

lemma preserves_run: "preserves I f \<Longrightarrow> I (db w) \<Longrightarrow> f w = (r, w') \<Longrightarrow> I (db w')"
  unfolding preserves_def by (metis snd_conv)

section \<open>Sorting with a comparison function\<close>

text \<open>\<open>sort.SliceStable(xs, less)\<close>: insertion of each element before the first element
  that is not less than it, from the last element to the first, so that elements
  neither of which is less than the other keep their order.\<close>

fun insort_by :: "('a \<Rightarrow> 'a \<Rightarrow> bool) \<Rightarrow> 'a \<Rightarrow> 'a list \<Rightarrow> 'a list" where
  "insort_by lt x [] = [x]"
| "insort_by lt x (y # ys) = (if lt y x then y # insort_by lt x ys else x # y # ys)"

definition sort_by :: "('a \<Rightarrow> 'a \<Rightarrow> bool) \<Rightarrow> 'a list \<Rightarrow> 'a list" where
  "sort_by lt xs = foldr (insort_by lt) xs []"

lemma insort_by_key:
  "(\<And>a b. lt a b \<longleftrightarrow> f a < f b) \<Longrightarrow> insort_by lt x xs = insort_key f x xs"
  by (induction xs) (auto simp: not_le not_less)

lemma sort_by_key:
  fixes f :: "'a \<Rightarrow> 'b::linorder"
  assumes "\<And>a b. lt a b \<longleftrightarrow> f a < f b"
  shows "sort_by lt xs = sort_key f xs"
  by (induction xs) (simp_all add: sort_by_def insort_by_key [OF assms])

lemma mset_insort_by [simp]: "mset (insort_by lt x xs) = add_mset x (mset xs)"
  by (induction xs) auto

lemma mset_sort_by [simp]: "mset (sort_by lt xs) = mset xs"
  by (induction xs) (auto simp: sort_by_def)

lemma length_sort_by [simp]: "length (sort_by lt xs) = length xs"
  using mset_eq_length [OF mset_sort_by] .

lemma set_sort_by [simp]: "set (sort_by lt xs) = set xs"
  using mset_eq_setD [OF mset_sort_by] .

lemma sort_key_permuted:
  fixes f :: "'a \<Rightarrow> 'b::linorder"
  assumes "mset xs = mset ys" and "inj_on f (set xs)"
  shows "sort_key f xs = sort_key f ys"
proof (rule sort_key_inj_key_eq)
  show "mset xs = mset (sort_key f ys)" using assms(1) by simp
qed (use assms in auto)

section \<open>Bounded descent\<close>

lemma drops_bounded:
  fixes r :: "nat \<Rightarrow> nat"
  assumes "\<And>n. r (Suc n) \<le> r n"
  shows "finite {n. r (Suc n) < r n} \<and> card {n. r (Suc n) < r n} \<le> r 0"
proof -
  have anti: "i \<le> j \<Longrightarrow> r j \<le> r i" for i j using assms by (rule lift_Suc_antimono_le)
  have "i < j \<Longrightarrow> r (Suc j) < r j \<Longrightarrow> r (Suc j) < r (Suc i)" for i j using anti [of "Suc i" j] by simp
  hence inj: "inj_on (\<lambda>n. r (Suc n)) {n. r (Suc n) < r n}" by (intro linorder_inj_onI) fastforce+
  have sub: "(\<lambda>n. r (Suc n)) ` {n. r (Suc n) < r n} \<subseteq> {..<r 0}"
    using anti [of 0] by (auto intro: less_le_trans)
  show ?thesis using card_inj_on_le [OF inj sub] inj_on_finite [OF inj sub] by simp
qed

end
