(* ===== verification/Database.thy ===== *)
theory Database
  imports Prelude
begin

text \<open>
  The tables of the database (migrations 0001 to 0011): one record per model struct of
  the Go code, one field of \<open>db\<close> per table, each table a list of rows in insertion order.
  Dates are day numbers, times are integers, money is \<open>int64\<close> Toman, nullable columns are
  \<open>option\<close>. The denormalised display columns (\<open>UnitNumber\<close>, \<open>PeriodTitle\<close>, preloaded
  associations) are not part of a row.
\<close>

section \<open>Accounts and scope\<close>

abbreviation (input) RoleSuperAdmin :: string where "RoleSuperAdmin \<equiv> ''superadmin''"
abbreviation (input) RoleManager :: string where "RoleManager \<equiv> ''manager''"
abbreviation (input) RoleResident :: string where "RoleResident \<equiv> ''resident''"

record User =
  usr_ID :: uuid
  usr_Phone :: string
  usr_PasswordHash :: "string option"
  usr_Role :: string
  usr_Name :: string
  usr_FCMToken :: "string option"
  usr_IsActive :: bool
  usr_CreatedAt :: int
  usr_UpdatedAt :: int
  usr_DeletedAt :: "int option"

record RefreshToken =
  rt_ID :: uuid
  rt_UserID :: uuid
  rt_FamilyID :: uuid
  rt_TokenHash :: string
  rt_ExpiresAt :: int
  rt_RevokedAt :: "int option"
  rt_CreatedAt :: int

record InviteCode =
  ic_ID :: uuid
  ic_Phone :: string
  ic_CodeHash :: string
  ic_Role :: string
  ic_CreatedBy :: "uuid option"
  ic_ExpiresAt :: int
  ic_ConsumedAt :: "int option"
  ic_CreatedAt :: int

record Building =
  bl_ID :: uuid
  bl_Name :: string
  bl_Address :: "string option"
  bl_BlockCount :: int
  bl_FloorCount :: int
  bl_UnitCount :: int
  bl_BuiltYear :: "int option"
  bl_ManagerPhone :: "string option"
  bl_EmergencyPhone :: "string option"
  bl_Notes :: "string option"
  bl_CreatedAt :: int
  bl_UpdatedAt :: int
  bl_DeletedAt :: "int option"

record BuildingUnit =
  un_ID :: uuid
  un_BuildingID :: uuid
  un_Number :: string
  un_Block :: "string option"
  un_Floor :: int
  un_AreaM2 :: int
  un_ParkingCount :: int
  un_ParkingNumbers :: "string option"
  un_StorageCount :: int
  un_StorageNumbers :: "string option"
  un_Status :: string
  un_Notes :: "string option"
  un_CreatedAt :: int
  un_UpdatedAt :: int
  un_DeletedAt :: "int option"

record UserBuilding =
  ub_UserID :: uuid
  ub_BuildingID :: uuid
  ub_GrantedAt :: int

record Person =
  pe_ID :: uuid
  pe_BuildingID :: uuid
  pe_FullName :: string
  pe_Phone :: "string option"
  pe_NationalID :: "string option"
  pe_CreatedAt :: int
  pe_UpdatedAt :: int
  pe_DeletedAt :: "int option"

record Occupancy =
  oc_ID :: uuid
  oc_UnitID :: uuid
  oc_PersonID :: uuid
  oc_Relationship :: string
  oc_StartDate :: int
  oc_EndDate :: "int option"
  oc_IsActive :: bool
  oc_CreatedAt :: int

record OccupantCount =
  ocn_ID :: uuid
  ocn_UnitID :: uuid
  ocn_OccupantCount :: int
  ocn_EffectiveFrom :: int
  ocn_CreatedAt :: int

section \<open>Billing\<close>

text \<open>\<open>Money\<close> is an \<open>int64\<close> amount of Toman.\<close>

type_synonym money = int

abbreviation (input) PeriodDraft :: string where "PeriodDraft \<equiv> ''draft''"
abbreviation (input) PeriodCalculated :: string where "PeriodCalculated \<equiv> ''calculated''"
abbreviation (input) PeriodIssued :: string where "PeriodIssued \<equiv> ''issued''"
abbreviation (input) PeriodClosed :: string where "PeriodClosed \<equiv> ''closed''"

abbreviation (input) InvoiceUnpaid :: string where "InvoiceUnpaid \<equiv> ''unpaid''"
abbreviation (input) InvoicePartial :: string where "InvoicePartial \<equiv> ''partial''"
abbreviation (input) InvoicePaid :: string where "InvoicePaid \<equiv> ''paid''"
abbreviation (input) InvoiceExpired :: string where "InvoiceExpired \<equiv> ''expired''"
abbreviation (input) InvoiceCanceled :: string where "InvoiceCanceled \<equiv> ''cancelled''"

abbreviation (input) ItemCharge :: string where "ItemCharge \<equiv> ''charge''"
abbreviation (input) ItemLateFee :: string where "ItemLateFee \<equiv> ''late_fee''"
abbreviation (input) ItemAdjustment :: string where "ItemAdjustment \<equiv> ''adjustment''"

abbreviation (input) AdjustmentDebit :: string where "AdjustmentDebit \<equiv> ''debit''"
abbreviation (input) AdjustmentCredit :: string where "AdjustmentCredit \<equiv> ''credit''"

record BillingPeriod =
  bp_ID :: uuid
  bp_BuildingID :: uuid
  bp_Title :: string
  bp_StartDate :: int
  bp_EndDate :: int
  bp_DueDate :: int
  bp_LateFeeType :: string
  bp_LateFeeValue :: rat
  bp_Status :: string
  bp_CalculatedAt :: "int option"
  bp_IssuedAt :: "int option"
  bp_ClosedAt :: "int option"
  bp_CreatedAt :: int
  bp_UpdatedAt :: int

record ComboWeightRow =
  cwr_Method :: string
  cwr_Weight :: int
  cwr_FixedAmountPerUnit :: money

record CostItemRow =
  cir_ID :: uuid
  cir_PeriodID :: uuid
  cir_Title :: string
  cir_TotalAmount :: money
  cir_Method :: string
  cir_FixedAmountPerUnit :: "money option"
  cir_ComboWeights :: "ComboWeightRow list"
  cir_IncludeVacant :: bool
  cir_UnitIDs :: "uuid list"
  cir_CreatedAt :: int
  cir_UpdatedAt :: int

record InputsSnapshot =
  snap_Occupants :: int
  snap_AreaM2 :: int
  snap_Vacant :: bool

record CostItemShare =
  cis_ID :: uuid
  cis_CostItemID :: uuid
  cis_UnitID :: uuid
  cis_ExactShare :: string
  cis_RoundedShare :: money
  cis_InputsSnapshot :: "InputsSnapshot option"

record Invoice =
  inv_ID :: uuid
  inv_InvoiceNumber :: string
  inv_BuildingID :: uuid
  inv_PeriodID :: uuid
  inv_UnitID :: uuid
  inv_BaseAmount :: money
  inv_PriorDebt :: money
  inv_LateFeeAmount :: money
  inv_CreditAmount :: money
  inv_FinalAmount :: money
  inv_IssueDate :: "int option"
  inv_DueDate :: "int option"
  inv_Status :: string
  inv_PaidAmount :: money
  inv_InputsFrozenAt :: "int option"
  inv_CreatedAt :: int
  inv_UpdatedAt :: int

record InvoiceItem =
  ii_ID :: uuid
  ii_InvoiceID :: uuid
  ii_Kind :: string
  ii_Title :: string
  ii_CostItemID :: "uuid option"
  ii_Amount :: money
  ii_Method :: "string option"
  ii_AdjustmentID :: "uuid option"
  ii_CreatedAt :: int

record InvoiceAdjustment =
  ia_ID :: uuid
  ia_InvoiceID :: uuid
  ia_Kind :: string
  ia_Amount :: money
  ia_Reason :: string
  ia_CreatedBy :: "uuid option"
  ia_CreatedAt :: int

section \<open>Payments\<close>

abbreviation (input) MethodManual :: string where "MethodManual \<equiv> ''manual''"
abbreviation (input) MethodGateway :: string where "MethodGateway \<equiv> ''gateway''"
abbreviation (input) StatusRecorded :: string where "StatusRecorded \<equiv> ''recorded''"
abbreviation (input) StatusVerified :: string where "StatusVerified \<equiv> ''verified''"
abbreviation (input) StatusFailed :: string where "StatusFailed \<equiv> ''failed''"
abbreviation (input) StatusReversed :: string where "StatusReversed \<equiv> ''reversed''"

record Payment =
  pay_ID :: uuid
  pay_BuildingID :: uuid
  pay_UnitID :: uuid
  pay_InvoiceID :: "uuid option"
  pay_Method :: string
  pay_Amount :: money
  pay_PaidAt :: int
  pay_TrackingNumber :: "string option"
  pay_Gateway :: "string option"
  pay_Authority :: "string option"
  pay_RecordedBy :: "uuid option"
  pay_Status :: string
  pay_CreatedAt :: int
  pay_UpdatedAt :: int

record UnitBalance =
  bal_UnitID :: uuid
  bal_PriorDebt :: int
  bal_CurrentInvoiceAmount :: int
  bal_LateFeeTotal :: int
  bal_Credit :: int
  bal_PaidTotal :: int
  bal_CreditAsset :: int
  bal_Balance :: int
  bal_UpdatedAt :: int

section \<open>Expenses, maintenance, announcements\<close>

record Expense =
  ex_ID :: uuid
  ex_BuildingID :: uuid
  ex_Title :: string
  ex_Category :: string
  ex_Amount :: int
  ex_ExpenseDate :: int
  ex_Description :: "string option"
  ex_PayerPersonID :: "uuid option"
  ex_ReceiptFile :: "string option"
  ex_ApprovalStatus :: string
  ex_CreatedBy :: "uuid option"
  ex_CreatedAt :: int
  ex_UpdatedAt :: int
  ex_DeletedAt :: "int option"

record MaintenanceRequest =
  mr_ID :: uuid
  mr_BuildingID :: uuid
  mr_UnitID :: "uuid option"
  mr_SubmittedBy :: uuid
  mr_Title :: string
  mr_Category :: string
  mr_Description :: "string option"
  mr_Location :: "string option"
  mr_PhotoFile :: "string option"
  mr_Priority :: string
  mr_Status :: string
  mr_AssigneePersonID :: "uuid option"
  mr_RecordedCost :: "int option"
  mr_Notes :: "string option"
  mr_CreatedAt :: int
  mr_UpdatedAt :: int
  mr_ClosedAt :: "int option"

record Announcement =
  an_ID :: uuid
  an_BuildingID :: uuid
  an_Title :: string
  an_Body :: string
  an_AudienceType :: string
  an_AudienceValue :: "string option"
  an_PublishAt :: "int option"
  an_ExpireAt :: "int option"
  an_AttachmentFile :: "string option"
  an_CreatedBy :: "uuid option"
  an_CreatedAt :: int
  an_UpdatedAt :: int

record AnnouncementRead =
  ar_AnnouncementID :: uuid
  ar_UserID :: uuid
  ar_ReadAt :: int

section \<open>Notifications and audit\<close>

record Notification =
  no_ID :: uuid
  no_UserID :: uuid
  no_Type :: string
  no_Title :: string
  no_Body :: "string option"
  no_RefType :: "string option"
  no_RefID :: "uuid option"
  no_IsRead :: bool
  no_ReadAt :: "int option"
  no_CreatedAt :: int

text \<open>The values passed to \<open>audit.Append\<close> as snapshots; the column holds their JSON.\<close>

datatype snapshot =
    SnapInvoice Invoice
  | SnapCancel string Invoice
  | SnapAdjustment InvoiceAdjustment
  | SnapPayment Payment
  | SnapFields "(string \<times> string) list"
  | SnapRequest MaintenanceRequest
  | SnapAnnouncement Announcement
  | SnapBuilding Building
  | SnapUnit BuildingUnit
  | SnapPerson Person
  | SnapOccupancy Occupancy
  | SnapCount OccupantCount
  | SnapExpense Expense
  | SnapPeriod BillingPeriod
  | SnapCostItem CostItemRow
  | SnapGrant uuid "string option"
  | SnapDeletedAt int

record AuditLog =
  au_UserID :: "uuid option"
  au_Action :: string
  au_ObjectType :: string
  au_ObjectID :: "uuid option"
  au_Before :: "snapshot option"
  au_After :: "snapshot option"

section \<open>Files\<close>

record StoredFile =
  fl_ID :: uuid
  fl_Path :: string
  fl_ContentType :: string
  fl_SizeBytes :: int
  fl_UploadedBy :: "uuid option"
  fl_CreatedAt :: int

section \<open>The database\<close>

record db =
  users :: "User list"
  refresh_tokens :: "RefreshToken list"
  invite_codes :: "InviteCode list"
  buildings :: "Building list"
  units :: "BuildingUnit list"
  user_buildings :: "UserBuilding list"
  persons :: "Person list"
  occupancies :: "Occupancy list"
  occupant_counts :: "OccupantCount list"
  billing_periods :: "BillingPeriod list"
  cost_items :: "CostItemRow list"
  cost_item_shares :: "CostItemShare list"
  invoices :: "Invoice list"
  invoice_items :: "InvoiceItem list"
  invoice_adjustments :: "InvoiceAdjustment list"
  payments :: "Payment list"
  unit_balances :: "UnitBalance list"
  expenses :: "Expense list"
  maintenance_requests :: "MaintenanceRequest list"
  announcements :: "Announcement list"
  announcement_reads :: "AnnouncementRead list"
  notifications :: "Notification list"
  audit_logs :: "AuditLog list"
  stored_files :: "StoredFile list"

definition emptyDb :: db where
  "emptyDb = \<lparr>users = [], refresh_tokens = [], invite_codes = [], buildings = [], units = [],
     user_buildings = [], persons = [], occupancies = [], occupant_counts = [], billing_periods = [],
     cost_items = [], cost_item_shares = [], invoices = [], invoice_items = [],
     invoice_adjustments = [], payments = [], unit_balances = [], expenses = [],
     maintenance_requests = [], announcements = [], announcement_reads = [], notifications = [],
     audit_logs = [], stored_files = []\<rparr>"

type_synonym 'a dbm = "(db, 'a) m"

text \<open>A concrete world for examples: \<open>uuid.New()\<close> counts up, the clock stands at
  1000 and no database call fails.\<close>

definition exampleWorld :: "db \<Rightarrow> db world" where
  "exampleWorld d = \<lparr>db = d, uuids = (\<lambda>n. 1000 + n), unext = 0, clock = (\<lambda>_. 1000), cnext = 0,
     faults = (\<lambda>_. False), fnext = 0\<rparr>"

lemma exampleWorld_simps [simp]:
  "db (exampleWorld d) = d" "no_faults (exampleWorld d)" "uuids (exampleWorld d) n = 1000 + n"
  "unext (exampleWorld d) = 0" "clock (exampleWorld d) n = 1000" "cnext (exampleWorld d) = 0"
  by (simp_all add: exampleWorld_def no_faults_def)

section \<open>Rows by key\<close>

text \<open>\<open>firstRow\<close> is gorm's \<open>First\<close>: the first matching row or \<open>gorm.ErrRecordNotFound\<close>.\<close>

definition firstRow :: "('r \<Rightarrow> bool) \<Rightarrow> 'r list \<Rightarrow> 'r result" where
  "firstRow P rows = (case find P rows of None \<Rightarrow> Inl RecordNotFound | Some r \<Rightarrow> Inr r)"

text \<open>\<open>updateWhere\<close> is an \<open>UPDATE ... WHERE\<close>; \<open>saveRow\<close> is gorm's \<open>Save\<close>: an update of
  the row with the same key, an insert when there is none.\<close>

definition updateWhere :: "('r \<Rightarrow> bool) \<Rightarrow> ('r \<Rightarrow> 'r) \<Rightarrow> 'r list \<Rightarrow> 'r list" where
  "updateWhere P f rows = map (\<lambda>r. if P r then f r else r) rows"

definition saveRow :: "('r \<Rightarrow> 'k) \<Rightarrow> 'r \<Rightarrow> 'r list \<Rightarrow> 'r list" where
  "saveRow key r rows =
     (if list_ex (\<lambda>q. key q = key r) rows then updateWhere (\<lambda>q. key q = key r) (\<lambda>_. r) rows
      else rows @ [r])"

lemma firstRow_Inr:
  "firstRow P rows = Inr r \<Longrightarrow> r \<in> set rows \<and> P r"
  by (auto simp: firstRow_def find_Some_iff split: option.splits)

lemma firstRow_Inl: "firstRow P rows = Inl e \<Longrightarrow> e = RecordNotFound \<and> (\<forall>r\<in>set rows. \<not> P r)"
  by (auto simp: firstRow_def find_None_iff split: option.splits)

lemma firstRow_key:
  assumes "distinct (map key rows)" "r \<in> set rows"
  shows "firstRow (\<lambda>q. key q = key r) rows = Inr r"
proof -
  have "find (\<lambda>q. key q = key r) rows \<noteq> None"
    using assms(2) by (auto simp: find_None_iff)
  then obtain q where q: "find (\<lambda>q. key q = key r) rows = Some q" by auto
  hence "q \<in> set rows" "key q = key r" by (auto simp: find_Some_iff)
  hence "q = r" using assms by (metis distinct_map inj_onD)
  thus ?thesis using q by (simp add: firstRow_def)
qed

lemma set_updateWhere: "set (updateWhere P f rows) = (\<lambda>r. if P r then f r else r) ` set rows"
  by (simp add: updateWhere_def)

lemma length_updateWhere [simp]: "length (updateWhere P f rows) = length rows"
  by (simp add: updateWhere_def)

lemma map_updateWhere_inv [simp]:
  "(\<And>r. g (f r) = g r) \<Longrightarrow> map g (updateWhere P f rows) = map g rows"
  by (simp add: updateWhere_def)

lemma updateWhere_key:
  "(\<And>r. P r \<Longrightarrow> g (f r) = g r) \<Longrightarrow> map g (updateWhere P f rows) = map g rows"
  by (simp add: updateWhere_def)

lemma map_key_saveRow:
  "list_ex (\<lambda>q. key q = key r) rows \<Longrightarrow> map key (saveRow key r rows) = map key rows"
  by (simp add: saveRow_def updateWhere_def)

lemma set_saveRow:
  "q \<in> set (saveRow key r rows) \<Longrightarrow> q = r \<or> q \<in> set rows \<and> key q \<noteq> key r"
  by (auto simp: saveRow_def updateWhere_def list_ex_iff split: if_splits)

lemma find_updateWhere_key:
  "find (\<lambda>q. key q = k) (updateWhere (\<lambda>q. key q = key r) (\<lambda>_. r) rows) =
     (if key r = k then (if list_ex (\<lambda>q. key q = k) rows then Some r else None)
      else find (\<lambda>q. key q = k) rows)"
  by (induction rows) (auto simp: updateWhere_def)

lemma find_saveRow:
  "find (\<lambda>q. key q = k) (saveRow key r rows) = (if key r = k then Some r else find (\<lambda>q. key q = k) rows)"
proof (cases "list_ex (\<lambda>q. key q = key r) rows")
  case True
  thus ?thesis by (auto simp: saveRow_def find_updateWhere_key)
next
  case False
  have "find P (rows @ [r]) = (case find P rows of None \<Rightarrow> if P r then Some r else None | Some q \<Rightarrow> Some q)" for P
    by (induction rows) auto
  moreover have "find (\<lambda>q. key q = key r) rows = None"
    using False by (auto simp: find_None_iff list_ex_iff)
  ultimately show ?thesis using False by (auto simp: saveRow_def split: option.splits)
qed

lemma find_updateWhere_inv:
  "(\<And>q. key (f q) = key q) \<Longrightarrow> find (\<lambda>q. key q = k) (updateWhere P f rows) =
     map_option (\<lambda>q. if P q then f q else q) (find (\<lambda>q. key q = k) rows)"
  by (induction rows) (auto simp: updateWhere_def)

section \<open>Rows that survive\<close>

text \<open>\<open>all_kept R xs ys\<close>: every row of \<open>xs\<close> has a successor in \<open>ys\<close>.\<close>

definition all_kept :: "('r \<Rightarrow> 'r \<Rightarrow> bool) \<Rightarrow> 'r list \<Rightarrow> 'r list \<Rightarrow> bool" where
  "all_kept R xs ys \<longleftrightarrow> (\<forall>x\<in>set xs. \<exists>y\<in>set ys. R x y)"

lemma all_kept_refl: "(\<And>x. R x x) \<Longrightarrow> all_kept R xs xs"
  by (auto simp: all_kept_def)

lemma all_kept_append: "(\<And>x. R x x) \<Longrightarrow> all_kept R xs (xs @ ys)"
  by (auto simp: all_kept_def)

lemma all_kept_update: "(\<And>x. R x x) \<Longrightarrow> (\<And>x. P x \<Longrightarrow> R x (f x)) \<Longrightarrow> all_kept R xs (updateWhere P f xs)"
  unfolding all_kept_def set_updateWhere
proof
  fix x assume "\<And>x. R x x" "\<And>x. P x \<Longrightarrow> R x (f x)" "x \<in> set xs"
  thus "\<exists>y\<in>(\<lambda>r. if P r then f r else r) ` set xs. R x y" by (intro bexI [of _ "if P x then f x else x"]) auto
qed

lemma all_kept_trans:
  assumes "all_kept R xs ys" "all_kept R ys zs" "\<And>x y z. R x y \<Longrightarrow> R y z \<Longrightarrow> R x z"
  shows "all_kept R xs zs"
  using assms unfolding all_kept_def by meson

lemma all_keptD: "all_kept R xs ys \<Longrightarrow> x \<in> set xs \<Longrightarrow> \<exists>y\<in>set ys. R x y"
  by (simp add: all_kept_def)

lemma keys_saveRow: "key ` set rows \<subseteq> key ` set (saveRow key r rows)"
proof (cases "list_ex (\<lambda>q. key q = key r) rows")
  case True
  hence "map key (saveRow key r rows) = map key rows" by (rule map_key_saveRow)
  thus ?thesis by (metis set_map order_refl)
qed (auto simp: saveRow_def)

lemma rows_inj: "distinct (map f xs) \<Longrightarrow> x \<in> set xs \<Longrightarrow> y \<in> set xs \<Longrightarrow> f x = f y \<Longrightarrow> x = y"
  by (auto simp: distinct_map dest: inj_onD)

text \<open>Saving a row that replaces one of the table.\<close>

lemma saveRow_kept:
  assumes "distinct (map key rows)" and "x \<in> set rows" and "key y = key x" and "R x y" and "\<And>z. R z z"
  shows "distinct (map key (saveRow key y rows)) \<and> all_kept R rows (saveRow key y rows)"
proof -
  have l: "list_ex (\<lambda>q. key q = key y) rows" using assms(2,3) by (auto simp: list_ex_iff)
  have "\<exists>q\<in>set (saveRow key y rows). R z q" if z: "z \<in> set rows" for z
  proof (cases "key z = key y")
    case True
    hence "z = x" using rows_inj [OF assms(1) z assms(2)] assms(3) by simp
    moreover have "y \<in> set (saveRow key y rows)" using l by (auto simp: saveRow_def set_updateWhere list_ex_iff)
    ultimately show ?thesis using assms(4) by blast
  next
    case False
    hence "z \<in> set (saveRow key y rows)" using l z by (auto simp: saveRow_def set_updateWhere)
    thus ?thesis using assms(5) by blast
  qed
  thus ?thesis using map_key_saveRow [OF l] assms(1) by (simp add: all_kept_def)
qed

section \<open>Building scopes\<close>

text \<open>A grant of the table \<open>user_buildings\<close>; a request that is refused fails and changes nothing.\<close>

definition granted :: "db \<Rightarrow> uuid \<Rightarrow> uuid \<Rightarrow> bool" where
  "granted d uid bid \<longleftrightarrow> list_ex (\<lambda>g. ub_UserID g = uid \<and> ub_BuildingID g = bid) (user_buildings d)"

definition refused :: "'a dbm \<Rightarrow> db world \<Rightarrow> bool" where
  "refused f w \<longleftrightarrow> isl (fst (f w)) \<and> db (snd (f w)) = db w"

lemma refused_bind: "refused f w \<Longrightarrow> refused (bindE f g) w"
  by (cases "f w"; cases "fst (f w)") (auto simp: refused_def bindE_def)

lemma refused_then: "refused f w \<Longrightarrow> refused (thenE f g) w"
  unfolding thenE_def by (rule refused_bind)

lemma refused_after:
  assumes "reads f" and "\<And>x w'. f w = (Inr x, w') \<Longrightarrow> db w' = db w \<Longrightarrow> refused (g x) w'"
  shows "refused (bindE f g) w"
proof (cases "f w")
  case (Pair r w')
  have k: "db w' = db w" using reads_run [OF assms(1) Pair] .
  show ?thesis
  proof (cases r)
    case (Inl e) thus ?thesis using Pair k by (simp add: refused_def bindE_def)
  next
    case (Inr x) thus ?thesis using Pair k assms(2) by (simp add: refused_def bindE_def)
  qed
qed

lemma refused_throwIf: "b \<Longrightarrow> refused (throwIf b e) w"
  by (simp add: refused_def throwIf_def throwE_def)

text \<open>What the services rely on from the check of a manager's scope, which every package has of its own: it only
  reads, and its answer is the grant.\<close>

locale building_scope =
  fixes check :: "uuid \<Rightarrow> uuid \<Rightarrow> bool dbm"
  assumes check_reads: "reads (check uid bid)"
    and check_grant: "check uid bid w = (Inr b, w') \<Longrightarrow> b = granted (db w) uid bid"
begin

lemma denied: "\<not> granted (db w) uid bid \<Longrightarrow> refused (bindE (check uid bid) (\<lambda>ok. throwIf (\<not> ok) e)) w"
  by (rule refused_after [OF check_reads]) (auto dest: check_grant intro: refused_throwIf)

lemma denied_then: "\<not> granted (db w) uid bid \<Longrightarrow> refused (bindE (check uid bid) (\<lambda>ok. thenE (throwIf (\<not> ok) e) f)) w"
  by (rule refused_after [OF check_reads]) (auto dest: check_grant intro: refused_throwIf refused_then)

end

lemmas scope_defs = granted_def list_ex_iff filter_empty_conv query_def

end
