(* ===== verification/Engine.thy ===== *)
theory Engine
  imports Prelude "HOL-Library.Signed_Division" "HOL-Library.Product_Lexorder"
    "HOL-Library.Log_Nat"
begin

text \<open>
  The charge calculation engine, \<open>internal/billing/engine/engine.go\<close>: the six
  calculation methods, the largest-remainder rounding and the late fee.
  \<open>big.Rat\<close> is \<open>rat\<close>, \<open>int64\<close> is \<open>int\<close> with \<open>i64\<close> at every operation that can wrap, a
  \<open>Method\<close> is the string it is in Go, a slice index out of range is the error \<open>Panic\<close>.
  \<open>sort.Slice\<close> leaves the order of shares with the same unit id open; the model keeps
  their input order, and the lemmas about the order assume distinct unit ids.
\<close>

section \<open>Data\<close>

type_synonym calc_method = string

abbreviation (input) MethodEqual :: calc_method where "MethodEqual \<equiv> ''equal''"
abbreviation (input) MethodPerOccupant :: calc_method where "MethodPerOccupant \<equiv> ''per_occupant''"
abbreviation (input) MethodPerArea :: calc_method where "MethodPerArea \<equiv> ''per_area''"
abbreviation (input) MethodFixed :: calc_method where "MethodFixed \<equiv> ''fixed''"
abbreviation (input) MethodSpecificUnits :: calc_method where "MethodSpecificUnits \<equiv> ''specific_units''"
abbreviation (input) MethodCombined :: calc_method where "MethodCombined \<equiv> ''combined''"

type_synonym late_fee_type = string

abbreviation (input) LateFeeNone :: late_fee_type where "LateFeeNone \<equiv> ''none''"
abbreviation (input) LateFeeFixed :: late_fee_type where "LateFeeFixed \<equiv> ''fixed''"
abbreviation (input) LateFeePercent :: late_fee_type where "LateFeePercent \<equiv> ''percent''"
abbreviation (input) LateFeePerDay :: late_fee_type where "LateFeePerDay \<equiv> ''per_day''"

record ComboWeight =
  cw_Method :: calc_method
  cw_Weight :: int
  cw_FixedAmountPerUnit :: int

record CostItem =
  ci_ID :: string
  ci_Total :: int
  ci_Method :: calc_method
  ci_FixedAmountPerUnit :: int
  ci_ComboWeights :: "ComboWeight list"
  ci_IncludeVacant :: bool
  ci_UnitIDs :: "string list"

record Unit =
  u_ID :: string
  u_Occupants :: int
  u_AreaM2 :: int
  u_Vacant :: bool

record Share =
  sh_UnitID :: string
  sh_Exact :: rat
  sh_Rounded :: int

record ItemResult =
  ir_CostItemID :: string
  ir_TotalUsed :: int
  ir_Shares :: "Share list"
  ir_Reconciled :: bool

definition ErrNoParticipants :: go_error where "ErrNoParticipants = Sentinel ''ErrNoParticipants''"
definition ErrZeroFactor :: go_error where "ErrZeroFactor = Sentinel ''ErrZeroFactor''"
definition ErrSpecificUnitsEmpty :: go_error where
  "ErrSpecificUnitsEmpty = Sentinel ''ErrSpecificUnitsEmpty''"
definition ErrBadWeights :: go_error where "ErrBadWeights = Sentinel ''ErrBadWeights''"
definition ErrNonPositiveTotal :: go_error where
  "ErrNonPositiveTotal = Sentinel ''ErrNonPositiveTotal''"
definition ErrUnknownMethod :: go_error where "ErrUnknownMethod = Sentinel ''ErrUnknownMethod''"
definition ErrUnknownLateFee :: go_error where "ErrUnknownLateFee = Sentinel ''ErrUnknownLateFee''"

lemmas engine_errors = ErrNoParticipants_def ErrZeroFactor_def ErrSpecificUnitsEmpty_def
  ErrBadWeights_def ErrNonPositiveTotal_def ErrUnknownMethod_def ErrUnknownLateFee_def

section \<open>Rounding\<close>

text \<open>\<open>new(big.Int).Quo(e.Num(), e.Denom())\<close>: division truncated towards zero.\<close>

definition ratQuo :: "rat \<Rightarrow> int" where
  "ratQuo e = (case quotient_of e of (n, d) \<Rightarrow> n sdiv d)"

definition remLess :: "nat \<times> rat \<Rightarrow> nat \<times> rat \<Rightarrow> bool" where
  "remLess a b = (if snd a \<noteq> snd b then snd b < snd a else fst a < fst b)"

fun giveOne :: "nat \<Rightarrow> (nat \<times> rat) list \<Rightarrow> int list \<Rightarrow> int list result" where
  "giveOne 0 rems out = Inr out"
| "giveOne (Suc k) [] out = Inl (Panic ''index out of range'')"
| "giveOne (Suc k) (r # rems) out = giveOne k rems (out[fst r := i64 (out ! fst r + 1)])"

definition allocateLargestRemainder :: "int \<Rightarrow> rat list \<Rightarrow> int list result" where
  "allocateLargestRemainder tot exact =
     (let f = map ratQuo exact;
          out = map i64 f;
          rems = zip [0..<length exact] (map2 (\<lambda>e q. e - of_int q) exact f);
          leftover = i64 (tot - sum64 out)
      in if leftover \<le> 0 then Inr out
         else giveOne (nat leftover) (sort_by remLess rems) out)"

section \<open>Distribution\<close>

definition participants :: "CostItem \<Rightarrow> Unit list \<Rightarrow> Unit list" where
  "participants item units = filter (\<lambda>u. \<not> (u_Vacant u \<and> \<not> ci_IncludeVacant item)) units"

definition sortShares :: "Share list \<Rightarrow> Share list" where
  "sortShares shares = sort_by (\<lambda>a b. sh_UnitID a < sh_UnitID b) shares"

definition sumShares :: "ItemResult \<Rightarrow> int" where
  "sumShares res = sum64 (map sh_Rounded (ir_Shares res))"

definition distribute :: "string \<Rightarrow> int \<Rightarrow> Unit list \<Rightarrow> (Unit \<Rightarrow> rat) \<Rightarrow> ItemResult result" where
  "distribute itemID tot els weight =
     (if els = [] then Inl ErrNoParticipants
      else let weights = map weight els; s = sum_list weights
      in if s = 0 then Inl ErrZeroFactor
      else let exacts = map (\<lambda>w. of_int tot * (w / s)) weights
      in bindR (allocateLargestRemainder tot exacts) (\<lambda>rounded.
           let shares = sortShares (map (\<lambda>(u, e, r). \<lparr>sh_UnitID = u_ID u, sh_Exact = e, sh_Rounded = r\<rparr>)
                          (zip els (zip exacts rounded)))
           in Inr \<lparr>ir_CostItemID = itemID, ir_TotalUsed = tot, ir_Shares = shares,
                   ir_Reconciled = (sum64 (map sh_Rounded shares) = tot)\<rparr>))"

definition calcFixed :: "CostItem \<Rightarrow> Unit list \<Rightarrow> ItemResult result" where
  "calcFixed item units =
     (let els = participants item units
      in if els = [] then Inl ErrNoParticipants
      else let tot = i64 (ci_FixedAmountPerUnit item * int (length els));
               shares = sortShares (map (\<lambda>u. \<lparr>sh_UnitID = u_ID u,
                          sh_Exact = of_int (ci_FixedAmountPerUnit item),
                          sh_Rounded = ci_FixedAmountPerUnit item\<rparr>) els)
      in Inr \<lparr>ir_CostItemID = ci_ID item, ir_TotalUsed = tot, ir_Shares = shares,
              ir_Reconciled = True\<rparr>)"

definition calcSpecific :: "CostItem \<Rightarrow> Unit list \<Rightarrow> ItemResult result" where
  "calcSpecific item units =
     (if ci_UnitIDs item = [] then Inl ErrSpecificUnitsEmpty
      else let els = filter (\<lambda>u. u_ID u \<in> set (ci_UnitIDs item)) units
      in if els = [] then Inl ErrSpecificUnitsEmpty
      else distribute (ci_ID item) (ci_Total item) els (\<lambda>_. 1))"

section \<open>The combined method\<close>

text \<open>The map \<open>perUnit\<close> of the source, keyed by unit id, is a list with at most one share
  per unit id. Its iteration order is left open by Go; the shares are sorted
  by their (distinct) keys afterwards, so that the order is immaterial
  (\<open>sortShares_perm\<close>).\<close>

fun addShare :: "Share list \<Rightarrow> Share \<Rightarrow> Share list" where
  "addShare [] sh = [\<lparr>sh_UnitID = sh_UnitID sh, sh_Exact = 0 + sh_Exact sh,
                      sh_Rounded = i64 (0 + sh_Rounded sh)\<rparr>]"
| "addShare (a # acc) sh =
     (if sh_UnitID a = sh_UnitID sh
      then a\<lparr>sh_Exact := sh_Exact a + sh_Exact sh, sh_Rounded := i64 (sh_Rounded a + sh_Rounded sh)\<rparr> # acc
      else a # addShare acc sh)"

definition badWeight :: "ComboWeight \<Rightarrow> bool" where
  "badWeight w \<longleftrightarrow> cw_Weight w \<le> 0 \<or> cw_Method w = MethodCombined"

definition subItem :: "CostItem \<Rightarrow> ComboWeight \<Rightarrow> int \<Rightarrow> CostItem" where
  "subItem item w pool = \<lparr>ci_ID = ci_ID item, ci_Total = pool, ci_Method = cw_Method w,
     ci_FixedAmountPerUnit = cw_FixedAmountPerUnit w, ci_ComboWeights = [],
     ci_IncludeVacant = ci_IncludeVacant item, ci_UnitIDs = []\<rparr>"

definition comboPart ::
  "(CostItem \<Rightarrow> Unit list \<Rightarrow> ItemResult result) \<Rightarrow> CostItem \<Rightarrow> Unit list \<Rightarrow> ComboWeight \<times> int \<Rightarrow> ItemResult result" where
  "comboPart calc item units wp =
     (let sub = subItem item (fst wp) (snd wp)
      in if cw_Method (fst wp) = MethodFixed
         then distribute (ci_ID sub) (snd wp) (participants sub units) (\<lambda>_. 1)
         else calc sub units)"

fun comboLoop ::
  "(CostItem \<Rightarrow> Unit list \<Rightarrow> ItemResult result) \<Rightarrow> CostItem \<Rightarrow> Unit list \<Rightarrow> (ComboWeight \<times> int) list \<Rightarrow>
   Share list \<Rightarrow> int \<Rightarrow> (Share list \<times> int) result" where
  "comboLoop calc item units [] perUnit running = Inr (perUnit, running)"
| "comboLoop calc item units (wp # wps) perUnit running =
     bindR (comboPart calc item units wp) (\<lambda>res.
       comboLoop calc item units wps (foldl addShare perUnit (ir_Shares res))
         (i64 (running + sumShares res)))"

definition calcCombined ::
  "(CostItem \<Rightarrow> Unit list \<Rightarrow> ItemResult result) \<Rightarrow> CostItem \<Rightarrow> Unit list \<Rightarrow> ItemResult result" where
  "calcCombined calc item units =
     (let ws = ci_ComboWeights item
      in if ws = [] then Inl ErrBadWeights
      else if list_ex badWeight ws then Inl ErrBadWeights
      else if sum64 (map cw_Weight ws) \<noteq> 100 then Inl ErrBadWeights
      else let exactPools = map (\<lambda>w. of_int (ci_Total item) * of_int (cw_Weight w) / 100) ws
      in bindR (allocateLargestRemainder (ci_Total item) exactPools) (\<lambda>pools.
         bindR (comboLoop calc item units (zip ws pools) [] 0) (\<lambda>(perUnit, running).
           Inr \<lparr>ir_CostItemID = ci_ID item, ir_TotalUsed = ci_Total item,
                ir_Shares = sortShares perUnit, ir_Reconciled = (running = ci_Total item)\<rparr>)))"

section \<open>Calculate\<close>

text \<open>\<open>Calculate\<close> and \<open>calcCombined\<close> call each other; \<open>CalculateStep\<close> is the body of
  \<open>Calculate\<close> with the recursive call as a parameter. A sub-item of a combined item is
  never combined, so a call depth of two is enough: \<open>Calculate_rec\<close> below is the
  recursion of the source.\<close>

definition CalculateStep ::
  "(CostItem \<Rightarrow> Unit list \<Rightarrow> ItemResult result) \<Rightarrow> CostItem \<Rightarrow> Unit list \<Rightarrow> ItemResult result" where
  "CalculateStep calc item units =
     (if ci_Total item \<le> 0 \<and> ci_Method item \<noteq> MethodFixed then Inl ErrNonPositiveTotal
      else if ci_Method item = MethodFixed \<and> ci_FixedAmountPerUnit item \<le> 0 then Inl ErrNonPositiveTotal
      else if ci_Method item = MethodEqual
        then distribute (ci_ID item) (ci_Total item) (participants item units) (\<lambda>_. 1)
      else if ci_Method item = MethodPerOccupant
        then distribute (ci_ID item) (ci_Total item) (participants item units) (\<lambda>u. of_int (u_Occupants u))
      else if ci_Method item = MethodPerArea
        then distribute (ci_ID item) (ci_Total item) (participants item units) (\<lambda>u. of_int (u_AreaM2 u))
      else if ci_Method item = MethodFixed then calcFixed item units
      else if ci_Method item = MethodSpecificUnits then calcSpecific item units
      else if ci_Method item = MethodCombined then calcCombined calc item units
      else Inl ErrUnknownMethod)"

fun CalculateN :: "nat \<Rightarrow> CostItem \<Rightarrow> Unit list \<Rightarrow> ItemResult result" where
  "CalculateN 0 item units = Inl (Panic ''call depth'')"
| "CalculateN (Suc n) item units = CalculateStep (CalculateN n) item units"

definition Calculate :: "CostItem \<Rightarrow> Unit list \<Rightarrow> ItemResult result" where
  "Calculate item units = CalculateN 2 item units"

section \<open>Late fee\<close>

text \<open>A finite \<open>float64\<close> is the rational it denotes. \<open>f64Round\<close> is the rounding of a
  floating-point operation: to nearest, ties to even, 53 bits, with gradual
  underflow (the result of \<open>value/100\<close> is never larger than \<open>value\<close>, so that overflow does
  not arise).\<close>

definition pow2 :: "int \<Rightarrow> rat" where
  "pow2 k = (if 0 \<le> k then 2 ^ nat k else 1 / 2 ^ nat (- k))"

definition ratLog2 :: "rat \<Rightarrow> int" where
  "ratLog2 r = (case quotient_of r of (n, d) \<Rightarrow>
     let k = bitlen n - bitlen d in if pow2 k \<le> r then k else k - 1)"

definition roundHalfEven :: "rat \<Rightarrow> int" where
  "roundHalfEven r =
     (let f = \<lfloor>r\<rfloor>; d = r - of_int f
      in if d < 1 / 2 \<or> (d = 1 / 2 \<and> even f) then f else f + 1)"

definition f64Round :: "rat \<Rightarrow> rat" where
  "f64Round r =
     (if r = 0 then 0
      else let p = max (ratLog2 \<bar>r\<bar> - 52) (- 1074)
      in of_int (roundHalfEven (r / pow2 p)) * pow2 p)"

text \<open>\<open>roundRat\<close>: at all of its call sites the argument is an integer times a
  \<open>float64\<close>, a dyadic rational, which \<open>big.Float.SetRat\<close> represents exactly; \<open>Float.Int\<close>
  then truncates towards zero.\<close>

definition roundRat :: "rat \<Rightarrow> int" where
  "roundRat r =
     (let i = ratQuo r; diff = r - of_int i
      in i64 (if diff \<ge> 1 / 2 then i + 1 else i))"

definition LateFee :: "late_fee_type \<Rightarrow> rat \<Rightarrow> int \<Rightarrow> int \<Rightarrow> int result" where
  "LateFee kind val baseAmount daysLate =
     (let days = (if daysLate < 0 then 0 else daysLate)
      in if kind = LateFeeNone then Inr 0
      else if kind = LateFeeFixed then Inr (roundRat val)
      else if kind = LateFeePercent then Inr (roundRat (of_int baseAmount * f64Round (val / 100)))
      else if kind = LateFeePerDay then Inr (i64 (days * roundRat val))
      else Inl ErrUnknownLateFee)"

section \<open>Facts about the rounding\<close>

lemma ratQuo_floor: "0 \<le> e \<Longrightarrow> ratQuo e = \<lfloor>e\<rfloor>"
proof -
  assume e: "0 \<le> e"
  obtain n d where q: "quotient_of e = (n, d)" by fastforce
  have d: "0 < d" using quotient_of_denom_pos [OF q] .
  have "0 \<le> n" using e d quotient_of_div [OF q] by (simp add: zero_le_divide_iff)
  hence "n sdiv d = n div d" using d by (cases "n = 0") (auto simp: signed_divide_int_def sgn_if)
  thus ?thesis using q by (simp add: ratQuo_def rat_floor_code)
qed

lemma remLess_key: "remLess a b \<longleftrightarrow> (- snd a, fst a) < (- snd b, fst b)"
  by (auto simp: remLess_def)

lemma sortRems_key: "sort_by remLess rems = sort_key (\<lambda>r. (- snd r, fst r)) rems"
  by (rule sort_by_key) (rule remLess_key)

lemma giveOne_ok:
  assumes "k \<le> length rems" "distinct (map fst rems)"
    "\<forall>r\<in>set rems. fst r < length out \<and> in64 (out ! fst r + 1)"
  shows "giveOne k rems out = Inr (map (\<lambda>i. out ! i + (if i \<in> fst ` set (take k rems) then 1 else 0))
           [0..<length out])"
  using assms
proof (induction k rems out rule: giveOne.induct)
  case (1 rems out)
  show ?case by (simp add: map_nth)
next
  case (2 k out)
  thus ?case by simp
next
  case (3 k r rems out)
  let ?out = "out[fst r := i64 (out ! fst r + 1)]"
  have r: "fst r < length out" "i64 (out ! fst r + 1) = out ! fst r + 1"
    and r_in: "fst r \<notin> fst ` set rems"
    using 3(3,4) by auto
  have "\<forall>q\<in>set rems. fst q < length ?out \<and> in64 (?out ! fst q + 1)"
    using 3(4) r_in by (auto simp: nth_list_update)
  hence "giveOne k rems ?out =
      Inr (map (\<lambda>i. ?out ! i + (if i \<in> fst ` set (take k rems) then 1 else 0)) [0..<length out])"
    using 3 by simp
  moreover have "fst r \<notin> fst ` set (take k rems)"
    using r_in by (auto dest: in_set_takeD)
  ultimately show ?case using r
    by (auto simp: nth_list_update)
qed

lemma sum_list_map_add_indicator:
  "S \<subseteq> {0..<n} \<Longrightarrow>
     (\<Sum>i\<leftarrow>[0..<n]. f i + (if i \<in> S then 1 else 0)) = (\<Sum>i\<leftarrow>[0..<n]. f i) + int (card S)"
proof -
  assume S: "S \<subseteq> {0..<n}"
  have "(\<Sum>i\<in>{0..<n}. if i \<in> S then 1 else 0) = int (card S)"
    using S by (simp add: sum.If_cases Int_absorb1)
  thus ?thesis by (simp add: sum_list_distinct_conv_sum_set sum.distrib flip: atLeast_upt)
qed

definition remsOf :: "rat list \<Rightarrow> (nat \<times> rat) list" where
  "remsOf exact = zip [0..<length exact] (map frac exact)"

lemma remsOf_simps [simp]:
  "length (remsOf exact) = length exact" "map fst (remsOf exact) = [0..<length exact]"
  "set (remsOf exact) = {(i, frac (exact ! i)) | i. i < length exact}"
proof -
  show "length (remsOf exact) = length exact" "map fst (remsOf exact) = [0..<length exact]"
    by (simp_all add: remsOf_def)
  show "set (remsOf exact) = {(i, frac (exact ! i)) | i. i < length exact}"
    by (force simp: remsOf_def set_zip)
qed

definition bonus :: "nat \<Rightarrow> rat list \<Rightarrow> nat set" where
  "bonus k exact = fst ` set (take k (sort_by remLess (remsOf exact)))"

lemma sorted_rems:
  shows "distinct (map fst (sort_by remLess (remsOf exact)))"
    and "fst ` set (sort_by remLess (remsOf exact)) = {0..<length exact}"
proof -
  have "mset (map fst (sort_by remLess (remsOf exact))) = mset [0..<length exact]"
    by (metis mset_map mset_sort_by remsOf_simps(2))
  thus "distinct (map fst (sort_by remLess (remsOf exact)))"
    by (metis distinct_upt mset_eq_imp_distinct_iff)
  show "fst ` set (sort_by remLess (remsOf exact)) = {0..<length exact}"
    by force
qed

lemma bonus_card: "k \<le> length exact \<Longrightarrow> card (bonus k exact) = k"
  using sorted_rems(1) [of exact] unfolding bonus_def
  by (simp add: card_image distinct_map distinct_card inj_on_subset [OF _ set_take_subset] distinct_take)

lemma bonus_range: "bonus k exact \<subseteq> {0..<length exact}"
  using sorted_rems(2) [of exact] unfolding bonus_def by (auto dest!: in_set_takeD)

lemma bonus_fair:
  assumes "j \<in> bonus k exact" "i \<notin> bonus k exact" "i < length exact"
  shows "frac (exact ! i) < frac (exact ! j) \<or> frac (exact ! i) = frac (exact ! j) \<and> j < i"
proof -
  let ?s = "sort_by remLess (remsOf exact)" and ?key = "\<lambda>r. (- snd r, fst r)"
  obtain rj where rj: "rj \<in> set (take k ?s)" "fst rj = j"
    using assms(1) by (auto simp: bonus_def)
  have "i \<in> fst ` set ?s" using assms(3) sorted_rems(2) by simp
  then obtain ri where ri: "ri \<in> set ?s" "fst ri = i" by auto
  hence ri': "ri \<in> set (drop k ?s)"
    using assms(2) by (metis Un_iff append_take_drop_id bonus_def image_eqI set_append)
  have "sorted (map ?key ?s)" by (simp add: sortRems_key)
  hence "sorted (map ?key (take k ?s) @ map ?key (drop k ?s))"
    by (metis append_take_drop_id map_append)
  hence le: "?key rj \<le> ?key ri"
    using rj(1) ri' by (auto simp: sorted_append simp del: less_eq_prod_simp)
  have rem: "snd r = frac (exact ! fst r)" if "r \<in> set ?s" for r
    using that by auto
  have "j \<noteq> i" using assms by blast
  thus ?thesis using le rem [of rj] rem [of ri] rj ri
    by (auto dest: in_set_takeD)
qed

lemma sum_list_floor_le:
  fixes exact :: "rat list"
  shows "of_int (sum_list (map floor exact)) \<le> sum_list exact"
  by (induction exact) (auto intro!: add_mono)

lemma sum_list_floor_ge:
  fixes exact :: "rat list"
  shows "sum_list exact \<le> of_int (sum_list (map floor exact)) + of_nat (length exact)"
proof (induction exact)
  case (Cons a exact)
  have "a \<le> of_int \<lfloor>a\<rfloor> + 1" using floor_correct [of a] by simp
  thus ?case using Cons by simp
qed simp

lemma elem_le_sum_list_nonneg:
  fixes xs :: "'a::linordered_idom list"
  shows "\<forall>x\<in>set xs. 0 \<le> x \<Longrightarrow> x \<in> set xs \<Longrightarrow> x \<le> sum_list xs"
  by (induction xs) (auto intro: order_trans add_increasing add_increasing2 sum_list_nonneg)

lemma allocate_bonus:
  assumes nonneg: "\<forall>e\<in>set exact. 0 \<le> e" and s: "sum_list exact = of_int tot" and b: "tot < 2 ^ 63"
  defines "k \<equiv> nat (tot - sum_list (map floor exact))"
  shows "allocateLargestRemainder tot exact =
      Inr (map (\<lambda>i. \<lfloor>exact ! i\<rfloor> + (if i \<in> bonus k exact then 1 else 0)) [0..<length exact])"
    and "k \<le> length exact" and "int k = tot - sum_list (map floor exact)"
proof -
  let ?fl = "map floor exact"
  have le: "sum_list ?fl \<le> tot"
    using sum_list_floor_le [of exact] by (simp add: s)
  have ge: "tot \<le> sum_list ?fl + int (length exact)"
    using sum_list_floor_ge [of exact] unfolding s by linarith
  show k1: "k \<le> length exact" and k2: "int k = tot - sum_list ?fl"
    using le ge by (auto simp: k_def)
  have f: "map ratQuo exact = ?fl"
    using nonneg by (simp add: ratQuo_floor)
  have fl0: "\<forall>x\<in>set ?fl. 0 \<le> x" using nonneg by simp
  hence sum0: "0 \<le> sum_list ?fl" by (intro sum_list_nonneg) blast
  have flb: "x \<le> tot" if "x \<in> set ?fl" for x
    using elem_le_sum_list_nonneg [OF fl0 that] le by simp
  have out: "map i64 ?fl = ?fl"
  proof (intro map_idI i64_id)
    fix x assume x: "x \<in> set ?fl"
    hence "0 \<le> x" using fl0 by blast
    thus "in64 x" using flb [OF x] b unfolding in64_def by linarith
  qed
  have sum64: "sum64 ?fl = sum_list ?fl"
    using sum0 le b by (simp add: sum64_exact in64_def)
  have left: "i64 (tot - sum_list ?fl) = int k"
    using le sum0 b k2 by (simp add: in64_def)
  have rems: "zip [0..<length exact] (map2 (\<lambda>e q. e - rat_of_int q) exact ?fl) = remsOf exact"
  proof -
    have "map2 (\<lambda>e q. e - rat_of_int q) exact ?fl = map frac exact"
      by (rule nth_equalityI) (auto simp: frac_def)
    thus ?thesis by (simp only: remsOf_def)
  qed
  show "allocateLargestRemainder tot exact =
      Inr (map (\<lambda>i. \<lfloor>exact ! i\<rfloor> + (if i \<in> bonus k exact then 1 else 0)) [0..<length exact])"
  proof (cases "k = 0")
    case True
    have "allocateLargestRemainder tot exact = Inr ?fl"
      unfolding allocateLargestRemainder_def Let_def f out sum64 left using True by simp
    moreover have "map (\<lambda>i. \<lfloor>exact ! i\<rfloor>) [0..<length exact] = ?fl"
      by (rule nth_equalityI) auto
    ultimately show ?thesis using True by (simp add: bonus_def)
  next
    case False
    have "\<forall>r\<in>set (sort_by remLess (remsOf exact)). fst r < length ?fl \<and> in64 (?fl ! fst r + 1)"
    proof
      fix r assume "r \<in> set (sort_by remLess (remsOf exact))"
      hence r: "fst r < length exact" by auto
      hence m: "?fl ! fst r \<in> set ?fl" by (metis length_map nth_mem)
      have "?fl ! fst r \<le> sum_list ?fl" by (rule elem_le_sum_list_nonneg [OF fl0 m])
      moreover have "sum_list ?fl < tot" using False k2 by linarith
      moreover have "0 \<le> ?fl ! fst r" using fl0 m by blast
      ultimately have "in64 (?fl ! fst r + 1)" using b unfolding in64_def by linarith
      thus "fst r < length ?fl \<and> in64 (?fl ! fst r + 1)" using r by simp
    qed
    hence "giveOne k (sort_by remLess (remsOf exact)) ?fl =
        Inr (map (\<lambda>i. ?fl ! i + (if i \<in> bonus k exact then 1 else 0)) [0..<length ?fl])"
      unfolding bonus_def using k1 sorted_rems(1) by (intro giveOne_ok) simp_all
    moreover have "allocateLargestRemainder tot exact = giveOne k (sort_by remLess (remsOf exact)) ?fl"
      unfolding allocateLargestRemainder_def Let_def f out sum64 left rems using False by simp
    moreover have "map (\<lambda>i. ?fl ! i + (if i \<in> bonus k exact then 1 else 0)) [0..<length ?fl] =
        map (\<lambda>i. \<lfloor>exact ! i\<rfloor> + (if i \<in> bonus k exact then 1 else 0)) [0..<length exact]"
      by (rule nth_equalityI) auto
    ultimately show ?thesis by simp
  qed
qed

lemma sum_list_frac: "sum_list (map frac exact) = sum_list exact - of_int (sum_list (map floor exact))"
  by (induction exact) (simp_all add: frac_def)

lemma bonus_pos:
  assumes j: "j \<in> bonus k exact" and k: "k \<le> length exact" and s: "of_nat k = sum_list (map frac exact)"
  shows "0 < frac (exact ! j)"
proof (rule ccontr)
  assume "\<not> 0 < frac (exact ! j)"
  hence j0: "frac (exact ! j) \<le> 0" by (simp only: not_less)
  let ?P = "{i \<in> {0..<length exact}. 0 < frac (exact ! i)}"
  have "?P \<subseteq> bonus k exact"
  proof
    fix i assume i: "i \<in> ?P"
    show "i \<in> bonus k exact"
    proof (rule ccontr)
      assume "i \<notin> bonus k exact"
      hence "frac (exact ! i) \<le> frac (exact ! j)"
        using bonus_fair [OF j, of i] i by (simp add: le_less) blast
      hence "frac (exact ! i) \<le> 0" using j0 by (rule order_trans)
      moreover have "0 < frac (exact ! i)" using i by blast
      ultimately show False by linarith
    qed
  qed
  moreover have "j \<notin> ?P" using j0 linorder_not_less by blast
  moreover have fin: "finite (bonus k exact)" using bonus_range finite_subset by blast
  ultimately have "card (insert j ?P) \<le> card (bonus k exact)"
    using j by (intro card_mono) auto
  hence "card ?P < k" using bonus_card [OF k] \<open>j \<notin> ?P\<close> by simp
  moreover have "sum_list (map frac exact) = (\<Sum>i\<in>{0..<length exact}. frac (exact ! i))"
    by (simp add: sum_list_sum_nth)
  moreover have "... = (\<Sum>i\<in>?P. frac (exact ! i))"
    by (rule sum.mono_neutral_right) (auto simp: order_less_le)
  moreover have "... \<le> (\<Sum>i\<in>?P. 1)"
    by (intro sum_mono) (simp add: frac_lt_1 order_less_imp_le)
  ultimately show False using s by simp
qed

lemma allocate_ok:
  assumes "\<forall>e\<in>set exact. 0 \<le> e" and "sum_list exact = of_int tot" and "tot < 2 ^ 63"
  shows "\<exists>out. allocateLargestRemainder tot exact = Inr out \<and> length out = length exact \<and>
     sum_list out = tot \<and>
     (\<forall>i < length exact. out ! i = \<lfloor>exact ! i\<rfloor> \<or> out ! i = \<lfloor>exact ! i\<rfloor> + 1 \<and> 0 < frac (exact ! i))"
proof -
  define k where "k = nat (tot - sum_list (map floor exact))"
  define out where "out = map (\<lambda>i. \<lfloor>exact ! i\<rfloor> + (if i \<in> bonus k exact then 1 else 0)) [0..<length exact]"
  note al = allocate_bonus [OF assms, folded k_def]
  have "sum_list out = (\<Sum>i\<leftarrow>[0..<length exact]. \<lfloor>exact ! i\<rfloor>) + int (card (bonus k exact))"
    unfolding out_def by (rule sum_list_map_add_indicator) (rule bonus_range)
  moreover have "map (\<lambda>i. \<lfloor>exact ! i\<rfloor>) [0..<length exact] = map floor exact"
    by (rule nth_equalityI) auto
  ultimately have "sum_list out = tot"
    using bonus_card [OF al(2)] al(3) by simp
  moreover have "length out = length exact"
    "\<forall>i < length exact. out ! i = \<lfloor>exact ! i\<rfloor> \<or> out ! i = \<lfloor>exact ! i\<rfloor> + 1 \<and> 0 < frac (exact ! i)"
    using bonus_pos [OF _ al(2)] al(3) assms(2) by (auto simp: out_def sum_list_frac)
  ultimately show ?thesis using al(1) [folded out_def] by blast
qed

lemma allocate_fair:
  assumes "\<forall>e\<in>set exact. 0 \<le> e" and "sum_list exact = of_int tot" and "tot < 2 ^ 63"
    and "allocateLargestRemainder tot exact = Inr out" and "i < length exact" and "j < length exact"
    and "out ! j = \<lfloor>exact ! j\<rfloor> + 1" and "out ! i = \<lfloor>exact ! i\<rfloor>"
  shows "frac (exact ! i) < frac (exact ! j) \<or> frac (exact ! i) = frac (exact ! j) \<and> j < i"
  using assms allocate_bonus(1) [OF assms(1-3)]
  by (intro bonus_fair [of j "nat (tot - sum_list (map floor exact))"]) (auto split: if_splits)

text \<open>C24. Largest remainder rounding: for exact shares that are nonnegative and add up to the total,
  the integers add up to the total, each is the floor of its exact share or the floor plus
  one, and a share is rounded up in preference to another only when its fractional part is at
  least as large.\<close>

theorem allocateLargestRemainder_spec:
  assumes "\<forall>e\<in>set exact. 0 \<le> e" and "sum_list exact = of_int tot" and "tot < 2 ^ 63"
  shows "\<exists>out. allocateLargestRemainder tot exact = Inr out \<and> length out = length exact \<and>
     sum_list out = tot \<and>
     (\<forall>i < length exact. out ! i = \<lfloor>exact ! i\<rfloor> \<or> out ! i = \<lfloor>exact ! i\<rfloor> + 1 \<and> 0 < frac (exact ! i)) \<and>
     (\<forall>i < length exact. \<forall>j < length exact.
        out ! j = \<lfloor>exact ! j\<rfloor> + 1 \<and> out ! i = \<lfloor>exact ! i\<rfloor> \<longrightarrow>
        frac (exact ! i) < frac (exact ! j) \<or> frac (exact ! i) = frac (exact ! j) \<and> j < i)"
  using allocate_ok [OF assms] allocate_fair [OF assms] by blast

theorem allocateLargestRemainder_spec_witness:
  "\<exists>out. allocateLargestRemainder 100 [100 / 3, 100 / 3, 100 / 3] = Inr out \<and> length out = 3 \<and>
     sum_list out = 100"
  using allocateLargestRemainder_spec [of "[100 / 3, 100 / 3, 100 / 3]" 100] by auto

section \<open>Facts about the distribution\<close>

lemma sortShares_key: "sortShares = sort_key sh_UnitID"
  unfolding sortShares_def by (rule ext, rule sort_by_key) simp

lemma sortShares_perm:
  "mset xs = mset ys \<Longrightarrow> distinct (map sh_UnitID xs) \<Longrightarrow> sortShares xs = sortShares ys"
  unfolding sortShares_key by (rule sort_key_permuted) (simp_all add: distinct_map)

lemma mset_sortShares [simp]: "mset (sortShares xs) = mset xs"
  by (simp add: sortShares_def)

lemma set_sortShares [simp]: "set (sortShares xs) = set xs"
  by (simp add: sortShares_def)

lemma sum_list_sortShares [simp]:
  "sum_list (map f (sortShares xs)) = (sum_list (map f xs) :: 'a :: comm_monoid_add)"
  by (metis mset_map mset_sortShares sum_mset_sum_list)

lemma sorted_sortShares: "sorted (map sh_UnitID (sortShares xs))"
  by (simp add: sortShares_key)

text \<open>What a result has to satisfy: the rounded shares are non-negative, within
  one Toman of the exact shares, sorted by unit id and sum to the target.\<close>

definition result_ok :: "ItemResult \<Rightarrow> bool" where
  "result_ok res \<longleftrightarrow> ir_Reconciled res \<and> sum_list (map sh_Rounded (ir_Shares res)) = ir_TotalUsed res \<and>
     sorted (map sh_UnitID (ir_Shares res)) \<and> (\<forall>sh\<in>set (ir_Shares res). 0 \<le> sh_Rounded sh)"

definition shares_close :: "ItemResult \<Rightarrow> bool" where
  "shares_close res \<longleftrightarrow> (\<forall>sh\<in>set (ir_Shares res).
     sh_Exact sh - 1 < of_int (sh_Rounded sh) \<and> of_int (sh_Rounded sh) < sh_Exact sh + 1)"

lemma sum_list_divide':
  "(\<Sum>x\<leftarrow>xs. f x / (c :: rat)) = sum_list (map f xs) / c"
  by (induction xs) (simp_all add: add_divide_distrib)

lemma near_exact:
  fixes e :: rat
  assumes "r = \<lfloor>e\<rfloor> \<or> r = \<lfloor>e\<rfloor> + 1 \<and> 0 < frac e" and "0 \<le> e"
  shows "0 \<le> r \<and> e - 1 < of_int r \<and> of_int r < e + 1"
proof -
  have "0 \<le> \<lfloor>e\<rfloor>" using assms(2) by simp
  moreover have "of_int \<lfloor>e\<rfloor> \<le> e" "e < of_int \<lfloor>e\<rfloor> + 1"
    using floor_correct [of e] by simp_all
  ultimately have "r = \<lfloor>e\<rfloor> \<Longrightarrow> ?thesis" "r = \<lfloor>e\<rfloor> + 1 \<Longrightarrow> 0 < e - of_int \<lfloor>e\<rfloor> \<Longrightarrow> ?thesis"
    by (intro conjI; linarith)+
  thus ?thesis using assms(1) unfolding frac_def by blast
qed

lemma distribute_ok:
  assumes "els \<noteq> []" "\<forall>u\<in>set els. 0 \<le> weight u" "sum_list (map weight els) \<noteq> 0" "0 \<le> tot" "tot < 2 ^ 63"
  shows "\<exists>res. distribute itemID tot els weight = Inr res \<and> result_ok res \<and> shares_close res \<and>
     ir_TotalUsed res = tot \<and> ir_CostItemID res = itemID \<and>
     mset (map (\<lambda>sh. (sh_UnitID sh, sh_Exact sh)) (ir_Shares res)) =
       mset (map (\<lambda>u. (u_ID u, of_int tot * (weight u / sum_list (map weight els)))) els)"
proof -
  let ?s = "sum_list (map weight els)"
  let ?ex = "map (\<lambda>w. rat_of_int tot * (w / ?s)) (map weight els)"
  have s: "0 < ?s" using assms(2,3) by (simp add: order_less_le) (intro sum_list_nonneg, auto)
  have ex0: "\<forall>e\<in>set ?ex. 0 \<le> e" using assms(2,4) s by auto
  have "sum_list ?ex = of_int tot * (?s / ?s)"
    by (simp add: sum_list_const_mult sum_list_divide' o_def)
  hence exs: "sum_list ?ex = of_int tot" using s by simp
  obtain out where out: "allocateLargestRemainder tot ?ex = Inr out" "length out = length els"
    "sum_list out = tot"
      "\<forall>i < length els. out ! i = \<lfloor>?ex ! i\<rfloor> \<or> out ! i = \<lfloor>?ex ! i\<rfloor> + 1 \<and> 0 < frac (?ex ! i)"
    using allocate_ok [OF ex0 exs assms(5)] by auto
  let ?sh = "map (\<lambda>(u, e, r). \<lparr>sh_UnitID = u_ID u, sh_Exact = e, sh_Rounded = r\<rparr>) (zip els (zip ?ex out))"
  let ?res = "\<lparr>ir_CostItemID = itemID, ir_TotalUsed = tot, ir_Shares = sortShares ?sh,
     ir_Reconciled = (sum64 (map sh_Rounded (sortShares ?sh)) = tot)\<rparr>"
  have dist: "distribute itemID tot els weight = Inr ?res"
    using assms(1,3) out(1) by (simp add: distribute_def Let_def)
  have rounded: "map sh_Rounded ?sh = out"
    using out(2) by (intro nth_equalityI) auto
  have ids: "map (\<lambda>sh. (sh_UnitID sh, sh_Exact sh)) ?sh =
      map (\<lambda>u. (u_ID u, of_int tot * (weight u / ?s))) els"
    using out(2) by (intro nth_equalityI) auto
  have each: "0 \<le> sh_Rounded sh \<and> sh_Exact sh - 1 < of_int (sh_Rounded sh) \<and>
      of_int (sh_Rounded sh) < sh_Exact sh + 1" if sh: "sh \<in> set ?sh" for sh
  proof -
    obtain i where i: "i < length els" "sh_Exact sh = ?ex ! i" "sh_Rounded sh = out ! i"
      using sh out(2) unfolding in_set_conv_nth by fastforce
    have "0 \<le> ?ex ! i" using ex0 i(1) by (metis length_map nth_mem)
    moreover have "out ! i = \<lfloor>?ex ! i\<rfloor> \<or> out ! i = \<lfloor>?ex ! i\<rfloor> + 1 \<and> 0 < frac (?ex ! i)"
      using out(4) i(1) by blast
    ultimately show ?thesis unfolding i(2,3) by (intro near_exact)
  qed
  have "sum_list (map sh_Rounded (sortShares ?sh)) = tot"
    using rounded out(3) by simp
  moreover from this have "sum64 (map sh_Rounded (sortShares ?sh)) = tot"
    using assms(4,5) by (simp add: sum64_eq in64_def)
  ultimately have "result_ok ?res"
    unfolding result_ok_def ItemResult.select_convs set_sortShares
    using each sorted_sortShares [of ?sh] by blast
  moreover have "shares_close ?res"
    unfolding shares_close_def ItemResult.select_convs set_sortShares using each by blast
  moreover have "mset (map (\<lambda>sh. (sh_UnitID sh, sh_Exact sh)) (ir_Shares ?res)) =
       mset (map (\<lambda>u. (u_ID u, of_int tot * (weight u / ?s))) els)"
    unfolding ItemResult.select_convs ids [symmetric] mset_map mset_sortShares ..
  moreover have "ir_TotalUsed ?res = tot" "ir_CostItemID ?res = itemID" by (rule ItemResult.select_convs)+
  ultimately show ?thesis using dist by blast
qed

section \<open>Facts about Calculate\<close>

definition units_ok :: "Unit list \<Rightarrow> bool" where
  "units_ok units \<longleftrightarrow> (\<forall>u\<in>set units. 0 \<le> u_Occupants u \<and> 0 \<le> u_AreaM2 u)"

lemma distribute_success:
  assumes "distribute itemID tot els weight = Inr res" "\<forall>u\<in>set els. 0 \<le> weight u" "0 \<le> tot" "tot < 2 ^ 63"
  shows "els \<noteq> [] \<and> sum_list (map weight els) \<noteq> 0 \<and> result_ok res \<and> shares_close res \<and>
     ir_TotalUsed res = tot \<and> ir_CostItemID res = itemID \<and>
     mset (map (\<lambda>sh. (sh_UnitID sh, sh_Exact sh)) (ir_Shares res)) =
       mset (map (\<lambda>u. (u_ID u, of_int tot * (weight u / sum_list (map weight els)))) els)"
proof -
  have ne: "els \<noteq> []" "sum_list (map weight els) \<noteq> 0"
    using assms(1) by (auto simp: distribute_def Let_def split: if_splits)
  thus ?thesis using distribute_ok [OF ne(1) assms(2) ne(2) assms(3,4), of itemID] assms(1) by auto
qed

lemma distribute_error:
  assumes "\<forall>u\<in>set els. 0 \<le> weight u" "0 \<le> tot" "tot < 2 ^ 63"
  shows "distribute itemID tot els weight = Inl e \<longleftrightarrow>
     els = [] \<and> e = ErrNoParticipants \<or> els \<noteq> [] \<and> (\<forall>u\<in>set els. weight u = 0) \<and> e = ErrZeroFactor"
proof -
  have z: "sum_list (map weight els) = 0 \<longleftrightarrow> (\<forall>u\<in>set els. weight u = 0)"
    using assms(1) by (subst sum_list_nonneg_eq_0_iff) auto
  show ?thesis
  proof (cases "els = [] \<or> sum_list (map weight els) = 0")
    case True
    thus ?thesis using z by (auto simp: distribute_def)
  next
    case False
    thus ?thesis using distribute_ok [of els weight tot itemID] assms z by auto
  qed
qed

lemma participants_subset: "set (participants item units) \<subseteq> set units"
  by (auto simp: participants_def)

lemma weights_nonneg:
  assumes "units_ok units"
  shows "\<forall>u\<in>set (participants item units). 0 \<le> (of_int (u_Occupants u) :: rat)"
    "\<forall>u\<in>set (participants item units). 0 \<le> (of_int (u_AreaM2 u) :: rat)"
  using assms participants_subset [of item units] by (auto simp: units_ok_def)

lemma CalculateStep_indep:
  "ci_Method item \<noteq> MethodCombined \<Longrightarrow> CalculateStep calc item units = CalculateStep calc' item units"
  by (simp add: CalculateStep_def)

lemma comboPart_indep:
  "cw_Method (fst wp) \<noteq> MethodCombined \<Longrightarrow>
   comboPart (CalculateStep c) item units wp = comboPart (CalculateStep c') item units wp"
  by (auto simp: comboPart_def Let_def subItem_def intro: CalculateStep_indep)

lemma comboLoop_indep:
  "\<forall>wp\<in>set wps. cw_Method (fst wp) \<noteq> MethodCombined \<Longrightarrow>
   comboLoop (CalculateStep c) item units wps acc run = comboLoop (CalculateStep c') item units wps acc run"
proof (induction wps arbitrary: acc run)
  case (Cons wp wps)
  show ?case using Cons comboPart_indep [of wp c item units c']
    by (cases "comboPart (CalculateStep c') item units wp") auto
qed simp

lemma calcCombined_indep:
  "calcCombined (CalculateStep c) item units = calcCombined (CalculateStep c') item units"
proof (cases "list_ex badWeight (ci_ComboWeights item)")
  case True
  thus ?thesis by (simp add: calcCombined_def Let_def)
next
  case False
  have "comboLoop (CalculateStep c) item units (zip (ci_ComboWeights item) pools) [] 0 =
        comboLoop (CalculateStep c') item units (zip (ci_ComboWeights item) pools) [] 0" for pools
    using False by (intro comboLoop_indep) (auto simp: list_ex_iff badWeight_def dest!: set_zip_leftD)
  thus ?thesis by (simp only: calcCombined_def Let_def)
qed

lemma Calculate_step: "Calculate = CalculateStep (CalculateStep (CalculateN 0))"
proof -
  have *: "CalculateN (Suc n) = CalculateStep (CalculateN n)" for n by (intro ext) simp
  show ?thesis unfolding fun_eq_iff Calculate_def numeral_2_eq_2 * by simp
qed

lemma Calculate_rec: "Calculate item units = CalculateStep Calculate item units"
  unfolding Calculate_step
  by (subst (1 2) CalculateStep_def) (simp only: calcCombined_indep [of "CalculateN 0" item units "CalculateStep (CalculateN 0)"])


lemma addShare_ok:
  assumes "\<forall>a\<in>set acc. 0 \<le> sh_Rounded a" "0 \<le> sh_Rounded sh"
    "sum_list (map sh_Rounded acc) + sh_Rounded sh < 2 ^ 63"
  shows "sum_list (map sh_Rounded (addShare acc sh)) = sum_list (map sh_Rounded acc) + sh_Rounded sh \<and>
     (\<forall>a\<in>set (addShare acc sh). 0 \<le> sh_Rounded a)"
  using assms
proof (induction acc sh rule: addShare.induct)
  case (1 sh)
  thus ?case by (simp add: in64_def)
next
  case (2 a acc sh)
  have "0 \<le> sum_list (map sh_Rounded acc)" using 2(2) by (intro sum_list_nonneg) auto
  moreover from this have "in64 (sh_Rounded a + sh_Rounded sh)" using 2(2-4) by (simp add: in64_def)
  ultimately show ?case using 2 by auto
qed

lemma addShare_ids:
  "sh_UnitID ` set (addShare acc sh) = insert (sh_UnitID sh) (sh_UnitID ` set acc)"
  by (induction acc sh rule: addShare.induct) auto

lemma addShare_distinct:
  "distinct (map sh_UnitID acc) \<Longrightarrow> distinct (map sh_UnitID (addShare acc sh))"
  by (induction acc sh rule: addShare.induct) (auto simp: addShare_ids)

lemma foldl_addShare_ok:
  assumes "\<forall>a\<in>set acc. 0 \<le> sh_Rounded a" "\<forall>a\<in>set shs. 0 \<le> sh_Rounded a"
    "sum_list (map sh_Rounded acc) + sum_list (map sh_Rounded shs) < 2 ^ 63"
  shows "sum_list (map sh_Rounded (foldl addShare acc shs)) =
       sum_list (map sh_Rounded acc) + sum_list (map sh_Rounded shs) \<and>
     (\<forall>a\<in>set (foldl addShare acc shs). 0 \<le> sh_Rounded a)"
  using assms
proof (induction shs arbitrary: acc)
  case (Cons sh shs)
  have "0 \<le> sum_list (map sh_Rounded shs)" using Cons(3) by (intro sum_list_nonneg) auto
  hence "sum_list (map sh_Rounded acc) + sh_Rounded sh < 2 ^ 63" using Cons(4) by simp
  hence a: "sum_list (map sh_Rounded (addShare acc sh)) = sum_list (map sh_Rounded acc) + sh_Rounded sh"
    "\<forall>a\<in>set (addShare acc sh). 0 \<le> sh_Rounded a"
    using addShare_ok [OF Cons(2), of sh] Cons(3) by simp_all
  show ?case using Cons(1) [OF a(2)] Cons(3,4) unfolding a(1) by (simp add: add.assoc)
qed simp

lemma foldl_addShare_distinct:
  "distinct (map sh_UnitID acc) \<Longrightarrow> distinct (map sh_UnitID (foldl addShare acc shs))"
  by (induction shs arbitrary: acc) (simp_all add: addShare_distinct)

text \<open>The exact share of a unit in a list of shares.\<close>

definition exactOf :: "string \<Rightarrow> Share list \<Rightarrow> rat" where
  "exactOf uid shs = sum_list (map sh_Exact (filter (\<lambda>sh. sh_UnitID sh = uid) shs))"

lemma exactOf_addShare: "exactOf uid (addShare acc sh) = exactOf uid acc + exactOf uid [sh]"
  by (induction acc sh rule: addShare.induct) (auto simp: exactOf_def)

lemma exactOf_foldl: "exactOf uid (foldl addShare acc shs) = exactOf uid acc + exactOf uid shs"
proof (induction shs arbitrary: acc)
  case (Cons sh shs)
  show ?case using Cons [of "addShare acc sh"] exactOf_addShare [of uid acc sh]
    by (simp add: exactOf_def)
qed (simp add: exactOf_def)

lemma comboLoop_ok:
  assumes "\<And>wp res. wp \<in> set wps \<Longrightarrow> comboPart calc item units wp = Inr res \<Longrightarrow>
      result_ok res \<and> ir_TotalUsed res = snd wp"
    and "\<forall>wp\<in>set wps. 0 \<le> snd wp" and "\<forall>a\<in>set acc. 0 \<le> sh_Rounded a"
    and "sum_list (map sh_Rounded acc) = run" and "run + sum_list (map snd wps) < 2 ^ 63"
    and "distinct (map sh_UnitID acc)"
    and "comboLoop calc item units wps acc run = Inr (per, run')"
  shows "run' = run + sum_list (map snd wps) \<and> sum_list (map sh_Rounded per) = run' \<and>
    (\<forall>a\<in>set per. 0 \<le> sh_Rounded a) \<and> distinct (map sh_UnitID per)"
  using assms
proof (induction wps arbitrary: acc run)
  case (Cons wp wps)
  obtain res where res: "comboPart calc item units wp = Inr res"
    using Cons(8) by (cases "comboPart calc item units wp") auto
  let ?acc = "foldl addShare acc (ir_Shares res)"
  have ok: "sum_list (map sh_Rounded (ir_Shares res)) = snd wp" "\<forall>a\<in>set (ir_Shares res). 0 \<le> sh_Rounded a"
    using Cons(2) [OF _ res] by (auto simp: result_ok_def)
  have rest: "0 \<le> sum_list (map snd wps)" using Cons(3) by (intro sum_list_nonneg) auto
  have run: "0 \<le> run" using Cons(4,5) by (auto intro!: sum_list_nonneg)
  have b: "run + snd wp < 2 ^ 63" "0 \<le> snd wp" using Cons(3,6) rest by auto
  have acc: "sum_list (map sh_Rounded ?acc) = run + snd wp \<and> (\<forall>a\<in>set ?acc. 0 \<le> sh_Rounded a)"
    using foldl_addShare_ok [OF Cons(4) ok(2)] ok(1) b Cons(5) by simp
  have "i64 (run + sumShares res) = run + snd wp"
    using b run ok(1) by (simp add: sumShares_def sum64_eq in64_def)
  hence "comboLoop calc item units wps ?acc (run + snd wp) = Inr (per, run')"
    using Cons(8) res by simp
  from Cons(1) [OF Cons(2) _ _ _ _ _ this] show ?case
    using Cons acc foldl_addShare_distinct [OF Cons(7)] by (auto simp: algebra_simps)
qed simp

lemma calcFixed_ok:
  assumes "calcFixed item units = Inr res" "0 < ci_FixedAmountPerUnit item"
    "ci_FixedAmountPerUnit item * int (length (participants item units)) < 2 ^ 63"
  shows "result_ok res \<and> ir_TotalUsed res = ci_FixedAmountPerUnit item * int (length (participants item units))"
proof -
  have "i64 (ci_FixedAmountPerUnit item * int (length (participants item units))) =
      ci_FixedAmountPerUnit item * int (length (participants item units))"
    using assms(2,3) by (intro i64_id) (auto simp: in64_def intro: order_trans [of _ 0])
  thus ?thesis using assms(1,2)
    by (auto simp: calcFixed_def Let_def result_ok_def sorted_sortShares o_def map_replicate_const
        sum_list_replicate split: if_splits)
qed

text \<open>The outcome of \<open>Calculate\<close> on an item that is not combined: \<open>None\<close> when it succeeds.\<close>

definition simpleError :: "CostItem \<Rightarrow> Unit list \<Rightarrow> go_error option" where
  "simpleError item units =
    (let ps = participants item units; m = ci_Method item
     in if (if m = MethodFixed then ci_FixedAmountPerUnit item else ci_Total item) \<le> 0 then Some ErrNonPositiveTotal
        else if m = MethodSpecificUnits then
          (if list_ex (\<lambda>u. u_ID u \<in> set (ci_UnitIDs item)) units then None else Some ErrSpecificUnitsEmpty)
        else if m \<notin> {MethodEqual, MethodPerOccupant, MethodPerArea, MethodFixed} then Some ErrUnknownMethod
        else if ps = [] then Some ErrNoParticipants
        else if m = MethodPerOccupant \<and> list_all (\<lambda>u. u_Occupants u = 0) ps then Some ErrZeroFactor
        else if m = MethodPerArea \<and> list_all (\<lambda>u. u_AreaM2 u = 0) ps then Some ErrZeroFactor
        else None)"

lemma calcSpecific_error:
  assumes "0 \<le> ci_Total item" "ci_Total item < 2 ^ 63"
  shows "calcSpecific item units = Inl e \<longleftrightarrow>
    \<not> list_ex (\<lambda>u. u_ID u \<in> set (ci_UnitIDs item)) units \<and> e = ErrSpecificUnitsEmpty"
  using distribute_error [of "filter (\<lambda>u. u_ID u \<in> set (ci_UnitIDs item)) units" "\<lambda>_. 1" "ci_Total item" "ci_ID item" e] assms
  by (auto simp: calcSpecific_def Let_def list_ex_iff filter_empty_conv)

lemma calcFixed_error:
  "calcFixed item units = Inl e \<longleftrightarrow> participants item units = [] \<and> e = ErrNoParticipants"
  by (auto simp: calcFixed_def Let_def)

lemma CalculateStep_simple_error:
  assumes "units_ok units" "ci_Total item < 2 ^ 63" "ci_Method item \<noteq> MethodCombined"
  shows "CalculateStep calc item units = Inl e \<longleftrightarrow> simpleError item units = Some e"
proof -
  let ?p = "participants item units"
  have occ: "(\<forall>u\<in>set ?p. (rat_of_int (u_Occupants u)) = 0) = list_all (\<lambda>u. u_Occupants u = 0) ?p"
    and area: "(\<forall>u\<in>set ?p. (rat_of_int (u_AreaM2 u)) = 0) = list_all (\<lambda>u. u_AreaM2 u = 0) ?p"
    by (auto simp: list_all_iff)
  note d = distribute_error [of ?p "\<lambda>_. 1" "ci_Total item" "ci_ID item" e]
    distribute_error [of ?p "\<lambda>u. of_int (u_Occupants u)" "ci_Total item" "ci_ID item" e,
      OF weights_nonneg(1) [OF assms(1)], unfolded occ]
    distribute_error [of ?p "\<lambda>u. of_int (u_AreaM2 u)" "ci_Total item" "ci_ID item" e,
      OF weights_nonneg(2) [OF assms(1)], unfolded area]
  show ?thesis
    using assms d calcSpecific_error [of item units e] calcFixed_error [of item units e]
    by (auto simp: CalculateStep_def simpleError_def Let_def)
qed


lemma CalculateStep_simple_ok:
  assumes "units_ok units" "ci_Total item < 2 ^ 63" "ci_Method item \<noteq> MethodCombined"
    "ci_FixedAmountPerUnit item * int (length units) < 2 ^ 63"
    "CalculateStep calc item units = Inr res"
  shows "result_ok res \<and> ir_TotalUsed res = (if ci_Method item = MethodFixed
     then ci_FixedAmountPerUnit item * int (length (participants item units)) else ci_Total item)"
proof (cases "ci_Method item = MethodFixed")
  case True
  have pos: "0 < ci_FixedAmountPerUnit item" using assms(5) True by (auto simp: CalculateStep_def split: if_splits)
  have "length (participants item units) \<le> length units" by (simp add: participants_def)
  hence "ci_FixedAmountPerUnit item * int (length (participants item units)) \<le>
      ci_FixedAmountPerUnit item * int (length units)" using pos by simp
  hence "ci_FixedAmountPerUnit item * int (length (participants item units)) < 2 ^ 63"
    using assms(4) by linarith
  thus ?thesis using calcFixed_ok [OF _ pos] True assms(5) by (simp add: CalculateStep_def split: if_splits)
next
  case False
  have "0 < ci_Total item" using assms(5) False by (auto simp: CalculateStep_def split: if_splits)
  hence t: "0 \<le> ci_Total item" by simp
  show ?thesis using assms(2,3,5) False t
      distribute_success [OF _ weights_nonneg(1) [OF assms(1)] t assms(2)]
      distribute_success [OF _ weights_nonneg(2) [OF assms(1)] t assms(2)]
      distribute_success [OF _ _ t assms(2), of _ _ "\<lambda>_. 1"]
    by (auto simp: CalculateStep_def calcSpecific_def Let_def split: if_splits)
qed

lemma comboPart_ok:
  assumes "units_ok units" "0 \<le> snd wp" "snd wp < 2 ^ 63" "cw_Method (fst wp) \<noteq> MethodCombined"
    "comboPart Calculate item units wp = Inr res"
  shows "result_ok res \<and> ir_TotalUsed res = snd wp"
proof (cases "cw_Method (fst wp) = MethodFixed")
  case True
  thus ?thesis using assms distribute_success [OF _ _ assms(2,3), of _ _ "\<lambda>_. 1" res]
    by (auto simp: comboPart_def Let_def)
next
  case False
  let ?sub = "subItem item (fst wp) (snd wp)"
  have c: "CalculateStep Calculate ?sub units = Inr res"
    using assms(5) False Calculate_rec [of ?sub units] by (simp add: comboPart_def)
  have s: "ci_Total ?sub = snd wp" "ci_Method ?sub = cw_Method (fst wp)" by (simp_all add: subItem_def)
  have t: "0 \<le> ci_Total ?sub" "ci_Total ?sub < 2 ^ 63" using assms(2,3) s by simp_all
  show ?thesis using c assms(4) False s
      distribute_success [OF _ weights_nonneg(1) [OF assms(1)] t]
      distribute_success [OF _ weights_nonneg(2) [OF assms(1)] t]
      distribute_success [OF _ _ t, of _ _ "\<lambda>_. 1"]
    by (auto simp: CalculateStep_def calcSpecific_def Let_def split: if_splits)
qed

definition weights_ok :: "CostItem \<Rightarrow> bool" where
  "weights_ok item \<longleftrightarrow> ci_ComboWeights item \<noteq> [] \<and> \<not> list_ex badWeight (ci_ComboWeights item) \<and>
     sum64 (map cw_Weight (ci_ComboWeights item)) = 100"

lemma calcCombined_bad: "\<not> weights_ok item \<Longrightarrow> calcCombined calc item units = Inl ErrBadWeights"
  by (auto simp: calcCombined_def weights_ok_def Let_def)


definition combo_in_range :: "CostItem \<Rightarrow> bool" where
  "combo_in_range item \<longleftrightarrow> sum_list (map cw_Weight (ci_ComboWeights item)) < 2 ^ 63"

definition poolsOf :: "CostItem \<Rightarrow> int list result" where
  "poolsOf item = allocateLargestRemainder (ci_Total item)
     (map (\<lambda>w. of_int (ci_Total item) * of_int (cw_Weight w) / 100) (ci_ComboWeights item))"

lemma sum_list_of_int: "(\<Sum>x\<leftarrow>xs. rat_of_int (f x)) = of_int (sum_list (map f xs))"
  by (induction xs) simp_all

lemma poolsOf_ok:
  assumes "weights_ok item" "combo_in_range item" "0 \<le> ci_Total item" "ci_Total item < 2 ^ 63"
  shows "\<exists>pools. poolsOf item = Inr pools \<and> length pools = length (ci_ComboWeights item) \<and>
     sum_list pools = ci_Total item \<and> (\<forall>p\<in>set pools. 0 \<le> p)"
proof -
  let ?ws = "map cw_Weight (ci_ComboWeights item)"
  let ?ex = "map (\<lambda>w. rat_of_int (ci_Total item) * of_int (cw_Weight w) / 100) (ci_ComboWeights item)"
  have pos: "\<forall>w\<in>set (ci_ComboWeights item). 0 < cw_Weight w"
    using assms(1) by (auto simp: weights_ok_def badWeight_def list_ex_iff)
  hence "0 \<le> sum_list ?ws" by (intro sum_list_nonneg) force
  hence "sum_list ?ws = 100"
    using assms(1,2) by (simp add: weights_ok_def combo_in_range_def sum64_eq in64_def)
  hence "(\<Sum>w\<leftarrow>ci_ComboWeights item. rat_of_int (cw_Weight w)) = 100"
    using sum_list_of_int [of cw_Weight "ci_ComboWeights item"] by simp
  hence s: "sum_list ?ex = of_int (ci_Total item)"
    by (simp add: sum_list_divide' sum_list_const_mult)
  have ex0: "\<forall>e\<in>set ?ex. 0 \<le> e" using pos assms(3) by force
  obtain out where out: "allocateLargestRemainder (ci_Total item) ?ex = Inr out"
    "length out = length (ci_ComboWeights item)" "sum_list out = ci_Total item"
    "\<forall>i < length ?ex. out ! i = \<lfloor>?ex ! i\<rfloor> \<or> out ! i = \<lfloor>?ex ! i\<rfloor> + 1 \<and> 0 < frac (?ex ! i)"
    using allocate_ok [OF ex0 s assms(4)] by auto
  have "\<forall>p\<in>set out. 0 \<le> p"
  proof
    fix p assume "p \<in> set out"
    then obtain i where i: "i < length ?ex" "p = out ! i" using out(2) by (metis in_set_conv_nth length_map)
    have "0 \<le> ?ex ! i" using ex0 i(1) nth_mem by blast
    thus "0 \<le> p" using near_exact [of p "?ex ! i"] out(4) i by blast
  qed
  thus ?thesis using out by (auto simp: poolsOf_def)
qed

lemma calcCombined_ok:
  assumes "units_ok units" "combo_in_range item" "0 < ci_Total item" "ci_Total item < 2 ^ 63"
    "calcCombined Calculate item units = Inr res"
  shows "result_ok res \<and> ir_TotalUsed res = ci_Total item \<and> distinct (map sh_UnitID (ir_Shares res))"
proof -
  have wok: "weights_ok item" using assms(5) calcCombined_bad by (metis sum.distinct(1))
  obtain pools where p: "poolsOf item = Inr pools" "length pools = length (ci_ComboWeights item)"
    "sum_list pools = ci_Total item" "\<forall>p\<in>set pools. 0 \<le> p"
    using poolsOf_ok [OF wok assms(2) _ assms(4)] assms(3) by auto
  let ?wps = "zip (ci_ComboWeights item) pools"
  obtain per run where l: "comboLoop Calculate item units ?wps [] 0 = Inr (per, run)"
    and res: "res = \<lparr>ir_CostItemID = ci_ID item, ir_TotalUsed = ci_Total item,
                ir_Shares = sortShares per, ir_Reconciled = (run = ci_Total item)\<rparr>"
    using assms(5) wok p(1) by (auto simp: calcCombined_def weights_ok_def Let_def poolsOf_def bindR_Inr_iff)
  have bnd: "0 \<le> q \<and> q < 2 ^ 63" if "q \<in> set pools" for q
    using elem_le_sum_list_nonneg [OF p(4) that] p(3,4) assms(4) that by auto
  have part: "result_ok r \<and> ir_TotalUsed r = snd wp"
    if "wp \<in> set ?wps" "comboPart Calculate item units wp = Inr r" for wp r
  proof (rule comboPart_ok [OF assms(1) _ _ _ that(2)])
    have "fst wp \<in> set (ci_ComboWeights item)" "snd wp \<in> set pools"
      using that(1) by (metis prod.collapse set_zip_leftD, metis prod.collapse set_zip_rightD)
    thus "0 \<le> snd wp" "snd wp < 2 ^ 63" "cw_Method (fst wp) \<noteq> MethodCombined"
      using wok bnd by (auto simp: weights_ok_def badWeight_def list_ex_iff)
  qed
  have nn: "\<forall>wp\<in>set ?wps. 0 \<le> snd wp"
    using p(4) by (metis prod.collapse set_zip_rightD)
  have "map snd ?wps = pools" using p(2) by simp
  hence "run = ci_Total item \<and> sum_list (map sh_Rounded per) = run \<and>
      (\<forall>a\<in>set per. 0 \<le> sh_Rounded a) \<and> distinct (map sh_UnitID per)"
    using comboLoop_ok [OF part nn _ _ _ _ l] p(3) assms(4) by simp
  moreover from this have "distinct (map sh_UnitID (sortShares per))"
    by (metis distinct_map distinct_map mset_eq_imp_distinct_iff mset_map mset_sortShares)
  ultimately show ?thesis by (simp add: res result_ok_def sorted_sortShares)
qed


section \<open>Properties of Calculate\<close>

lemma Calculate_ok:
  assumes "units_ok units" and "ci_Total item < 2 ^ 63" and "combo_in_range item"
    and "ci_FixedAmountPerUnit item * int (length units) < 2 ^ 63"
    and "Calculate item units = Inr res"
  shows "ir_Reconciled res \<and> sum_list (map sh_Rounded (ir_Shares res)) = ir_TotalUsed res \<and>
     ir_TotalUsed res = (if ci_Method item = MethodFixed
       then ci_FixedAmountPerUnit item * int (length (participants item units)) else ci_Total item) \<and>
     (\<forall>sh\<in>set (ir_Shares res). 0 \<le> sh_Rounded sh) \<and> sorted (map sh_UnitID (ir_Shares res))"
proof (cases "ci_Method item = MethodCombined")
  case True
  have c: "CalculateStep Calculate item units = Inr res" using assms(5) Calculate_rec by simp
  hence "0 < ci_Total item" "calcCombined Calculate item units = Inr res"
    using True by (auto simp: CalculateStep_def split: if_splits)
  from calcCombined_ok [OF assms(1,3) this(1) assms(2) this(2)]
  show ?thesis using True by (simp add: result_ok_def)
next
  case False
  have "CalculateStep Calculate item units = Inr res" using assms(5) Calculate_rec by simp
  from CalculateStep_simple_ok [OF assms(1,2) False assms(4) this]
  show ?thesis by (simp add: result_ok_def)
qed

text \<open>C25. Reconciliation (BR-09): for units without negative occupants or areas and an item whose
  total, sum of combination weights and fixed amount times number of units are below 2^63,
  whenever the engine returns a result, the rounded shares add up exactly to the amount the
  item distributes, none is negative, they are ordered by unit id, and the result is marked
  reconciled. Without the bound on the weights their int64 sum can wrap to 100, which is
  recorded as a finding.\<close>

theorem Calculate_reconciles:
  assumes "units_ok units" and "ci_Total item < 2 ^ 63" and "combo_in_range item"
    and "ci_FixedAmountPerUnit item * int (length units) < 2 ^ 63"
    and "Calculate item units = Inr res"
  shows "ir_Reconciled res \<and> sum_list (map sh_Rounded (ir_Shares res)) = ir_TotalUsed res \<and>
     ir_TotalUsed res = (if ci_Method item = MethodFixed
       then ci_FixedAmountPerUnit item * int (length (participants item units)) else ci_Total item) \<and>
     (\<forall>sh\<in>set (ir_Shares res). 0 \<le> sh_Rounded sh) \<and> sorted (map sh_UnitID (ir_Shares res))"
  using assms by (rule Calculate_ok)

lemma foldl_addShare_ids:
  "sh_UnitID ` set (foldl addShare acc shs) = sh_UnitID ` set acc \<union> sh_UnitID ` set shs"
  by (induction shs arbitrary: acc) (auto simp: addShare_ids)

text \<open>Every share goes to one of the units.\<close>

lemma distribute_ids:
  "distribute itemID tot els weight = Inr res \<Longrightarrow> sh_UnitID ` set (ir_Shares res) \<subseteq> u_ID ` set els"
  by (auto simp: distribute_def Let_def bindR_Inr_iff intro!: imageI split: if_splits) (rule set_zip_leftD)

lemma calc_simple_ids:
  "calcFixed item units = Inr res \<Longrightarrow> sh_UnitID ` set (ir_Shares res) \<subseteq> u_ID ` set units"
  "calcSpecific item units = Inr res \<Longrightarrow> sh_UnitID ` set (ir_Shares res) \<subseteq> u_ID ` set units"
  using participants_subset [of item units]
  by (force simp: calcFixed_def calcSpecific_def Let_def split: if_splits dest: distribute_ids)+

lemma comboLoop_ids:
  assumes "comboLoop calc item units wps acc run = Inr (acc', run')"
    and "\<And>sub res. calc sub units = Inr res \<Longrightarrow> sh_UnitID ` set (ir_Shares res) \<subseteq> u_ID ` set units"
    and "sh_UnitID ` set acc \<subseteq> u_ID ` set units"
  shows "sh_UnitID ` set acc' \<subseteq> u_ID ` set units"
  using assms
proof (induction wps arbitrary: acc run)
  case (Cons wp wps)
  obtain res where res: "comboPart calc item units wp = Inr res"
    and rest: "comboLoop calc item units wps (foldl addShare acc (ir_Shares res)) (i64 (run + sumShares res)) = Inr (acc', run')"
    using Cons.prems(1) by (auto simp: bindR_Inr_iff)
  have "sh_UnitID ` set (ir_Shares res) \<subseteq> u_ID ` set units"
    using res Cons.prems(2) participants_subset unfolding comboPart_def Let_def
    by (auto split: if_splits dest!: distribute_ids) blast+
  hence "sh_UnitID ` set (foldl addShare acc (ir_Shares res)) \<subseteq> u_ID ` set units"
    using Cons.prems(3) by (simp add: foldl_addShare_ids)
  thus ?case using Cons.IH [OF rest] Cons.prems(2) by blast
qed simp

lemma CalculateN_ids:
  "CalculateN n item units = Inr res \<Longrightarrow> sh_UnitID ` set (ir_Shares res) \<subseteq> u_ID ` set units"
proof (induction n arbitrary: item res)
  case (Suc n)
  have d: "sh_UnitID ` set (ir_Shares res) \<subseteq> u_ID ` set units"
    if "distribute (ci_ID item) (ci_Total item) (participants item units) weight = Inr res" for weight
    using distribute_ids [OF that] participants_subset [of item units] by blast
  have c: "sh_UnitID ` set (ir_Shares res) \<subseteq> u_ID ` set units"
    if comb: "calcCombined (CalculateN n) item units = Inr res"
  proof -
    obtain pools acc run where "comboLoop (CalculateN n) item units (zip (ci_ComboWeights item) pools) [] 0 = Inr (acc, run)"
      and r: "ir_Shares res = sortShares acc"
      using comb by (auto simp: calcCombined_def Let_def bindR_Inr_iff split: if_splits)
    from comboLoop_ids [OF this(1) Suc.IH] show ?thesis by (simp add: r)
  qed
  show ?case using Suc.prems d c calc_simple_ids
    by (auto simp: CalculateStep_def split: if_splits)
qed simp

lemma Calculate_ids: "Calculate item units = Inr res \<Longrightarrow> sh_UnitID ` set (ir_Shares res) \<subseteq> u_ID ` set units"
  unfolding Calculate_def by (rule CalculateN_ids)

definition ex_units :: "Unit list" where
  "ex_units = [\<lparr>u_ID = ''u2'', u_Occupants = 2, u_AreaM2 = 50, u_Vacant = False\<rparr>,
    \<lparr>u_ID = ''u1'', u_Occupants = 3, u_AreaM2 = 70, u_Vacant = False\<rparr>,
    \<lparr>u_ID = ''u3'', u_Occupants = 0, u_AreaM2 = 80, u_Vacant = True\<rparr>]"

definition ex_item :: CostItem where
  "ex_item = \<lparr>ci_ID = ''i'', ci_Total = 1001, ci_Method = MethodCombined, ci_FixedAmountPerUnit = 0,
    ci_ComboWeights = [\<lparr>cw_Method = MethodEqual, cw_Weight = 40, cw_FixedAmountPerUnit = 0\<rparr>,
      \<lparr>cw_Method = MethodPerArea, cw_Weight = 60, cw_FixedAmountPerUnit = 0\<rparr>],
    ci_IncludeVacant = False, ci_UnitIDs = []\<rparr>"


lemma ex_item_calculated:
  "Calculate ex_item ex_units = Inr \<lparr>ir_CostItemID = ''i'', ir_TotalUsed = 1001,
     ir_Shares = [\<lparr>sh_UnitID = ''u1'', sh_Exact = 6607 / 12, sh_Rounded = 551\<rparr>,
       \<lparr>sh_UnitID = ''u2'', sh_Exact = 5405 / 12, sh_Rounded = 450\<rparr>],
     ir_Reconciled = True\<rparr>"
  by code_simp

theorem Calculate_reconciles_witness:
  "\<exists>res. Calculate ex_item ex_units = Inr res \<and> ir_Reconciled res \<and>
     sum_list (map sh_Rounded (ir_Shares res)) = ir_TotalUsed res"
  using Calculate_reconciles [of ex_units ex_item, OF _ _ _ _ ex_item_calculated] ex_item_calculated
  by (simp add: units_ok_def ex_units_def ex_item_def combo_in_range_def)

text \<open>For every method but the combined one the engine fails exactly in the cases that simpleError
  lists, with that error: a nonpositive total, no participant, no selected unit, factors that
  are all zero, an unknown method.\<close>

theorem Calculate_simple_error_iff:
  assumes "units_ok units" and "ci_Total item < 2 ^ 63" and "ci_Method item \<noteq> MethodCombined"
  shows "Calculate item units = Inl e \<longleftrightarrow> simpleError item units = Some e"
  using CalculateStep_simple_error [OF assms] Calculate_rec by simp

theorem Calculate_simple_error_iff_witness:
  "Calculate (ex_item\<lparr>ci_Method := MethodSpecificUnits\<rparr>) ex_units = Inl ErrSpecificUnitsEmpty"
  by (subst Calculate_simple_error_iff)
     (simp_all add: units_ok_def ex_units_def ex_item_def simpleError_def)

definition engineWeight :: "CostItem \<Rightarrow> Unit \<Rightarrow> rat" where
  "engineWeight item u = (if ci_Method item = MethodPerOccupant then of_int (u_Occupants u)
     else if ci_Method item = MethodPerArea then of_int (u_AreaM2 u) else 1)"

definition engineUnits :: "CostItem \<Rightarrow> Unit list \<Rightarrow> Unit list" where
  "engineUnits item units = (if ci_Method item = MethodSpecificUnits
     then filter (\<lambda>u. u_ID u \<in> set (ci_UnitIDs item)) units else participants item units)"

text \<open>C35. The proportional methods agree with the reference definition: the exact shares are, up to
  order, total times weight over the sum of the weights of the participating units, and each
  rounded share differs from its exact share by less than one.\<close>

theorem Calculate_proportional:
  assumes "units_ok units" and "ci_Total item < 2 ^ 63"
    and "ci_Method item \<noteq> MethodCombined" and "ci_Method item \<noteq> MethodFixed"
    and "Calculate item units = Inr res"
  shows "mset (map (\<lambda>sh. (sh_UnitID sh, sh_Exact sh)) (ir_Shares res)) =
      mset (map (\<lambda>u. (u_ID u, of_int (ci_Total item) * engineWeight item u /
        sum_list (map (engineWeight item) (engineUnits item units)))) (engineUnits item units)) \<and>
     (\<forall>sh\<in>set (ir_Shares res). \<bar>of_int (sh_Rounded sh) - sh_Exact sh\<bar> < 1)"
proof -
  let ?els = "engineUnits item units" and ?w = "engineWeight item"
  have c: "CalculateStep Calculate item units = Inr res" using assms(5) Calculate_rec by simp
  have t: "0 \<le> ci_Total item" using c assms(4) by (auto simp: CalculateStep_def split: if_splits)
  have w: "\<forall>u\<in>set ?els. 0 \<le> ?w u"
    using assms(1) by (auto simp: units_ok_def engineWeight_def engineUnits_def participants_def)
  have d: "distribute (ci_ID item) (ci_Total item) ?els ?w = Inr res"
    using c assms(3,4) by (auto simp: CalculateStep_def calcSpecific_def Let_def engineWeight_def [abs_def]
        engineUnits_def split: if_splits)
  have "\<bar>rat_of_int r - e\<bar> < 1" if "e - 1 < of_int r" "rat_of_int r < e + 1" for r e using that by linarith
  thus ?thesis using distribute_success [OF d w t assms(2)] by (simp add: shares_close_def)
qed

theorem Calculate_proportional_witness:
  "\<exists>res. Calculate (ex_item\<lparr>ci_Method := MethodPerArea\<rparr>) ex_units = Inr res \<and>
     mset (map (\<lambda>sh. (sh_UnitID sh, sh_Exact sh)) (ir_Shares res)) =
       {#(''u2'', 5005 / 12), (''u1'', 7007 / 12)#}"
proof -
  let ?item = "ex_item\<lparr>ci_Method := MethodPerArea\<rparr>"
  obtain res where r: "Calculate ?item ex_units = Inr res"
    using Calculate_rec [of ?item ex_units] CalculateStep_simple_error [of ex_units ?item Calculate]
    by (cases "Calculate ?item ex_units")
       (auto simp: units_ok_def ex_units_def ex_item_def simpleError_def participants_def Let_def)
  from Calculate_proportional [OF _ _ _ _ r] show ?thesis using r
    by (simp add: units_ok_def ex_units_def ex_item_def engineUnits_def engineWeight_def participants_def)
qed

text \<open>The errors of an item that is not combined, and of a part of a combined item.\<close>

definition partErrors :: "go_error set" where
  "partErrors = {ErrNoParticipants, ErrZeroFactor, ErrSpecificUnitsEmpty, ErrNonPositiveTotal, ErrUnknownMethod}"

lemma simpleError_range: "simpleError item units = Some e \<Longrightarrow> e \<in> partErrors"
  by (auto simp: simpleError_def Let_def partErrors_def split: if_splits)

lemma comboPart_error:
  assumes "units_ok units" "0 \<le> snd wp" "snd wp < 2 ^ 63" "cw_Method (fst wp) \<noteq> MethodCombined" "comboPart Calculate item units wp = Inl e"
  shows "e \<in> partErrors"
proof (cases "cw_Method (fst wp) = MethodFixed")
  case True
  thus ?thesis using distribute_error [OF _ assms(2,3), of _ "\<lambda>_. 1"] assms(5) by (auto simp: comboPart_def Let_def partErrors_def)
next
  case False
  let ?sub = "subItem item (fst wp) (snd wp)"
  have "CalculateStep Calculate ?sub units = Inl e" using assms(5) False Calculate_rec [of ?sub units] by (simp add: comboPart_def)
  hence "simpleError ?sub units = Some e" using CalculateStep_simple_error [OF assms(1), of ?sub Calculate e] assms(3,4) by (simp add: subItem_def)
  thus ?thesis by (rule simpleError_range)
qed

lemma comboLoop_error:
  "comboLoop calc item units wps acc run = Inl e \<Longrightarrow> \<exists>wp\<in>set wps. comboPart calc item units wp = Inl e"
proof (induction wps arbitrary: acc run)
  case (Cons wp wps)
  thus ?case by (cases "comboPart calc item units wp") auto
qed simp

lemma calcCombined_error:
  assumes "units_ok units" "ci_Total item < 2 ^ 63" "combo_in_range item" "0 < ci_Total item" "weights_ok item" "calcCombined Calculate item units = Inl e"
  shows "e \<in> partErrors"
proof -
  obtain pools where p: "poolsOf item = Inr pools" "sum_list pools = ci_Total item" "\<forall>p\<in>set pools. 0 \<le> p"
    using poolsOf_ok [OF assms(5,3) _ assms(2)] assms(4) by auto
  have "comboLoop Calculate item units (zip (ci_ComboWeights item) pools) [] 0 = Inl e"
    using assms(5,6) p(1) by (auto simp: calcCombined_def weights_ok_def poolsOf_def Let_def bindR_def split: sum.splits)
  then obtain wp where wp: "wp \<in> set (zip (ci_ComboWeights item) pools)" "comboPart Calculate item units wp = Inl e" using comboLoop_error by blast
  have m: "fst wp \<in> set (ci_ComboWeights item)" "snd wp \<in> set pools"
    using wp(1) by (metis prod.collapse set_zip_leftD, metis prod.collapse set_zip_rightD)
  have "0 \<le> snd wp" "snd wp < 2 ^ 63" "cw_Method (fst wp) \<noteq> MethodCombined"
    using m assms(2,5) p(2,3) elem_le_sum_list_nonneg [OF p(3) m(2)] by (auto simp: weights_ok_def badWeight_def list_ex_iff)
  from comboPart_error [OF assms(1) this wp(2)] show ?thesis .
qed

text \<open>C36. Every failure of the engine is one of its declared errors, so that it never panics and the
  rounding never indexes out of range: an item that is not combined fails exactly with the
  error that simpleError determines from it, the error of bad weights is that of a combined
  item with a positive total whose weights are rejected, and every other failure of a combined
  item is one of the other declared errors. It assumes units without negative occupants or
  areas, a total below 2^63 and combination weights whose sum does not wrap.\<close>

theorem Calculate_no_panic:
  assumes "units_ok units" and "ci_Total item < 2 ^ 63" and "combo_in_range item" and "Calculate item units = Inl e"
  shows "e \<in> {ErrNoParticipants, ErrZeroFactor, ErrSpecificUnitsEmpty, ErrNonPositiveTotal, ErrUnknownMethod, ErrBadWeights} \<and> e \<noteq> Panic msg \<and>
     (ci_Method item \<noteq> MethodCombined \<longrightarrow> simpleError item units = Some e) \<and>
     (e = ErrBadWeights \<longleftrightarrow> ci_Method item = MethodCombined \<and> 0 < ci_Total item \<and> \<not> weights_ok item)"
proof -
  have c: "CalculateStep Calculate item units = Inl e" using assms(4) Calculate_rec by simp
  consider (simple) "ci_Method item \<noteq> MethodCombined" "simpleError item units = Some e"
    | (nonpos) "ci_Method item = MethodCombined" "ci_Total item \<le> 0" "e = ErrNonPositiveTotal"
    | (bad) "ci_Method item = MethodCombined" "0 < ci_Total item" "\<not> weights_ok item" "e = ErrBadWeights"
    | (part) "ci_Method item = MethodCombined" "0 < ci_Total item" "weights_ok item" "calcCombined Calculate item units = Inl e"
    using c CalculateStep_simple_error [OF assms(1,2), of Calculate e] calcCombined_bad [of item Calculate units]
    by (cases "ci_Method item = MethodCombined"; cases "0 < ci_Total item"; cases "weights_ok item") (auto simp: CalculateStep_def)
  thus ?thesis
  proof cases
    case simple
    thus ?thesis using simpleError_range [OF simple(2)] by (auto simp: partErrors_def engine_errors)
  next
    case part
    have "e \<in> partErrors" by (rule calcCombined_error [OF assms(1-3) part(2-4)])
    thus ?thesis using part(1,3) by (auto simp: partErrors_def engine_errors)
  qed (auto simp: engine_errors)
qed

theorem Calculate_no_panic_witness:
  "Calculate (ex_item\<lparr>ci_ComboWeights := []\<rparr>) ex_units = Inl ErrBadWeights \<and> ci_Method ex_item = MethodCombined \<and> 0 < ci_Total ex_item"
proof -
  have run: "Calculate (ex_item\<lparr>ci_ComboWeights := []\<rparr>) ex_units = Inl ErrBadWeights" by code_simp
  have "units_ok ex_units" "ci_Total (ex_item\<lparr>ci_ComboWeights := []\<rparr>) < 2 ^ 63" "combo_in_range (ex_item\<lparr>ci_ComboWeights := []\<rparr>)"
    by (simp_all add: units_ok_def ex_units_def ex_item_def combo_in_range_def)
  from Calculate_no_panic [OF this run, of "''''"] run show ?thesis by simp
qed

lemma comboLoop_exact:
  "comboLoop calc item units wps acc run = Inr (per, run') \<Longrightarrow>
   \<exists>parts. map (comboPart calc item units) wps = map Inr parts \<and>
     exactOf uid per = exactOf uid acc + (\<Sum>p\<leftarrow>parts. exactOf uid (ir_Shares p))"
proof (induction wps arbitrary: acc run)
  case (Cons wp wps)
  obtain res where r: "comboPart calc item units wp = Inr res"
    using Cons(2) by (cases "comboPart calc item units wp") auto
  obtain parts where p: "map (comboPart calc item units) wps = map Inr parts"
    "exactOf uid per = exactOf uid (foldl addShare acc (ir_Shares res)) + (\<Sum>p\<leftarrow>parts. exactOf uid (ir_Shares p))"
    using Cons(1) Cons(2) r by auto
  show ?case using p r by (intro exI [of _ "res # parts"]) (simp add: exactOf_foldl)
qed simp

lemma exactOf_sortShares [simp]: "exactOf uid (sortShares shs) = exactOf uid shs"
  by (simp add: exactOf_def flip: sum_mset_sum_list)

text \<open>The combined method is the sum of its parts: the exact share of a unit is the sum of its
  exact shares in the sub-calculations of the weighted pools.\<close>

theorem Calculate_combined_exact:
  assumes "ci_Method item = MethodCombined" and "Calculate item units = Inr res"
  shows "\<exists>pools parts. poolsOf item = Inr pools \<and>
     map (comboPart Calculate item units) (zip (ci_ComboWeights item) pools) = map Inr parts \<and>
     (\<forall>uid. exactOf uid (ir_Shares res) = (\<Sum>p\<leftarrow>parts. exactOf uid (ir_Shares p)))"
proof -
  have c: "calcCombined Calculate item units = Inr res"
    using assms Calculate_rec [of item units] by (auto simp: CalculateStep_def split: if_splits)
  hence wok: "weights_ok item" using calcCombined_bad by (metis sum.distinct(1))
  obtain pools per run where p: "poolsOf item = Inr pools"
    and l: "comboLoop Calculate item units (zip (ci_ComboWeights item) pools) [] 0 = Inr (per, run)"
    and res: "ir_Shares res = sortShares per"
    using c wok by (auto simp: calcCombined_def weights_ok_def Let_def poolsOf_def bindR_Inr_iff)
  have inj: "map Inr (ps :: ItemResult list) = (map Inr qs :: (go_error + ItemResult) list) \<longleftrightarrow> ps = qs" for ps qs
    by (simp add: inj_map_eq_map)
  have "\<exists>parts. map (comboPart Calculate item units) (zip (ci_ComboWeights item) pools) = map Inr parts \<and>
      exactOf uid per = (\<Sum>p\<leftarrow>parts. exactOf uid (ir_Shares p))" for uid
    using comboLoop_exact [OF l, of uid] by (simp add: exactOf_def)
  thus ?thesis using p inj unfolding res exactOf_sortShares by metis
qed

theorem Calculate_combined_exact_witness:
  "\<exists>pools parts. poolsOf ex_item = Inr pools \<and>
     map (comboPart Calculate ex_item ex_units) (zip (ci_ComboWeights ex_item) pools) = map Inr parts \<and>
     6607 / 12 = (\<Sum>p\<leftarrow>parts. exactOf ''u1'' (ir_Shares p))"
proof -
  have "exactOf ''u1'' (ir_Shares \<lparr>ir_CostItemID = ''i'', ir_TotalUsed = 1001,
     ir_Shares = [\<lparr>sh_UnitID = ''u1'', sh_Exact = 6607 / 12, sh_Rounded = 551\<rparr>,
       \<lparr>sh_UnitID = ''u2'', sh_Exact = 5405 / 12, sh_Rounded = 450\<rparr>],
     ir_Reconciled = True\<rparr>) = 6607 / 12" by (simp add: exactOf_def)
  moreover have "ci_Method ex_item = MethodCombined" by (simp add: ex_item_def)
  ultimately show ?thesis using Calculate_combined_exact [OF _ ex_item_calculated] by metis
qed

lemma comboLoop_fails:
  "wp \<in> set wps \<Longrightarrow> (\<And>res. comboPart calc item units wp \<noteq> Inr res) \<Longrightarrow>
   comboLoop calc item units wps acc run \<noteq> Inr r"
proof (induction wps arbitrary: acc run)
  case (Cons w wps)
  thus ?case by (cases "comboPart calc item units w") auto
qed simp

text \<open>A combined item with a specific-units part always fails although the combination is accepted
  on input: the sub-item loses the unit list.\<close>

theorem combined_specific_units_fails:
  assumes "ci_Method item = MethodCombined" and "w \<in> set (ci_ComboWeights item)"
    and "cw_Method w = MethodSpecificUnits" and "units_ok units" and "ci_Total item < 2 ^ 63"
    and "combo_in_range item"
  shows "\<exists>e. Calculate item units = Inl e"
proof (rule ccontr)
  assume "\<nexists>e. Calculate item units = Inl e"
  then obtain res where "Calculate item units = Inr res" by (metis sumE)
  hence c: "calcCombined Calculate item units = Inr res" and pos: "0 < ci_Total item"
    using assms Calculate_rec [of item units] by (auto simp: CalculateStep_def split: if_splits)
  hence wok: "weights_ok item" using calcCombined_bad by (metis sum.distinct(1))
  obtain pools where p: "poolsOf item = Inr pools" "length pools = length (ci_ComboWeights item)"
    using poolsOf_ok [OF wok assms(6) _ assms(5)] pos by auto
  obtain per run where l: "comboLoop Calculate item units (zip (ci_ComboWeights item) pools) [] 0 = Inr (per, run)"
    using c wok p(1) by (auto simp: calcCombined_def weights_ok_def Let_def poolsOf_def bindR_Inr_iff)
  obtain pool where wp: "(w, pool) \<in> set (zip (ci_ComboWeights item) pools)"
    using assms(2) p(2) by (metis in_set_impl_in_set_zip1)
  have "comboPart Calculate item units (w, pool) \<noteq> Inr r" for r
    using assms(3) Calculate_rec [of "subItem item w pool" units]
    by (simp add: comboPart_def CalculateStep_def calcSpecific_def subItem_def)
  thus False using comboLoop_fails [OF wp] l by blast
qed

definition ex_combo_specific :: CostItem where
  "ex_combo_specific = ex_item\<lparr>ci_ComboWeights :=
     [\<lparr>cw_Method = MethodSpecificUnits, cw_Weight = 100, cw_FixedAmountPerUnit = 0\<rparr>],
     ci_UnitIDs := [''u1'']\<rparr>"

theorem combined_specific_units_fails_witness: "\<exists>e. Calculate ex_combo_specific ex_units = Inl e"
  by (rule combined_specific_units_fails [where w = "\<lparr>cw_Method = MethodSpecificUnits, cw_Weight = 100, cw_FixedAmountPerUnit = 0\<rparr>"])
     (simp_all add: ex_combo_specific_def ex_item_def ex_units_def units_ok_def combo_in_range_def)

definition ex_tie :: "Unit list" where
  "ex_tie = [\<lparr>u_ID = ''b'', u_Occupants = 1, u_AreaM2 = 50, u_Vacant = False\<rparr>,
             \<lparr>u_ID = ''a'', u_Occupants = 1, u_AreaM2 = 50, u_Vacant = False\<rparr>]"

definition ex_equal :: CostItem where
  "ex_equal = ex_item\<lparr>ci_Method := MethodEqual\<rparr>"

text \<open>Equal fractional remainders are resolved in favour of the first unit in the order of the
  input, not of the smallest unit id.\<close>

lemma tie_break_follows_input_order:
  "map sh_Rounded (case Calculate ex_equal ex_tie of Inr r \<Rightarrow> ir_Shares r | Inl _ \<Rightarrow> []) = [500, 501] \<and>
   map sh_Rounded (case Calculate ex_equal (rev ex_tie) of Inr r \<Rightarrow> ir_Shares r | Inl _ \<Rightarrow> []) = [501, 500]"
  by code_simp

section \<open>Late fee: rounding and accuracy\<close>

lemma roundRat_nonneg:
  assumes "0 \<le> r" "r < 2 ^ 62"
  shows "roundRat r = \<lfloor>r + 1 / 2\<rfloor>"
proof -
  let ?f = "\<lfloor>r\<rfloor>"
  have fr: "of_int ?f \<le> r" "r < of_int ?f + 1" using floor_correct [of r] by simp_all
  have b: "0 \<le> ?f" "?f < 2 ^ 62" using assms by (simp_all add: floor_less_iff)
  have q: "ratQuo r = ?f" using assms(1) by (rule ratQuo_floor)
  show ?thesis
  proof (cases "r - of_int ?f \<ge> 1 / 2")
    case True
    hence "\<lfloor>r + 1 / 2\<rfloor> = ?f + 1" using fr by (intro floor_unique) (simp, linarith)+
    moreover have "in64 (?f + 1)" using b by (simp add: in64_def)
    ultimately show ?thesis using True by (simp add: roundRat_def q)
  next
    case False
    hence "\<lfloor>r + 1 / 2\<rfloor> = ?f" using fr by (intro floor_unique) linarith+
    moreover have "in64 ?f" using b by (simp add: in64_def)
    ultimately show ?thesis using False by (simp add: roundRat_def q)
  qed
qed

lemma roundRat_close:
  assumes "0 \<le> r" "r < 2 ^ 62"
  shows "\<bar>of_int (roundRat r) - r\<bar> \<le> 1 / 2" "0 \<le> roundRat r"
proof -
  have "of_int \<lfloor>r + 1 / 2\<rfloor> \<le> r + 1 / 2" "r + 1 / 2 < of_int \<lfloor>r + 1 / 2\<rfloor> + 1"
    using floor_correct [of "r + 1 / 2"] by simp_all
  thus "\<bar>of_int (roundRat r) - r\<bar> \<le> 1 / 2" unfolding roundRat_nonneg [OF assms] by linarith
  show "0 \<le> roundRat r" unfolding roundRat_nonneg [OF assms] using assms(1) by simp
qed

lemma roundHalfEven_close: "\<bar>of_int (roundHalfEven r) - r\<bar> \<le> 1 / 2"
proof -
  have "of_int \<lfloor>r\<rfloor> \<le> r" "r < of_int \<lfloor>r\<rfloor> + 1" using floor_correct [of r] by simp_all
  thus ?thesis unfolding roundHalfEven_def Let_def by (auto simp only: abs_if split: if_splits; linarith)
qed

lemma pow2_powi: "pow2 k = 2 powi k"
  by (simp add: pow2_def power_int_def power_one_over inverse_eq_divide)

lemma pow2_pos [simp]: "0 < pow2 k"
  by (simp add: pow2_powi)

lemma ratLog2_le:
  assumes "0 < r" shows "pow2 (ratLog2 r) \<le> r"
proof -
  obtain n d where q: "quotient_of r = (n, d)" by fastforce
  have d: "0 < d" using quotient_of_denom_pos [OF q] .
  have r: "r = of_int n / of_int d" using quotient_of_div [OF q] .
  hence n: "0 < n" using assms d by (simp add: zero_less_divide_iff)
  let ?k = "bitlen n - bitlen d"
  have bl: "0 < bitlen n" "0 < bitlen d" using n d bitlen_nonneg [of n] bitlen_nonneg [of d]
      bitlen_eq_zero_iff [of n] bitlen_eq_zero_iff [of d] by linarith+
  have "2 ^ nat (bitlen n - 1) \<le> n" using bitlen_bounds [of n] n by simp
  hence "(2 :: rat) ^ nat (bitlen n - 1) \<le> of_int n"
    by (metis of_int_le_iff of_int_numeral of_int_power)
  hence a: "pow2 (bitlen n - 1) \<le> of_int n" using bl by (simp add: pow2_def)
  have "d < 2 ^ nat (bitlen d)" using bitlen_bounds [of d] d by simp
  hence "of_int d < (2 :: rat) ^ nat (bitlen d)"
    by (metis of_int_less_iff of_int_numeral of_int_power)
  hence b: "of_int d \<le> pow2 (bitlen d)" using bl by (simp add: pow2_def)
  have "pow2 (?k - 1) * pow2 (bitlen d) = pow2 (bitlen n - 1)"
    by (simp add: pow2_powi power_int_add [symmetric])
  hence "pow2 (?k - 1) * of_int d \<le> of_int n"
    using a b by (metis mult_le_cancel_left_pos order_trans pow2_pos)
  hence "pow2 (?k - 1) \<le> r" using d by (simp add: r pos_le_divide_eq)
  thus ?thesis by (simp add: ratLog2_def q Let_def)
qed

lemma f64Round_close:
  assumes "0 < r" shows "\<bar>f64Round r - r\<bar> \<le> r / 2 ^ 53 + 1 / 2 ^ 1075"
proof -
  define p where "p = max (ratLog2 r - 52) (- 1074)"
  have "\<bar>of_int (roundHalfEven (r / pow2 p)) - r / pow2 p\<bar> * pow2 p \<le> 1 / 2 * pow2 p"
    by (intro mult_right_mono roundHalfEven_close) (simp add: less_imp_le)
  moreover have "(of_int (roundHalfEven (r / pow2 p)) - r / pow2 p) * pow2 p = f64Round r - r"
    using assms pow2_pos [of p, THEN less_imp_neq] by (simp add: f64Round_def p_def [symmetric] Let_def algebra_simps)
  hence "\<bar>of_int (roundHalfEven (r / pow2 p)) - r / pow2 p\<bar> * pow2 p = \<bar>f64Round r - r\<bar>"
    using pow2_pos [of p] by (metis abs_mult abs_of_pos)
  ultimately have e: "\<bar>f64Round r - r\<bar> \<le> pow2 p / 2" by simp
  show ?thesis
  proof (cases "p = - 1074")
    case True
    hence "pow2 p / 2 = 1 / 2 ^ 1075" by (simp add: pow2_def)
    hence "pow2 p / 2 \<le> r / 2 ^ 53 + 1 / 2 ^ 1075"
      using assms by (intro add_increasing) simp_all
    thus ?thesis using e by (rule order_trans [rotated])
  next
    case False
    hence "p = ratLog2 r - 52" by (simp add: p_def max_def split: if_splits)
    hence "pow2 p = pow2 (ratLog2 r) / 2 ^ 52" by (simp add: pow2_powi power_int_diff)
    hence "pow2 p / 2 = pow2 (ratLog2 r) / 2 ^ 53" by simp
    also have "... \<le> r / 2 ^ 53" using ratLog2_le [OF assms] by (simp add: divide_right_mono)
    finally show ?thesis using e by (simp add: add_increasing2)
  qed
qed


lemma f64Round_nonneg: "0 < r \<Longrightarrow> 0 \<le> f64Round r"
proof -
  assume r: "0 < r"
  have "0 \<le> roundHalfEven x" if "0 \<le> x" for x
    using that by (simp add: roundHalfEven_def Let_def)
  thus ?thesis using r by (simp add: f64Round_def Let_def less_imp_le)
qed

text \<open>The late fee rules on every branch: none is zero, a fixed fee is the rounded value whatever
  the base, a daily fee is proportional to the days, negative days count as zero, an unknown
  kind is an error.\<close>

theorem LateFee_rules:
  assumes "0 \<le> val" and "val < 2 ^ 62"
  shows "LateFee LateFeeNone val base days = Inr 0 \<and>
     LateFee LateFeeFixed val base days = Inr \<lfloor>val + 1 / 2\<rfloor> \<and>
     LateFee LateFeePerDay val base days = Inr (i64 (max 0 days * \<lfloor>val + 1 / 2\<rfloor>)) \<and>
     ((LateFee kind val base days = Inl ErrUnknownLateFee) \<longleftrightarrow>
        kind \<notin> {LateFeeNone, LateFeeFixed, LateFeePercent, LateFeePerDay})"
  using roundRat_nonneg [OF assms] by (auto simp: LateFee_def Let_def)

text \<open>The percent late fee is within one Toman of the exact percentage as long as the base amount
  is small enough for the error of the floating-point division.\<close>

theorem LateFee_percent_accuracy:
  assumes "0 \<le> base" and "base < 2 ^ 63" and "0 \<le> val" and "of_int base * val / 100 \<le> 2 ^ 51"
  shows "\<exists>fee. LateFee LateFeePercent val base days = Inr fee \<and> 0 \<le> fee \<and>
     \<bar>of_int fee - of_int base * val / 100\<bar> < 1"
proof (cases "val = 0")
  case True
  thus ?thesis using roundRat_nonneg [of 0] by (simp add: LateFee_def f64Round_def)
next
  case False
  let ?r = "val / 100" and ?B = "rat_of_int base"
  have r: "0 < ?r" using False assms(3) by simp
  have B: "0 \<le> ?B" "?B \<le> 2 ^ 63" using assms(1,2) of_int_le_iff [of base "2 ^ 63"] by simp_all
  have "\<bar>?B * f64Round ?r - ?B * ?r\<bar> = ?B * \<bar>f64Round ?r - ?r\<bar>"
    using B(1) by (metis abs_mult abs_of_nonneg right_diff_distrib)
  also have "... \<le> ?B * (?r / 2 ^ 53 + 1 / 2 ^ 1075)"
    by (intro mult_left_mono f64Round_close r B)
  also have "... = ?B * ?r / 2 ^ 53 + ?B / 2 ^ 1075" by (simp add: distrib_left)
  also have "... \<le> 2 ^ 51 / 2 ^ 53 + 2 ^ 63 / 2 ^ 1075"
    using assms(4) B(2) by (intro add_mono divide_right_mono) simp_all
  also have "... < 1 / 2" by simp
  finally have e: "\<bar>?B * f64Round ?r - ?B * ?r\<bar> < 1 / 2" .
  have f0: "0 \<le> ?B * f64Round ?r" using B f64Round_nonneg [OF r] by simp
  have "?B * ?r \<le> 2 ^ 51" using assms(4) by simp
  moreover have "?B * f64Round ?r < ?B * ?r + 1 / 2" using e by linarith
  ultimately have "?B * f64Round ?r < 2 ^ 51 + 1 / 2" by (meson add_right_mono less_le_trans)
  also have "... < 2 ^ 62" by simp
  finally have "?B * f64Round ?r < 2 ^ 62" .
  note c = roundRat_close [OF f0 this]
  have "\<bar>of_int (roundRat (?B * f64Round ?r)) - ?B * ?r\<bar> < 1" using c(1) e by linarith
  thus ?thesis using c(2) by (simp add: LateFee_def)
qed

theorem LateFee_rules_witness:
  "LateFee LateFeeFixed (5 / 2) 0 0 = Inr 3 \<and> LateFee LateFeePerDay (5 / 2) 0 4 = Inr 12"
  using LateFee_rules [of "5 / 2" 0 0] LateFee_rules [of "5 / 2" 0 4] by (simp add: in64_def)

theorem LateFee_percent_accuracy_witness:
  "\<exists>fee. LateFee LateFeePercent 15 10 0 = Inr fee \<and> 0 \<le> fee \<and> \<bar>of_int fee - 3 / 2 :: rat\<bar> < 1"
  using LateFee_percent_accuracy [of 10 15 0] by simp

text \<open>A negative late fee value with fractional part one half is rounded towards zero.\<close>

lemma LateFee_half_not_away_from_zero:
  "LateFee LateFeePercent 15 10 0 = Inr 1 \<and> LateFee LateFeeFixed (- 5 / 2) 10 0 = Inr (- 2)"
  by code_simp

end
