(* ===== verification/GoStd.thy ===== *)
theory GoStd
  imports Prelude
begin

text \<open>
  The parts of Go's standard library that the modelled code uses on strings and
  numbers: \<open>strconv.FormatInt\<close> and \<open>strconv.ParseInt\<close> in base 10, \<open>fmt.Sprintf\<close> with \<open>%04d\<close>,
  \<open>big.Rat.FloatString\<close>, prefix tests and character removal. Strings are lists of 8-bit
  characters.
\<close>

section \<open>Decimal numerals\<close>

definition digitChar :: "nat \<Rightarrow> char" where
  "digitChar d = char_of (48 + d)"

definition charDigit :: "char \<Rightarrow> nat" where
  "charDigit c = of_char c - 48"

definition isDigit :: "char \<Rightarrow> bool" where
  "isDigit c \<longleftrightarrow> 48 \<le> (of_char c :: nat) \<and> (of_char c :: nat) \<le> 57"

fun showNat :: "nat \<Rightarrow> string" where
  "showNat n = (if n < 10 then [digitChar n] else showNat (n div 10) @ [digitChar (n mod 10)])"

declare showNat.simps [simp del]

definition showInt :: "int \<Rightarrow> string" where
  "showInt x = (if x < 0 then CHR ''-'' # showNat (nat (- x)) else showNat (nat x))"

definition readNat :: "string \<Rightarrow> nat" where
  "readNat s = foldl (\<lambda>a c. 10 * a + charDigit c) 0 s"

text \<open>\<open>strconv.ParseInt(s, 10, 64)\<close>: \<open>None\<close> for a syntax or a range error.\<close>

definition parseDigits :: "string \<Rightarrow> nat option" where
  "parseDigits s = (if s = [] \<or> \<not> list_all isDigit s then None else Some (readNat s))"

definition parseInt64 :: "string \<Rightarrow> int option" where
  "parseInt64 s =
     (let neg = (s \<noteq> [] \<and> hd s = CHR ''-'');
          body = (if s \<noteq> [] \<and> (hd s = CHR ''-'' \<or> hd s = CHR ''+'') then tl s else s)
      in case parseDigits body of None \<Rightarrow> None
         | Some n \<Rightarrow> let v = (if neg then - int n else int n)
                     in if in64 v then Some v else None)"

text \<open>\<open>fmt.Sprintf("%04d", x)\<close>.\<close>

definition pad0 :: "nat \<Rightarrow> string \<Rightarrow> string" where
  "pad0 w s = replicate (w - length s) (CHR ''0'') @ s"

definition sprintf04d :: "int \<Rightarrow> string" where
  "sprintf04d x = (if x < 0 then CHR ''-'' # pad0 3 (showNat (nat (- x))) else pad0 4 (showNat (nat x)))"

text \<open>\<open>big.Rat.FloatString(4)\<close>: four decimals, the last one rounded half away from zero.\<close>

definition floatString4 :: "rat \<Rightarrow> string" where
  "floatString4 x =
     (case quotient_of x of (n, d) \<Rightarrow>
        let q = \<bar>n\<bar> div d; r = (\<bar>n\<bar> mod d) * 10000;
            f = r div d; r2 = r mod d;
            f' = (if r2 + r2 \<ge> d then f + 1 else f);
            q' = (if f' \<ge> 10000 then q + 1 else q);
            f'' = (if f' \<ge> 10000 then f' - 10000 else f')
        in (if n < 0 then ''-'' else []) @ showNat (nat q') @ ''.'' @ pad0 4 (showNat (nat f'')))"

section \<open>Strings\<close>

definition hasPrefix :: "string \<Rightarrow> string \<Rightarrow> bool" where
  "hasPrefix s p \<longleftrightarrow> take (length p) s = p"

definition removeChar :: "char \<Rightarrow> string \<Rightarrow> string" where
  "removeChar c s = filter (\<lambda>d. d \<noteq> c) s"

section \<open>Round trip of decimal numerals\<close>

lemma digitChar_simps [simp]:
  assumes "d < 10"
  shows "isDigit (digitChar d)" "charDigit (digitChar d) = d"
  using assms by (simp_all add: isDigit_def digitChar_def charDigit_def)

lemma showNat_digits: "list_all isDigit (showNat n)"
  by (induction n rule: showNat.induct) (subst showNat.simps, simp)

lemma showNat_nonempty [simp]: "showNat n \<noteq> []"
  by (subst showNat.simps) simp

lemma readNat_snoc: "readNat (s @ [c]) = 10 * readNat s + charDigit c"
  by (simp add: readNat_def)

lemma readNat_showNat [simp]: "readNat (showNat n) = n"
proof (induction n rule: showNat.induct)
  case (1 n)
  show ?case
  proof (cases "n < 10")
    case True
    thus ?thesis by (subst showNat.simps) (simp add: readNat_def)
  next
    case False
    have "readNat (showNat n) = 10 * (n div 10) + n mod 10"
      by (subst showNat.simps) (use False 1 in \<open>simp add: readNat_snoc\<close>)
    thus ?thesis by simp
  qed
qed

lemma showNat_inj: "showNat m = showNat n \<longleftrightarrow> m = n"
  by (metis readNat_showNat)

lemma parseDigits_showNat [simp]: "parseDigits (showNat n) = Some n"
  using showNat_digits by (simp add: parseDigits_def)

lemma hd_showNat: "hd (showNat n) \<noteq> CHR ''-''" "hd (showNat n) \<noteq> CHR ''+''"
proof -
  have "isDigit (hd (showNat n))"
    using showNat_digits [of n] showNat_nonempty [of n] by (cases "showNat n") auto
  thus "hd (showNat n) \<noteq> CHR ''-''" "hd (showNat n) \<noteq> CHR ''+''" by (auto simp: isDigit_def)
qed

lemma parseInt64_showInt [simp]: "in64 x \<Longrightarrow> parseInt64 (showInt x) = Some x"
  using hd_showNat by (auto simp: parseInt64_def showInt_def Let_def)

lemma readNat_zeros: "readNat (replicate k (CHR ''0'') @ s) = readNat s"
proof -
  have "foldl (\<lambda>a c. 10 * a + charDigit c) 0 (replicate k (CHR ''0'')) = 0"
    by (induction k) (simp_all add: charDigit_def)
  thus ?thesis by (simp add: readNat_def)
qed

lemma sprintf04d_inj: "0 \<le> x \<Longrightarrow> 0 \<le> y \<Longrightarrow> sprintf04d x = sprintf04d y \<longleftrightarrow> x = y"
  by (metis sprintf04d_def pad0_def linorder_not_less nat_0_le readNat_showNat readNat_zeros)

lemma list_all_isDigit_sprintf04d: "0 \<le> x \<Longrightarrow> list_all isDigit (sprintf04d x)"
  using showNat_digits by (auto simp: sprintf04d_def pad0_def list_all_iff isDigit_def)

section \<open>Substrings and URLs\<close>

definition isInfixOf :: "string \<Rightarrow> string \<Rightarrow> bool" where
  "isInfixOf p s \<longleftrightarrow> list_ex (\<lambda>i. hasPrefix (drop i s) p) [0..<Suc (length s)]"

text \<open>\<open>strings.TrimRight(s, "/")\<close>.\<close>

definition trimRightChar :: "char \<Rightarrow> string \<Rightarrow> string" where
  "trimRightChar c s = rev (dropWhile (\<lambda>x. x = c) (rev s))"

text \<open>\<open>url.QueryEscape\<close>.\<close>

definition isAlnum :: "char \<Rightarrow> bool" where
  "isAlnum c \<longleftrightarrow> (let n = (of_char c :: nat) in (48 \<le> n \<and> n \<le> 57) \<or> (65 \<le> n \<and> n \<le> 90) \<or> (97 \<le> n \<and> n \<le> 122))"

definition hexDigit :: "nat \<Rightarrow> char" where
  "hexDigit d = (if d < 10 then char_of (48 + d) else char_of (55 + d))"

definition unreserved :: "char \<Rightarrow> bool" where
  "unreserved c \<longleftrightarrow> isAlnum c \<or> c \<in> {CHR ''-'', CHR ''_'', CHR ''.'', CHR ''~''}"

definition escapeChar :: "char \<Rightarrow> string" where
  "escapeChar c = (if unreserved c then [c] else if c = CHR '' '' then ''+''
     else [CHR 0x25, hexDigit (of_char c div 16), hexDigit (of_char c mod 16)])"

definition queryEscape :: "string \<Rightarrow> string" where
  "queryEscape s = concat (map escapeChar s)"

text \<open>\<open>url.QueryUnescape\<close>, which the router applies to a query parameter.\<close>

definition unhex :: "char \<Rightarrow> nat option" where
  "unhex c = (let n = (of_char c :: nat) in
     if 48 \<le> n \<and> n \<le> 57 then Some (n - 48) else if 97 \<le> n \<and> n \<le> 102 then Some (n - 87)
     else if 65 \<le> n \<and> n \<le> 70 then Some (n - 55) else None)"

fun queryUnescape :: "string \<Rightarrow> string option" where
  "queryUnescape [] = Some []"
| "queryUnescape (c # s) =
     (if c = CHR 0x25 then
        (case s of h # l # r \<Rightarrow>
           (case (unhex h, unhex l) of (Some a, Some b) \<Rightarrow>
              map_option (Cons (char_of (16 * a + b))) (queryUnescape r) | _ \<Rightarrow> None)
         | _ \<Rightarrow> None)
      else map_option (Cons (if c = CHR ''+'' then CHR '' '' else c)) (queryUnescape s))"

lemma unhex_hexDigit: "d < 16 \<Longrightarrow> unhex (hexDigit d) = Some d"
  by (auto simp: hexDigit_def unhex_def)

lemma queryUnescape_escapeChar: "queryUnescape (escapeChar c @ s) = map_option (Cons c) (queryUnescape s)"
proof -
  have "c \<noteq> CHR 0x25 \<and> c \<noteq> CHR ''+''" if "unreserved c"
    using that by (auto simp: unreserved_def isAlnum_def Let_def)
  moreover have "(of_char c :: nat) div 16 < 16" using nat_of_char_less_256 [of c] by (intro less_mult_imp_div_less) simp
  moreover have "char_of (16 * (of_char c div 16) + of_char c mod 16 :: nat) = c" by simp
  ultimately show ?thesis
    by (auto simp: escapeChar_def unhex_hexDigit)
qed

lemma queryUnescape_queryEscape: "queryUnescape (queryEscape s) = Some s"
  by (induction s) (simp_all add: queryEscape_def queryUnescape_escapeChar)

text \<open>An escaped string contains no separator of a URL.\<close>

lemma isAlnum_hexDigit: "d < 16 \<Longrightarrow> isAlnum (hexDigit d)"
  by (auto simp: isAlnum_def hexDigit_def Let_def)

lemma isAlnum_plain: "isAlnum c \<Longrightarrow> c \<notin> {CHR ''&'', CHR ''='', CHR ''?'', CHR 0x23}"
  by (auto simp: isAlnum_def Let_def)

lemma queryEscape_plain: "set (queryEscape s) \<inter> {CHR ''&'', CHR ''='', CHR ''?'', CHR 0x23} = {}"
proof -
  have "x \<notin> {CHR ''&'', CHR ''='', CHR ''?'', CHR 0x23}" if x: "x \<in> set (escapeChar c)" for x c
  proof -
    have "(of_char c :: nat) div 16 < 16" using nat_of_char_less_256 [of c] by (intro less_mult_imp_div_less) simp
    hence "isAlnum x \<or> x \<in> {CHR ''-'', CHR ''_'', CHR ''.'', CHR ''~'', CHR ''+'', CHR 0x25}"
      using x isAlnum_hexDigit [of "of_char c div 16"] isAlnum_hexDigit [of "of_char c mod 16"]
      by (auto simp: escapeChar_def unreserved_def split: if_splits)
    thus ?thesis using isAlnum_plain [of x] by auto
  qed
  thus ?thesis unfolding queryEscape_def by fastforce
qed

section \<open>Dates\<close>

text \<open>\<open>time.Parse("2006-01-02", s)\<close>: four, two and two digits separated by dashes, a month from 1 to
  12 and a day of that month. The result is the day number, day 0 being 1970-01-01.\<close>

definition leapYear :: "int \<Rightarrow> bool" where
  "leapYear y \<longleftrightarrow> y mod 4 = 0 \<and> (y mod 100 \<noteq> 0 \<or> y mod 400 = 0)"

definition daysIn :: "int \<Rightarrow> int \<Rightarrow> int" where
  "daysIn m y = (if m = 2 then (if leapYear y then 29 else 28)
     else if m \<in> {4, 6, 9, 11} then 30 else 31)"

definition dayNumber :: "int \<Rightarrow> int \<Rightarrow> int \<Rightarrow> int" where
  "dayNumber y m d =
     (let y' = (if m \<le> 2 then y - 1 else y); era = y' div 400; yoe = y' - era * 400;
          mp = (if m > 2 then m - 3 else m + 9); doy = (153 * mp + 2) div 5 + d - 1;
          doe = yoe * 365 + yoe div 4 - yoe div 100 + doy
      in era * 146097 + doe - 719468)"

definition parseDate :: "string \<Rightarrow> int option" where
  "parseDate s =
     (if length s = 10 \<and> list_all isDigit (take 4 s) \<and> s ! 4 = CHR ''-'' \<and>
         list_all isDigit (take 2 (drop 5 s)) \<and> s ! 7 = CHR ''-'' \<and> list_all isDigit (drop 8 s)
      then let y = int (readNat (take 4 s)); m = int (readNat (take 2 (drop 5 s))); d = int (readNat (drop 8 s))
        in if 1 \<le> m \<and> m \<le> 12 \<and> 1 \<le> d \<and> d \<le> daysIn m y then Some (dayNumber y m d) else None
      else None)"

section \<open>White space\<close>

text \<open>\<open>strings.TrimSpace\<close>: the UTF-8 encodings of the code points that \<open>unicode.IsSpace\<close> accepts are removed
  at both ends.\<close>

definition spaceRunes :: "nat list list" where
  "spaceRunes = [[9], [10], [11], [12], [13], [32], [194, 133], [194, 160], [225, 154, 128]] @
     map (\<lambda>b. [226, 128, b]) [128..<139] @
     [[226, 128, 168], [226, 128, 169], [226, 128, 175], [226, 129, 159], [227, 128, 128]]"

definition startsWith :: "string \<Rightarrow> nat list \<Rightarrow> bool" where
  "startsWith s p \<longleftrightarrow> map of_char (take (length p) s) = p"

function trimRunes :: "nat list list \<Rightarrow> string \<Rightarrow> string" where
  "trimRunes ps s = (case find (\<lambda>p. p \<noteq> [] \<and> startsWith s p) ps of None \<Rightarrow> s | Some p \<Rightarrow> trimRunes ps (drop (length p) s))"
  by pat_completeness auto
termination
proof (relation "measure (\<lambda>(ps, s). length s)")
  fix ps :: "nat list list" and s :: string and p
  assume "find (\<lambda>p. p \<noteq> [] \<and> startsWith s p) ps = Some p"
  hence "p \<noteq> []" "map of_char (take (length p) s) = p" by (auto simp: find_Some_iff startsWith_def)
  hence "s \<noteq> []" "length p > 0" by auto
  thus "((ps, drop (length p) s), (ps, s)) \<in> measure (\<lambda>(ps, s). length s)" by simp
qed simp

declare trimRunes.simps [simp del]

definition trimSpace :: "string \<Rightarrow> string" where
  "trimSpace s = rev (trimRunes (map rev spaceRunes) (rev (trimRunes spaceRunes s)))"

text \<open>Visible ASCII is left alone.\<close>

definition visible :: "char \<Rightarrow> bool" where
  "visible ch \<longleftrightarrow> (of_char ch :: nat) < 128 \<and> (of_char ch :: nat) \<notin> {9, 10, 11, 12, 13, 32}"

lemma trimRunes_id:
  assumes "s = [] \<or> visible (hd s)" "\<forall>p\<in>set ps. p = [] \<or> hd p \<ge> 128 \<or> hd p \<in> {9, 10, 11, 12, 13, 32}"
  shows "trimRunes ps s = s"
proof -
  have "\<not> (p \<noteq> [] \<and> startsWith s p)" if "p \<in> set ps" for p
  proof
    assume p: "p \<noteq> [] \<and> startsWith s p"
    then obtain a q where q: "p = a # q" by (cases p) auto
    then obtain ch t where s: "s = ch # t" using p by (cases s) (auto simp: startsWith_def)
    have "of_char ch = a" using p q s by (simp add: startsWith_def)
    thus False using assms that q s by (auto simp: visible_def)
  qed
  hence "find (\<lambda>p. p \<noteq> [] \<and> startsWith s p) ps = None" by (auto simp: find_None_iff)
  thus ?thesis by (subst trimRunes.simps) simp
qed

lemma trimSpace_visible: "list_all visible s \<Longrightarrow> trimSpace s = s"
proof -
  assume v: "list_all visible s"
  have f: "trimRunes spaceRunes s = s"
    by (rule trimRunes_id) (use v in \<open>cases s; auto simp: spaceRunes_def\<close>)+
  have "rev s = [] \<or> visible (hd (rev s))" using v by (cases "s = []") (auto simp: hd_rev list_all_iff)
  hence "trimRunes (map rev spaceRunes) (rev s) = rev s"
    by (rule trimRunes_id) (auto simp: spaceRunes_def)
  thus ?thesis using f by (simp add: trimSpace_def)
qed

section \<open>Padded numbers\<close>

lemma parseInt64_pad0: "int n < 2 ^ 63 \<Longrightarrow> parseInt64 (pad0 k (showNat n)) = Some (int n)"
proof -
  assume n: "int n < 2 ^ 63"
  have d: "list_all isDigit (pad0 k (showNat n))" using showNat_digits [of n] by (auto simp: pad0_def list_all_iff isDigit_def)
  have ne: "pad0 k (showNat n) \<noteq> []" by (simp add: pad0_def)
  have "isDigit (hd (pad0 k (showNat n)))" using d ne by (simp add: list_all_iff)
  hence "hd (pad0 k (showNat n)) \<noteq> CHR ''-''" "hd (pad0 k (showNat n)) \<noteq> CHR ''+''" by (auto simp: isDigit_def)
  thus ?thesis using d ne n by (simp add: parseInt64_def Let_def parseDigits_def pad0_def readNat_zeros in64_def)
qed

lemma showNat_bound: "n < 10 ^ length (showNat n)"
proof (induction n rule: showNat.induct)
  case (1 n)
  show ?case
  proof (cases "n < 10")
    case True thus ?thesis by (subst showNat.simps) simp
  next
    case False
    have "n div 10 < 10 ^ length (showNat (n div 10))" using 1 False by simp
    hence "n < 10 * 10 ^ length (showNat (n div 10))" by (simp add: div_less_iff_less_mult mult.commute)
    moreover have "length (showNat n) = Suc (length (showNat (n div 10)))" using False by (subst showNat.simps) simp
    ultimately show ?thesis by simp
  qed
qed

lemma length_pad0: "length (pad0 k s) = max k (length s)"
  by (simp add: pad0_def)

end
