(* ===== verification/Billing_Repo.thy ===== *)
theory Billing_Repo
  imports Database Engine GoStd
begin

text \<open>
  Billing persistence: \<open>internal/billing/repository.go\<close> on the tables of migration 0004. The
  first section holds the constraints and triggers of the schema, the rest has one
  definition per repository method. Every method is monadic code over the database; a
  statement that a constraint or trigger rejects fails with \<open>Constraint\<close>.
  gorm fills \<open>created_at\<close> and \<open>updated_at\<close> from \<open>time.Now()\<close>. Text columns are ordered bytewise,
  \<open>VARCHAR\<close> widths are not modelled; times are seconds and the local time zone is UTC.
\<close>

section \<open>Constraints and triggers of migration 0004\<close>

definition costMethods :: "string list" where
  "costMethods = [MethodEqual, MethodPerOccupant, MethodPerArea, MethodFixed, MethodSpecificUnits, MethodCombined]"

definition lateFeeTypes :: "string list" where
  "lateFeeTypes = [LateFeeNone, LateFeeFixed, LateFeePercent, LateFeePerDay]"

definition periodStatuses :: "string list" where
  "periodStatuses = [PeriodDraft, PeriodCalculated, PeriodIssued, PeriodClosed]"

text \<open>\<open>late_fee_value NUMERIC(12,2)\<close>: the stored value is rounded half away from zero to
  two decimals and read back as the nearest \<open>float64\<close>.\<close>

definition numeric12_2 :: "rat \<Rightarrow> rat option" where
  "numeric12_2 v =
     (let c = \<lfloor>\<bar>v\<bar> * 100 + 1 / 2\<rfloor>
      in if c \<ge> 10 ^ 12 then None
         else Some (f64Round ((if v < 0 then - of_int c else of_int c) / 100)))"

definition periodRowOk :: "db \<Rightarrow> BillingPeriod \<Rightarrow> bool" where
  "periodRowOk d p \<longleftrightarrow> bp_StartDate p \<le> bp_EndDate p \<and> bp_EndDate p \<le> bp_DueDate p \<and>
     bp_LateFeeType p \<in> set lateFeeTypes \<and> bp_Status p \<in> set periodStatuses \<and>
     list_ex (\<lambda>b. bl_ID b = bp_BuildingID p) (buildings d)"

definition storePeriod :: "BillingPeriod \<Rightarrow> db \<Rightarrow> (unit \<times> db) result" where
  "storePeriod p d =
     (case numeric12_2 (bp_LateFeeValue p) of None \<Rightarrow> Inl (Constraint ''numeric field overflow'')
      | Some v \<Rightarrow>
        if \<not> periodRowOk d p then Inl (Constraint ''billing_periods'')
        else Inr ((), d\<lparr>billing_periods := saveRow bp_ID (p\<lparr>bp_LateFeeValue := v\<rparr>) (billing_periods d)\<rparr>))"

definition insertPeriod :: "BillingPeriod \<Rightarrow> db \<Rightarrow> (unit \<times> db) result" where
  "insertPeriod p d =
     (if list_ex (\<lambda>q. bp_ID q = bp_ID p) (billing_periods d) then Inl (Constraint ''billing_periods_pkey'')
      else storePeriod p d)"

definition costItemRowOk :: "db \<Rightarrow> CostItemRow \<Rightarrow> bool" where
  "costItemRowOk d c \<longleftrightarrow> 0 < cir_TotalAmount c \<and> cir_Method c \<in> set costMethods \<and>
     list_ex (\<lambda>p. bp_ID p = cir_PeriodID c) (billing_periods d)"

definition storeCostItem :: "CostItemRow \<Rightarrow> db \<Rightarrow> (unit \<times> db) result" where
  "storeCostItem c d =
     (if \<not> costItemRowOk d c then Inl (Constraint ''cost_items'')
      else Inr ((), d\<lparr>cost_items := saveRow cir_ID c (cost_items d)\<rparr>))"

definition insertCostItem :: "CostItemRow \<Rightarrow> db \<Rightarrow> (unit \<times> db) result" where
  "insertCostItem c d =
     (if list_ex (\<lambda>q. cir_ID q = cir_ID c) (cost_items d) then Inl (Constraint ''cost_items_pkey'')
      else storeCostItem c d)"

text \<open>\<open>cost_item_shares\<close> cascade with their item, \<open>invoice_items\<close> only refer to it.\<close>

definition deleteCostItems :: "(CostItemRow \<Rightarrow> bool) \<Rightarrow> db \<Rightarrow> (unit \<times> db) result" where
  "deleteCostItems P d =
     (let gone = map cir_ID (filter P (cost_items d))
      in if list_ex (\<lambda>i. \<exists>c\<in>set gone. ii_CostItemID i = Some c) (invoice_items d)
         then Inl (Constraint ''invoice_items_cost_item_id_fkey'')
         else Inr ((), d\<lparr>cost_items := filter (\<lambda>c. \<not> P c) (cost_items d),
                cost_item_shares := filter (\<lambda>s. cis_CostItemID s \<notin> set gone) (cost_item_shares d)\<rparr>))"

definition insertShare :: "CostItemShare \<Rightarrow> db \<Rightarrow> (unit \<times> db) result" where
  "insertShare s d =
     (if list_ex (\<lambda>q. cis_ID q = cis_ID s \<or> (cis_CostItemID q = cis_CostItemID s \<and> cis_UnitID q = cis_UnitID s))
           (cost_item_shares d)
         \<or> \<not> list_ex (\<lambda>c. cir_ID c = cis_CostItemID s) (cost_items d)
         \<or> \<not> list_ex (\<lambda>u. un_ID u = cis_UnitID s) (units d)
      then Inl (Constraint ''cost_item_shares'')
      else Inr ((), d\<lparr>cost_item_shares := cost_item_shares d @ [s]\<rparr>))"

definition insertInvoice :: "Invoice \<Rightarrow> db \<Rightarrow> (unit \<times> db) result" where
  "insertInvoice i d =
     (if list_ex (\<lambda>q. inv_ID q = inv_ID i \<or>
           (inv_BuildingID q = inv_BuildingID i \<and> inv_InvoiceNumber q = inv_InvoiceNumber i)) (invoices d)
         \<or> inv_PaidAmount i < 0
         \<or> inv_Status i \<notin> {InvoiceUnpaid, InvoicePartial, InvoicePaid, InvoiceExpired, InvoiceCanceled}
         \<or> \<not> list_ex (\<lambda>b. bl_ID b = inv_BuildingID i) (buildings d)
         \<or> \<not> list_ex (\<lambda>p. bp_ID p = inv_PeriodID i) (billing_periods d)
         \<or> \<not> list_ex (\<lambda>u. un_ID u = inv_UnitID i) (units d)
      then Inl (Constraint ''invoices'')
      else Inr ((), d\<lparr>invoices := invoices d @ [i]\<rparr>))"

definition frozenStatus :: "string \<Rightarrow> bool" where
  "frozenStatus s \<longleftrightarrow> s = PeriodIssued \<or> s = PeriodClosed"

definition periodFrozen :: "db \<Rightarrow> uuid \<Rightarrow> bool" where
  "periodFrozen d pid \<longleftrightarrow> list_ex (\<lambda>p. bp_ID p = pid \<and> frozenStatus (bp_Status p)) (billing_periods d)"

text \<open>\<open>billing_invoice_guard_update\<close>: the columns that only an insert may set.\<close>

definition invoiceAmounts :: "Invoice \<Rightarrow> money \<times> money \<times> money \<times> money \<times> money" where
  "invoiceAmounts i = (inv_BaseAmount i, inv_PriorDebt i, inv_LateFeeAmount i, inv_CreditAmount i, inv_FinalAmount i)"

definition invoiceOwner :: "Invoice \<Rightarrow> uuid \<times> uuid \<times> uuid \<times> int option" where
  "invoiceOwner i = (inv_BuildingID i, inv_PeriodID i, inv_UnitID i, inv_DueDate i)"

definition isDraftNumber :: "string \<Rightarrow> bool" where
  "isDraftNumber s = hasPrefix s ''DRAFT-''"

definition invoiceGuardUpdate :: "Invoice \<Rightarrow> Invoice \<Rightarrow> bool" where
  "invoiceGuardUpdate old new \<longleftrightarrow>
     (if isDraftNumber (inv_InvoiceNumber old) \<and> inv_InvoiceNumber new \<noteq> inv_InvoiceNumber old \<and>
         invoiceAmounts old = invoiceAmounts new \<and> invoiceOwner old = invoiceOwner new then True
      else invoiceAmounts old = invoiceAmounts new \<and> invoiceOwner old = invoiceOwner new \<and>
           inv_InvoiceNumber old = inv_InvoiceNumber new)"

definition updateInvoices :: "(Invoice \<Rightarrow> bool) \<Rightarrow> (Invoice \<Rightarrow> Invoice) \<Rightarrow> db \<Rightarrow> (unit \<times> db) result" where
  "updateInvoices P f d =
     (let rows = updateWhere P f (invoices d)
      in if list_ex (\<lambda>i. P i \<and> \<not> invoiceGuardUpdate i (f i)) (invoices d)
            then Inl (Constraint ''invoice amounts are immutable'')
         else if list_ex (\<lambda>i. inv_PaidAmount i < 0) rows then Inl (Constraint ''invoices_paid_amount_check'')
         else if \<not> distinct (map (\<lambda>i. (inv_BuildingID i, inv_InvoiceNumber i)) rows)
            then Inl (Constraint ''uq_invoices_building_number'')
         else Inr ((), d\<lparr>invoices := rows\<rparr>))"

text \<open>\<open>billing_invoice_guard_delete\<close>, the cascades to items and adjustments, and the
  reference of \<open>payments\<close>.\<close>

definition deleteInvoicesOf :: "uuid \<Rightarrow> db \<Rightarrow> (unit \<times> db) result" where
  "deleteInvoicesOf pid d =
     (let gone = map inv_ID (filter (\<lambda>i. inv_PeriodID i = pid) (invoices d))
      in if gone \<noteq> [] \<and> periodFrozen d pid then Inl (Constraint ''issued invoices are preserved, never deleted'')
         else if list_ex (\<lambda>p. \<exists>i\<in>set gone. pay_InvoiceID p = Some i) (payments d)
           then Inl (Constraint ''payments_invoice_id_fkey'')
         else Inr ((), d\<lparr>invoices := filter (\<lambda>i. inv_PeriodID i \<noteq> pid) (invoices d),
                invoice_items := filter (\<lambda>i. ii_InvoiceID i \<notin> set gone) (invoice_items d),
                invoice_adjustments := filter (\<lambda>a. ia_InvoiceID a \<notin> set gone) (invoice_adjustments d)\<rparr>))"

definition deleteSharesOf :: "uuid \<Rightarrow> db \<Rightarrow> (unit \<times> db) result" where
  "deleteSharesOf pid d =
     (let own = map cir_ID (filter (\<lambda>c. cir_PeriodID c = pid) (cost_items d))
      in Inr ((), d\<lparr>cost_item_shares := filter (\<lambda>s. cis_CostItemID s \<notin> set own) (cost_item_shares d)\<rparr>))"

text \<open>\<open>billing_invoice_item_guard_insert\<close>, the types of the columns \<open>method\<close> and \<open>kind\<close>, and the references of an item.\<close>

definition itemRowOk :: "db \<Rightarrow> InvoiceItem \<Rightarrow> bool" where
  "itemRowOk d i \<longleftrightarrow> list_ex (\<lambda>v. inv_ID v = ii_InvoiceID i) (invoices d) \<and>
     (case ii_Method i of None \<Rightarrow> True | Some m \<Rightarrow> m \<in> set costMethods) \<and>
     ii_Kind i \<in> {ItemCharge, ItemLateFee, ItemAdjustment} \<and>
     (case ii_CostItemID i of None \<Rightarrow> True | Some c \<Rightarrow> list_ex (\<lambda>q. cir_ID q = c) (cost_items d)) \<and>
     (case ii_AdjustmentID i of None \<Rightarrow> True | Some a \<Rightarrow> list_ex (\<lambda>q. ia_ID q = a) (invoice_adjustments d)) \<and>
     (ii_Kind i = ItemAdjustment \<or>
      \<not> list_ex (\<lambda>v. inv_ID v = ii_InvoiceID i \<and> periodFrozen d (inv_PeriodID v)) (invoices d))"

definition insertItem :: "InvoiceItem \<Rightarrow> db \<Rightarrow> (unit \<times> db) result" where
  "insertItem i d =
     (if \<not> itemRowOk d i \<or> list_ex (\<lambda>q. ii_ID q = ii_ID i) (invoice_items d) then Inl (Constraint ''invoice_items'')
      else Inr ((), d\<lparr>invoice_items := invoice_items d @ [i]\<rparr>))"

definition insertAdjustment :: "InvoiceAdjustment \<Rightarrow> db \<Rightarrow> (unit \<times> db) result" where
  "insertAdjustment a d =
     (if ia_Amount a \<le> 0 \<or> ia_Kind a \<notin> {AdjustmentDebit, AdjustmentCredit} \<or>
         \<not> list_ex (\<lambda>v. inv_ID v = ia_InvoiceID a) (invoices d) \<or>
         list_ex (\<lambda>q. ia_ID q = ia_ID a) (invoice_adjustments d)
      then Inl (Constraint ''invoice_adjustments'')
      else Inr ((), d\<lparr>invoice_adjustments := invoice_adjustments d @ [a]\<rparr>))"

section \<open>Periods and cost items\<close>

definition repoCreatePeriod :: "BillingPeriod \<Rightarrow> BillingPeriod dbm" where
  "repoCreatePeriod p = bindE timeNow (\<lambda>t.
     let p' = p\<lparr>bp_CreatedAt := t, bp_UpdatedAt := t\<rparr>
     in thenE (exec (insertPeriod p')) (returnE p'))"

definition repoGetPeriod :: "uuid \<Rightarrow> BillingPeriod dbm" where
  "repoGetPeriod pid = query (\<lambda>d. firstRow (\<lambda>p. bp_ID p = pid) (billing_periods d))"

definition repoListPeriods :: "uuid \<Rightarrow> BillingPeriod list dbm" where
  "repoListPeriods bid = query (\<lambda>d. Inr (sort_key (\<lambda>p. - bp_CreatedAt p)
     (filter (\<lambda>p. bp_BuildingID p = bid) (billing_periods d))))"

definition repoSavePeriod :: "BillingPeriod \<Rightarrow> BillingPeriod dbm" where
  "repoSavePeriod p = bindE timeNow (\<lambda>t.
     let p' = p\<lparr>bp_UpdatedAt := t\<rparr> in thenE (exec (storePeriod p')) (returnE p'))"

definition repoGetCostItem :: "uuid \<Rightarrow> CostItemRow dbm" where
  "repoGetCostItem cid = query (\<lambda>d. firstRow (\<lambda>c. cir_ID c = cid) (cost_items d))"

definition repoListCostItems :: "uuid \<Rightarrow> CostItemRow list dbm" where
  "repoListCostItems pid = query (\<lambda>d. Inr (sort_key (\<lambda>c. (cir_CreatedAt c, cir_ID c))
     (filter (\<lambda>c. cir_PeriodID c = pid) (cost_items d))))"

definition repoIsManagerOf :: "uuid \<Rightarrow> uuid \<Rightarrow> bool dbm" where
  "repoIsManagerOf uid bid = query (\<lambda>d.
     Inr (0 < length (filter (\<lambda>g. ub_UserID g = uid \<and> ub_BuildingID g = bid) (user_buildings d))))"

interpretation billing_scope: building_scope repoIsManagerOf
  by unfold_locales (auto simp: repoIsManagerOf_def scope_defs split: if_splits)

definition repoBuildingByID :: "uuid \<Rightarrow> Building dbm" where
  "repoBuildingByID bid = query (\<lambda>d.
     firstRow (\<lambda>b. bl_ID b = bid \<and> bl_DeletedAt b = None) (buildings d))"

definition repoCreateCostItem :: "CostItemRow \<Rightarrow> CostItemRow dbm" where
  "repoCreateCostItem c = bindE timeNow (\<lambda>t.
     let c' = c\<lparr>cir_CreatedAt := t, cir_UpdatedAt := t\<rparr>
     in thenE (exec (insertCostItem c')) (returnE c'))"

definition repoSaveCostItem :: "CostItemRow \<Rightarrow> CostItemRow dbm" where
  "repoSaveCostItem c = bindE timeNow (\<lambda>t.
     let c' = c\<lparr>cir_UpdatedAt := t\<rparr> in thenE (exec (storeCostItem c')) (returnE c'))"

definition repoDeleteCostItem :: "uuid \<Rightarrow> unit dbm" where
  "repoDeleteCostItem cid = exec (deleteCostItems (\<lambda>c. cir_ID c = cid))"

section \<open>Inputs of a calculation\<close>

definition repoUnitsForBuilding :: "uuid \<Rightarrow> BuildingUnit list dbm" where
  "repoUnitsForBuilding bid = query (\<lambda>d. Inr (sort_key un_Number
     (filter (\<lambda>u. un_BuildingID u = bid \<and> un_DeletedAt u = None) (units d))))"

definition occupantCountAt :: "OccupantCount list \<Rightarrow> uuid \<Rightarrow> int \<Rightarrow> int" where
  "occupantCountAt rows uid ref =
     (case sort_key (\<lambda>o'. - ocn_EffectiveFrom o')
        (filter (\<lambda>o'. ocn_UnitID o' = uid \<and> ocn_EffectiveFrom o' \<le> ref) rows) of
        [] \<Rightarrow> 0 | o' # _ \<Rightarrow> ocn_OccupantCount o')"

definition repoOccupantCountAsOf :: "uuid \<Rightarrow> int \<Rightarrow> int dbm" where
  "repoOccupantCountAsOf uid ref = query (\<lambda>d. Inr (occupantCountAt (occupant_counts d) uid ref))"

section \<open>Output of a calculation\<close>

record InvoiceWithItems =
  iwi_Invoice :: Invoice
  iwi_Items :: "InvoiceItem list"

definition createShare :: "CostItemShare \<Rightarrow> unit dbm" where
  "createShare s = exec (insertShare s)"

definition createItem :: "uuid \<Rightarrow> InvoiceItem \<Rightarrow> unit dbm" where
  "createItem iid item = bindE timeNow (\<lambda>t. exec (insertItem (item\<lparr>ii_InvoiceID := iid, ii_CreatedAt := t\<rparr>)))"

definition createInvoice :: "Invoice \<Rightarrow> unit dbm" where
  "createInvoice i = bindE timeNow (\<lambda>t. exec (insertInvoice (i\<lparr>inv_CreatedAt := t, inv_UpdatedAt := t\<rparr>)))"

definition createInvoiceWithItems :: "InvoiceWithItems \<Rightarrow> unit dbm" where
  "createInvoiceWithItems x = thenE (createInvoice (iwi_Invoice x))
     (forE (iwi_Items x) (createItem (inv_ID (iwi_Invoice x))))"

definition repoReplaceCalculation :: "uuid \<Rightarrow> CostItemShare list \<Rightarrow> InvoiceWithItems list \<Rightarrow> unit dbm" where
  "repoReplaceCalculation pid shares invs = transaction (
     thenE (exec (deleteSharesOf pid))
     (thenE (exec (deleteInvoicesOf pid))
     (thenE (forE shares createShare)
     (forE invs createInvoiceWithItems))))"

definition repoDiscardCalculation :: "uuid \<Rightarrow> unit dbm" where
  "repoDiscardCalculation pid = transaction (
     thenE (exec (deleteSharesOf pid)) (exec (deleteInvoicesOf pid)))"

definition repoListSharesForPeriod :: "uuid \<Rightarrow> CostItemShare list dbm" where
  "repoListSharesForPeriod pid = query (\<lambda>d. Inr (filter (\<lambda>s.
     list_ex (\<lambda>c. cir_ID c = cis_CostItemID s \<and> cir_PeriodID c = pid) (cost_items d)) (cost_item_shares d)))"

section \<open>Invoices\<close>

record InvoiceFilter =
  if_BuildingID :: uuid
  if_PeriodID :: "uuid option"
  if_UnitID :: "uuid option"
  if_Status :: string
  if_Page :: int
  if_PageSize :: int

definition normalizePage :: "int \<Rightarrow> int \<Rightarrow> int \<times> int" where
  "normalizePage page sz =
     (if page < 1 then 1 else page, if sz < 1 \<or> sz > 100 then 20 else sz)"

definition pageOf :: "int \<Rightarrow> int \<Rightarrow> 'r list \<Rightarrow> 'r list" where
  "pageOf page sz rows = take (nat sz) (drop (nat ((page - 1) * sz)) rows)"

definition invoiceMatches :: "InvoiceFilter \<Rightarrow> Invoice \<Rightarrow> bool" where
  "invoiceMatches f i \<longleftrightarrow> inv_BuildingID i = if_BuildingID f \<and>
     (case if_PeriodID f of None \<Rightarrow> True | Some p \<Rightarrow> inv_PeriodID i = p) \<and>
     (case if_UnitID f of None \<Rightarrow> True | Some u \<Rightarrow> inv_UnitID i = u) \<and>
     (if_Status f \<noteq> '''' \<longrightarrow> inv_Status i = if_Status f)"

definition newestInvoices :: "Invoice list \<Rightarrow> Invoice list" where
  "newestInvoices rows = sort_key (\<lambda>i. (- inv_CreatedAt i, inv_ID i)) rows"

definition repoListInvoices :: "InvoiceFilter \<Rightarrow> (Invoice list \<times> int) dbm" where
  "repoListInvoices f =
     bindE (query (\<lambda>d. Inr (int (length (filter (invoiceMatches f) (invoices d)))))) (\<lambda>n.
     case normalizePage (if_Page f) (if_PageSize f) of (page, sz) \<Rightarrow>
     bindE (query (\<lambda>d. Inr (pageOf page sz (newestInvoices (filter (invoiceMatches f) (invoices d)))))) (\<lambda>out.
     returnE (out, n)))"

definition repoListInvoicesForUnits :: "uuid list \<Rightarrow> int \<Rightarrow> int \<Rightarrow> (Invoice list \<times> int) dbm" where
  "repoListInvoicesForUnits uids page0 sz0 =
     (if uids = [] then returnE ([], 0)
      else bindE (query (\<lambda>d. Inr (int (length (filter (\<lambda>i. inv_UnitID i \<in> set uids) (invoices d)))))) (\<lambda>n.
      case normalizePage page0 sz0 of (page, sz) \<Rightarrow>
      bindE (query (\<lambda>d. Inr (pageOf page sz
               (newestInvoices (filter (\<lambda>i. inv_UnitID i \<in> set uids) (invoices d)))))) (\<lambda>out.
      returnE (out, n))))"

record InvoiceDetail =
  id_Invoice :: Invoice
  id_Items :: "InvoiceItem list"
  id_Adjustments :: "InvoiceAdjustment list"

definition repoGetInvoice :: "uuid \<Rightarrow> InvoiceDetail dbm" where
  "repoGetInvoice iid =
     bindE (query (\<lambda>d. Inr (find (\<lambda>i. inv_ID i = iid) (invoices d)))) (\<lambda>r.
     case r of None \<Rightarrow> throwE RecordNotFound
     | Some i \<Rightarrow>
       if inv_ID i = uuidNil then throwE RecordNotFound
       else bindE (query (\<lambda>d. Inr (sort_key (\<lambda>x. (ii_CreatedAt x, ii_ID x))
                    (filter (\<lambda>x. ii_InvoiceID x = iid) (invoice_items d))))) (\<lambda>items.
            bindE (query (\<lambda>d. Inr (sort_key ia_CreatedAt
                    (filter (\<lambda>a. ia_InvoiceID a = iid) (invoice_adjustments d))))) (\<lambda>adjs.
            returnE \<lparr>id_Invoice = i, id_Items = items, id_Adjustments = adjs\<rparr>)))"

text \<open>The day and the civil year of a time.\<close>

definition dateOf :: "int \<Rightarrow> int" where
  "dateOf t = t div 86400"

definition yearOf :: "int \<Rightarrow> int" where
  "yearOf t =
     (let z = dateOf t + 719468; era = z div 146097; doe = z mod 146097;
          yoe = (doe - doe div 1460 + doe div 36524 - doe div 146096) div 365;
          doy = doe - (365 * yoe + yoe div 4 - yoe div 100);
          mp = (5 * doy + 2) div 153
      in yoe + era * 400 + (if mp < 10 then 0 else 1))"

definition ErrNotCalculable :: go_error where
  "ErrNotCalculable = Sentinel ''ErrNotCalculable''"

definition invoiceNumber :: "int \<Rightarrow> int \<Rightarrow> string" where
  "invoiceNumber year seq = ''BLD-'' @ showInt year @ ''-'' @ sprintf04d seq"

definition issueRow :: "int \<Rightarrow> int \<Rightarrow> int \<Rightarrow> Invoice \<Rightarrow> Invoice" where
  "issueRow year seq now i = i\<lparr>inv_InvoiceNumber := invoiceNumber year seq,
     inv_IssueDate := Some (dateOf now), inv_InputsFrozenAt := Some now, inv_UpdatedAt := now\<rparr>"

definition issueOne :: "int \<Rightarrow> int \<Rightarrow> int \<Rightarrow> nat \<times> Invoice \<Rightarrow> unit dbm" where
  "issueOne year now count' x = exec (updateInvoices (\<lambda>i. inv_ID i = inv_ID (snd x))
     (issueRow year (i64 (count' + int (fst x) + 1)) now))"

definition markIssued :: "uuid \<Rightarrow> int \<Rightarrow> db \<Rightarrow> db" where
  "markIssued pid now d = d\<lparr>billing_periods := updateWhere (\<lambda>q. bp_ID q = pid)
     (\<lambda>q. q\<lparr>bp_Status := PeriodIssued, bp_IssuedAt := Some now, bp_UpdatedAt := now\<rparr>) (billing_periods d)\<rparr>"

definition numberedCount :: "uuid \<Rightarrow> Invoice list \<Rightarrow> int" where
  "numberedCount bid rows = int (length (filter (\<lambda>i. inv_BuildingID i = bid \<and>
     \<not> isDraftNumber (inv_InvoiceNumber i)) rows))"

definition draftsOf :: "uuid \<Rightarrow> Invoice list \<Rightarrow> Invoice list" where
  "draftsOf pid rows = sort_key inv_UnitID (filter (\<lambda>i. inv_PeriodID i = pid) rows)"

definition numberDrafts :: "uuid \<Rightarrow> int \<Rightarrow> int \<Rightarrow> int \<Rightarrow> Invoice list \<Rightarrow> Invoice list dbm" where
  "numberDrafts pid year now n drafts =
     thenE (forE (zip [0..<length drafts] drafts) (issueOne year now n))
     (thenE (exec (\<lambda>d. Inr ((), markIssued pid now d)))
     (query (\<lambda>d. Inr (filter (\<lambda>i. inv_PeriodID i = pid) (invoices d)))))"

definition repoIssueInvoices :: "uuid \<Rightarrow> int \<Rightarrow> int \<Rightarrow> Invoice list dbm" where
  "repoIssueInvoices pid year now = transaction (
     bindE (repoGetPeriod pid) (\<lambda>p.
     thenE (throwIf (bp_Status p \<noteq> PeriodCalculated) ErrNotCalculable)
     (bindE (query (\<lambda>d. Inr (numberedCount (bp_BuildingID p) (invoices d)))) (\<lambda>n.
      bindE (query (\<lambda>d. Inr (draftsOf pid (invoices d)))) (numberDrafts pid year now n)))))"

definition repoSetInvoiceStatus :: "uuid \<Rightarrow> string \<Rightarrow> unit dbm" where
  "repoSetInvoiceStatus iid st = bindE timeNow (\<lambda>t.
     exec (updateInvoices (\<lambda>i. inv_ID i = iid) (\<lambda>i. i\<lparr>inv_Status := st, inv_UpdatedAt := t\<rparr>)))"

definition repoCreateAdjustment :: "InvoiceAdjustment \<Rightarrow> InvoiceItem \<Rightarrow> InvoiceAdjustment dbm" where
  "repoCreateAdjustment adj item = transaction (
     bindE timeNow (\<lambda>t. let adj' = adj\<lparr>ia_CreatedAt := t\<rparr>
     in thenE (exec (insertAdjustment adj'))
        (thenE (createItem (ii_InvoiceID item) (item\<lparr>ii_AdjustmentID := Some (ia_ID adj)\<rparr>))
        (returnE adj'))))"

definition repoOccupantUserIDs :: "uuid list \<Rightarrow> uuid list dbm" where
  "repoOccupantUserIDs uids =
     (if uids = [] then returnE []
      else query (\<lambda>d. Inr (remdups (map usr_ID (filter (\<lambda>u. usr_DeletedAt u = None \<and>
        list_ex (\<lambda>p. pe_Phone p = Some (usr_Phone u) \<and> pe_DeletedAt p = None \<and>
          list_ex (\<lambda>o'. oc_PersonID o' = pe_ID p \<and> oc_EndDate o' = None \<and> oc_UnitID o' \<in> set uids)
            (occupancies d)) (persons d)) (users d))))))"

end
