(* ===== verification/Notification_Audit.thy ===== *)
theory Notification_Audit
  imports Database
begin

text \<open>
  The in-app notification channel (\<open>internal/notification/notification.go\<close>) and the
  append-only audit trail (\<open>internal/audit/audit.go\<close>). The push channel is best-effort:
  its result is discarded and it does not touch the database, so that it has no
  counterpart here. JSON marshalling of the snapshots does not fail for the
  values the services pass.
\<close>

definition notificationTypes :: "string list" where
  "notificationTypes = [''invoice_issued'', ''due_soon'', ''overdue'', ''payment_recorded'',
     ''request_submitted'', ''request_status_changed'', ''announcement_published'']"

definition insertNotification :: "Notification \<Rightarrow> db \<Rightarrow> (unit \<times> db) result" where
  "insertNotification n d =
     (if no_Type n \<notin> set notificationTypes \<or> \<not> list_ex (\<lambda>u. usr_ID u = no_UserID n) (users d)
         \<or> list_ex (\<lambda>q. no_ID q = no_ID n) (notifications d)
      then Inl (Constraint ''notifications'')
      else Inr ((), d\<lparr>notifications := notifications d @ [n]\<rparr>))"

definition notifCreate ::
  "uuid \<Rightarrow> string \<Rightarrow> string \<Rightarrow> string \<Rightarrow> string option \<Rightarrow> uuid option \<Rightarrow> Notification dbm" where
  "notifCreate uid typ title body refType refID =
     bindE newUUID (\<lambda>nid. bindE timeNow (\<lambda>t.
     let n = \<lparr>no_ID = nid, no_UserID = uid, no_Type = typ, no_Title = title, no_Body = Some body,
              no_RefType = refType, no_RefID = refID, no_IsRead = False, no_ReadAt = None, no_CreatedAt = t\<rparr>
     in thenE (exec (insertNotification n)) (returnE n)))"

definition notifMatches :: "uuid \<Rightarrow> bool \<Rightarrow> Notification \<Rightarrow> bool" where
  "notifMatches uid unreadOnly n \<longleftrightarrow> no_UserID n = uid \<and> (unreadOnly \<longrightarrow> \<not> no_IsRead n)"

definition notifList :: "uuid \<Rightarrow> bool \<Rightarrow> int \<Rightarrow> int \<Rightarrow> (Notification list \<times> int) dbm" where
  "notifList uid unreadOnly page0 sz0 =
     (let page = (if page0 < 1 then 1 else page0); sz = (if sz0 < 1 \<or> sz0 > 100 then 20 else sz0)
      in bindE (query (\<lambda>d. Inr (int (length (filter (notifMatches uid unreadOnly) (notifications d)))))) (\<lambda>n.
         bindE (query (\<lambda>d. Inr (take (nat sz) (drop (nat ((page - 1) * sz))
                 (sort_key (\<lambda>x. - no_CreatedAt x) (filter (notifMatches uid unreadOnly) (notifications d))))))) (\<lambda>items.
         returnE (items, n))))"

definition notifMarkRead :: "uuid \<Rightarrow> uuid \<Rightarrow> unit dbm" where
  "notifMarkRead uid nid = bindE timeNow (\<lambda>now. exec (\<lambda>d. Inr ((), d\<lparr>notifications :=
     updateWhere (\<lambda>n. no_ID n = nid \<and> no_UserID n = uid \<and> \<not> no_IsRead n)
       (\<lambda>n. n\<lparr>no_IsRead := True, no_ReadAt := Some now\<rparr>) (notifications d)\<rparr>)))"

definition notifMarkAllRead :: "uuid \<Rightarrow> unit dbm" where
  "notifMarkAllRead uid = bindE timeNow (\<lambda>now. exec (\<lambda>d. Inr ((), d\<lparr>notifications :=
     updateWhere (\<lambda>n. no_UserID n = uid \<and> \<not> no_IsRead n)
       (\<lambda>n. n\<lparr>no_IsRead := True, no_ReadAt := Some now\<rparr>) (notifications d)\<rparr>)))"

definition auditAppend ::
  "uuid option \<Rightarrow> string \<Rightarrow> string \<Rightarrow> uuid option \<Rightarrow> snapshot option \<Rightarrow> snapshot option \<Rightarrow> unit dbm" where
  "auditAppend actor action objType objID before after =
     exec (\<lambda>d. Inr ((), d\<lparr>audit_logs := audit_logs d @ [\<lparr>au_UserID = actor, au_Action = action,
       au_ObjectType = objType, au_ObjectID = objID, au_Before = before, au_After = after\<rparr>]\<rparr>))"

section \<open>What the two channels leave alone\<close>

text \<open>A predicate that reads neither the notifications nor the audit trail.\<close>

definition sideFree :: "(db \<Rightarrow> bool) \<Rightarrow> bool" where
  "sideFree I \<longleftrightarrow> (\<forall>d ns. I (d\<lparr>notifications := ns\<rparr>) = I d) \<and> (\<forall>d as. I (d\<lparr>audit_logs := as\<rparr>) = I d)"

lemma sideFree_notifications: "sideFree I \<Longrightarrow> I (d\<lparr>notifications := ns\<rparr>) = I d"
  by (simp add: sideFree_def)

lemma sideFree_audit: "sideFree I \<Longrightarrow> I (d\<lparr>audit_logs := as\<rparr>) = I d"
  by (simp add: sideFree_def)

lemma notifCreate_pres [pres]: "sideFree I \<Longrightarrow> preserves I (notifCreate uid typ title body rt rid)"
  unfolding notifCreate_def Let_def
  by (intro pres) (auto simp: insertNotification_def sideFree_notifications split: if_splits)

lemma auditAppend_pres [pres]: "sideFree I \<Longrightarrow> preserves I (auditAppend actor action ot oid b a)"
  unfolding auditAppend_def by (intro pres) (auto simp: sideFree_audit)

lemma channels_run:
  assumes "no_faults w"
  shows "\<exists>ns w'. ignoreE (notifCreate x t ti bo rt rid) w = (Inr (), w') \<and> no_faults w' \<and> db w' = (db w)\<lparr>notifications := ns\<rparr>"
    and "\<exists>as w'. ignoreE (auditAppend a ac ot oid s s') w = (Inr (), w') \<and> no_faults w' \<and> db w' = (db w)\<lparr>audit_logs := as\<rparr>"
proof -
  have e: "\<exists>ns. d = d\<lparr>notifications := ns\<rparr>" for d :: db by (rule exI [of _ "notifications d"]) simp
  show "\<exists>ns w'. ignoreE (notifCreate x t ti bo rt rid) w = (Inr (), w') \<and> no_faults w' \<and> db w' = (db w)\<lparr>notifications := ns\<rparr>"
    using assms e by (auto simp: ignoreE_def notifCreate_def newUUID_def timeNow_def bindE_def thenE_def exec_def insertNotification_def
        returnE_def Let_def split: prod.splits sum.splits)
  show "\<exists>as w'. ignoreE (auditAppend a ac ot oid s s') w = (Inr (), w') \<and> no_faults w' \<and> db w' = (db w)\<lparr>audit_logs := as\<rparr>"
    using assms by (auto simp: ignoreE_def auditAppend_def exec_def)
qed

end
