(* ===== verification/Period_Service.thy ===== *)
theory Period_Service
  imports Billing_Repo Notification_Audit
begin

text \<open>
  \<open>internal/billing/period_service.go\<close>: billing periods, cost items, the period state
  machine, issuance, cancellation and corrections. The manager is the authenticated
  user; the balance recomputer that \<open>SetBalanceRecomputer\<close> wires is the parameter
  \<open>balances\<close> (\<open>None\<close> when it is nil).
\<close>

section \<open>Authorisation\<close>

type_synonym recomputer = "(uuid \<Rightarrow> unit dbm) option"

definition msgNoBuildingAccess :: string where "msgNoBuildingAccess = ''no access to this building''"
definition msgPeriodNotFound :: string where "msgPeriodNotFound = ''billing period not found''"
definition msgInvoiceNotFound :: string where "msgInvoiceNotFound = ''invoice not found''"

definition orNotFound :: "string \<Rightarrow> go_error \<Rightarrow> go_error" where
  "orNotFound msg e = (if e = RecordNotFound then AppErr (NotFound msg) else e)"

definition authorizeBuilding :: "User \<Rightarrow> uuid \<Rightarrow> unit dbm" where
  "authorizeBuilding mgr bid = bindE (repoIsManagerOf (usr_ID mgr) bid) (\<lambda>ok.
     throwIf (\<not> ok) (AppErr (Forbidden msgNoBuildingAccess)))"

definition getAuthorizedPeriod :: "User \<Rightarrow> uuid \<Rightarrow> BillingPeriod dbm" where
  "getAuthorizedPeriod mgr pid =
     bindE (mapErr (orNotFound msgPeriodNotFound) (repoGetPeriod pid)) (\<lambda>p.
     thenE (authorizeBuilding mgr (bp_BuildingID p)) (returnE p))"

definition authorizedInvoice :: "User \<Rightarrow> uuid \<Rightarrow> InvoiceDetail dbm" where
  "authorizedInvoice mgr iid =
     bindE (mapErr (orNotFound msgInvoiceNotFound) (repoGetInvoice iid)) (\<lambda>iv.
     thenE (authorizeBuilding mgr (inv_BuildingID (id_Invoice iv))) (returnE iv))"

section \<open>Periods\<close>

record PeriodInput =
  pi_Title :: string
  pi_StartDate :: int
  pi_EndDate :: int
  pi_DueDate :: int
  pi_LateFeeType :: string
  pi_LateFeeValue :: rat

definition applyPeriodInput :: "BillingPeriod \<Rightarrow> PeriodInput \<Rightarrow> BillingPeriod result" where
  "applyPeriodInput p inp =
     (if pi_EndDate inp < pi_StartDate inp \<or> pi_DueDate inp < pi_EndDate inp
      then Inl (AppErr (BadRequest ''msgPeriodDatesInvalid''))
      else let lf = (if pi_LateFeeType inp = '''' then LateFeeNone else pi_LateFeeType inp)
      in if lf \<notin> set lateFeeTypes then Inl (AppErr (BadRequest ''msgItemMethodInvalid''))
      else Inr (p\<lparr>bp_Title := pi_Title inp, bp_StartDate := pi_StartDate inp, bp_EndDate := pi_EndDate inp,
              bp_DueDate := pi_DueDate inp, bp_LateFeeType := lf, bp_LateFeeValue := pi_LateFeeValue inp\<rparr>))"

definition newPeriod :: "uuid \<Rightarrow> uuid \<Rightarrow> BillingPeriod" where
  "newPeriod pid bid = \<lparr>bp_ID = pid, bp_BuildingID = bid, bp_Title = '''', bp_StartDate = 0, bp_EndDate = 0,
     bp_DueDate = 0, bp_LateFeeType = '''', bp_LateFeeValue = 0, bp_Status = PeriodDraft,
     bp_CalculatedAt = None, bp_IssuedAt = None, bp_ClosedAt = None, bp_CreatedAt = 0, bp_UpdatedAt = 0\<rparr>"

definition CreatePeriod :: "User \<Rightarrow> uuid \<Rightarrow> PeriodInput \<Rightarrow> BillingPeriod dbm" where
  "CreatePeriod mgr bid inp =
     thenE (authorizeBuilding mgr bid)
     (bindE newUUID (\<lambda>pid.
      bindE (liftE (applyPeriodInput (newPeriod pid bid) inp)) repoCreatePeriod))"

definition ListPeriods :: "User \<Rightarrow> uuid \<Rightarrow> BillingPeriod list dbm" where
  "ListPeriods mgr bid = thenE (authorizeBuilding mgr bid) (repoListPeriods bid)"

definition GetPeriod :: "User \<Rightarrow> uuid \<Rightarrow> BillingPeriod dbm" where
  "GetPeriod mgr pid = getAuthorizedPeriod mgr pid"

definition UpdatePeriod :: "User \<Rightarrow> uuid \<Rightarrow> PeriodInput \<Rightarrow> (BillingPeriod \<times> BillingPeriod) dbm" where
  "UpdatePeriod mgr pid inp =
     bindE (getAuthorizedPeriod mgr pid) (\<lambda>p.
     thenE (throwIf (bp_Status p \<noteq> PeriodDraft) (AppErr (Conflict ''msgPeriodNotDraft'')))
     (bindE (liftE (applyPeriodInput p inp)) (\<lambda>p'.
      bindE (repoSavePeriod p') (\<lambda>p''. returnE (p'', p)))))"

section \<open>Cost items\<close>

record CostItemInput =
  cii_Title :: string
  cii_TotalAmount :: money
  cii_Method :: string
  cii_FixedAmountPerUnit :: money
  cii_ComboWeights :: "ComboWeightRow list"
  cii_IncludeVacant :: bool
  cii_UnitIDs :: "uuid list"

abbreviation (input) UnitStatusVacant :: string where "UnitStatusVacant \<equiv> ''vacant''"

definition badRequest :: "string \<Rightarrow> 'a dbm" where
  "badRequest msg = throwE (AppErr (BadRequest msg))"

definition validateCostItem :: "CostItemRow \<Rightarrow> CostItemInput \<Rightarrow> uuid \<Rightarrow> CostItemRow dbm" where
  "validateCostItem ci0 inp bid =
     (let ci = ci0\<lparr>cir_Title := cii_Title inp, cir_Method := cii_Method inp,
            cir_IncludeVacant := cii_IncludeVacant inp, cir_ComboWeights := cii_ComboWeights inp,
            cir_UnitIDs := cii_UnitIDs inp\<rparr>;
          plain = ci\<lparr>cir_TotalAmount := cii_TotalAmount inp, cir_FixedAmountPerUnit := None\<rparr>;
          m = cii_Method inp
      in if m = MethodEqual \<or> m = MethodPerOccupant \<or> m = MethodPerArea then
           (if cii_TotalAmount inp \<le> 0 then badRequest ''msgItemAmountInvalid'' else returnE plain)
         else if m = MethodFixed then
           (if cii_FixedAmountPerUnit inp \<le> 0 then badRequest ''msgItemAmountInvalid''
            else bindE (repoUnitsForBuilding bid) (\<lambda>us.
              let n = length (filter (\<lambda>u. \<not> (un_Status u = UnitStatusVacant \<and> \<not> cii_IncludeVacant inp)) us)
              in returnE (ci\<lparr>cir_FixedAmountPerUnit := Some (cii_FixedAmountPerUnit inp),
                   cir_TotalAmount := i64 (cii_FixedAmountPerUnit inp * int n)\<rparr>)))
         else if m = MethodSpecificUnits then
           (if cii_TotalAmount inp \<le> 0 then badRequest ''msgItemAmountInvalid''
            else if cii_UnitIDs inp = [] then badRequest ''ErrSpecificUnitsEmpty''
            else bindE (repoUnitsForBuilding bid) (\<lambda>us.
              if list_all (\<lambda>uid. uid \<in> set (map un_ID us)) (cii_UnitIDs inp) then returnE plain
              else badRequest ''unit not in this building''))
         else if m = MethodCombined then
           (if cii_TotalAmount inp \<le> 0 then badRequest ''msgItemAmountInvalid''
            else if cii_ComboWeights inp = [] then badRequest ''ErrBadWeights''
            else if list_ex (\<lambda>w. cwr_Weight w \<le> 0 \<or> cwr_Method w = MethodCombined) (cii_ComboWeights inp)
              then badRequest ''ErrBadWeights''
            else if sum64 (map cwr_Weight (cii_ComboWeights inp)) \<noteq> 100 then badRequest ''ErrBadWeights''
            else returnE plain)
         else badRequest ''msgItemMethodInvalid'')"

definition newCostItem :: "uuid \<Rightarrow> uuid \<Rightarrow> CostItemRow" where
  "newCostItem cid pid = \<lparr>cir_ID = cid, cir_PeriodID = pid, cir_Title = '''', cir_TotalAmount = 0,
     cir_Method = '''', cir_FixedAmountPerUnit = None, cir_ComboWeights = [], cir_IncludeVacant = False,
     cir_UnitIDs = [], cir_CreatedAt = 0, cir_UpdatedAt = 0\<rparr>"

definition AddCostItem :: "User \<Rightarrow> uuid \<Rightarrow> CostItemInput \<Rightarrow> CostItemRow dbm" where
  "AddCostItem mgr pid inp =
     bindE (getAuthorizedPeriod mgr pid) (\<lambda>p.
     thenE (throwIf (bp_Status p \<noteq> PeriodDraft) (AppErr (Conflict ''cost items only in draft'')))
     (bindE newUUID (\<lambda>cid.
      bindE (validateCostItem (newCostItem cid pid) inp (bp_BuildingID p)) repoCreateCostItem)))"

definition authorizedCostItem :: "User \<Rightarrow> uuid \<Rightarrow> (CostItemRow \<times> BillingPeriod) dbm" where
  "authorizedCostItem mgr cid =
     bindE (mapErr (orNotFound ''cost item not found'') (repoGetCostItem cid)) (\<lambda>ci.
     bindE (repoGetPeriod (cir_PeriodID ci)) (\<lambda>p.
     thenE (authorizeBuilding mgr (bp_BuildingID p)) (returnE (ci, p))))"

definition UpdateCostItem :: "User \<Rightarrow> uuid \<Rightarrow> CostItemInput \<Rightarrow> (CostItemRow \<times> CostItemRow) dbm" where
  "UpdateCostItem mgr cid inp =
     bindE (authorizedCostItem mgr cid) (\<lambda>(ci, p).
     thenE (throwIf (bp_Status p \<noteq> PeriodDraft) (AppErr (Conflict ''cost items only in draft'')))
     (bindE (validateCostItem ci inp (bp_BuildingID p)) (\<lambda>ci'.
      bindE (repoSaveCostItem ci') (\<lambda>ci''. returnE (ci'', ci)))))"

definition DeleteCostItem :: "User \<Rightarrow> uuid \<Rightarrow> unit dbm" where
  "DeleteCostItem mgr cid =
     bindE (authorizedCostItem mgr cid) (\<lambda>(ci, p).
     thenE (throwIf (bp_Status p \<noteq> PeriodDraft) (AppErr (Conflict ''cost items only in draft'')))
     (repoDeleteCostItem (cir_ID ci)))"

section \<open>State machine\<close>

definition Reopen :: "User \<Rightarrow> uuid \<Rightarrow> BillingPeriod dbm" where
  "Reopen mgr pid =
     bindE (getAuthorizedPeriod mgr pid) (\<lambda>p.
     thenE (throwIf (bp_Status p \<noteq> PeriodCalculated) (AppErr (Conflict ''reopen only when calculated'')))
     (thenE (repoDiscardCalculation pid)
      (repoSavePeriod (p\<lparr>bp_Status := PeriodDraft\<rparr>))))"

definition recomputeBalances :: "recomputer \<Rightarrow> uuid list \<Rightarrow> unit dbm" where
  "recomputeBalances balances ids =
     (case balances of None \<Rightarrow> returnE ()
      | Some recompute \<Rightarrow> forE ids (\<lambda>iid. ignoreE (recompute iid)))"

definition notifyIssued :: "BillingPeriod \<Rightarrow> Invoice \<Rightarrow> unit dbm" where
  "notifyIssued p iv =
     bindE (tryE (repoOccupantUserIDs [inv_UnitID iv])) (\<lambda>r.
     case r of Inl _ \<Rightarrow> returnE ()
     | Inr uids \<Rightarrow> forE uids (\<lambda>uid. ignoreE (notifCreate uid ''invoice_issued''
         (''invoice '' @ bp_Title p @ '' issued'')
         (''payable: '' @ showInt (inv_FinalAmount iv) @ '' toman'')
         (Some ''invoice'') (Some (inv_ID iv)))))"

definition auditIssued :: "User \<Rightarrow> Invoice \<Rightarrow> unit dbm" where
  "auditIssued mgr iv = ignoreE (auditAppend (Some (usr_ID mgr)) ''invoice.issued'' ''invoice''
     (Some (inv_ID iv)) None (Some (SnapInvoice iv)))"

definition issueError :: "go_error \<Rightarrow> go_error" where
  "issueError e = (if e = RecordNotFound then AppErr (NotFound msgPeriodNotFound)
     else if e = ErrNotCalculable then AppErr (Conflict ''issue only when calculated'') else e)"

definition Issue :: "recomputer \<Rightarrow> User \<Rightarrow> uuid \<Rightarrow> Invoice list dbm" where
  "Issue balances mgr pid =
     bindE (getAuthorizedPeriod mgr pid) (\<lambda>p.
     thenE (throwIf (bp_Status p \<noteq> PeriodCalculated) (AppErr (Conflict ''issue only when calculated'')))
     (bindE timeNow (\<lambda>t1. bindE timeNow (\<lambda>t2.
      bindE (mapErr issueError (repoIssueInvoices pid (yearOf t1) t2)) (\<lambda>issued.
      thenE (forE issued (notifyIssued p))
      (thenE (forE issued (auditIssued mgr))
      (thenE (recomputeBalances balances (map inv_ID issued))
      (returnE issued))))))))"

definition Close :: "User \<Rightarrow> uuid \<Rightarrow> BillingPeriod dbm" where
  "Close mgr pid =
     bindE (getAuthorizedPeriod mgr pid) (\<lambda>p.
     thenE (throwIf (bp_Status p \<noteq> PeriodIssued) (AppErr (Conflict ''close only after issue'')))
     (bindE timeNow (\<lambda>now.
      repoSavePeriod (p\<lparr>bp_Status := PeriodClosed, bp_ClosedAt := Some now\<rparr>))))"

section \<open>Corrections\<close>

definition CancelInvoice :: "recomputer \<Rightarrow> User \<Rightarrow> uuid \<Rightarrow> string \<Rightarrow> Invoice dbm" where
  "CancelInvoice balances mgr iid reason =
     bindE (authorizedInvoice mgr iid) (\<lambda>det.
     let iv = id_Invoice det
     in thenE (throwIf (inv_Status iv \<notin> {InvoiceUnpaid, InvoicePartial, InvoiceExpired})
               (AppErr (Conflict ''msgInvoiceNotCancellable'')))
        (thenE (repoSetInvoiceStatus iid InvoiceCanceled)
        (let iv' = iv\<lparr>inv_Status := InvoiceCanceled\<rparr>
         in thenE (ignoreE (auditAppend (Some (usr_ID mgr)) ''invoice.cancelled'' ''invoice'' (Some iid) None
                     (Some (SnapCancel reason iv'))))
            (thenE (recomputeBalances balances [iid]) (returnE iv')))))"

record AdjustmentInput =
  ai_Kind :: string
  ai_Amount :: money
  ai_Reason :: string

definition adjustmentTitle :: "string \<Rightarrow> string \<Rightarrow> string" where
  "adjustmentTitle kind reason =
     (if kind = AdjustmentCredit then ''credit adjustment: '' else ''debit adjustment: '') @ reason"

definition AddAdjustment :: "recomputer \<Rightarrow> User \<Rightarrow> uuid \<Rightarrow> AdjustmentInput \<Rightarrow> InvoiceAdjustment dbm" where
  "AddAdjustment balances mgr iid inp =
     bindE (authorizedInvoice mgr iid) (\<lambda>det.
     thenE (throwIf (inv_Status (id_Invoice det) = InvoiceCanceled) (AppErr (Conflict ''adjustment of cancelled invoice'')))
     (thenE (throwIf (ai_Kind inp \<noteq> AdjustmentDebit \<and> ai_Kind inp \<noteq> AdjustmentCredit)
              (AppErr (BadRequest ''adjustment kind'')))
     (thenE (throwIf (ai_Amount inp \<le> 0) (AppErr (BadRequest ''msgAdjustAmountInvalid'')))
     (thenE (throwIf (ai_Reason inp = '''') (AppErr (BadRequest ''msgAdjustReasonRequired'')))
     (bindE newUUID (\<lambda>aid. bindE newUUID (\<lambda>itid.
      let adj = \<lparr>ia_ID = aid, ia_InvoiceID = iid, ia_Kind = ai_Kind inp, ia_Amount = ai_Amount inp,
                 ia_Reason = ai_Reason inp, ia_CreatedBy = Some (usr_ID mgr), ia_CreatedAt = 0\<rparr>;
          item = \<lparr>ii_ID = itid, ii_InvoiceID = iid, ii_Kind = ItemAdjustment,
                 ii_Title = adjustmentTitle (ai_Kind inp) (ai_Reason inp), ii_CostItemID = None,
                 ii_Amount = ai_Amount inp, ii_Method = None, ii_AdjustmentID = None, ii_CreatedAt = 0\<rparr>
      in bindE (repoCreateAdjustment adj item) (\<lambda>adj'.
         thenE (ignoreE (auditAppend (Some (usr_ID mgr)) ''invoice.adjusted'' ''invoice'' (Some iid) None
                  (Some (SnapAdjustment adj'))))
         (thenE (recomputeBalances balances [iid]) (returnE adj'))))))))))"

definition ListInvoices :: "User \<Rightarrow> InvoiceFilter \<Rightarrow> (Invoice list \<times> int) dbm" where
  "ListInvoices mgr f = thenE (authorizeBuilding mgr (if_BuildingID f)) (repoListInvoices f)"

end
