(* ===== verification/Calc_Service.thy ===== *)
theory Calc_Service
  imports Period_Service
begin

text \<open>
  \<open>internal/billing/calc_service.go\<close>: the calculation service snapshots the engine inputs,
  runs the engine for every cost item and stores shares and draft invoices; the preview
  reads them back. \<open>uuid.UUID.String\<close> and \<open>uuid.Parse\<close> are the parameters \<open>str\<close> and \<open>parse\<close>;
  the \<open>BalanceProvider\<close> is the parameter \<open>snap\<close>, which gives prior debt and credit of a unit.
\<close>

section \<open>Conversions\<close>

type_synonym balance_provider = "uuid \<Rightarrow> (money \<times> money) dbm"

definition ZeroBalanceProvider :: balance_provider where
  "ZeroBalanceProvider uid = returnE (0, 0)"

definition engineLateFeeType :: "string \<Rightarrow> late_fee_type" where
  "engineLateFeeType s = (if s = ''fixed'' then LateFeeFixed else if s = ''percent'' then LateFeePercent
     else if s = ''per_day'' then LateFeePerDay else LateFeeNone)"

definition exactShareString :: "rat \<Rightarrow> string" where
  "exactShareString r = floatString4 r"

text \<open>The message of an engine error is its Go identifier here; the item suffix after
  the colon that \<open>SplitN\<close> cuts off is not part of it.\<close>

definition engineError :: "go_error \<Rightarrow> go_error" where
  "engineError e = (case e of Sentinel msg \<Rightarrow>
       if e \<in> {ErrNoParticipants, ErrZeroFactor, ErrSpecificUnitsEmpty, ErrBadWeights,
              ErrNonPositiveTotal, ErrUnknownMethod, ErrUnknownLateFee}
       then AppErr (BadRequest msg) else e
     | _ \<Rightarrow> e)"

definition engineItem :: "(uuid \<Rightarrow> string) \<Rightarrow> CostItemRow \<Rightarrow> CostItem" where
  "engineItem str item =
     \<lparr>ci_ID = str (cir_ID item), ci_Total = cir_TotalAmount item, ci_Method = cir_Method item,
      ci_FixedAmountPerUnit = (case cir_FixedAmountPerUnit item of None \<Rightarrow> 0 | Some a \<Rightarrow> a),
      ci_ComboWeights = map (\<lambda>w. \<lparr>cw_Method = cwr_Method w, cw_Weight = cwr_Weight w,
         cw_FixedAmountPerUnit = cwr_FixedAmountPerUnit w\<rparr>) (cir_ComboWeights item),
      ci_IncludeVacant = cir_IncludeVacant item, ci_UnitIDs = map str (cir_UnitIDs item)\<rparr>"

definition lateFeeTitle :: "string \<Rightarrow> string" where
  "lateFeeTitle kind = (if kind = ''fixed'' then ''late fee (fixed)'' else if kind = ''percent'' then ''late fee (percent)''
     else if kind = ''per_day'' then ''late fee (per day)'' else ''late fee'')"

section \<open>Shares of one cost item\<close>

record buildingUnit =
  bu_unit :: BuildingUnit
  bu_occupants :: int

record chargeLine =
  cl_title :: string
  cl_itemID :: uuid
  cl_method :: string
  cl_amount :: money

definition toEngineUnit :: "(uuid \<Rightarrow> string) \<Rightarrow> buildingUnit \<Rightarrow> Unit" where
  "toEngineUnit str bu = \<lparr>u_ID = str (un_ID (bu_unit bu)), u_Occupants = bu_occupants bu,
     u_AreaM2 = un_AreaM2 (bu_unit bu), u_Vacant = (un_Status (bu_unit bu) = UnitStatusVacant)\<rparr>"

definition snapshotOf :: "buildingUnit list \<Rightarrow> uuid \<Rightarrow> InputsSnapshot option" where
  "snapshotOf bus uid = foldl (\<lambda>s bu. if un_ID (bu_unit bu) = uid
       then Some \<lparr>snap_Occupants = bu_occupants bu, snap_AreaM2 = un_AreaM2 (bu_unit bu),
                  snap_Vacant = (un_Status (bu_unit bu) = UnitStatusVacant)\<rparr> else s) None bus"

definition parseErr :: go_error where
  "parseErr = Sentinel ''invalid UUID''"

definition shareRow :: "(string \<Rightarrow> uuid option) \<Rightarrow> buildingUnit list \<Rightarrow> uuid \<Rightarrow> Share \<Rightarrow> CostItemShare dbm" where
  "shareRow parse bus itemID sh =
     (case parse (sh_UnitID sh) of None \<Rightarrow> throwE parseErr
      | Some uid \<Rightarrow> bindE newUUID (\<lambda>sid. returnE \<lparr>cis_ID = sid, cis_CostItemID = itemID, cis_UnitID = uid,
          cis_ExactShare = exactShareString (sh_Exact sh), cis_RoundedShare = sh_Rounded sh,
          cis_InputsSnapshot = snapshotOf bus uid\<rparr>))"

definition chargeOf :: "CostItemRow \<Rightarrow> CostItemShare \<Rightarrow> uuid \<times> chargeLine" where
  "chargeOf item s = (cis_UnitID s, \<lparr>cl_title = cir_Title item, cl_itemID = cir_ID item,
     cl_method = cir_Method item, cl_amount = cis_RoundedShare s\<rparr>)"

text \<open>The loop over the cost items: the share rows in order, and the charge lines with
  their units. The map \<open>chargeByUnit\<close> of the source is the list of pairs; the lines of a unit
  are those with its id, in order.\<close>

definition itemShares ::
  "(uuid \<Rightarrow> string) \<Rightarrow> (string \<Rightarrow> uuid option) \<Rightarrow> buildingUnit list \<Rightarrow> CostItemRow \<Rightarrow> CostItemShare list dbm" where
  "itemShares str parse bus item =
     bindE (mapErr engineError (liftE (Calculate (engineItem str item) (map (toEngineUnit str) bus)))) (\<lambda>res.
     mapE (shareRow parse bus (cir_ID item)) (ir_Shares res))"

fun itemsLoop ::
  "(uuid \<Rightarrow> string) \<Rightarrow> (string \<Rightarrow> uuid option) \<Rightarrow> buildingUnit list \<Rightarrow> CostItemRow list \<Rightarrow>
   (CostItemShare list \<times> (uuid \<times> chargeLine) list) dbm" where
  "itemsLoop str parse bus [] = returnE ([], [])"
| "itemsLoop str parse bus (item # items) =
     bindE (itemShares str parse bus item) (\<lambda>shares.
     bindE (itemsLoop str parse bus items) (\<lambda>(rest, charges).
     returnE (shares @ rest, map (chargeOf item) shares @ charges)))"

definition linesOf :: "(uuid \<times> chargeLine) list \<Rightarrow> uuid \<Rightarrow> chargeLine list" where
  "linesOf charges uid = map snd (filter (\<lambda>c. fst c = uid) charges)"

section \<open>One invoice per unit\<close>

definition chargeItem :: "chargeLine \<Rightarrow> InvoiceItem dbm" where
  "chargeItem line = bindE newUUID (\<lambda>iid. returnE \<lparr>ii_ID = iid, ii_InvoiceID = uuidNil, ii_Kind = ItemCharge,
     ii_Title = cl_title line, ii_CostItemID = Some (cl_itemID line), ii_Amount = cl_amount line,
     ii_Method = Some (cl_method line), ii_AdjustmentID = None, ii_CreatedAt = 0\<rparr>)"

definition draftNumber :: "(uuid \<Rightarrow> string) \<Rightarrow> uuid \<Rightarrow> string result" where
  "draftNumber str uid =
     (let hex = removeChar (CHR ''-'') (str uid)
      in if length hex < 24 then Inl (Panic ''slice bounds out of range'') else Inr (''DRAFT-'' @ take 24 hex))"

definition lateFeeItem :: "BillingPeriod \<Rightarrow> int \<Rightarrow> InvoiceItem list dbm" where
  "lateFeeItem period lateFee =
     (if lateFee > 0 then bindE newUUID (\<lambda>iid. returnE [\<lparr>ii_ID = iid, ii_InvoiceID = uuidNil,
        ii_Kind = ItemLateFee, ii_Title = lateFeeTitle (bp_LateFeeType period), ii_CostItemID = None,
        ii_Amount = lateFee, ii_Method = Some (bp_LateFeeType period), ii_AdjustmentID = None, ii_CreatedAt = 0\<rparr>])
      else returnE [])"

definition composeInvoice ::
  "(uuid \<Rightarrow> string) \<Rightarrow> balance_provider \<Rightarrow> BillingPeriod \<Rightarrow> (uuid \<times> chargeLine) list \<Rightarrow> buildingUnit \<Rightarrow>
   InvoiceWithItems dbm" where
  "composeInvoice str snap period charges bu =
     (let lines = linesOf charges (un_ID (bu_unit bu));
          base = sum64 (map cl_amount lines)
      in bindE (mapE chargeItem lines) (\<lambda>items.
         bindE (snap (un_ID (bu_unit bu))) (\<lambda>(priorDebt, credit).
         bindE (mapErr engineError (liftE (LateFee (engineLateFeeType (bp_LateFeeType period))
                  (bp_LateFeeValue period) base 0))) (\<lambda>lateFee.
         bindE newUUID (\<lambda>iid. bindE newUUID (\<lambda>nid.
         bindE (liftE (draftNumber str nid)) (\<lambda>number.
         bindE (lateFeeItem period lateFee) (\<lambda>lfItems.
         returnE \<lparr>iwi_Invoice = \<lparr>inv_ID = iid, inv_InvoiceNumber = number, inv_BuildingID = bp_BuildingID period,
             inv_PeriodID = bp_ID period, inv_UnitID = un_ID (bu_unit bu), inv_BaseAmount = base,
             inv_PriorDebt = priorDebt, inv_LateFeeAmount = lateFee, inv_CreditAmount = credit,
             inv_FinalAmount = i64 (base + priorDebt + lateFee - credit), inv_IssueDate = None,
             inv_DueDate = Some (bp_DueDate period), inv_Status = InvoiceUnpaid, inv_PaidAmount = 0,
             inv_InputsFrozenAt = None, inv_CreatedAt = 0, inv_UpdatedAt = 0\<rparr>,
           iwi_Items = items @ lfItems\<rparr>))))))))"

section \<open>Preview\<close>

record PreviewShare =
  ps_UnitID :: uuid
  ps_UnitNumber :: string
  ps_ExactShare :: string
  ps_RoundedShare :: money
  ps_Inputs :: "InputsSnapshot option"

record PreviewItem =
  pri_CostItem :: CostItemRow
  pri_TotalUsed :: money
  pri_Shares :: "PreviewShare list"
  pri_Reconciled :: bool

record Preview =
  pv_Period :: BillingPeriod
  pv_Items :: "PreviewItem list"
  pv_Invoices :: "Invoice list"
  pv_Reconciled :: bool

definition authorizedPeriod :: "User \<Rightarrow> uuid \<Rightarrow> BillingPeriod dbm" where
  "authorizedPeriod mgr pid =
     bindE (mapErr (orNotFound ''billing period not found'') (repoGetPeriod pid)) (\<lambda>p.
     bindE (repoIsManagerOf (usr_ID mgr) (bp_BuildingID p)) (\<lambda>ok.
     thenE (throwIf (\<not> ok) (AppErr (Forbidden ''no access to this building''))) (returnE p)))"

definition unitNumberOf :: "BuildingUnit list \<Rightarrow> uuid \<Rightarrow> string" where
  "unitNumberOf us uid = (case filter (\<lambda>u. un_ID u = uid) us of [] \<Rightarrow> '''' | xs \<Rightarrow> un_Number (last xs))"

definition previewItem :: "BuildingUnit list \<Rightarrow> CostItemShare list \<Rightarrow> CostItemRow \<Rightarrow> PreviewItem" where
  "previewItem us shares item =
     (let its = filter (\<lambda>s. cis_CostItemID s = cir_ID item) shares;
          pss = map (\<lambda>s. \<lparr>ps_UnitID = cis_UnitID s, ps_UnitNumber = unitNumberOf us (cis_UnitID s),
                  ps_ExactShare = cis_ExactShare s, ps_RoundedShare = cis_RoundedShare s,
                  ps_Inputs = cis_InputsSnapshot s\<rparr>) its;
          s = sum64 (map cis_RoundedShare its);
          target = (case cir_FixedAmountPerUnit item of
              Some f \<Rightarrow> if cir_Method item = MethodFixed
                then i64 (f * int (if cir_IncludeVacant item then length its else length pss))
                else cir_TotalAmount item
            | None \<Rightarrow> cir_TotalAmount item)
      in \<lparr>pri_CostItem = item, pri_TotalUsed = target, pri_Shares = pss, pri_Reconciled = (s = target)\<rparr>)"

definition CalcPreview :: "User \<Rightarrow> uuid \<Rightarrow> Preview dbm" where
  "CalcPreview mgr pid =
     bindE (authorizedPeriod mgr pid) (\<lambda>period.
     bindE (repoListCostItems pid) (\<lambda>items.
     bindE (repoListSharesForPeriod pid) (\<lambda>shares.
     bindE (repoListInvoices \<lparr>if_BuildingID = bp_BuildingID period, if_PeriodID = Some pid, if_UnitID = None,
              if_Status = '''', if_Page = 1, if_PageSize = 100\<rparr>) (\<lambda>(invs, _).
     bindE (repoUnitsForBuilding (bp_BuildingID period)) (\<lambda>us.
     let pis = map (previewItem us shares) items
     in returnE \<lparr>pv_Period = period, pv_Items = pis, pv_Invoices = invs,
          pv_Reconciled = list_all pri_Reconciled pis\<rparr>)))))"

section \<open>Calculate\<close>

definition snapshotUnits :: "BillingPeriod \<Rightarrow> BuildingUnit list \<Rightarrow> buildingUnit list dbm" where
  "snapshotUnits period us = mapE (\<lambda>u.
     bindE (repoOccupantCountAsOf (un_ID u) (bp_EndDate period)) (\<lambda>occ.
     returnE \<lparr>bu_unit = u, bu_occupants = occ\<rparr>)) us"

text \<open>The computation of shares and invoices, up to the first write.\<close>

definition computePeriod ::
  "(uuid \<Rightarrow> string) \<Rightarrow> (string \<Rightarrow> uuid option) \<Rightarrow> balance_provider \<Rightarrow> BillingPeriod \<Rightarrow>
   (CostItemShare list \<times> InvoiceWithItems list) dbm" where
  "computePeriod str parse snap period =
     bindE (repoListCostItems (bp_ID period)) (\<lambda>items.
     thenE (throwIf (items = []) (AppErr (BadRequest ''no cost item in this period'')))
     (bindE (repoUnitsForBuilding (bp_BuildingID period)) (\<lambda>us.
      thenE (throwIf (us = []) (AppErr (BadRequest ''no unit in this building'')))
      (bindE (snapshotUnits period us) (\<lambda>bus.
       bindE (itemsLoop str parse bus items) (\<lambda>(shares, charges).
       bindE (mapE (composeInvoice str snap period charges) bus) (\<lambda>invs.
       returnE (shares, invs))))))))"

definition CalcCalculate ::
  "(uuid \<Rightarrow> string) \<Rightarrow> (string \<Rightarrow> uuid option) \<Rightarrow> balance_provider \<Rightarrow> User \<Rightarrow> uuid \<Rightarrow> Preview dbm" where
  "CalcCalculate str parse snap mgr pid =
     bindE (authorizedPeriod mgr pid) (\<lambda>period.
     thenE (throwIf (bp_Status period \<noteq> PeriodDraft \<and> bp_Status period \<noteq> PeriodCalculated)
              (AppErr (Conflict ''calculate only in draft or calculated'')))
     (bindE (computePeriod str parse snap period) (\<lambda>(shares, invs).
      thenE (repoReplaceCalculation pid shares invs)
      (bindE (repoSavePeriod (period\<lparr>bp_Status := PeriodCalculated\<rparr>)) (\<lambda>_.
       CalcPreview mgr pid)))))"

end
