(* ===== verification/Triples.thy ===== *)
theory Triples
  imports Prelude
begin

text \<open>
  Hoare triples for the error monad, on the database component of the world:
  \<open>tri P f Q E\<close> says that from a database that satisfies \<open>P\<close>, \<open>f\<close> either returns a value \<open>x\<close> with a
  database that satisfies \<open>Q x\<close> or fails with a database that satisfies \<open>E\<close>, whatever the
  environment answers.
\<close>

definition tri :: "('d \<Rightarrow> bool) \<Rightarrow> ('d, 'a) m \<Rightarrow> ('a \<Rightarrow> 'd \<Rightarrow> bool) \<Rightarrow> ('d \<Rightarrow> bool) \<Rightarrow> bool" where
  "tri P f Q E \<longleftrightarrow> (\<forall>w. P (db w) \<longrightarrow>
     (case f w of (Inr x, w') \<Rightarrow> Q x (db w') | (Inl e, w') \<Rightarrow> E (db w')))"

lemma triI:
  assumes "\<And>w x w'. P (db w) \<Longrightarrow> f w = (Inr x, w') \<Longrightarrow> Q x (db w')"
    and "\<And>w e w'. P (db w) \<Longrightarrow> f w = (Inl e, w') \<Longrightarrow> E (db w')"
  shows "tri P f Q E"
  unfolding tri_def using assms by (auto split: prod.splits sum.splits)

lemma triD:
  assumes "tri P f Q E" "P (db w)"
  shows "f w = (Inr x, w') \<Longrightarrow> Q x (db w')" and "f w = (Inl e, w') \<Longrightarrow> E (db w')"
  using assms unfolding tri_def by force+

lemma tri_bind:
  assumes "tri P f Q E" and "\<And>x. tri (Q x) (g x) R E"
  shows "tri P (bindE f g) R E"
proof (rule triI)
  fix w x w' assume P: "P (db w)" and "bindE f g w = (Inr x, w')"
  then obtain y w1 where "f w = (Inr y, w1)" "g y w1 = (Inr x, w')" by (auto elim: bindE_splitE)
  thus "R x (db w')" using triD(1) [OF assms(2)] triD(1) [OF assms(1) P] by blast
next
  fix w e w' assume P: "P (db w)" and b: "bindE f g w = (Inl e, w')"
  show "E (db w')"
  proof (cases "f w")
    case (Pair r w1)
    show ?thesis
    proof (cases r)
      case (Inl e1)
      thus ?thesis using Pair b triD(2) [OF assms(1) P] by (simp add: bindE_def)
    next
      case (Inr y)
      hence "Q y (db w1)" using Pair triD(1) [OF assms(1) P] by blast
      moreover have "g y w1 = (Inl e, w')" using b Pair Inr by (simp add: bindE_def)
      ultimately show ?thesis using triD(2) [OF assms(2)] by blast
    qed
  qed
qed

lemma tri_then:
  assumes "tri P f (\<lambda>_. Q) E" and "tri Q g R E"
  shows "tri P (thenE f g) R E"
  unfolding thenE_def using assms by (rule tri_bind)

lemma tri_weaken:
  assumes "tri P f Q E" and "\<And>d. P' d \<Longrightarrow> P d" and "\<And>x d. Q x d \<Longrightarrow> Q' x d" and "\<And>d. E d \<Longrightarrow> E' d"
  shows "tri P' f Q' E'"
  using assms unfolding tri_def by (auto split: prod.splits sum.splits) blast+

lemma tri_reads: "reads f \<Longrightarrow> tri P f (\<lambda>_. P) P"
  by (rule triI) (auto dest: reads_run)

lemma tri_keep: "reads f \<Longrightarrow> (\<And>d. P d \<Longrightarrow> E d) \<Longrightarrow> tri P f (\<lambda>_. P) E"
  by (rule triI) (auto dest: reads_run)

lemma tri_return: "(\<And>d. P d \<Longrightarrow> Q x d) \<Longrightarrow> tri P (returnE x) Q E"
  by (rule triI) (auto simp: returnE_def)

lemma tri_throw: "(\<And>d. P d \<Longrightarrow> E d) \<Longrightarrow> tri P (throwE e) Q E"
  by (rule triI) (auto simp: throwE_def)

lemma tri_throwIf: "(\<And>d. P d \<Longrightarrow> b \<Longrightarrow> E d) \<Longrightarrow> tri P (throwIf b e) (\<lambda>_ d. P d \<and> \<not> b) E"
  by (rule triI) (auto simp: throwIf_def returnE_def throwE_def split: if_splits)

lemma tri_query:
  "(\<And>d x. P d \<Longrightarrow> q d = Inr x \<Longrightarrow> Q x d) \<Longrightarrow> (\<And>d. P d \<Longrightarrow> E d) \<Longrightarrow> tri P (query q) Q E"
  by (rule triI) (auto simp: query_def split: if_splits)

lemma tri_exec:
  "(\<And>d x d'. P d \<Longrightarrow> s d = Inr (x, d') \<Longrightarrow> Q x d') \<Longrightarrow> (\<And>d. P d \<Longrightarrow> E d) \<Longrightarrow> tri P (exec s) Q E"
  by (rule triI) (auto simp: exec_def split: if_splits sum.splits prod.splits)

lemma tri_lift: "(\<And>d x. P d \<Longrightarrow> r = Inr x \<Longrightarrow> Q x d) \<Longrightarrow> (\<And>d. P d \<Longrightarrow> E d) \<Longrightarrow> tri P (liftE r) Q E"
  by (rule triI) (auto simp: liftE_def)

lemma tri_mapErr: "tri P f Q E \<Longrightarrow> tri P (mapErr h f) Q E"
  unfolding tri_def mapErr_def by (auto split: prod.splits sum.splits) blast+

lemma tri_transaction:
  assumes "tri P f Q (\<lambda>_. True)" and "\<And>d. P d \<Longrightarrow> E d"
  shows "tri P (transaction f) Q E"
proof (rule triI)
  fix w x w' assume P: "P (db w)" and "transaction f w = (Inr x, w')"
  then obtain w1 where "f (tick w) = (Inr x, w1)" "db w' = db w1"
    by (auto simp: transaction_def split: if_splits prod.splits sum.splits)
  thus "Q x (db w')" using triD(1) [OF assms(1), of "tick w"] P by simp
next
  fix w e w' assume P: "P (db w)" and "transaction f w = (Inl e, w')"
  hence "db w' = db w" using atomicE_D [OF atomicE_transaction] by blast
  thus "E (db w')" using P assms(2) by simp
qed

lemma tri_ignore: "tri P f (\<lambda>_. Q) Q \<Longrightarrow> tri P (ignoreE f) (\<lambda>_. Q) E"
  unfolding tri_def ignoreE_def by (auto split: prod.splits sum.splits)

lemma tri_for:
  assumes "\<And>x. x \<in> set xs \<Longrightarrow> tri I (f x) (\<lambda>_. I) E"
  shows "tri I (forE xs f) (\<lambda>_. I) E"
  using assms
proof (induction xs)
  case (Cons x xs)
  show ?case unfolding forE.simps
    by (rule tri_then [where Q = I]) (use Cons in auto)
qed (auto intro: tri_return)

section \<open>Relations between the databases before and after\<close>

text \<open>\<open>obeys R f\<close>: the databases before and after \<open>f\<close> are related by \<open>R\<close>.\<close>

definition obeys :: "('d \<Rightarrow> 'd \<Rightarrow> bool) \<Rightarrow> ('d, 'a) m \<Rightarrow> bool" where
  "obeys R f \<longleftrightarrow> (\<forall>d0. tri (R d0) f (\<lambda>_. R d0) (R d0))"

lemma obeys_reads: "reads f \<Longrightarrow> obeys R f"
  unfolding obeys_def by (blast intro: tri_reads)

lemma obeys_bind: "obeys R f \<Longrightarrow> (\<And>x. obeys R (g x)) \<Longrightarrow> obeys R (bindE f g)"
  unfolding obeys_def by (blast intro: tri_bind)

lemma obeys_then: "obeys R f \<Longrightarrow> obeys R g \<Longrightarrow> obeys R (thenE f g)"
  unfolding thenE_def by (rule obeys_bind)

lemma obeys_exec:
  assumes "transp R" and "\<And>d x d'. s d = Inr (x, d') \<Longrightarrow> R d d'"
  shows "obeys R (exec s)"
  unfolding obeys_def using assms by (auto intro!: tri_exec dest: transpD)

lemma obeys_transaction: "obeys R f \<Longrightarrow> obeys R (transaction f)"
  unfolding obeys_def by (blast intro: tri_transaction tri_weaken)

lemma obeys_ignore: "obeys R f \<Longrightarrow> obeys R (ignoreE f)"
  unfolding obeys_def by (blast intro: tri_ignore)

lemma obeys_for: "(\<And>x. obeys R (f x)) \<Longrightarrow> obeys R (forE xs f)"
  unfolding obeys_def by (blast intro: tri_for)

lemma obeys_mapErr: "obeys R f \<Longrightarrow> obeys R (mapErr h f)"
  unfolding obeys_def by (blast intro: tri_mapErr)

lemma obeys_map: "(\<And>x. obeys R (f x)) \<Longrightarrow> obeys R (mapE f xs)"
  by (induction xs) (auto intro!: obeys_bind intro: obeys_reads)

lemmas obeys_intros = obeys_bind obeys_then obeys_transaction obeys_ignore
  obeys_for obeys_mapErr obeys_map

lemma obeysI_tri:
  assumes "transp R" and "\<And>d0. tri (\<lambda>d. d = d0) f (\<lambda>_. R d0) (R d0)"
  shows "obeys R f"
  unfolding obeys_def
proof (intro allI triI)
  fix d0 w x w' assume R: "R d0 (db w)" and run: "f w = (Inr x, w')"
  from run have "R (db w) (db w')" by (intro triD(1) [OF assms(2) [of "db w"] refl])
  thus "R d0 (db w')" by (rule transpD [OF assms(1) R])
next
  fix d0 w e w' assume R: "R d0 (db w)" and run: "f w = (Inl e, w')"
  from run have "R (db w) (db w')" by (intro triD(2) [OF assms(2) [of "db w"] refl])
  thus "R d0 (db w')" by (rule transpD [OF assms(1) R])
qed

lemma obeys_run:
  assumes "obeys R f" "R (db w) (db w)" "f w = (r, w')"
  shows "R (db w) (db w')"
proof -
  have "tri (R (db w)) f (\<lambda>_. R (db w)) (R (db w))" using assms(1) by (simp add: obeys_def)
  thus ?thesis using assms(2,3) by (cases r) (auto dest: triD)
qed

lemma obeys_try: "obeys R f \<Longrightarrow> obeys R (tryE f)"
  unfolding obeys_def tri_def tryE_def by (auto split: prod.splits sum.splits)

lemma obeys_when: "obeys R f \<Longrightarrow> obeys R (whenE b f)"
  by (cases b) (auto intro: obeys_reads)

lemma preserves_if [pres]: "preserves I f \<Longrightarrow> preserves I g \<Longrightarrow> preserves I (if b then f else g)"
  by simp

lemmas preserves_env = preserves_reads [OF reads_rules(1)] preserves_reads [OF reads_rules(2)] preserves_reads [OF reads_rules(3)]
  preserves_reads [OF reads_rules(4)] preserves_reads [OF reads_rules(5)] preserves_reads [OF reads_rules(6)] preserves_reads [OF reads_rules(7)]

lemma preserves_tri: "preserves I f \<longleftrightarrow> tri I f (\<lambda>_. I) I"
proof
  assume "preserves I f"
  thus "tri I f (\<lambda>_. I) I" by (intro triI) (auto dest: preserves_run)
next
  assume t: "tri I f (\<lambda>_. I) I"
  have "I (db (snd (f w)))" if "I (db w)" for w
    using triD [OF t that] by (cases "f w"; cases "fst (f w)") auto
  thus "preserves I f" by (simp add: preserves_def)
qed

lemma obeys_if: "obeys R f \<Longrightarrow> obeys R g \<Longrightarrow> obeys R (if b then f else g)"
  by simp

section \<open>Machines of requests\<close>

text \<open>
  A component seen from outside is a step relation on worlds, one step per request, together with a relation between
  the databases before and after that every request respects. What the relation says then holds along every
  sequence of requests.
\<close>

locale request_machine =
  fixes step :: "'d world \<Rightarrow> 'd world \<Rightarrow> bool" and rel :: "'d \<Rightarrow> 'd \<Rightarrow> bool"
  assumes rel_refl: "rel d d"
    and rel_trans: "transp rel"
    and step_rel: "step w w' \<Longrightarrow> rel (db w) (db w')"
begin

lemma steps_rel: "step\<^sup>*\<^sup>* w w' \<Longrightarrow> rel (db w) (db w')"
  by (induction rule: rtranclp_induct) (auto intro: rel_refl transpD [OF rel_trans] step_rel)

lemma steps_keep: "step\<^sup>*\<^sup>* w w' \<Longrightarrow> (\<And>d d'. rel d d' \<Longrightarrow> I d \<Longrightarrow> I d') \<Longrightarrow> I (db w) \<Longrightarrow> I (db w')"
  using steps_rel by blast

end

end
