(* ===== verification/Billing_Machine.thy ===== *)
theory Billing_Machine
  imports Calc_Service Triples
begin

text \<open>
  The billing state machine: the lifecycle of a period and the immutability of issued
  invoices, as a relation between the databases before and after any operation of the
  period service and the calculation service. The relation is proved for every SQL statement of
  the repository, then for every operation, then for every sequence of operations.
\<close>

section \<open>The period state machine\<close>

inductive period_edge :: "string \<Rightarrow> string \<Rightarrow> bool" where
  calculate: "period_edge PeriodDraft PeriodCalculated"
| reopen: "period_edge PeriodCalculated PeriodDraft"
| issue: "period_edge PeriodCalculated PeriodIssued"
| close: "period_edge PeriodIssued PeriodClosed"

definition statusOf :: "db \<Rightarrow> uuid \<Rightarrow> string option" where
  "statusOf d pid = map_option bp_Status (find (\<lambda>p. bp_ID p = pid) (billing_periods d))"

text \<open>What billing code may do to the database: a period moves along the edges of
  the machine and never disappears; an invoice of an issued or closed period
  keeps its number, its amounts and its owner, and none of its items is lost.\<close>

definition sameInvoice :: "Invoice \<Rightarrow> Invoice \<Rightarrow> bool" where
  "sameInvoice i j \<longleftrightarrow> inv_ID j = inv_ID i \<and> inv_InvoiceNumber j = inv_InvoiceNumber i \<and>
     invoiceAmounts j = invoiceAmounts i \<and> invoiceOwner j = invoiceOwner i"

definition frozen :: "db \<Rightarrow> uuid \<Rightarrow> bool" where
  "frozen d pid \<longleftrightarrow> (\<exists>s. statusOf d pid = Some s \<and> frozenStatus s)"

definition ledger_kept :: "db \<Rightarrow> db \<Rightarrow> bool" where
  "ledger_kept d d' \<longleftrightarrow>
     (\<forall>i\<in>set (invoices d). frozen d (inv_PeriodID i) \<longrightarrow> (\<exists>j\<in>set (invoices d'). sameInvoice i j)) \<and>
     (\<forall>x\<in>set (invoice_items d). (\<exists>i\<in>set (invoices d). inv_ID i = ii_InvoiceID x \<and> frozen d (inv_PeriodID i)) \<longrightarrow>
        x \<in> set (invoice_items d'))"

definition machine_ok :: "db \<Rightarrow> db \<Rightarrow> bool" where
  "machine_ok d d' \<longleftrightarrow> (\<forall>pid s. statusOf d pid = Some s \<longrightarrow>
     (\<exists>s'. statusOf d' pid = Some s' \<and> period_edge\<^sup>*\<^sup>* s s'))"

definition invoice_pk :: "db \<Rightarrow> bool" where
  "invoice_pk d \<longleftrightarrow> distinct (map inv_ID (invoices d))"

definition billing_rel :: "db \<Rightarrow> db \<Rightarrow> bool" where
  "billing_rel d d' \<longleftrightarrow> machine_ok d d' \<and> (invoice_pk d \<longrightarrow> invoice_pk d' \<and> ledger_kept d d')"

lemma frozen_edge: "period_edge s s' \<Longrightarrow> frozenStatus s \<Longrightarrow> frozenStatus s'"
  by (auto simp: frozenStatus_def elim: period_edge.cases)

lemma frozen_edges: "period_edge\<^sup>*\<^sup>* s s' \<Longrightarrow> frozenStatus s \<Longrightarrow> frozenStatus s'"
  by (induction rule: rtranclp_induct) (auto intro: frozen_edge)

lemma frozen_kept: "machine_ok d d' \<Longrightarrow> frozen d pid \<Longrightarrow> frozen d' pid"
  unfolding machine_ok_def frozen_def by (meson frozen_edges)

lemma billing_rel_refl [simp]: "billing_rel d d"
  by (auto simp: billing_rel_def ledger_kept_def machine_ok_def sameInvoice_def)

lemma ledger_kept_trans:
  assumes ab: "ledger_kept a b" and bc: "ledger_kept b c" and fr: "\<And>pid. frozen a pid \<Longrightarrow> frozen b pid"
  shows "ledger_kept a c"
proof -
  have kept: "\<exists>j\<in>set (invoices b). sameInvoice i j \<and> frozen b (inv_PeriodID j)"
    if i: "i \<in> set (invoices a)" "frozen a (inv_PeriodID i)" for i
  proof -
    obtain j where j: "j \<in> set (invoices b)" "sameInvoice i j"
      using ab i unfolding ledger_kept_def by blast
    moreover have "inv_PeriodID j = inv_PeriodID i" using j(2) by (simp add: sameInvoice_def invoiceOwner_def)
    ultimately show ?thesis using fr i(2) by auto
  qed
  have "\<exists>k\<in>set (invoices c). sameInvoice i k"
    if "i \<in> set (invoices a)" "frozen a (inv_PeriodID i)" for i
    using kept [OF that] bc unfolding ledger_kept_def sameInvoice_def by metis
  moreover have "x \<in> set (invoice_items c)"
    if x: "x \<in> set (invoice_items a)" and i: "i \<in> set (invoices a)" "inv_ID i = ii_InvoiceID x" "frozen a (inv_PeriodID i)" for x i
  proof -
    have "x \<in> set (invoice_items b)" using ab x i unfolding ledger_kept_def by blast
    thus ?thesis using kept [OF i(1,3)] bc i(2) unfolding ledger_kept_def sameInvoice_def by metis
  qed
  ultimately show ?thesis unfolding ledger_kept_def by blast
qed

lemma billing_rel_trans: "transp billing_rel"
proof (rule transpI)
  fix a b c assume ab: "billing_rel a b" and bc: "billing_rel b c"
  have "machine_ok a c"
    using ab bc unfolding billing_rel_def machine_ok_def by (meson rtranclp_trans)
  moreover have "frozen a pid \<Longrightarrow> frozen b pid" for pid
    using ab frozen_kept by (auto simp: billing_rel_def)
  ultimately show "billing_rel a c"
    using ab bc ledger_kept_trans unfolding billing_rel_def by blast
qed

section \<open>Statements\<close>

text \<open>A statement that leaves periods, invoices and items alone.\<close>

lemma billing_rel_same:
  "billing_periods d' = billing_periods d \<Longrightarrow> invoices d' = invoices d \<Longrightarrow>
   set (invoice_items d) \<subseteq> set (invoice_items d') \<Longrightarrow> billing_rel d d'"
  by (auto simp: billing_rel_def invoice_pk_def ledger_kept_def machine_ok_def statusOf_def sameInvoice_def)

lemma billing_rel_insertInvoice: "insertInvoice i d = Inr (u, d') \<Longrightarrow> billing_rel d d'"
proof -
  assume a: "insertInvoice i d = Inr (u, d')"
  hence "inv_ID i \<notin> inv_ID ` set (invoices d)"
    by (auto simp: insertInvoice_def list_ex_iff split: if_splits)
  moreover have "d' = d\<lparr>invoices := invoices d @ [i]\<rparr>"
    using a by (auto simp: insertInvoice_def split: if_splits)
  ultimately show ?thesis
    by (auto simp: invoice_pk_def billing_rel_def ledger_kept_def machine_ok_def statusOf_def sameInvoice_def)
qed

lemma billing_rel_updateInvoices:
  assumes "updateInvoices P f d = Inr (u, d')"
    and "\<And>i. invoice_pk d \<Longrightarrow> i \<in> set (invoices d) \<Longrightarrow> P i \<Longrightarrow> frozen d (inv_PeriodID i) \<Longrightarrow> sameInvoice i (f i)"
    and "\<And>i. inv_ID (f i) = inv_ID i"
  shows "billing_rel d d'"
proof -
  have d': "d' = d\<lparr>invoices := updateWhere P f (invoices d)\<rparr>"
    using assms(1) by (auto simp: updateInvoices_def Let_def split: if_splits)
  have "\<exists>j\<in>set (invoices d'). sameInvoice i j"
    if "i \<in> set (invoices d)" "frozen d (inv_PeriodID i)" "invoice_pk d" for i
  proof (cases "P i")
    case True
    have "f i \<in> set (invoices d')" using that(1) True by (force simp: d' set_updateWhere)
    thus ?thesis using assms(2) [OF that(3,1) True that(2)] by blast
  next
    case False
    have "i \<in> set (invoices d')" using that(1) False by (force simp: d' set_updateWhere)
    thus ?thesis by (auto simp: sameInvoice_def)
  qed
  moreover have "map inv_ID (updateWhere P f (invoices d)) = map inv_ID (invoices d)"
    using assms(3) by simp
  ultimately show ?thesis
    by (auto simp: billing_rel_def invoice_pk_def ledger_kept_def machine_ok_def statusOf_def d')
qed

lemma frozen_periodFrozen:
  "frozen d pid \<Longrightarrow> periodFrozen d pid"
  by (auto simp: frozen_def statusOf_def periodFrozen_def list_ex_iff find_Some_iff)

lemma billing_rel_deleteInvoicesOf:
  assumes "deleteInvoicesOf pid d = Inr (u, d')"
  shows "billing_rel d d'"
proof (cases "filter (\<lambda>i. inv_PeriodID i = pid) (invoices d) = []")
  case True
  have "filter (\<lambda>i. inv_PeriodID i \<noteq> pid) (invoices d) = invoices d"
    using True by (auto simp: filter_empty_conv filter_id_conv)
  hence "billing_periods d' = billing_periods d" "invoices d' = invoices d" "invoice_items d' = invoice_items d"
    using assms True by (auto simp: deleteInvoicesOf_def Let_def split: if_splits)
  thus ?thesis by (intro billing_rel_same) auto
next
  case False
  hence nf: "\<not> frozen d pid"
    using assms frozen_periodFrozen [of d pid] by (auto simp: deleteInvoicesOf_def Let_def split: if_splits)
  have d': "billing_periods d' = billing_periods d"
    "invoices d' = filter (\<lambda>i. inv_PeriodID i \<noteq> pid) (invoices d)"
    "invoice_items d' = filter (\<lambda>x. ii_InvoiceID x \<notin> set (map inv_ID (filter (\<lambda>i. inv_PeriodID i = pid) (invoices d)))) (invoice_items d)"
    using assms False by (auto simp: deleteInvoicesOf_def Let_def split: if_splits)
  have "ledger_kept d d'" if pk: "invoice_pk d"
  proof -
    have "x \<in> set (invoice_items d')"
      if "x \<in> set (invoice_items d)" "i \<in> set (invoices d)" "inv_ID i = ii_InvoiceID x" "frozen d (inv_PeriodID i)" for x i
      using that pk nf unfolding d' invoice_pk_def distinct_map inj_on_def by auto
    moreover have "i \<in> set (invoices d')" if "i \<in> set (invoices d)" "frozen d (inv_PeriodID i)" for i
      using that nf by (auto simp: d')
    ultimately show ?thesis unfolding ledger_kept_def by (auto simp: sameInvoice_def)
  qed
  moreover have "invoice_pk d \<Longrightarrow> invoice_pk d'"
    unfolding invoice_pk_def d'(2) by (rule distinct_map_filter)
  ultimately show ?thesis by (simp add: billing_rel_def machine_ok_def statusOf_def d'(1)) blast
qed

lemma billing_rel_storePeriod:
  assumes "storePeriod p d = Inr (u, d')"
    and "\<And>s. statusOf d (bp_ID p) = Some s \<Longrightarrow> period_edge\<^sup>*\<^sup>* s (bp_Status p)"
  shows "billing_rel d d'"
proof -
  obtain v where d': "d' = d\<lparr>billing_periods := saveRow bp_ID (p\<lparr>bp_LateFeeValue := v\<rparr>) (billing_periods d)\<rparr>"
    using assms(1) by (auto simp: storePeriod_def split: option.splits if_splits)
  have "statusOf d' pid = (if bp_ID p = pid then Some (bp_Status p) else statusOf d pid)" for pid
    by (simp add: d' statusOf_def find_saveRow)
  hence "machine_ok d d'" using assms(2) by (auto simp: machine_ok_def)
  thus ?thesis by (auto simp: billing_rel_def invoice_pk_def ledger_kept_def d' sameInvoice_def)
qed

lemma obeys_plain:
  assumes "\<And>d x d'. s d = Inr (x, d') \<Longrightarrow> billing_periods d' = billing_periods d \<and> invoices d' = invoices d \<and>
      set (invoice_items d) \<subseteq> set (invoice_items d')"
  shows "obeys billing_rel (exec s)"
  by (rule obeys_exec [OF billing_rel_trans]) (use assms in \<open>blast intro: billing_rel_same\<close>)

lemma obeys_statements:
  "obeys billing_rel (exec (insertItem x))" "obeys billing_rel (exec (insertShare sh))"
  "obeys billing_rel (exec (insertAdjustment a))" "obeys billing_rel (exec (insertCostItem c))"
  "obeys billing_rel (exec (storeCostItem c))" "obeys billing_rel (exec (deleteCostItems P))"
  "obeys billing_rel (exec (deleteSharesOf pid))"
  by (rule obeys_plain; auto simp: insertItem_def insertShare_def insertAdjustment_def insertCostItem_def
      storeCostItem_def deleteCostItems_def deleteSharesOf_def Let_def split: if_splits)+

lemma obeys_invoice_statements:
  "obeys billing_rel (exec (insertInvoice i))" "obeys billing_rel (exec (deleteInvoicesOf pid))"
  by (rule obeys_exec [OF billing_rel_trans]; blast intro: billing_rel_insertInvoice billing_rel_deleteInvoicesOf)+

lemmas obeys_env = obeys_reads [OF reads_rules(4)] obeys_reads [OF reads_rules(5)] obeys_reads [OF reads_rules(3)]
  obeys_reads [OF reads_rules(1)] obeys_reads [OF reads_rules(2)] obeys_reads [OF reads_rules(7)]
  obeys_reads [OF reads_rules(6)]

lemma obeys_side_channels:
  "obeys billing_rel (notifCreate uid typ title body rt rid)"
  "obeys billing_rel (auditAppend actor action ot oid bf af)"
  unfolding notifCreate_def auditAppend_def Let_def
  by (intro obeys_intros obeys_env obeys_plain; auto simp: insertNotification_def split: if_splits)+

text \<open>Reading the period.\<close>

lemma reads_authorizeBuilding [intro]: "reads (authorizeBuilding mgr bid)"
  unfolding authorizeBuilding_def repoIsManagerOf_def by (intro atom)

lemma reads_repo [intro]:
  "reads (repoGetPeriod pid)" "reads (repoIsManagerOf uid bid)" "reads (repoListCostItems pid)"
  "reads (repoGetCostItem cid)" "reads (repoUnitsForBuilding bid)" "reads (repoOccupantCountAsOf uid t)"
  "reads (repoListSharesForPeriod pid)" "reads (repoListPeriods bid)"
  unfolding repoGetPeriod_def repoIsManagerOf_def repoListCostItems_def repoGetCostItem_def
    repoUnitsForBuilding_def repoOccupantCountAsOf_def repoListSharesForPeriod_def repoListPeriods_def
  by (intro atom)+

lemma tri_getAuthorizedPeriod:
  "tri (\<lambda>d. d = d0) (getAuthorizedPeriod mgr pid)
     (\<lambda>p d. d = d0 \<and> bp_ID p = pid \<and> statusOf d0 pid = Some (bp_Status p)) (\<lambda>d. d = d0)"
  unfolding getAuthorizedPeriod_def
proof (rule tri_bind [where Q = "\<lambda>p d. d = d0 \<and> bp_ID p = pid \<and> statusOf d0 pid = Some (bp_Status p)"])
  show "tri (\<lambda>d. d = d0) (mapErr (orNotFound msgPeriodNotFound) (repoGetPeriod pid))
      (\<lambda>p d. d = d0 \<and> bp_ID p = pid \<and> statusOf d0 pid = Some (bp_Status p)) (\<lambda>d. d = d0)"
    unfolding repoGetPeriod_def
    by (intro tri_mapErr tri_query)
       (auto simp: firstRow_def statusOf_def find_Some_iff split: option.splits)
  fix p
  show "tri (\<lambda>d. d = d0 \<and> bp_ID p = pid \<and> statusOf d0 pid = Some (bp_Status p))
      (thenE (authorizeBuilding mgr (bp_BuildingID p)) (returnE p))
      (\<lambda>p d. d = d0 \<and> bp_ID p = pid \<and> statusOf d0 pid = Some (bp_Status p)) (\<lambda>d. d = d0)"
    by (intro tri_then [where Q = "\<lambda>d. d = d0 \<and> bp_ID p = pid \<and> statusOf d0 pid = Some (bp_Status p)"]
        tri_keep tri_return) (auto intro: reads_authorizeBuilding)
qed

lemma tri_savePeriod:
  assumes "\<And>d s. P d \<Longrightarrow> statusOf d (bp_ID p) = Some s \<Longrightarrow> period_edge\<^sup>*\<^sup>* s (bp_Status p)"
    and "\<And>d. P d \<Longrightarrow> billing_rel d0 d"
  shows "tri P (repoSavePeriod p) (\<lambda>_. billing_rel d0) (billing_rel d0)"
  unfolding repoSavePeriod_def Let_def
proof (rule tri_bind [where Q = "\<lambda>_. P"])
  show "tri P timeNow (\<lambda>_. P) (billing_rel d0)"
    using assms(2) by (intro tri_keep reads_rules)
  fix t
  show "tri P (thenE (exec (storePeriod (p\<lparr>bp_UpdatedAt := t\<rparr>))) (returnE (p\<lparr>bp_UpdatedAt := t\<rparr>)))
      (\<lambda>_. billing_rel d0) (billing_rel d0)"
  proof (intro tri_then [where Q = "billing_rel d0"] tri_exec tri_return)
    fix d x d' assume "P d" "storePeriod (p\<lparr>bp_UpdatedAt := t\<rparr>) d = Inr (x, d')"
    hence "billing_rel d d'" using assms(1) by (intro billing_rel_storePeriod) auto
    thus "billing_rel d0 d'" using assms(2) [OF \<open>P d\<close>] by (rule transpD [OF billing_rel_trans, rotated])
  qed (use assms(2) in auto)
qed


lemma liftE_bind [simp]: "bindE (liftE (Inr x)) f = f x" "bindE (liftE (Inl e)) f = throwE e"
  by (rule ext, simp add: bindE_def liftE_def throwE_def)+

lemma obeys_period_op:
  assumes "\<And>p d0. bp_ID p = pid \<Longrightarrow> statusOf d0 pid = Some (bp_Status p) \<Longrightarrow>
      tri (\<lambda>d. d = d0) (g p) (\<lambda>_. billing_rel d0) (billing_rel d0)"
  shows "obeys billing_rel (bindE (getAuthorizedPeriod mgr pid) g)"
proof (rule obeysI_tri [OF billing_rel_trans])
  fix d0
  have g: "tri (\<lambda>d. d = d0) (getAuthorizedPeriod mgr pid)
     (\<lambda>p d. d = d0 \<and> bp_ID p = pid \<and> statusOf d0 pid = Some (bp_Status p)) (billing_rel d0)"
    by (rule tri_weaken [OF tri_getAuthorizedPeriod]) auto
  show "tri (\<lambda>d. d = d0) (bindE (getAuthorizedPeriod mgr pid) g) (\<lambda>_. billing_rel d0) (billing_rel d0)"
  proof (rule tri_bind [OF g])
    fix p
    show "tri (\<lambda>d. d = d0 \<and> bp_ID p = pid \<and> statusOf d0 pid = Some (bp_Status p)) (g p)
        (\<lambda>_. billing_rel d0) (billing_rel d0)"
      using assms [of p d0] by (cases "bp_ID p = pid \<and> statusOf d0 pid = Some (bp_Status p)") (auto simp: tri_def)
  qed
qed

lemma tri_fail: "tri (\<lambda>d. d = d0) (throwE e) Q (billing_rel d0)"
  by (rule tri_throw) simp

lemma tri_obeys: "obeys billing_rel f \<Longrightarrow> tri (\<lambda>d. d = d0) f (\<lambda>_. billing_rel d0) (billing_rel d0)"
  unfolding obeys_def by (rule tri_weaken [where P = "billing_rel d0"]) auto

section \<open>Operations of the period service\<close>

lemma obeys_CreatePeriod: "obeys billing_rel (CreatePeriod mgr bid inp)"
proof -
  have "obeys billing_rel (exec (insertPeriod p))" for p
  proof (rule obeys_exec [OF billing_rel_trans])
    fix d x d' assume a: "insertPeriod p d = Inr (x, d')"
    hence "statusOf d (bp_ID p) = None" "storePeriod p d = Inr (x, d')"
      by (auto simp: insertPeriod_def statusOf_def find_None_iff list_ex_iff split: if_splits)
    thus "billing_rel d d'" by (intro billing_rel_storePeriod) auto
  qed
  thus ?thesis unfolding CreatePeriod_def repoCreatePeriod_def Let_def
    by (intro obeys_intros obeys_env obeys_reads [OF reads_authorizeBuilding])
qed

lemma applyPeriodInput_keeps:
  "applyPeriodInput p inp = Inr p' \<Longrightarrow> bp_ID p' = bp_ID p \<and> bp_Status p' = bp_Status p \<and> bp_BuildingID p' = bp_BuildingID p"
  by (auto simp: applyPeriodInput_def Let_def split: if_splits)

lemma obeys_UpdatePeriod: "obeys billing_rel (UpdatePeriod mgr pid inp)"
  unfolding UpdatePeriod_def
proof (rule obeys_period_op)
  fix p :: BillingPeriod and d0 assume p: "bp_ID p = pid" "statusOf d0 pid = Some (bp_Status p)"
  show "tri (\<lambda>d. d = d0) (thenE (throwIf (bp_Status p \<noteq> PeriodDraft) (AppErr (Conflict ''msgPeriodNotDraft'')))
      (bindE (liftE (applyPeriodInput p inp)) (\<lambda>p'. bindE (repoSavePeriod p') (\<lambda>p''. returnE (p'', p)))))
      (\<lambda>_. billing_rel d0) (billing_rel d0)"
  proof (cases "bp_Status p = PeriodDraft")
    case True
    show ?thesis
    proof (cases "applyPeriodInput p inp")
      case (Inr p')
      have "tri (\<lambda>d. d = d0) (repoSavePeriod p') (\<lambda>_. billing_rel d0) (billing_rel d0)"
        using applyPeriodInput_keeps [OF Inr] p by (intro tri_savePeriod) auto
      thus ?thesis using True Inr by (simp, intro tri_bind [where Q = "\<lambda>_. billing_rel d0"] tri_return)
    qed (use True in \<open>simp add: tri_fail\<close>)
  qed (simp add: tri_fail)
qed

lemma obeys_calculation_writes:
  "obeys billing_rel (repoReplaceCalculation pid shares invs)" "obeys billing_rel (repoDiscardCalculation pid)"
  unfolding repoReplaceCalculation_def repoDiscardCalculation_def createShare_def createInvoiceWithItems_def
    createInvoice_def createItem_def
  by (intro obeys_intros obeys_env obeys_statements obeys_invoice_statements)+

text \<open>The writes of a calculation do not touch the periods.\<close>

definition periods_kept :: "db \<Rightarrow> db \<Rightarrow> bool" where
  "periods_kept d d' \<longleftrightarrow> billing_rel d d' \<and> billing_periods d' = billing_periods d"

lemma periods_kept_trans: "transp periods_kept"
  using billing_rel_trans by (auto simp: transp_def periods_kept_def)

lemma obeys_periods_kept:
  assumes "\<And>d x d'. s d = Inr (x, d') \<Longrightarrow> billing_rel d d'"
    and "\<And>d x d'. s d = Inr (x, d') \<Longrightarrow> billing_periods d' = billing_periods d"
  shows "obeys periods_kept (exec s)"
  by (rule obeys_exec [OF periods_kept_trans]) (use assms in \<open>auto simp: periods_kept_def\<close>)

lemma periods_kept_plain:
  "obeys periods_kept (exec (insertItem x))" "obeys periods_kept (exec (insertShare sh))"
  "obeys periods_kept (exec (deleteSharesOf pid))"
  by (rule obeys_periods_kept, rule billing_rel_same;
      auto simp: insertItem_def insertShare_def deleteSharesOf_def Let_def split: if_splits)+

lemma periods_kept_insertInvoice: "obeys periods_kept (exec (insertInvoice i))"
  by (rule obeys_periods_kept, erule billing_rel_insertInvoice) (auto simp: insertInvoice_def split: if_splits)

lemma periods_kept_deleteInvoicesOf: "obeys periods_kept (exec (deleteInvoicesOf pid))"
  by (rule obeys_periods_kept, erule billing_rel_deleteInvoicesOf)
     (auto simp: deleteInvoicesOf_def Let_def split: if_splits)

lemma periods_kept_calculation:
  "obeys periods_kept (repoReplaceCalculation pid shares invs)" "obeys periods_kept (repoDiscardCalculation pid)"
  unfolding repoReplaceCalculation_def repoDiscardCalculation_def createShare_def createInvoiceWithItems_def
    createInvoice_def createItem_def
  by (intro obeys_intros obeys_env periods_kept_plain periods_kept_insertInvoice periods_kept_deleteInvoicesOf)+

lemma tri_periods_kept:
  "obeys periods_kept f \<Longrightarrow> tri (\<lambda>d. d = d0) f (\<lambda>_. periods_kept d0) (billing_rel d0)"
  unfolding obeys_def
  by (rule tri_weaken [of "periods_kept d0" f "\<lambda>_. periods_kept d0" "periods_kept d0"])
     (blast, auto simp: periods_kept_def)

lemma tri_save_after:
  assumes "bp_ID p = pid" "statusOf d0 pid = Some s" "period_edge\<^sup>*\<^sup>* s (bp_Status p)"
  shows "tri (periods_kept d0) (repoSavePeriod p) (\<lambda>_. billing_rel d0) (billing_rel d0)"
  using assms by (intro tri_savePeriod) (auto simp: periods_kept_def statusOf_def)

lemma obeys_Reopen: "obeys billing_rel (Reopen mgr pid)"
  unfolding Reopen_def
proof (rule obeys_period_op)
  fix p :: BillingPeriod and d0 assume p: "bp_ID p = pid" "statusOf d0 pid = Some (bp_Status p)"
  show "tri (\<lambda>d. d = d0)
      (thenE (throwIf (bp_Status p \<noteq> PeriodCalculated) (AppErr (Conflict ''reopen only when calculated'')))
        (thenE (repoDiscardCalculation pid) (repoSavePeriod (p\<lparr>bp_Status := PeriodDraft\<rparr>))))
      (\<lambda>_. billing_rel d0) (billing_rel d0)"
  proof (cases "bp_Status p = PeriodCalculated")
    case True
    have "tri (periods_kept d0) (repoSavePeriod (p\<lparr>bp_Status := PeriodDraft\<rparr>)) (\<lambda>_. billing_rel d0) (billing_rel d0)"
      using p True period_edge.reopen by (intro tri_save_after [where s = PeriodCalculated]) auto
    thus ?thesis using True
      by (simp, intro tri_then [OF tri_periods_kept [OF periods_kept_calculation(2)]])
  qed (simp add: tri_fail)
qed

lemma obeys_Close: "obeys billing_rel (Close mgr pid)"
  unfolding Close_def
proof (rule obeys_period_op)
  fix p :: BillingPeriod and d0 assume p: "bp_ID p = pid" "statusOf d0 pid = Some (bp_Status p)"
  show "tri (\<lambda>d. d = d0)
      (thenE (throwIf (bp_Status p \<noteq> PeriodIssued) (AppErr (Conflict ''close only after issue'')))
        (bindE timeNow (\<lambda>now. repoSavePeriod (p\<lparr>bp_Status := PeriodClosed, bp_ClosedAt := Some now\<rparr>))))
      (\<lambda>_. billing_rel d0) (billing_rel d0)"
  proof (cases "bp_Status p = PeriodIssued")
    case True
    have "tri (\<lambda>d. d = d0) (repoSavePeriod (p\<lparr>bp_Status := PeriodClosed, bp_ClosedAt := Some now\<rparr>))
        (\<lambda>_. billing_rel d0) (billing_rel d0)" for now
      using p True period_edge.close by (intro tri_savePeriod) auto
    thus ?thesis using True
      by (simp, intro tri_bind [OF tri_keep [OF reads_rules(5)]]) auto
  qed (simp add: tri_fail)
qed

lemma reads_validateCostItem [intro]: "reads (validateCostItem ci inp bid)"
proof -
  have b: "reads (badRequest msg)" for msg by (auto simp: badRequest_def)
  show ?thesis unfolding validateCostItem_def Let_def
    by (auto intro!: b atom reads_repo split del: if_split simp: if_split)
qed


lemma reads_authorizedCostItem [intro]: "reads (authorizedCostItem mgr cid)"
  unfolding authorizedCostItem_def by (intro atom reads_repo reads_authorizeBuilding)

lemma reads_getAuthorizedPeriod [intro]: "reads (getAuthorizedPeriod mgr pid)"
  unfolding getAuthorizedPeriod_def by (intro atom reads_repo reads_authorizeBuilding)

lemma reads_repoGetInvoice [intro]: "reads (repoGetInvoice iid)"
  unfolding repoGetInvoice_def
proof (intro reads_bindE reads_rules)
  fix r :: "Invoice option"
  show "reads (case r of None \<Rightarrow> throwE RecordNotFound
     | Some i \<Rightarrow> if inv_ID i = uuidNil then throwE RecordNotFound
       else bindE (query (\<lambda>d. Inr (sort_key (\<lambda>x. (ii_CreatedAt x, ii_ID x))
                    (filter (\<lambda>x. ii_InvoiceID x = iid) (invoice_items d))))) (\<lambda>items.
            bindE (query (\<lambda>d. Inr (sort_key ia_CreatedAt
                    (filter (\<lambda>a. ia_InvoiceID a = iid) (invoice_adjustments d))))) (\<lambda>adjs.
            returnE \<lparr>id_Invoice = i, id_Items = items, id_Adjustments = adjs\<rparr>)))"
    by (cases r) (auto intro!: atom)
qed

lemma reads_authorizedInvoice [intro]: "reads (authorizedInvoice mgr iid)"
  unfolding authorizedInvoice_def by (intro atom reads_repoGetInvoice reads_authorizeBuilding)

lemma obeys_cost_items:
  "obeys billing_rel (AddCostItem mgr pid inp)" "obeys billing_rel (UpdateCostItem mgr cid inp)"
  "obeys billing_rel (DeleteCostItem mgr cid)"
  unfolding AddCostItem_def UpdateCostItem_def DeleteCostItem_def repoCreateCostItem_def repoSaveCostItem_def
    repoDeleteCostItem_def Let_def case_prod_beta
  by (intro obeys_intros obeys_env obeys_statements obeys_reads [OF reads_getAuthorizedPeriod]
      obeys_reads [OF reads_authorizedCostItem] obeys_reads [OF reads_validateCostItem])+

lemma obeys_setStatus: "obeys billing_rel (repoSetInvoiceStatus iid st)"
proof -
  have "obeys billing_rel (exec (updateInvoices (\<lambda>i. inv_ID i = iid) (\<lambda>i. i\<lparr>inv_Status := st, inv_UpdatedAt := t\<rparr>)))" for t
    by (rule obeys_exec [OF billing_rel_trans], erule billing_rel_updateInvoices)
       (auto simp: sameInvoice_def invoiceAmounts_def invoiceOwner_def)
  thus ?thesis unfolding repoSetInvoiceStatus_def by (intro obeys_intros obeys_env)
qed

section \<open>Issuance\<close>

definition keysOf :: "db \<Rightarrow> (uuid \<times> uuid) list" where
  "keysOf d = map (\<lambda>i. (inv_ID i, inv_PeriodID i)) (invoices d)"

definition issuing :: "db \<Rightarrow> db \<Rightarrow> bool" where
  "issuing d0 d \<longleftrightarrow> periods_kept d0 d \<and> keysOf d = keysOf d0"

lemma issuing_issueOne:
  assumes x: "inv_PeriodID (snd x) = pid" "(inv_ID (snd x), pid) \<in> set (keysOf d0)"
    and st: "statusOf d0 pid = Some PeriodCalculated"
  shows "tri (issuing d0) (issueOne year now n x) (\<lambda>_. issuing d0) (\<lambda>_. True)"
  unfolding issueOne_def
proof (rule tri_exec)
  let ?f = "issueRow year (i64 (n + int (fst x) + 1)) now" and ?P = "\<lambda>i. inv_ID i = inv_ID (snd x)"
  fix d u d' assume i: "issuing d0 d" and u: "updateInvoices ?P ?f d = Inr (u, d')"
  have d': "d' = d\<lparr>invoices := updateWhere ?P ?f (invoices d)\<rparr>"
    using u by (auto simp: updateInvoices_def Let_def split: if_splits)
  have f: "inv_ID (?f j) = inv_ID j" "inv_PeriodID (?f j) = inv_PeriodID j" for j by (simp_all add: issueRow_def)
  have nf: "\<not> frozen d pid"
    using st i by (auto simp: issuing_def periods_kept_def frozen_def statusOf_def frozenStatus_def)
  have "billing_rel d d'"
  proof (rule billing_rel_updateInvoices [OF u])
    fix j assume pk: "invoice_pk d" and j: "j \<in> set (invoices d)" "?P j" "frozen d (inv_PeriodID j)"
    obtain k where k: "k \<in> set (invoices d)" "inv_ID k = inv_ID (snd x)" "inv_PeriodID k = pid"
    proof -
      have "(inv_ID (snd x), pid) \<in> set (keysOf d)" using x(2) i by (simp add: issuing_def)
      thus ?thesis using that by (auto simp: keysOf_def)
    qed
    have "k = j" using pk k j by (auto simp: invoice_pk_def distinct_map inj_on_def)
    thus "sameInvoice j (?f j)" using k(3) j(3) nf by simp
  qed (rule f)
  moreover have "keysOf d' = keysOf d" using f by (auto simp: keysOf_def d' updateWhere_def)
  ultimately show "issuing d0 d'"
    using i transpD [OF billing_rel_trans] by (auto simp: issuing_def periods_kept_def d')
qed simp

lemma billing_rel_markIssued:
  assumes "statusOf d pid = Some PeriodCalculated"
  shows "billing_rel d (markIssued pid now d)"
proof -
  let ?f = "\<lambda>q. q\<lparr>bp_Status := PeriodIssued, bp_IssuedAt := Some now, bp_UpdatedAt := now\<rparr>"
  have "statusOf (markIssued pid now d) k = (if k = pid then Some PeriodIssued else statusOf d k)" for k
    using assms find_updateWhere_inv [of bp_ID ?f k "\<lambda>q. bp_ID q = pid" "billing_periods d"]
    by (auto simp: markIssued_def statusOf_def find_Some_iff option.map_comp o_def split: if_splits intro!: option.map_cong)
  hence "machine_ok d (markIssued pid now d)" using assms period_edge.issue by (auto simp: machine_ok_def)
  thus ?thesis by (auto simp: billing_rel_def invoice_pk_def ledger_kept_def sameInvoice_def markIssued_def)
qed

lemma tri_numberDrafts:
  assumes st: "statusOf d0 pid = Some PeriodCalculated" and D: "drafts = draftsOf pid (invoices d0)"
  shows "tri (\<lambda>d. d = d0) (numberDrafts pid year now n drafts) (\<lambda>_. billing_rel d0) (\<lambda>_. True)"
proof -
  have "tri (issuing d0) (forE (zip [0..<length drafts] drafts) (issueOne year now n)) (\<lambda>_. issuing d0) (\<lambda>_. True)"
  proof (rule tri_for, rule issuing_issueOne [OF _ _ st])
    fix x assume "x \<in> set (zip [0..<length drafts] drafts)"
    hence "snd x \<in> set drafts" by (metis prod.collapse set_zip_rightD)
    thus "inv_PeriodID (snd x) = pid" "(inv_ID (snd x), pid) \<in> set (keysOf d0)" by (auto simp: D draftsOf_def keysOf_def)
  qed
  hence loop: "tri (\<lambda>d. d = d0) (forE (zip [0..<length drafts] drafts) (issueOne year now n)) (\<lambda>_. issuing d0) (\<lambda>_. True)"
    by (rule tri_weaken) (auto simp: issuing_def periods_kept_def)
  have mark: "tri (issuing d0) (exec (\<lambda>d. Inr ((), markIssued pid now d))) (\<lambda>_. billing_rel d0) (\<lambda>_. True)"
  proof (rule tri_exec)
    fix d x d' assume d: "issuing d0 d" and x: "Inr ((), markIssued pid now d) = (Inr (x, d') :: (unit \<times> db) result)"
    hence "statusOf d pid = Some PeriodCalculated" using st by (simp add: issuing_def periods_kept_def statusOf_def)
    hence "billing_rel d d'" using x billing_rel_markIssued by auto
    thus "billing_rel d0 d'" using d transpD [OF billing_rel_trans] by (auto simp: issuing_def periods_kept_def)
  qed simp
  show ?thesis unfolding numberDrafts_def
    by (intro tri_then [OF loop] tri_then [OF mark] tri_query) auto
qed

lemma tri_issueInvoices:
  "tri (\<lambda>d. d = d0) (repoIssueInvoices pid year now) (\<lambda>_. billing_rel d0) (billing_rel d0)"
  unfolding repoIssueInvoices_def
proof (rule tri_transaction, rule tri_bind)
  let ?Q = "\<lambda>p d. d = d0 \<and> statusOf d0 pid = Some (bp_Status p)"
  show "tri (\<lambda>d. d = d0) (repoGetPeriod pid) ?Q (\<lambda>_. True)"
    unfolding repoGetPeriod_def by (rule tri_query) (auto simp: firstRow_def statusOf_def split: option.splits)
  fix p :: BillingPeriod
  let ?rest = "\<lambda>n. bindE (query (\<lambda>d. Inr (draftsOf pid (invoices d)))) (numberDrafts pid year now n)"
  show "tri (?Q p) (thenE (throwIf (bp_Status p \<noteq> PeriodCalculated) ErrNotCalculable)
     (bindE (query (\<lambda>d. Inr (numberedCount (bp_BuildingID p) (invoices d)))) ?rest))
     (\<lambda>_. billing_rel d0) (\<lambda>_. True)"
  proof (cases "bp_Status p = PeriodCalculated \<and> statusOf d0 pid = Some PeriodCalculated")
    case True
    have rest: "tri (\<lambda>d. d = d0) (?rest n) (\<lambda>_. billing_rel d0) (\<lambda>_. True)" for n
    proof (rule tri_bind [where Q = "\<lambda>drafts d. drafts = draftsOf pid (invoices d0) \<and> d = d0"])
      fix drafts
      show "tri (\<lambda>d. drafts = draftsOf pid (invoices d0) \<and> d = d0) (numberDrafts pid year now n drafts)
          (\<lambda>_. billing_rel d0) (\<lambda>_. True)"
        using tri_numberDrafts [of d0 pid drafts] True
        by (cases "drafts = draftsOf pid (invoices d0)") (auto simp: tri_def)
    qed (rule tri_query, auto)
    have "tri (\<lambda>d. d = d0) (bindE (query (\<lambda>d. Inr (numberedCount (bp_BuildingID p) (invoices d)))) ?rest)
        (\<lambda>_. billing_rel d0) (\<lambda>_. True)"
      by (rule tri_bind [OF tri_keep [OF reads_rules(3)] rest]) simp
    thus ?thesis using True by simp
  next
    case False
    have "tri (\<lambda>d. False) f Q E" for f :: "Invoice list dbm" and Q E by (simp add: tri_def)
    thus ?thesis using False by (cases "bp_Status p = PeriodCalculated") (auto intro: tri_throw)
  qed
qed auto

lemma obeys_issueInvoices: "obeys billing_rel (repoIssueInvoices pid year now)"
  by (rule obeysI_tri [OF billing_rel_trans tri_issueInvoices])

lemma obeys_notifyIssued: "obeys billing_rel (notifyIssued p iv)"
  unfolding notifyIssued_def
proof (rule obeys_bind)
  show "obeys billing_rel (tryE (repoOccupantUserIDs [inv_UnitID iv]))"
    by (rule obeys_reads) (auto simp: repoOccupantUserIDs_def)
  fix r :: "uuid list result"
  show "obeys billing_rel (case r of Inl _ \<Rightarrow> returnE ()
     | Inr uids \<Rightarrow> forE uids (\<lambda>uid. ignoreE (notifCreate uid ''invoice_issued''
         (''invoice '' @ bp_Title p @ '' issued'')
         (''payable: '' @ showInt (inv_FinalAmount iv) @ '' toman'') (Some ''invoice'') (Some (inv_ID iv)))))"
  proof (cases r)
    case (Inl e)
    thus ?thesis by (simp add: obeys_env)
  next
    case (Inr uids)
    show ?thesis unfolding Inr sum.case by (intro obeys_for obeys_ignore obeys_side_channels)
  qed
qed

section \<open>The environment of billing\<close>

text \<open>The interface of the balance service as billing uses it: \<open>BalanceProvider.Snapshot\<close>
  only reads, and \<open>BalanceRecomputer.RecomputeInvoice\<close> leaves periods, invoices and items
  as the state machine demands.\<close>

locale billing_env =
  fixes snap :: balance_provider
    and balances :: recomputer
  assumes snap_reads: "reads (snap uid)"
    and recompute_obeys: "balances = Some recompute \<Longrightarrow> obeys billing_rel (recompute iid)"
begin

lemma obeys_recomputeBalances: "obeys billing_rel (recomputeBalances balances ids)"
proof (cases balances)
  case None
  thus ?thesis by (simp add: recomputeBalances_def obeys_env)
next
  case (Some recompute)
  have "obeys billing_rel (forE ids (\<lambda>iid. ignoreE (recompute iid)))"
    by (intro obeys_for obeys_ignore recompute_obeys [OF Some])
  thus ?thesis using Some by (simp add: recomputeBalances_def)
qed

lemma obeys_Issue: "obeys billing_rel (Issue balances mgr pid)"
  unfolding Issue_def auditIssued_def
  by (intro obeys_intros obeys_env obeys_reads [OF reads_getAuthorizedPeriod] obeys_issueInvoices
      obeys_notifyIssued obeys_side_channels obeys_recomputeBalances)

lemma obeys_corrections:
  "obeys billing_rel (CancelInvoice balances mgr iid reason)" "obeys billing_rel (AddAdjustment balances mgr iid inp)"
  unfolding CancelInvoice_def AddAdjustment_def Let_def repoCreateAdjustment_def createItem_def
  by (intro obeys_intros obeys_env obeys_reads [OF reads_authorizedInvoice] obeys_setStatus
      obeys_side_channels obeys_recomputeBalances obeys_statements)+

end

section \<open>Operations of the calculation service\<close>

lemma reads_authorizedPeriod [intro]: "reads (authorizedPeriod mgr pid)"
  unfolding authorizedPeriod_def by (intro atom reads_repo)

lemma reads_itemShares: "reads (itemShares str parse bus item)"
proof -
  have "reads (shareRow parse bus cid sh)" for cid sh
    unfolding shareRow_def by (cases "parse (sh_UnitID sh)") (auto intro!: atom)
  thus ?thesis unfolding itemShares_def by (intro atom)
qed

lemma reads_itemsLoop [intro]: "reads (itemsLoop str parse bus items)"
  by (induction items) (auto intro!: atom reads_itemShares simp: case_prod_beta)

lemma reads_snapshotUnits [intro]: "reads (snapshotUnits period us)"
  unfolding snapshotUnits_def by (intro atom reads_repo)

lemma reads_CalcPreview [intro]: "reads (CalcPreview mgr pid)"
  unfolding CalcPreview_def repoListInvoices_def normalizePage_def case_prod_beta Let_def
  by (intro atom reads_repo reads_authorizedPeriod)

lemma tri_authorizedPeriod:
  "tri (\<lambda>d. d = d0) (authorizedPeriod mgr pid)
     (\<lambda>p d. d = d0 \<and> bp_ID p = pid \<and> statusOf d0 pid = Some (bp_Status p)) (billing_rel d0)"
  unfolding authorizedPeriod_def
proof (rule tri_bind)
  show "tri (\<lambda>d. d = d0) (mapErr (orNotFound ''billing period not found'') (repoGetPeriod pid))
      (\<lambda>p d. d = d0 \<and> bp_ID p = pid \<and> statusOf d0 pid = Some (bp_Status p)) (billing_rel d0)"
    unfolding repoGetPeriod_def
    by (intro tri_mapErr tri_query) (auto simp: firstRow_def statusOf_def find_Some_iff split: option.splits)
  fix p :: BillingPeriod
  let ?P = "\<lambda>d. d = d0 \<and> bp_ID p = pid \<and> statusOf d0 pid = Some (bp_Status p)"
  show "tri ?P (bindE (repoIsManagerOf (usr_ID mgr) (bp_BuildingID p))
      (\<lambda>ok. thenE (throwIf (\<not> ok) (AppErr (Forbidden ''no access to this building''))) (returnE p)))
      (\<lambda>p d. d = d0 \<and> bp_ID p = pid \<and> statusOf d0 pid = Some (bp_Status p)) (billing_rel d0)"
    by (rule tri_bind [where Q = "\<lambda>_. ?P"], rule tri_keep, blast, simp,
        rule tri_then [where Q = ?P], rule tri_keep, blast, simp, rule tri_return, simp)
qed

context billing_env
begin

lemma reads_composeInvoice: "reads (composeInvoice str snap period charges bu)"
proof -
  have "reads (chargeItem line)" for line unfolding chargeItem_def by (intro atom)
  moreover have "reads (lateFeeItem period fee)" for fee unfolding lateFeeItem_def by (auto intro!: atom)
  ultimately show ?thesis unfolding composeInvoice_def Let_def case_prod_beta by (intro atom snap_reads)
qed

lemma reads_computePeriod: "reads (computePeriod str parse snap period)"
  unfolding computePeriod_def case_prod_beta
  by (intro atom reads_repo reads_snapshotUnits reads_itemsLoop reads_composeInvoice)

lemma obeys_CalcCalculate: "obeys billing_rel (CalcCalculate str parse snap mgr pid)"
proof (rule obeysI_tri [OF billing_rel_trans])
  fix d0
  show "tri (\<lambda>d. d = d0) (CalcCalculate str parse snap mgr pid) (\<lambda>_. billing_rel d0) (billing_rel d0)"
    unfolding CalcCalculate_def
  proof (rule tri_bind [OF tri_authorizedPeriod])
    fix p :: BillingPeriod
    let ?P = "\<lambda>d. d = d0 \<and> bp_ID p = pid \<and> statusOf d0 pid = Some (bp_Status p)"
    let ?save = "bindE (repoSavePeriod (p\<lparr>bp_Status := PeriodCalculated\<rparr>)) (\<lambda>_. CalcPreview mgr pid)"
    let ?wr = "\<lambda>(shares, invs). thenE (repoReplaceCalculation pid shares invs) ?save"
    show "tri ?P (thenE (throwIf (bp_Status p \<noteq> PeriodDraft \<and> bp_Status p \<noteq> PeriodCalculated)
         (AppErr (Conflict ''calculate only in draft or calculated'')))
       (bindE (computePeriod str parse snap p) ?wr)) (\<lambda>_. billing_rel d0) (billing_rel d0)"
    proof (cases "(bp_Status p = PeriodDraft \<or> bp_Status p = PeriodCalculated) \<and> ?P d0")
      case True
      hence edge: "period_edge\<^sup>*\<^sup>* (bp_Status p) PeriodCalculated" using period_edge.calculate by auto
      have "tri (periods_kept d0) (repoSavePeriod (p\<lparr>bp_Status := PeriodCalculated\<rparr>)) (\<lambda>_. billing_rel d0) (billing_rel d0)"
        using True edge by (intro tri_save_after [where s = "bp_Status p"]) auto
      hence "tri (periods_kept d0) ?save (\<lambda>_. billing_rel d0) (billing_rel d0)"
        by (rule tri_bind) (rule tri_keep, blast, simp)
      hence "tri (\<lambda>d. d = d0) (?wr sw) (\<lambda>_. billing_rel d0) (billing_rel d0)" for sw
        unfolding case_prod_beta by (intro tri_then [OF tri_periods_kept [OF periods_kept_calculation(1)]])
      hence "tri (\<lambda>d. d = d0) (bindE (computePeriod str parse snap p) ?wr) (\<lambda>_. billing_rel d0) (billing_rel d0)"
        by (intro tri_bind [OF tri_keep [OF reads_computePeriod]]) auto
      thus ?thesis using True by auto
    next
      case False
      show ?thesis
      proof (cases "bp_Status p = PeriodDraft \<or> bp_Status p = PeriodCalculated")
        case True
        thus ?thesis using False by (auto simp: tri_def)
      next
        case bad: False
        have "tri ?P (throwE e) Q (billing_rel d0)" for e and Q :: "Preview \<Rightarrow> db \<Rightarrow> bool"
          by (rule tri_throw) simp
        thus ?thesis using bad by simp
      qed
    qed
  qed
qed

end

section \<open>Sequences of operations\<close>

text \<open>One request to the billing services, with any arguments and any outcome.\<close>

inductive billing_step :: "balance_provider \<Rightarrow> recomputer \<Rightarrow> db world \<Rightarrow> db world \<Rightarrow> bool"
  for snap balances where
  createPeriod: "CreatePeriod mgr bid inp w = (r, w') \<Longrightarrow> billing_step snap balances w w'"
| updatePeriod: "UpdatePeriod mgr pid inp w = (r2, w') \<Longrightarrow> billing_step snap balances w w'"
| addCostItem: "AddCostItem mgr pid ci w = (r3, w') \<Longrightarrow> billing_step snap balances w w'"
| updateCostItem: "UpdateCostItem mgr cid ci w = (r4, w') \<Longrightarrow> billing_step snap balances w w'"
| deleteCostItem: "DeleteCostItem mgr cid w = (r5, w') \<Longrightarrow> billing_step snap balances w w'"
| calculate: "CalcCalculate str parse snap mgr pid w = (r6, w') \<Longrightarrow> billing_step snap balances w w'"
| reopen: "Reopen mgr pid w = (r7, w') \<Longrightarrow> billing_step snap balances w w'"
| issue: "Issue balances mgr pid w = (r8, w') \<Longrightarrow> billing_step snap balances w w'"
| close: "Close mgr pid w = (r9, w') \<Longrightarrow> billing_step snap balances w w'"
| cancelInvoice: "CancelInvoice balances mgr iid reason w = (r10, w') \<Longrightarrow> billing_step snap balances w w'"
| addAdjustment: "AddAdjustment balances mgr iid adj w = (r11, w') \<Longrightarrow> billing_step snap balances w w'"

context billing_env
begin

lemmas obeys_all = obeys_CreatePeriod obeys_UpdatePeriod obeys_cost_items obeys_CalcCalculate obeys_Reopen
  obeys_Issue obeys_Close obeys_corrections

lemma step_billing_rel: "billing_step snap balances w w' \<Longrightarrow> billing_rel (db w) (db w')"
  by (cases rule: billing_step.cases) (auto intro: obeys_run [OF obeys_all(1)] obeys_run [OF obeys_all(2)]
     obeys_run [OF obeys_all(3)] obeys_run [OF obeys_all(4)] obeys_run [OF obeys_all(5)] obeys_run [OF obeys_all(6)]
     obeys_run [OF obeys_all(7)] obeys_run [OF obeys_all(8)] obeys_run [OF obeys_all(9)] obeys_run [OF obeys_all(10)]
     obeys_run [OF obeys_all(11)])

lemma steps_billing_rel: "(billing_step snap balances)\<^sup>*\<^sup>* w w' \<Longrightarrow> billing_rel (db w) (db w')"
  by (induction rule: rtranclp_induct)
     (auto intro: transpD [OF billing_rel_trans] step_billing_rel)

end

interpretation zero_env: billing_env ZeroBalanceProvider None
  by unfold_locales (auto simp: ZeroBalanceProvider_def)

end
