(* ===== verification/Samples.thy ===== *)
theory Samples
  imports Database
begin

text \<open>
  Rows and a small building on which the examples of the development run: building 1 with
  the units 11 and 12, managed by user 21; user 22 lives in unit 11. Building 2 has the unit 13
  and another manager, user 23.
\<close>

definition mkUser :: "uuid \<Rightarrow> string \<Rightarrow> string \<Rightarrow> User" where
  "mkUser i phone role = \<lparr>usr_ID = i, usr_Phone = phone, usr_PasswordHash = Some ''hash'', usr_Role = role,
     usr_Name = ''user'', usr_FCMToken = None, usr_IsActive = True, usr_CreatedAt = 0, usr_UpdatedAt = 0, usr_DeletedAt = None\<rparr>"

definition mkBuilding :: "uuid \<Rightarrow> Building" where
  "mkBuilding i = \<lparr>bl_ID = i, bl_Name = ''building'', bl_Address = None, bl_BlockCount = 1, bl_FloorCount = 2,
     bl_UnitCount = 2, bl_BuiltYear = None, bl_ManagerPhone = None, bl_EmergencyPhone = None, bl_Notes = None,
     bl_CreatedAt = 0, bl_UpdatedAt = 0, bl_DeletedAt = None\<rparr>"

definition mkUnit :: "uuid \<Rightarrow> uuid \<Rightarrow> string \<Rightarrow> BuildingUnit" where
  "mkUnit i b number = \<lparr>un_ID = i, un_BuildingID = b, un_Number = number, un_Block = None, un_Floor = 1,
     un_AreaM2 = 80, un_ParkingCount = 1, un_ParkingNumbers = None, un_StorageCount = 0, un_StorageNumbers = None,
     un_Status = ''occupied'', un_Notes = None, un_CreatedAt = 0, un_UpdatedAt = 0, un_DeletedAt = None\<rparr>"

definition mkPerson :: "uuid \<Rightarrow> uuid \<Rightarrow> string \<Rightarrow> Person" where
  "mkPerson i b phone = \<lparr>pe_ID = i, pe_BuildingID = b, pe_FullName = ''person'', pe_Phone = Some phone,
     pe_NationalID = None, pe_CreatedAt = 0, pe_UpdatedAt = 0, pe_DeletedAt = None\<rparr>"

definition mkOccupancy :: "uuid \<Rightarrow> uuid \<Rightarrow> uuid \<Rightarrow> Occupancy" where
  "mkOccupancy i uid pid = \<lparr>oc_ID = i, oc_UnitID = uid, oc_PersonID = pid, oc_Relationship = ''owner'',
     oc_StartDate = 0, oc_EndDate = None, oc_IsActive = True, oc_CreatedAt = 0\<rparr>"

definition mkPeriod :: "uuid \<Rightarrow> uuid \<Rightarrow> string \<Rightarrow> BillingPeriod" where
  "mkPeriod i b st = \<lparr>bp_ID = i, bp_BuildingID = b, bp_Title = ''period'', bp_StartDate = 0, bp_EndDate = 30,
     bp_DueDate = 40, bp_LateFeeType = ''none'', bp_LateFeeValue = 0, bp_Status = st, bp_CalculatedAt = None,
     bp_IssuedAt = None, bp_ClosedAt = None, bp_CreatedAt = 0, bp_UpdatedAt = 0\<rparr>"

definition mkInvoice :: "uuid \<Rightarrow> string \<Rightarrow> uuid \<Rightarrow> uuid \<Rightarrow> uuid \<Rightarrow> money \<Rightarrow> string \<Rightarrow> Invoice" where
  "mkInvoice i number b per u amount st = \<lparr>inv_ID = i, inv_InvoiceNumber = number, inv_BuildingID = b,
     inv_PeriodID = per, inv_UnitID = u, inv_BaseAmount = amount, inv_PriorDebt = 0, inv_LateFeeAmount = 0,
     inv_CreditAmount = 0, inv_FinalAmount = amount, inv_IssueDate = Some 31, inv_DueDate = Some 40,
     inv_Status = st, inv_PaidAmount = 0, inv_InputsFrozenAt = Some 31, inv_CreatedAt = 0, inv_UpdatedAt = 0\<rparr>"

definition mkGatewayPayment :: "uuid \<Rightarrow> uuid \<Rightarrow> uuid \<Rightarrow> uuid \<Rightarrow> money \<Rightarrow> string \<Rightarrow> Payment" where
  "mkGatewayPayment i b u iid amount authority = \<lparr>pay_ID = i, pay_BuildingID = b, pay_UnitID = u,
     pay_InvoiceID = Some iid, pay_Method = MethodGateway, pay_Amount = amount, pay_PaidAt = 0,
     pay_TrackingNumber = None, pay_Gateway = Some ''zarinpal'', pay_Authority = Some authority,
     pay_RecordedBy = Some 22, pay_Status = StatusRecorded, pay_CreatedAt = 0, pay_UpdatedAt = 0\<rparr>"

definition sampleManager :: User where "sampleManager = mkUser 21 ''09120000021'' ''manager''"
definition sampleResident :: User where "sampleResident = mkUser 22 ''09120000022'' ''resident''"

definition sampleDb :: db where
  "sampleDb = emptyDb\<lparr>users := [sampleManager, sampleResident, mkUser 23 ''09120000023'' ''manager''],
     buildings := [mkBuilding 1, mkBuilding 2],
     units := [mkUnit 11 1 ''1'', mkUnit 12 1 ''2'', mkUnit 13 2 ''1''],
     user_buildings := [\<lparr>ub_UserID = 21, ub_BuildingID = 1, ub_GrantedAt = 0\<rparr>,
                        \<lparr>ub_UserID = 23, ub_BuildingID = 2, ub_GrantedAt = 0\<rparr>],
     persons := [mkPerson 31 1 ''09120000022''], occupancies := [mkOccupancy 41 11 31],
     billing_periods := [mkPeriod 51 1 PeriodIssued, mkPeriod 52 1 PeriodCalculated],
     invoices := [mkInvoice 61 ''BLD-2026-0001'' 1 51 11 1000 InvoiceUnpaid,
                  mkInvoice 62 ''BLD-2026-0002'' 1 51 12 1500 InvoiceUnpaid],
     payments := [mkGatewayPayment 71 1 11 61 400 ''A1'']\<rparr>"

definition sampleWorld :: "db world" where "sampleWorld = exampleWorld sampleDb"

end
