(* ===== verification/Conservation.thy ===== *)
theory Conservation
  imports Billing_Machine Samples
begin

text \<open>
  Conservation of money in a calculation: every share of every cost item ends up on exactly
  one invoice, so that the base amounts of the invoices of a period add up to the amounts
  that its cost items distribute; every invoice is the sum of its lines.
\<close>

section \<open>Results of the loops\<close>

lemma mapE_result:
  assumes "mapE f xs w = (Inr ys, w')" and "\<And>x y v v'. x \<in> set xs \<Longrightarrow> f x v = (Inr y, v') \<Longrightarrow> R x y"
  shows "list_all2 R xs ys"
  using assms
proof (induction xs arbitrary: w ys w')
  case (Cons x xs)
  obtain y zs w1 w2 where "f x w = (Inr y, w1)" "mapE f xs w1 = (Inr zs, w2)" "ys = y # zs"
    using Cons.prems(1) by (auto elim!: bindE_splitE simp: returnE_def)
  thus ?case using Cons by (auto intro: Cons.prems(2))
qed (simp add: returnE_def)

lemma mapE_reads_result:
  assumes "mapE f xs w = (Inr ys, w')" and "\<And>x. reads (f x)"
    and "\<And>x y v v'. db v = db w \<Longrightarrow> f x v = (Inr y, v') \<Longrightarrow> R x y"
  shows "list_all2 R xs ys"
  using assms(1,3)
proof (induction xs arbitrary: w ys w')
  case (Cons x xs)
  obtain y zs w1 w2 where s: "f x w = (Inr y, w1)" "mapE f xs w1 = (Inr zs, w2)" "ys = y # zs"
    using Cons.prems(1) by (auto elim!: bindE_splitE simp: returnE_def)
  moreover have "db w1 = db w" using s(1) by (rule reads_run [OF assms(2)])
  ultimately show ?case using Cons.IH [OF s(2)] Cons.prems(2) by auto
qed (simp add: returnE_def)

lemma list_all2_sum:
  "list_all2 (\<lambda>x y. (f x :: int) = g y) xs ys \<Longrightarrow> sum_list (map f xs) = sum_list (map g ys)"
  by (induction rule: list_all2_induct) simp_all

lemma list_all2_member: "list_all2 R xs ys \<Longrightarrow> y \<in> set ys \<Longrightarrow> \<exists>x\<in>set xs. R x y"
  by (induction rule: list_all2_induct) auto

definition shareOf :: "(string \<Rightarrow> uuid option) \<Rightarrow> uuid \<Rightarrow> Share \<Rightarrow> CostItemShare \<Rightarrow> bool" where
  "shareOf parse itemID sh s \<longleftrightarrow> parse (sh_UnitID sh) = Some (cis_UnitID s) \<and> cis_CostItemID s = itemID \<and>
     cis_RoundedShare s = sh_Rounded sh \<and> cis_ExactShare s = exactShareString (sh_Exact sh)"

lemma itemShares_result:
  assumes "itemShares str parse bus item w = (Inr ss, w')"
  shows "\<exists>res. Calculate (engineItem str item) (map (toEngineUnit str) bus) = Inr res \<and>
     list_all2 (shareOf parse (cir_ID item)) (ir_Shares res) ss"
proof -
  obtain res w1 where res: "Calculate (engineItem str item) (map (toEngineUnit str) bus) = Inr res"
    and m: "mapE (shareRow parse bus (cir_ID item)) (ir_Shares res) w1 = (Inr ss, w')"
    using assms unfolding itemShares_def
    by (auto elim!: bindE_splitE simp: mapErr_def liftE_def split: sum.splits)
  have "list_all2 (shareOf parse (cir_ID item)) (ir_Shares res) ss"
    using m by (rule mapE_result)
      (auto simp: shareRow_def shareOf_def throwE_def returnE_def elim!: bindE_splitE split: option.splits)
  thus ?thesis using res by blast
qed

text \<open>What a cost item distributes.\<close>

definition itemTarget :: "buildingUnit list \<Rightarrow> CostItemRow \<Rightarrow> int" where
  "itemTarget bus item = (if cir_Method item = MethodFixed
     then (case cir_FixedAmountPerUnit item of None \<Rightarrow> 0 | Some a \<Rightarrow> a) *
       int (length (filter (\<lambda>bu. \<not> (un_Status (bu_unit bu) = UnitStatusVacant \<and> \<not> cir_IncludeVacant item)) bus))
     else cir_TotalAmount item)"

definition itemInRange :: "buildingUnit list \<Rightarrow> CostItemRow \<Rightarrow> bool" where
  "itemInRange bus item \<longleftrightarrow> cir_TotalAmount item < 2 ^ 63 \<and>
     sum_list (map cwr_Weight (cir_ComboWeights item)) < 2 ^ 63 \<and>
     (case cir_FixedAmountPerUnit item of None \<Rightarrow> 0 | Some a \<Rightarrow> a) * int (length bus) < 2 ^ 63"

definition inputsOk :: "buildingUnit list \<Rightarrow> bool" where
  "inputsOk bus \<longleftrightarrow> (\<forall>bu\<in>set bus. 0 \<le> bu_occupants bu \<and> 0 \<le> un_AreaM2 (bu_unit bu))"

lemma itemShares_sum:
  assumes "itemShares str parse bus item w = (Inr ss, w')" and "inputsOk bus" and "itemInRange bus item"
  shows "sum_list (map cis_RoundedShare ss) = itemTarget bus item \<and> (\<forall>s\<in>set ss. 0 \<le> cis_RoundedShare s)"
proof -
  let ?item = "engineItem str item" and ?us = "map (toEngineUnit str) bus"
  obtain res where res: "Calculate ?item ?us = Inr res" and l: "list_all2 (shareOf parse (cir_ID item)) (ir_Shares res) ss"
    using itemShares_result [OF assms(1)] by blast
  have m: "map cw_Weight (ci_ComboWeights ?item) = map cwr_Weight (cir_ComboWeights item)" by (simp add: engineItem_def)
  have ok: "units_ok ?us" "ci_Total ?item < 2 ^ 63" "combo_in_range ?item" "ci_FixedAmountPerUnit ?item * int (length ?us) < 2 ^ 63"
    using assms(2,3) unfolding combo_in_range_def m
    by (auto simp: units_ok_def inputsOk_def toEngineUnit_def engineItem_def itemInRange_def)
  have p: "length (participants ?item ?us) =
      length (filter (\<lambda>bu. \<not> (un_Status (bu_unit bu) = UnitStatusVacant \<and> \<not> cir_IncludeVacant item)) bus)"
    by (simp add: participants_def filter_map o_def toEngineUnit_def engineItem_def)
  have "sum_list (map sh_Rounded (ir_Shares res)) = sum_list (map cis_RoundedShare ss)"
    by (rule list_all2_sum) (rule list_all2_mono [OF l], simp add: shareOf_def)
  moreover have "0 \<le> cis_RoundedShare s" if s: "s \<in> set ss" for s
  proof -
    obtain sh where "sh \<in> set (ir_Shares res)" "shareOf parse (cir_ID item) sh s"
      using list_all2_member [OF l s] by blast
    thus ?thesis using Calculate_ok [OF ok res] by (simp add: shareOf_def)
  qed
  moreover have f: "ci_Method ?item = cir_Method item" "ci_Total ?item = cir_TotalAmount item"
    "ci_FixedAmountPerUnit ?item = (case cir_FixedAmountPerUnit item of None \<Rightarrow> 0 | Some a \<Rightarrow> a)"
    by (simp_all add: engineItem_def)
  moreover have "ir_TotalUsed res = itemTarget bus item"
    using Calculate_ok [OF ok res] unfolding p f itemTarget_def by simp
  ultimately show ?thesis using Calculate_ok [OF ok res] by simp
qed

lemma itemShares_units:
  assumes "itemShares str parse bus item w = (Inr ss, w')" and rt: "\<And>u. parse (str u) = Some u"
  shows "\<forall>s\<in>set ss. cis_UnitID s \<in> (\<lambda>bu. un_ID (bu_unit bu)) ` set bus"
proof
  fix s assume s: "s \<in> set ss"
  obtain res where res: "Calculate (engineItem str item) (map (toEngineUnit str) bus) = Inr res"
    and l: "list_all2 (shareOf parse (cir_ID item)) (ir_Shares res) ss" using itemShares_result [OF assms(1)] by blast
  obtain sh where sh: "sh \<in> set (ir_Shares res)" "shareOf parse (cir_ID item) sh s"
    using list_all2_member [OF l s] by blast
  obtain bu where "bu \<in> set bus" "sh_UnitID sh = str (un_ID (bu_unit bu))"
    using Calculate_ids [OF res] sh(1) by (auto simp: toEngineUnit_def)
  thus "cis_UnitID s \<in> (\<lambda>bu. un_ID (bu_unit bu)) ` set bus" using sh(2) rt by (force simp: shareOf_def)
qed

lemma itemsLoop_result:
  assumes "itemsLoop str parse bus items w = (Inr (shares, charges), w')" and rt: "\<And>u. parse (str u) = Some u"
    and "inputsOk bus" and "\<forall>item\<in>set items. itemInRange bus item"
  shows "sum_list (map cis_RoundedShare shares) = sum_list (map (itemTarget bus) items) \<and>
     map (\<lambda>c. cl_amount (snd c)) charges = map cis_RoundedShare shares \<and>
     (\<forall>c\<in>set charges. fst c \<in> (\<lambda>bu. un_ID (bu_unit bu)) ` set bus \<and> 0 \<le> cl_amount (snd c))"
  using assms
proof (induction items arbitrary: shares charges w w')
  case (Cons item items)
  obtain ss rest rc w1 w2 where 1: "itemShares str parse bus item w = (Inr ss, w1)"
    and 2: "itemsLoop str parse bus items w1 = (Inr (rest, rc), w2)"
    and eq: "shares = ss @ rest" "charges = map (chargeOf item) ss @ rc"
    using Cons.prems(1) by (auto elim!: bindE_splitE simp: returnE_def)
  have i: "sum_list (map cis_RoundedShare ss) = itemTarget bus item \<and> (\<forall>s\<in>set ss. 0 \<le> cis_RoundedShare s)"
    using itemShares_sum [OF 1] Cons.prems by simp
  show ?case using i itemShares_units [OF 1 rt] Cons.IH [OF 2 rt] Cons.prems eq
    by (auto simp: chargeOf_def)
qed (simp add: returnE_def)

section \<open>Invoices\<close>

lemma lines_partition:
  assumes "distinct us" and "\<forall>c\<in>set charges. fst c \<in> set us"
  shows "sum_list (map (\<lambda>u. sum_list (map cl_amount (linesOf charges u))) us) = sum_list (map (\<lambda>c. cl_amount (snd c)) charges)"
  using assms(2)
proof (induction charges)
  case (Cons c charges)
  have "sum_list (map (\<lambda>u. sum_list (map cl_amount (linesOf (c # charges) u))) us) =
      sum_list (map (\<lambda>u. (if u = fst c then cl_amount (snd c) else 0) + sum_list (map cl_amount (linesOf charges u))) us)"
    by (intro arg_cong [where f = sum_list] map_cong) (auto simp: linesOf_def)
  also have "\<dots> = sum_list (map (\<lambda>u. if u = fst c then cl_amount (snd c) else 0) us) +
      sum_list (map (\<lambda>u. sum_list (map cl_amount (linesOf charges u))) us)" by (rule sum_list_addf)
  also have "sum_list (map (\<lambda>u. if u = fst c then cl_amount (snd c) else 0) us) = cl_amount (snd c)"
    using assms(1) Cons.prems by (simp add: sum_list_distinct_conv_sum_set)
  finally show ?case using Cons by simp
qed (simp add: linesOf_def)

text \<open>The invoice of a unit, from its charge lines.\<close>

definition invoiceFrom :: "BillingPeriod \<Rightarrow> (uuid \<times> chargeLine) list \<Rightarrow> buildingUnit \<Rightarrow> InvoiceWithItems \<Rightarrow> bool" where
  "invoiceFrom period charges bu x \<longleftrightarrow> (let i = iwi_Invoice x in
     inv_UnitID i = un_ID (bu_unit bu) \<and> inv_PeriodID i = bp_ID period \<and> inv_BuildingID i = bp_BuildingID period \<and>
     inv_BaseAmount i = sum64 (map cl_amount (linesOf charges (un_ID (bu_unit bu)))) \<and>
     inv_FinalAmount i = i64 (inv_BaseAmount i + inv_PriorDebt i + inv_LateFeeAmount i - inv_CreditAmount i) \<and>
     inv_Status i = InvoiceUnpaid \<and> inv_PaidAmount i = 0 \<and> isDraftNumber (inv_InvoiceNumber i) \<and>
     sum_list (map ii_Amount (iwi_Items x)) =
       sum_list (map cl_amount (linesOf charges (un_ID (bu_unit bu)))) + max 0 (inv_LateFeeAmount i))"

lemma chargeItems_amount:
  "mapE chargeItem lines w = (Inr items, w') \<Longrightarrow> sum_list (map ii_Amount items) = sum_list (map cl_amount lines)"
  by (rule sym, rule list_all2_sum, erule mapE_result) (auto simp: chargeItem_def returnE_def elim!: bindE_splitE)

lemma lateFeeItem_amount:
  "lateFeeItem period fee w = (Inr items, w') \<Longrightarrow> sum_list (map ii_Amount items) = max 0 fee"
  by (auto simp: lateFeeItem_def returnE_def elim!: bindE_splitE split: if_splits)

lemma composeInvoice_result:
  assumes "composeInvoice str snap period charges bu w = (Inr x, w')"
  shows "invoiceFrom period charges bu x"
proof -
  let ?lines = "linesOf charges (un_ID (bu_unit bu))"
  obtain items w1 lf w2 w3 prior credit fee iid number where i: "mapE chargeItem ?lines w = (Inr items, w1)"
    and l: "lateFeeItem period fee w2 = (Inr lf, w3)" and d: "isDraftNumber number"
    and x: "x = \<lparr>iwi_Invoice = \<lparr>inv_ID = iid, inv_InvoiceNumber = number, inv_BuildingID = bp_BuildingID period,
             inv_PeriodID = bp_ID period, inv_UnitID = un_ID (bu_unit bu), inv_BaseAmount = sum64 (map cl_amount ?lines),
             inv_PriorDebt = prior, inv_LateFeeAmount = fee, inv_CreditAmount = credit,
             inv_FinalAmount = i64 (sum64 (map cl_amount ?lines) + prior + fee - credit), inv_IssueDate = None,
             inv_DueDate = Some (bp_DueDate period), inv_Status = InvoiceUnpaid, inv_PaidAmount = 0,
             inv_InputsFrozenAt = None, inv_CreatedAt = 0, inv_UpdatedAt = 0\<rparr>, iwi_Items = items @ lf\<rparr>"
    using assms unfolding composeInvoice_def Let_def
    by (elim bindE_splitE) (auto simp: returnE_def liftE_def draftNumber_def isDraftNumber_def hasPrefix_def Let_def
        elim!: bindE_splitE split: if_splits)
  show ?thesis unfolding invoiceFrom_def Let_def x
    using chargeItems_amount [OF i] lateFeeItem_amount [OF l] d by simp
qed

section \<open>Conservation\<close>

lemma snapshotUnits_result:
  assumes "snapshotUnits period us w = (Inr bus, w')"
  shows "map bu_unit bus = us \<and> db w' = db w \<and>
     (\<forall>bu\<in>set bus. bu_occupants bu = occupantCountAt (occupant_counts (db w)) (un_ID (bu_unit bu)) (bp_EndDate period))"
proof -
  let ?R = "\<lambda>u bu. bu_unit bu = u \<and> bu_occupants bu = occupantCountAt (occupant_counts (db w)) (un_ID u) (bp_EndDate period)"
  have r: "reads (bindE (repoOccupantCountAsOf (un_ID u) (bp_EndDate period)) (\<lambda>occ. returnE \<lparr>bu_unit = u, bu_occupants = occ\<rparr>))" for u
    unfolding repoOccupantCountAsOf_def by (intro atom)
  have "list_all2 ?R us bus"
    using assms unfolding snapshotUnits_def
    by (rule mapE_reads_result) (use r in \<open>auto simp: repoOccupantCountAsOf_def query_def returnE_def elim!: bindE_splitE split: if_splits\<close>)
  hence "map bu_unit bus = us" "\<forall>bu\<in>set bus. ?R (bu_unit bu) bu"
    by (induction rule: list_all2_induct) auto
  moreover have "db w' = db w" using assms unfolding snapshotUnits_def by (rule reads_run [OF reads_mapE, rotated]) (rule r)
  ultimately show ?thesis by simp
qed

lemma occupantCountAt_nonneg:
  "list_all (\<lambda>o'. 0 \<le> ocn_OccupantCount o') rows \<Longrightarrow> 0 \<le> occupantCountAt rows uid ref"
proof -
  assume a: "list_all (\<lambda>o'. 0 \<le> ocn_OccupantCount o') rows"
  let ?xs = "sort_key (\<lambda>o'. - ocn_EffectiveFrom o') (filter (\<lambda>o'. ocn_UnitID o' = uid \<and> ocn_EffectiveFrom o' \<le> ref) rows)"
  show ?thesis
  proof (cases ?xs)
    case (Cons o' os)
    have "o' \<in> set ?xs" unfolding Cons by simp
    hence "o' \<in> set rows" by simp
    thus ?thesis using a Cons by (simp add: occupantCountAt_def list_all_iff)
  qed (simp add: occupantCountAt_def)
qed

text \<open>The schema checks and amount bounds under which nothing overflows.\<close>

definition calcInputsOk :: "db \<Rightarrow> BillingPeriod \<Rightarrow> bool" where
  "calcInputsOk d period \<longleftrightarrow>
     distinct (map un_ID (units d)) \<and> list_all (\<lambda>u. 0 \<le> un_AreaM2 u) (units d) \<and>
     list_all (\<lambda>o'. 0 \<le> ocn_OccupantCount o') (occupant_counts d) \<and>
     list_all (\<lambda>item. cir_TotalAmount item < 2 ^ 40 \<and> sum_list (map cwr_Weight (cir_ComboWeights item)) < 2 ^ 40 \<and>
        (case cir_FixedAmountPerUnit item of None \<Rightarrow> 0 | Some a \<Rightarrow> a) < 2 ^ 40) (cost_items d) \<and>
     length (cost_items d) < 2 ^ 11 \<and> length (units d) < 2 ^ 11"

definition unitsOf :: "db \<Rightarrow> uuid \<Rightarrow> BuildingUnit list" where
  "unitsOf d bid = sort_key un_Number (filter (\<lambda>u. un_BuildingID u = bid \<and> un_DeletedAt u = None) (units d))"

definition itemsOf :: "db \<Rightarrow> uuid \<Rightarrow> CostItemRow list" where
  "itemsOf d pid = sort_key (\<lambda>c. (cir_CreatedAt c, cir_ID c)) (filter (\<lambda>c. cir_PeriodID c = pid) (cost_items d))"

lemma distinct_unitsOf: "distinct (map un_ID (units d)) \<Longrightarrow> distinct (map un_ID (unitsOf d bid))"
proof -
  assume d: "distinct (map un_ID (units d))"
  have "mset (map un_ID (unitsOf d bid)) = mset (map un_ID (filter (\<lambda>u. un_BuildingID u = bid \<and> un_DeletedAt u = None) (units d)))"
    by (simp add: unitsOf_def)
  thus ?thesis using d by (metis distinct_map_filter mset_eq_imp_distinct_iff)
qed


lemma sum_list_le_bound: "(\<And>x. x \<in> set xs \<Longrightarrow> f x \<le> (c :: int)) \<Longrightarrow> sum_list (map f xs) \<le> c * int (length xs)"
proof (induction xs)
  case (Cons x xs)
  have "f x \<le> c" "sum_list (map f xs) \<le> c * int (length xs)" using Cons by simp_all
  thus ?case by (simp add: distrib_left)
qed simp

lemma itemTarget_bound:
  assumes "cir_TotalAmount item < 2 ^ 40" "(case cir_FixedAmountPerUnit item of None \<Rightarrow> 0 | Some a \<Rightarrow> a) < 2 ^ 40" "length bus < 2 ^ 11"
  shows "itemTarget bus item \<le> 2 ^ 51"
proof -
  let ?f = "case cir_FixedAmountPerUnit item of None \<Rightarrow> 0 | Some a \<Rightarrow> a"
  let ?n = "length (filter (\<lambda>bu. \<not> (un_Status (bu_unit bu) = UnitStatusVacant \<and> \<not> cir_IncludeVacant item)) bus)"
  have "?n < 2 ^ 11" by (rule le_less_trans [OF length_filter_le assms(3)])
  hence n: "int ?n \<le> 2 ^ 11" by simp
  have "?f * int ?n \<le> 2 ^ 40 * 2 ^ 11"
  proof (cases "0 \<le> ?f")
    case True
    thus ?thesis using assms(2) n by (intro mult_mono) auto
  next
    case False
    hence "?f * int ?n \<le> 0" by (simp add: mult_le_0_iff)
    thus ?thesis by simp
  qed
  thus ?thesis using assms(1) by (simp add: itemTarget_def)
qed

lemma inRange_items:
  assumes "calcInputsOk d period" "item \<in> set (cost_items d)" "length bus \<le> length (units d)"
  shows "itemInRange bus item \<and> itemTarget bus item \<le> 2 ^ 51"
proof -
  let ?f = "case cir_FixedAmountPerUnit item of None \<Rightarrow> 0 | Some a \<Rightarrow> a"
  have b: "cir_TotalAmount item < 2 ^ 40" "sum_list (map cwr_Weight (cir_ComboWeights item)) < 2 ^ 40" "?f < 2 ^ 40" "length bus < 2 ^ 11"
    using assms by (auto simp: calcInputsOk_def list_all_iff)
  have "?f * int (length bus) \<le> 2 ^ 40 * 2 ^ 11"
  proof (cases "0 \<le> ?f")
    case True
    thus ?thesis using b by (intro mult_mono) auto
  next
    case False
    hence "?f * int (length bus) \<le> 0" by (simp add: mult_le_0_iff)
    thus ?thesis by simp
  qed
  thus ?thesis using b itemTarget_bound [OF b(1,3,4)] by (simp add: itemInRange_def)
qed


lemma buildingUnits_eq:
  "map bu_unit bus = us \<Longrightarrow> (\<And>bu. bu \<in> set bus \<Longrightarrow> bu_occupants bu = g (bu_unit bu)) \<Longrightarrow>
   bus = map (\<lambda>u. \<lparr>bu_unit = u, bu_occupants = g u\<rparr>) us"
  by (induction bus arbitrary: us) auto

lemma linesOf_bound:
  "\<forall>c\<in>set charges. 0 \<le> cl_amount (snd c) \<Longrightarrow> 0 \<le> sum_list (map cl_amount (linesOf charges u)) \<and>
     sum_list (map cl_amount (linesOf charges u)) \<le> sum_list (map (\<lambda>c. cl_amount (snd c)) charges)"
  by (induction charges) (auto simp: linesOf_def)

text \<open>Invoices composed from nonnegative charges of distinct units carry exactly these charges.\<close>

lemma invoices_of_charges:
  assumes inv: "list_all2 (invoiceFrom period charges) bus invs" and d: "distinct (map (\<lambda>bu. un_ID (bu_unit bu)) bus)"
    and pos: "\<forall>c\<in>set charges. fst c \<in> set (map (\<lambda>bu. un_ID (bu_unit bu)) bus) \<and> 0 \<le> cl_amount (snd c)"
    and T: "sum_list (map (\<lambda>c. cl_amount (snd c)) charges) \<le> 2 ^ 62"
  shows "map (\<lambda>x. inv_UnitID (iwi_Invoice x)) invs = map (\<lambda>bu. un_ID (bu_unit bu)) bus \<and>
     sum_list (map (\<lambda>x. inv_BaseAmount (iwi_Invoice x)) invs) = sum_list (map (\<lambda>c. cl_amount (snd c)) charges) \<and>
     (\<forall>x\<in>set invs. let i = iwi_Invoice x in
        inv_FinalAmount i = i64 (inv_BaseAmount i + inv_PriorDebt i + inv_LateFeeAmount i - inv_CreditAmount i) \<and>
        sum_list (map ii_Amount (iwi_Items x)) = inv_BaseAmount i + max 0 (inv_LateFeeAmount i) \<and> 0 \<le> inv_BaseAmount i)"
proof -
  let ?ids = "map (\<lambda>bu. un_ID (bu_unit bu)) bus" and ?S = "\<lambda>u. sum_list (map cl_amount (linesOf charges u))"
  have S: "0 \<le> ?S u \<and> ?S u \<le> 2 ^ 62" for u using linesOf_bound [of charges u] pos T by simp
  have e: "sum64 (map cl_amount (linesOf charges u)) = ?S u" for u
    using S [of u] by (intro sum64_exact) (simp add: in64_def)
  have u: "map (\<lambda>x. inv_UnitID (iwi_Invoice x)) invs = ?ids"
    using inv by (induction rule: list_all2_induct) (auto simp: invoiceFrom_def Let_def)
  have "sum_list (map (\<lambda>bu. ?S (un_ID (bu_unit bu))) bus) = sum_list (map (\<lambda>x. inv_BaseAmount (iwi_Invoice x)) invs)"
    by (rule list_all2_sum) (rule list_all2_mono [OF inv], simp add: invoiceFrom_def Let_def e)
  moreover have "sum_list (map (\<lambda>bu. ?S (un_ID (bu_unit bu))) bus) = sum_list (map ?S ?ids)" by (simp add: o_def)
  ultimately have base: "sum_list (map (\<lambda>x. inv_BaseAmount (iwi_Invoice x)) invs) = sum_list (map (\<lambda>c. cl_amount (snd c)) charges)"
    using lines_partition [OF d, of charges] pos by simp
  show ?thesis using u base S list_all2_member [OF inv] by (fastforce simp: invoiceFrom_def Let_def e)
qed

text \<open>C1. A calculation conserves money: for every period, the computation of shares and draft
  invoices produces exactly one invoice for each live unit of the building, the rounded shares
  and the base amounts of the invoices both add up to what the cost items distribute (their
  total, or the per-unit amount times the participants for the fixed method), every invoice's
  lines add up to its base amount plus its late fee when that is positive (a negative late
  fee, which the input of a period accepts, is in the final amount and has no line), and its
  final amount is base + prior debt + late fee - credit. It assumes that printing an id and
  parsing it gives the id back, and amounts and counts for which nothing overflows.\<close>

theorem computePeriod_conserves:
  assumes run: "computePeriod str parse snap period w = (Inr (shares, invs), w')"
    and rt: "\<And>u. parse (str u) = Some u" and ok: "calcInputsOk (db w) period"
  shows "let us = unitsOf (db w) (bp_BuildingID period);
             bus = map (\<lambda>u. \<lparr>bu_unit = u, bu_occupants = occupantCountAt (occupant_counts (db w)) (un_ID u) (bp_EndDate period)\<rparr>) us;
             targets = sum_list (map (itemTarget bus) (itemsOf (db w) (bp_ID period)))
         in map (\<lambda>x. inv_UnitID (iwi_Invoice x)) invs = map un_ID us \<and> distinct (map un_ID us) \<and>
            sum_list (map (\<lambda>x. inv_BaseAmount (iwi_Invoice x)) invs) = targets \<and>
            sum_list (map cis_RoundedShare shares) = targets \<and>
            (\<forall>x\<in>set invs. let i = iwi_Invoice x in
               inv_FinalAmount i = i64 (inv_BaseAmount i + inv_PriorDebt i + inv_LateFeeAmount i - inv_CreditAmount i) \<and>
               sum_list (map ii_Amount (iwi_Items x)) = inv_BaseAmount i + max 0 (inv_LateFeeAmount i) \<and>
               0 \<le> inv_BaseAmount i)"
proof -
  let ?us = "unitsOf (db w) (bp_BuildingID period)" and ?items = "itemsOf (db w) (bp_ID period)"
  define bus where "bus = map (\<lambda>u. \<lparr>bu_unit = u, bu_occupants = occupantCountAt (occupant_counts (db w)) (un_ID u) (bp_EndDate period)\<rparr>) ?us"
  obtain w1 w2 w3 w4 bus' charges where s: "snapshotUnits period ?us w1 = (Inr bus', w2)" "db w1 = db w"
    and l: "itemsLoop str parse bus' ?items w2 = (Inr (shares, charges), w3)"
    and c: "mapE (composeInvoice str snap period charges) bus' w3 = (Inr invs, w4)"
    using run unfolding computePeriod_def repoListCostItems_def repoUnitsForBuilding_def itemsOf_def [symmetric] unitsOf_def [symmetric]
    by (elim bindE_splitE) (fastforce simp: thenE_def throwIf_def throwE_def returnE_def query_def elim!: bindE_splitE split: if_splits)
  have b: "bus' = bus"
    unfolding bus_def using snapshotUnits_result [OF s(1)] s(2) by (intro buildingUnits_eq) auto
  have ids: "map (\<lambda>bu. un_ID (bu_unit bu)) bus = map un_ID ?us" by (simp add: bus_def)
  have d: "distinct (map un_ID ?us)" using ok by (intro distinct_unitsOf) (simp add: calcInputsOk_def)
  have sub: "set ?us \<subseteq> set (units (db w))" "set ?items \<subseteq> set (cost_items (db w))" by (auto simp: unitsOf_def itemsOf_def)
  have len: "length bus \<le> length (units (db w))" "length ?items \<le> length (cost_items (db w))"
    by (simp_all add: bus_def unitsOf_def itemsOf_def)
  have inp: "inputsOk bus" using ok sub(1) occupantCountAt_nonneg
    by (auto simp: inputsOk_def bus_def calcInputsOk_def list_all_iff)
  have rng: "\<forall>item\<in>set ?items. itemInRange bus item \<and> itemTarget bus item \<le> 2 ^ 51"
    using inRange_items [OF ok _ len(1)] sub(2) by blast
  have L: "sum_list (map cis_RoundedShare shares) = sum_list (map (itemTarget bus) ?items)"
    "map (\<lambda>c. cl_amount (snd c)) charges = map cis_RoundedShare shares"
    "\<forall>c\<in>set charges. fst c \<in> set (map un_ID ?us) \<and> 0 \<le> cl_amount (snd c)"
    using itemsLoop_result [OF l [unfolded b] rt inp] rng ids by (auto simp: image_image simp flip: ids)
  let ?T = "sum_list (map (itemTarget bus) ?items)"
  have T: "?T \<le> 2 ^ 62"
  proof -
    have "?T \<le> 2 ^ 51 * int (length ?items)" using rng by (intro sum_list_le_bound) auto
    also have "\<dots> \<le> 2 ^ 51 * 2 ^ 11" using len(2) ok by (simp add: calcInputsOk_def)
    finally show ?thesis by simp
  qed
  have inv: "list_all2 (invoiceFrom period charges) bus invs"
    using c [unfolded b] by (rule mapE_result) (rule composeInvoice_result)
  show ?thesis unfolding Let_def bus_def [symmetric]
    using invoices_of_charges [OF inv, unfolded ids, OF d] L T d by (simp add: Let_def)
qed


definition calcDb :: db where
  "calcDb = sampleDb\<lparr>cost_items := [\<lparr>cir_ID = 81, cir_PeriodID = 52, cir_Title = ''water'', cir_TotalAmount = 102,
     cir_Method = MethodEqual, cir_FixedAmountPerUnit = None, cir_ComboWeights = [], cir_IncludeVacant = True,
     cir_UnitIDs = [], cir_CreatedAt = 0, cir_UpdatedAt = 0\<rparr>]\<rparr>"

text \<open>A representation of ids as strings of at least 24 characters.\<close>

definition sampleStr :: "uuid \<Rightarrow> string" where
  "sampleStr n = replicate 24 (CHR ''a'') @ replicate n (CHR ''b'')"

definition sampleParse :: "string \<Rightarrow> uuid option" where
  "sampleParse s = Some (length s - 24)"

definition calcWorld :: "db world" where
  "calcWorld = (exampleWorld calcDb)\<lparr>uuids := (\<lambda>n. n + 100)\<rparr>"

theorem computePeriod_conserves_witness:
  "\<exists>shares invs w'. computePeriod sampleStr sampleParse ZeroBalanceProvider (mkPeriod 52 1 PeriodDraft) calcWorld = (Inr (shares, invs), w') \<and>
     map (\<lambda>x. inv_UnitID (iwi_Invoice x)) invs = [11, 12] \<and> sum_list (map (\<lambda>x. inv_BaseAmount (iwi_Invoice x)) invs) = 102"
proof -
  let ?run = "computePeriod sampleStr sampleParse ZeroBalanceProvider (mkPeriod 52 1 PeriodDraft) calcWorld"
  have "\<not> isl (fst ?run)" by code_simp
  then obtain shares invs w' where r: "?run = (Inr (shares, invs), w')" by (cases ?run; cases "fst ?run") auto
  have rt: "sampleParse (sampleStr u) = Some u" for u by (simp add: sampleStr_def sampleParse_def)
  have ok: "calcInputsOk (db calcWorld) (mkPeriod 52 1 PeriodDraft)"
    by (simp add: calcInputsOk_def calcWorld_def calcDb_def sampleDb_def emptyDb_def mkUnit_def)
  have v: "map un_ID (unitsOf calcDb 1) = [11, 12]" by code_simp
  have i: "itemsOf calcDb 52 = cost_items calcDb" by (simp add: itemsOf_def calcDb_def)
  have t: "map (itemTarget bus) (itemsOf calcDb 52) = [102]" for bus
    unfolding i by (simp add: itemTarget_def calcDb_def)
  show ?thesis using computePeriod_conserves [OF r rt ok] r t v by (auto simp: Let_def mkPeriod_def calcWorld_def)
qed

end
