(* ===== verification/Auth_Token.thy ===== *)
theory Auth_Token
  imports Notification_Audit GoStd "HOL-Library.Product_Lexorder"
begin

text \<open>
  Accounts and credentials: \<open>internal/auth/user.go\<close>, \<open>password.go\<close>, \<open>token.go\<close> and \<open>invite.go\<close>
  on the tables of migrations 0001, 0009 and 0010.

  The cryptographic packages and the id printer are not part of the repository: the record \<open>crypto\<close>
  holds the functions the code calls. A random draw is a value of \<open>uuid.New\<close>'s stream passed through
  \<open>cr_hex\<close> or \<open>cr_index\<close>; \<open>None\<close> is a failed read of the system's source. \<open>cr_jwt token now\<close> is
  the subject of the token when its HMAC signature is right and it is valid at \<open>now\<close>. The tables
  \<open>unicode.L\<close> and \<open>unicode.N\<close> are used through \<open>cr_letter\<close> and \<open>cr_number\<close>. Times are seconds.
\<close>

section \<open>Libraries\<close>

record jwtClaims =
  jc_Subject :: string
  jc_IssuedAt :: int
  jc_ExpiresAt :: int

record crypto =
  cr_sha :: "string \<Rightarrow> string"
  cr_hex :: "uuid \<Rightarrow> string option"
  cr_index :: "uuid \<Rightarrow> nat option"
  cr_sign :: "jwtClaims \<Rightarrow> string option"
  cr_jwt :: "string \<Rightarrow> int \<Rightarrow> string option"
  cr_bcrypt :: "string \<Rightarrow> string option"
  cr_bcheck :: "string \<Rightarrow> string \<Rightarrow> bool"
  cr_uuidString :: "uuid \<Rightarrow> string"
  cr_uuidParse :: "string \<Rightarrow> uuid option"
  cr_letter :: "nat \<Rightarrow> bool"
  cr_number :: "nat \<Rightarrow> bool"

text \<open>What the code relies on: a signed token is accepted until it expires and yields its subject, a password
  matches its own hash, an id is parsed back from its text.\<close>

definition crypto_ok :: "crypto \<Rightarrow> bool" where
  "crypto_ok c \<longleftrightarrow>
     (\<forall>cl t now. cr_sign c cl = Some t \<longrightarrow> jc_IssuedAt cl \<le> now \<longrightarrow> now < jc_ExpiresAt cl \<longrightarrow>
        cr_jwt c t now = Some (jc_Subject cl)) \<and>
     (\<forall>p h. cr_bcrypt c p = Some h \<longrightarrow> cr_bcheck c h p) \<and>
     (\<forall>u. cr_uuidParse c (cr_uuidString c u) = Some u)"

section \<open>UTF-8\<close>

text \<open>\<open>utf8.DecodeRune\<close>: the code point and the rest of the bytes; an invalid or truncated sequence gives the
  replacement character and consumes one byte.\<close>

definition contByte :: "nat \<Rightarrow> nat \<Rightarrow> nat \<Rightarrow> bool" where
  "contByte lo hi b \<longleftrightarrow> lo \<le> b \<and> b \<le> hi"

definition runeError :: nat where "runeError = 65533"

fun decodeRune :: "nat list \<Rightarrow> nat \<times> nat" where
  "decodeRune [] = (runeError, 0)"
| "decodeRune (b # bs) =
     (if b < 128 then (b, 1)
      else if 194 \<le> b \<and> b \<le> 223 then
        (case bs of c # _ \<Rightarrow> if contByte 128 191 c then ((b - 192) * 64 + (c - 128), 2) else (runeError, 1)
         | _ \<Rightarrow> (runeError, 1))
      else if 224 \<le> b \<and> b \<le> 239 then
        (case bs of c # e # _ \<Rightarrow>
           if contByte (if b = 224 then 160 else 128) (if b = 237 then 159 else 191) c \<and> contByte 128 191 e
           then ((b - 224) * 4096 + (c - 128) * 64 + (e - 128), 3) else (runeError, 1)
         | _ \<Rightarrow> (runeError, 1))
      else if 240 \<le> b \<and> b \<le> 244 then
        (case bs of c # e # f # _ \<Rightarrow>
           if contByte (if b = 240 then 144 else 128) (if b = 244 then 143 else 191) c \<and> contByte 128 191 e \<and> contByte 128 191 f
           then ((b - 240) * 262144 + (c - 128) * 4096 + (e - 128) * 64 + (f - 128), 4) else (runeError, 1)
         | _ \<Rightarrow> (runeError, 1))
      else (runeError, 1))"

lemma decodeRune_progress: "bs \<noteq> [] \<Longrightarrow> 0 < snd (decodeRune bs)"
  by (cases bs) (auto split: list.splits)

function runes :: "nat list \<Rightarrow> nat list" where
  "runes bs = (if bs = [] then [] else fst (decodeRune bs) # runes (drop (snd (decodeRune bs)) bs))"
  by pat_completeness auto
termination
  by (relation "measure length") (auto intro!: diff_less decodeRune_progress)

declare runes.simps [simp del]

definition runesOf :: "string \<Rightarrow> nat list" where
  "runesOf s = runes (map of_char s)"

section \<open>Users\<close>

definition insertUser :: "User \<Rightarrow> db \<Rightarrow> (unit \<times> db) result" where
  "insertUser u d =
     (if list_ex (\<lambda>v. usr_ID v = usr_ID u \<or> usr_Phone v = usr_Phone u) (users d)
         \<or> usr_Role u \<notin> {RoleSuperAdmin, RoleManager, RoleResident}
      then Inl (Constraint ''users'') else Inr ((), d\<lparr>users := users d @ [u]\<rparr>))"

definition usersFindByID :: "uuid \<Rightarrow> User dbm" where
  "usersFindByID uid = query (\<lambda>d. firstRow (\<lambda>u. usr_ID u = uid) (users d))"

definition usersFindByPhone :: "string \<Rightarrow> User dbm" where
  "usersFindByPhone phone = query (\<lambda>d. firstRow (\<lambda>u. usr_Phone u = phone) (users d))"

definition usersCreate :: "User \<Rightarrow> User dbm" where
  "usersCreate u = bindE timeNow (\<lambda>t.
     let u' = u\<lparr>usr_CreatedAt := t, usr_UpdatedAt := t\<rparr> in thenE (exec (insertUser u')) (returnE u'))"

definition usersCountActive :: "int dbm" where
  "usersCountActive = query (\<lambda>d. Inr (int (length (users d))))"

definition usersUpdatePassword :: "User \<Rightarrow> unit dbm" where
  "usersUpdatePassword u = bindE timeNow (\<lambda>t. exec (\<lambda>d. Inr ((), d\<lparr>users :=
     updateWhere (\<lambda>v. usr_ID v = usr_ID u)
       (\<lambda>v. v\<lparr>usr_PasswordHash := usr_PasswordHash u, usr_Name := usr_Name u, usr_UpdatedAt := t\<rparr>) (users d)\<rparr>)))"

section \<open>Passwords\<close>

definition minimumPasswordLength :: nat where "minimumPasswordLength = 8"

definition ErrWeakPassword :: go_error where
  "ErrWeakPassword = AppErr (BadRequest ''the password must have at least 8 characters'')"
definition ErrWrongLogin :: go_error where
  "ErrWrongLogin = AppErr (Unauthorized ''wrong phone or password'')"

definition ValidatePassword :: "crypto \<Rightarrow> string \<Rightarrow> unit result" where
  "ValidatePassword c password =
     (if length (runesOf password) < minimumPasswordLength \<or>
         \<not> list_ex (cr_letter c) (runesOf password) \<or> \<not> list_ex (cr_number c) (runesOf password)
      then Inl ErrWeakPassword else Inr ())"

definition HashPassword :: "crypto \<Rightarrow> string \<Rightarrow> string result" where
  "HashPassword c password = (case cr_bcrypt c password of None \<Rightarrow> Inl (Sentinel ''bcrypt'') | Some h \<Rightarrow> Inr h)"

definition CheckPassword :: "crypto \<Rightarrow> string \<Rightarrow> string \<Rightarrow> bool" where
  "CheckPassword c hash password = cr_bcheck c hash password"

section \<open>Refresh tokens\<close>

definition ErrInvalidToken :: go_error where "ErrInvalidToken = AppErr (Unauthorized ''invalid token'')"
definition ErrTokenExpired :: go_error where "ErrTokenExpired = AppErr (Unauthorized ''token expired'')"
definition ErrTokenReused :: go_error where "ErrTokenReused = AppErr (Unauthorized ''token already used'')"

definition tokenRowOk :: "db \<Rightarrow> RefreshToken \<Rightarrow> bool" where
  "tokenRowOk d t \<longleftrightarrow> list_ex (\<lambda>u. usr_ID u = rt_UserID t) (users d) \<and>
     \<not> list_ex (\<lambda>q. rt_ID q \<noteq> rt_ID t \<and> rt_TokenHash q = rt_TokenHash t) (refresh_tokens d)"

definition storeFindByHash :: "string \<Rightarrow> RefreshToken dbm" where
  "storeFindByHash h = query (\<lambda>d. firstRow (\<lambda>t. rt_TokenHash t = h) (refresh_tokens d))"

definition storeCreateToken :: "RefreshToken \<Rightarrow> unit dbm" where
  "storeCreateToken t = exec (\<lambda>d.
     if \<not> tokenRowOk d t \<or> list_ex (\<lambda>q. rt_ID q = rt_ID t) (refresh_tokens d) then Inl (Constraint ''refresh_tokens'')
     else Inr ((), d\<lparr>refresh_tokens := refresh_tokens d @ [t]\<rparr>))"

definition storeSaveToken :: "RefreshToken \<Rightarrow> unit dbm" where
  "storeSaveToken t = exec (\<lambda>d. if \<not> tokenRowOk d t then Inl (Constraint ''refresh_tokens'')
     else Inr ((), d\<lparr>refresh_tokens := saveRow rt_ID t (refresh_tokens d)\<rparr>))"

definition storeRevokeFamily :: "uuid \<Rightarrow> int \<Rightarrow> unit dbm" where
  "storeRevokeFamily fid at' = exec (\<lambda>d. Inr ((), d\<lparr>refresh_tokens :=
     updateWhere (\<lambda>t. rt_FamilyID t = fid \<and> rt_RevokedAt t = None) (\<lambda>t. t\<lparr>rt_RevokedAt := Some at'\<rparr>) (refresh_tokens d)\<rparr>))"

record TokenService =
  ts_accessTTL :: int
  ts_refreshTTL :: int

definition hashToken :: "crypto \<Rightarrow> string \<Rightarrow> string" where
  "hashToken c token = cr_sha c token"

definition randomHex :: "crypto \<Rightarrow> string dbm" where
  "randomHex c = bindE newUUID (\<lambda>n. case cr_hex c n of None \<Rightarrow> throwE (Sentinel ''rand'') | Some s \<Rightarrow> returnE s)"

definition IssueAccessToken :: "crypto \<Rightarrow> TokenService \<Rightarrow> uuid \<Rightarrow> (string \<times> int) dbm" where
  "IssueAccessToken c s uid = bindE timeNow (\<lambda>now.
     let expiresAt = now + ts_accessTTL s
     in case cr_sign c \<lparr>jc_Subject = cr_uuidString c uid, jc_IssuedAt = now, jc_ExpiresAt = expiresAt\<rparr> of
        None \<Rightarrow> throwE (Sentinel ''sign access token'')
      | Some t \<Rightarrow> returnE (t, expiresAt))"

definition ParseAccessToken :: "crypto \<Rightarrow> string \<Rightarrow> uuid dbm" where
  "ParseAccessToken c token = bindE timeNow (\<lambda>now.
     case cr_jwt c token now of None \<Rightarrow> throwE ErrInvalidToken
     | Some subject \<Rightarrow> (case cr_uuidParse c subject of None \<Rightarrow> throwE ErrInvalidToken | Some uid \<Rightarrow> returnE uid))"

definition IssueRefreshToken :: "crypto \<Rightarrow> TokenService \<Rightarrow> uuid \<Rightarrow> string dbm" where
  "IssueRefreshToken c s uid =
     bindE (randomHex c) (\<lambda>raw. bindE timeNow (\<lambda>now. bindE newUUID (\<lambda>tid. bindE newUUID (\<lambda>fid.
     thenE (mapErr (\<lambda>_. Sentinel ''store refresh token'') (storeCreateToken
       \<lparr>rt_ID = tid, rt_UserID = uid, rt_FamilyID = fid, rt_TokenHash = hashToken c raw,
        rt_ExpiresAt = now + ts_refreshTTL s, rt_RevokedAt = None, rt_CreatedAt = now\<rparr>)) (returnE raw)))))"

record Rotation =
  ro_UserID :: uuid
  ro_AccessToken :: string
  ro_RefreshToken :: string
  ro_ExpiresIn :: int

text \<open>The part of \<open>RotateRefreshToken\<close> after the checks.\<close>

definition rotateTo :: "crypto \<Rightarrow> TokenService \<Rightarrow> RefreshToken \<Rightarrow> int \<Rightarrow> Rotation dbm" where
  "rotateTo c s rec now =
     bindE (randomHex c) (\<lambda>newRaw.
     thenE (mapErr (\<lambda>_. Sentinel ''revoke old refresh token'') (storeSaveToken (rec\<lparr>rt_RevokedAt := Some now\<rparr>)))
     (bindE newUUID (\<lambda>tid.
      thenE (mapErr (\<lambda>_. Sentinel ''store new refresh token'') (storeCreateToken
        \<lparr>rt_ID = tid, rt_UserID = rt_UserID rec, rt_FamilyID = rt_FamilyID rec, rt_TokenHash = hashToken c newRaw,
         rt_ExpiresAt = now + ts_refreshTTL s, rt_RevokedAt = None, rt_CreatedAt = now\<rparr>))
      (bindE (IssueAccessToken c s (rt_UserID rec)) (\<lambda>(access, exp).
       bindE timeNow (\<lambda>later.
       returnE \<lparr>ro_UserID = rt_UserID rec, ro_AccessToken = access, ro_RefreshToken = newRaw,
                ro_ExpiresIn = exp - later\<rparr>)))))) "

definition RotateRefreshToken :: "crypto \<Rightarrow> TokenService \<Rightarrow> string \<Rightarrow> Rotation dbm" where
  "RotateRefreshToken c s raw =
     bindE (mapErr (\<lambda>_. ErrInvalidToken) (storeFindByHash (hashToken c raw))) (\<lambda>rec.
     bindE timeNow (\<lambda>now.
     if rt_RevokedAt rec \<noteq> None
     then thenE (mapErr (\<lambda>_. Sentinel ''revoke family'') (storeRevokeFamily (rt_FamilyID rec) now)) (throwE ErrTokenReused)
     else if now > rt_ExpiresAt rec then throwE ErrTokenExpired
     else rotateTo c s rec now))"

definition RevokeFamilyByToken :: "crypto \<Rightarrow> string \<Rightarrow> unit dbm" where
  "RevokeFamilyByToken c raw =
     bindE (tryE (storeFindByHash (hashToken c raw))) (\<lambda>r.
     case r of
       Inl e \<Rightarrow> if e = RecordNotFound then returnE () else throwE (Sentinel ''find refresh token'')
     | Inr rec \<Rightarrow> bindE timeNow (\<lambda>now. mapErr (\<lambda>_. Sentinel ''revoke family'') (storeRevokeFamily (rt_FamilyID rec) now)))"

section \<open>Invite codes\<close>

text \<open>\<open>^09\d{9}$\<close>.\<close>

definition iranianMobile :: "string \<Rightarrow> bool" where
  "iranianMobile s \<longleftrightarrow> length s = 11 \<and> hasPrefix s ''09'' \<and> list_all isDigit s"

definition ErrInvalidPhone :: go_error where "ErrInvalidPhone = AppErr (BadRequest ''invalid mobile number'')"
definition ErrInviteInvalid :: go_error where "ErrInviteInvalid = AppErr (Unauthorized ''invalid invite code'')"
definition ErrInviteExpired :: go_error where "ErrInviteExpired = AppErr (Unauthorized ''invite code expired'')"

definition inviteValidity :: int where "inviteValidity = 7 * 24 * 3600"
definition inviteCodeLength :: nat where "inviteCodeLength = 8"
definition inviteCodeAlphabet :: string where "inviteCodeAlphabet = ''ABCDEFGHJKLMNPQRSTUVWXYZ23456789''"

definition storeCreateInvite :: "InviteCode \<Rightarrow> unit dbm" where
  "storeCreateInvite i = exec (\<lambda>d.
     if list_ex (\<lambda>q. ic_ID q = ic_ID i) (invite_codes d) \<or> ic_Role i \<notin> {RoleSuperAdmin, RoleManager, RoleResident} \<or>
        (case ic_CreatedBy i of None \<Rightarrow> False | Some uid \<Rightarrow> \<not> list_ex (\<lambda>u. usr_ID u = uid) (users d))
     then Inl (Constraint ''invite_codes'') else Inr ((), d\<lparr>invite_codes := invite_codes d @ [i]\<rparr>))"

text \<open>\<open>Order("created_at DESC").First\<close>: gorm appends the primary key to the order.\<close>

definition latestInvite :: "InviteCode list \<Rightarrow> string \<Rightarrow> InviteCode option" where
  "latestInvite rows phone = (case sort_key (\<lambda>i. (- ic_CreatedAt i, ic_ID i)) (filter (\<lambda>i. ic_Phone i = phone) rows) of
     [] \<Rightarrow> None | i # _ \<Rightarrow> Some i)"

definition storeLatestInvite :: "string \<Rightarrow> InviteCode dbm" where
  "storeLatestInvite phone = query (\<lambda>d. case latestInvite (invite_codes d) phone of None \<Rightarrow> Inl RecordNotFound | Some i \<Rightarrow> Inr i)"

definition storeConsumeInvite :: "uuid \<Rightarrow> int \<Rightarrow> unit dbm" where
  "storeConsumeInvite iid at' = exec (\<lambda>d.
     if \<not> list_ex (\<lambda>i. ic_ID i = iid \<and> ic_ConsumedAt i = None) (invite_codes d) then Inl ErrInviteInvalid
     else Inr ((), d\<lparr>invite_codes := updateWhere (\<lambda>i. ic_ID i = iid \<and> ic_ConsumedAt i = None)
            (\<lambda>i. i\<lparr>ic_ConsumedAt := Some at'\<rparr>) (invite_codes d)\<rparr>))"

definition randomInviteCode :: "crypto \<Rightarrow> nat \<Rightarrow> string dbm" where
  "randomInviteCode c n = mapE (\<lambda>_. bindE newUUID (\<lambda>k. case cr_index c k of
       None \<Rightarrow> throwE (Sentinel ''rand'')
     | Some i \<Rightarrow> returnE (inviteCodeAlphabet ! (i mod length inviteCodeAlphabet)))) [0..<n]"

definition hashCode :: "crypto \<Rightarrow> string \<Rightarrow> string" where
  "hashCode c code = cr_sha c code"

definition IssueInvite :: "crypto \<Rightarrow> string \<Rightarrow> string \<Rightarrow> uuid option \<Rightarrow> string dbm" where
  "IssueInvite c phone role createdBy =
     thenE (throwIf (\<not> iranianMobile phone) ErrInvalidPhone)
     (bindE (mapErr (\<lambda>_. Sentinel ''generate invite code'') (randomInviteCode c inviteCodeLength)) (\<lambda>code.
      bindE timeNow (\<lambda>now. bindE newUUID (\<lambda>iid.
      thenE (mapErr (\<lambda>_. Sentinel ''store invite'') (storeCreateInvite
        \<lparr>ic_ID = iid, ic_Phone = phone, ic_CodeHash = hashCode c code, ic_Role = role, ic_CreatedBy = createdBy,
         ic_ExpiresAt = now + inviteValidity, ic_ConsumedAt = None, ic_CreatedAt = now\<rparr>)) (returnE code)))))"

definition Redeem :: "crypto \<Rightarrow> string \<Rightarrow> string \<Rightarrow> string dbm" where
  "Redeem c phone code =
     thenE (throwIf (\<not> iranianMobile phone) ErrInvalidPhone)
     (bindE (mapErr (\<lambda>e. if e = RecordNotFound then ErrInviteInvalid else Sentinel ''load invite'') (storeLatestInvite phone)) (\<lambda>invite.
      bindE timeNow (\<lambda>now.
      thenE (throwIf (now > ic_ExpiresAt invite) ErrInviteExpired)
      (thenE (throwIf (ic_CodeHash invite \<noteq> hashCode c code) ErrInviteInvalid)
      (thenE (storeConsumeInvite (ic_ID invite) now)
      (returnE (if ic_Role invite = '''' then RoleResident else ic_Role invite)))))))"

end
