(* ===== verification/Building_Service.thy ===== *)
theory Building_Service
  imports Notification_Audit GoStd Auth_Token
begin

text \<open>
  Buildings, units and building managers: \<open>internal/building/repository.go\<close> and \<open>service.go\<close> on the
  tables of migration 0002.

  gorm's \<open>Delete\<close> is a soft delete only for a field of type \<open>gorm.DeletedAt\<close>; the models have a
  \<open>*time.Time\<close>, so that a delete removes the row and is checked by the foreign keys, and \<open>First\<close> does not
  look at \<open>deleted_at\<close>. The order in which Go ranges over a map is the parameter \<open>iter\<close>; \<open>ILIKE\<close> is the
  parameter \<open>ilike\<close>.
\<close>

type_synonym mapRange = "(string \<times> int option) list \<Rightarrow> (string \<times> int option) list"

section \<open>Tables\<close>

definition buildingRowOk :: "Building \<Rightarrow> bool" where
  "buildingRowOk b \<longleftrightarrow> 0 \<le> bl_BlockCount b \<and> 0 \<le> bl_FloorCount b \<and> 0 \<le> bl_UnitCount b"

definition unitStatuses :: "string list" where
  "unitStatuses = [''active'', ''vacant'', ''occupied'', ''inactive'']"

definition unitRowOk :: "db \<Rightarrow> BuildingUnit \<Rightarrow> bool" where
  "unitRowOk d u \<longleftrightarrow> 0 < un_AreaM2 u \<and> 0 \<le> un_ParkingCount u \<and> 0 \<le> un_StorageCount u \<and> un_Status u \<in> set unitStatuses \<and>
     list_ex (\<lambda>b. bl_ID b = un_BuildingID u) (buildings d)"

text \<open>\<open>uq_units_building_number_active\<close>.\<close>

definition unitClash :: "db \<Rightarrow> BuildingUnit \<Rightarrow> bool" where
  "unitClash d u \<longleftrightarrow> un_DeletedAt u = None \<and> list_ex (\<lambda>v. un_ID v \<noteq> un_ID u \<and> un_DeletedAt v = None \<and>
     un_BuildingID v = un_BuildingID u \<and> un_Number v = un_Number u) (units d)"

abbreviation uniqueViolation :: go_error where
  "uniqueViolation \<equiv> Constraint ''23505''"

definition buildingReferenced :: "db \<Rightarrow> uuid \<Rightarrow> bool" where
  "buildingReferenced d bid \<longleftrightarrow> list_ex (\<lambda>u. un_BuildingID u = bid) (units d) \<or> list_ex (\<lambda>g. ub_BuildingID g = bid) (user_buildings d) \<or>
     list_ex (\<lambda>p. pe_BuildingID p = bid) (persons d) \<or> list_ex (\<lambda>p. bp_BuildingID p = bid) (billing_periods d) \<or>
     list_ex (\<lambda>i. inv_BuildingID i = bid) (invoices d) \<or> list_ex (\<lambda>p. pay_BuildingID p = bid) (payments d) \<or>
     list_ex (\<lambda>e. ex_BuildingID e = bid) (expenses d) \<or> list_ex (\<lambda>m. mr_BuildingID m = bid) (maintenance_requests d) \<or>
     list_ex (\<lambda>a. an_BuildingID a = bid) (announcements d)"

definition unitReferenced :: "db \<Rightarrow> uuid \<Rightarrow> bool" where
  "unitReferenced d uid \<longleftrightarrow> list_ex (\<lambda>x. oc_UnitID x = uid) (occupancies d) \<or> list_ex (\<lambda>x. ocn_UnitID x = uid) (occupant_counts d) \<or>
     list_ex (\<lambda>s. cis_UnitID s = uid) (cost_item_shares d) \<or> list_ex (\<lambda>i. inv_UnitID i = uid) (invoices d) \<or>
     list_ex (\<lambda>p. pay_UnitID p = uid) (payments d) \<or> list_ex (\<lambda>b. bal_UnitID b = uid) (unit_balances d) \<or>
     list_ex (\<lambda>m. mr_UnitID m = Some uid) (maintenance_requests d)"

section \<open>Repository: buildings and managers\<close>

definition repoCreateBuilding :: "Building \<Rightarrow> Building dbm" where
  "repoCreateBuilding b = bindE timeNow (\<lambda>t. let b' = b\<lparr>bl_CreatedAt := t, bl_UpdatedAt := t\<rparr> in
     thenE (exec (\<lambda>d. if list_ex (\<lambda>q. bl_ID q = bl_ID b) (buildings d) then Inl uniqueViolation
        else if \<not> buildingRowOk b' then Inl (Constraint ''buildings'')
        else Inr ((), d\<lparr>buildings := buildings d @ [b']\<rparr>))) (returnE b'))"

definition FindBuilding :: "uuid \<Rightarrow> Building dbm" where
  "FindBuilding bid = query (\<lambda>d. firstRow (\<lambda>b. bl_ID b = bid) (buildings d))"

definition ListBuildingsForManager :: "uuid \<Rightarrow> Building list dbm" where
  "ListBuildingsForManager uid = query (\<lambda>d. Inr (sort_key (\<lambda>b. - bl_CreatedAt b)
     (filter (\<lambda>b. list_ex (\<lambda>g. ub_BuildingID g = bl_ID b \<and> ub_UserID g = uid) (user_buildings d)) (buildings d))))"

definition repoUpdateBuilding :: "Building \<Rightarrow> Building dbm" where
  "repoUpdateBuilding b = bindE timeNow (\<lambda>t. let b' = b\<lparr>bl_UpdatedAt := t\<rparr> in
     thenE (exec (\<lambda>d. if \<not> buildingRowOk b' then Inl (Constraint ''buildings'')
        else Inr ((), d\<lparr>buildings := saveRow bl_ID b' (buildings d)\<rparr>))) (returnE b'))"

definition repoDeleteBuilding :: "uuid \<Rightarrow> unit dbm" where
  "repoDeleteBuilding bid = exec (\<lambda>d. if list_ex (\<lambda>b. bl_ID b = bid) (buildings d) \<and> buildingReferenced d bid
     then Inl (Constraint ''23503'') else Inr ((), d\<lparr>buildings := filter (\<lambda>b. bl_ID b \<noteq> bid) (buildings d)\<rparr>))"

definition CountUnits :: "uuid \<Rightarrow> int dbm" where
  "CountUnits bid = query (\<lambda>d. Inr (int (length (filter (\<lambda>u. un_BuildingID u = bid \<and> un_DeletedAt u = None) (units d)))))"

definition grantRowOk :: "db \<Rightarrow> uuid \<Rightarrow> uuid \<Rightarrow> bool" where
  "grantRowOk d uid bid \<longleftrightarrow> list_ex (\<lambda>u. usr_ID u = uid) (users d) \<and> list_ex (\<lambda>b. bl_ID b = bid) (buildings d)"

definition isGrant :: "uuid \<Rightarrow> uuid \<Rightarrow> UserBuilding \<Rightarrow> bool" where
  "isGrant uid bid g \<longleftrightarrow> ub_UserID g = uid \<and> ub_BuildingID g = bid"

definition GrantManager :: "uuid \<Rightarrow> uuid \<Rightarrow> unit dbm" where
  "GrantManager uid bid =
     bindE (query (\<lambda>d. Inr (list_ex (isGrant uid bid) (user_buildings d)))) (\<lambda>found.
     if found then returnE () else bindE timeNow (\<lambda>t. exec (\<lambda>d.
       if list_ex (isGrant uid bid) (user_buildings d) then Inl uniqueViolation
       else if \<not> grantRowOk d uid bid then Inl (Constraint ''23503'')
       else Inr ((), d\<lparr>user_buildings := user_buildings d @ [\<lparr>ub_UserID = uid, ub_BuildingID = bid, ub_GrantedAt = t\<rparr>]\<rparr>))))"

definition CanManagerAccess :: "uuid \<Rightarrow> uuid \<Rightarrow> bool dbm" where
  "CanManagerAccess uid bid = query (\<lambda>d. Inr (0 < length (filter (isGrant uid bid) (user_buildings d))))"

interpretation manager_scope: building_scope CanManagerAccess
  by unfold_locales (auto simp: CanManagerAccess_def isGrant_def scope_defs split: if_splits)

definition ErrManagerAlreadyGranted :: go_error where
  "ErrManagerAlreadyGranted = Sentinel ''ErrManagerAlreadyGranted''"

record managerTarget =
  mt_ID :: uuid
  mt_Phone :: string
  mt_Name :: string
  mt_Role :: string

text \<open>\<open>Scan\<close> leaves the zero value when no row matches.\<close>

definition FindActiveUserByPhone :: "string \<Rightarrow> managerTarget dbm" where
  "FindActiveUserByPhone phone = query (\<lambda>d.
     case find (\<lambda>u. usr_Phone u = phone \<and> usr_IsActive u \<and> usr_DeletedAt u = None) (users d) of
       None \<Rightarrow> Inl RecordNotFound
     | Some u \<Rightarrow> if usr_ID u = uuidNil then Inl RecordNotFound
         else Inr \<lparr>mt_ID = usr_ID u, mt_Phone = usr_Phone u, mt_Name = usr_Name u, mt_Role = usr_Role u\<rparr>)"

record BuildingManager =
  bm_UserID :: uuid
  bm_Phone :: string
  bm_Name :: string
  bm_Role :: string
  bm_GrantedAt :: int

definition managerView :: "db \<Rightarrow> UserBuilding \<Rightarrow> BuildingManager list" where
  "managerView d g = map (\<lambda>u. \<lparr>bm_UserID = ub_UserID g, bm_Phone = usr_Phone u, bm_Name = usr_Name u, bm_Role = usr_Role u,
     bm_GrantedAt = ub_GrantedAt g\<rparr>) (filter (\<lambda>u. usr_ID u = ub_UserID g) (users d))"

definition ListBuildingManagers :: "uuid \<Rightarrow> BuildingManager list dbm" where
  "ListBuildingManagers bid = query (\<lambda>d. Inr (sort_key bm_GrantedAt (concat (map
     (\<lambda>g. map (\<lambda>u. \<lparr>bm_UserID = ub_UserID g, bm_Phone = usr_Phone u, bm_Name = usr_Name u, bm_Role = usr_Role u,
            bm_GrantedAt = ub_GrantedAt g\<rparr>) (filter (\<lambda>u. usr_ID u = ub_UserID g \<and> usr_DeletedAt u = None) (users d)))
     (filter (\<lambda>g. ub_BuildingID g = bid) (user_buildings d))))))"

definition ManagerGrantRow :: "uuid \<Rightarrow> uuid \<Rightarrow> BuildingManager dbm" where
  "ManagerGrantRow uid bid = query (\<lambda>d. case concat (map (managerView d) (filter (isGrant uid bid) (user_buildings d))) of
     [] \<Rightarrow> Inl RecordNotFound
   | m # _ \<Rightarrow> if bm_UserID m = uuidNil then Inl RecordNotFound else Inr m)"

definition CountBuildingManagers :: "uuid \<Rightarrow> int dbm" where
  "CountBuildingManagers bid = query (\<lambda>d. Inr (int (length (filter (\<lambda>g. ub_BuildingID g = bid) (user_buildings d)))))"

text \<open>\<open>granted_at DEFAULT now()\<close> is the clock of the database.\<close>

definition InsertManagerGrant :: "uuid \<Rightarrow> uuid \<Rightarrow> unit dbm" where
  "InsertManagerGrant uid bid = bindE timeNow (\<lambda>t. exec (\<lambda>d.
     if list_ex (isGrant uid bid) (user_buildings d) then Inl ErrManagerAlreadyGranted
     else if \<not> grantRowOk d uid bid then Inl (Constraint ''23503'')
     else Inr ((), d\<lparr>user_buildings := user_buildings d @ [\<lparr>ub_UserID = uid, ub_BuildingID = bid, ub_GrantedAt = t\<rparr>]\<rparr>)))"

definition revokable :: "db \<Rightarrow> uuid \<Rightarrow> uuid \<Rightarrow> bool" where
  "revokable d uid bid \<longleftrightarrow> list_ex (isGrant uid bid) (user_buildings d) \<and>
     length (filter (\<lambda>g. ub_BuildingID g = bid) (user_buildings d)) > 1"

definition RevokeManagerGuarded :: "uuid \<Rightarrow> uuid \<Rightarrow> (bool \<times> bool) dbm" where
  "RevokeManagerGuarded uid bid =
     bindE (exec (\<lambda>d. if revokable d uid bid
        then Inr (True, d\<lparr>user_buildings := filter (\<lambda>g. \<not> isGrant uid bid g) (user_buildings d)\<rparr>)
        else Inr (False, d))) (\<lambda>deleted.
     if deleted then returnE (True, False)
     else bindE (CanManagerAccess uid bid) (\<lambda>granted. returnE (False, granted)))"

definition PromoteResidentToManager :: "uuid \<Rightarrow> unit dbm" where
  "PromoteResidentToManager uid = bindE timeNow (\<lambda>t. exec (\<lambda>d. Inr ((), d\<lparr>users :=
     updateWhere (\<lambda>u. usr_ID u = uid \<and> usr_Role u = RoleResident) (\<lambda>u. u\<lparr>usr_Role := RoleManager, usr_UpdatedAt := t\<rparr>) (users d)\<rparr>)))"

section \<open>Repository: units\<close>

definition ErrDuplicateUnitNumber :: go_error where
  "ErrDuplicateUnitNumber = Sentinel ''ErrDuplicateUnitNumber''"

definition mapDup :: "go_error \<Rightarrow> go_error" where
  "mapDup e = (if e = uniqueViolation then ErrDuplicateUnitNumber else e)"

definition repoCreateUnit :: "BuildingUnit \<Rightarrow> BuildingUnit dbm" where
  "repoCreateUnit u = bindE timeNow (\<lambda>t. let u' = u\<lparr>un_CreatedAt := t, un_UpdatedAt := t\<rparr> in
     thenE (mapErr mapDup (exec (\<lambda>d. if list_ex (\<lambda>q. un_ID q = un_ID u) (units d) \<or> unitClash d u' then Inl uniqueViolation
        else if \<not> unitRowOk d u' then Inl (Constraint ''units'')
        else Inr ((), d\<lparr>units := units d @ [u']\<rparr>)))) (returnE u'))"

definition FindUnit :: "uuid \<Rightarrow> BuildingUnit dbm" where
  "FindUnit uid = query (\<lambda>d. firstRow (\<lambda>u. un_ID u = uid) (units d))"

record UnitFilter =
  uf_Q :: string
  uf_Block :: string
  uf_Floor :: "int option"
  uf_Status :: string
  uf_Page :: int
  uf_Size :: int

definition unitMatches :: "(string \<Rightarrow> string \<Rightarrow> bool) \<Rightarrow> uuid \<Rightarrow> UnitFilter \<Rightarrow> BuildingUnit \<Rightarrow> bool" where
  "unitMatches ilike bid f u \<longleftrightarrow> un_BuildingID u = bid \<and> un_DeletedAt u = None \<and>
     (uf_Q f = '''' \<or> (let pat = ''%'' @ uf_Q f @ ''%'' in
        ilike (un_Number u) pat \<or> ilike (case un_Block u of None \<Rightarrow> '''' | Some b \<Rightarrow> b) pat \<or>
        ilike (case un_Notes u of None \<Rightarrow> '''' | Some n \<Rightarrow> n) pat)) \<and>
     (uf_Block f = '''' \<or> un_Block u = Some (uf_Block f)) \<and>
     (case uf_Floor f of None \<Rightarrow> True | Some fl \<Rightarrow> un_Floor u = fl) \<and>
     (uf_Status f = '''' \<or> un_Status u = uf_Status f)"

definition repoListUnits :: "(string \<Rightarrow> string \<Rightarrow> bool) \<Rightarrow> uuid \<Rightarrow> UnitFilter \<Rightarrow> (BuildingUnit list \<times> int) dbm" where
  "repoListUnits ilike bid f =
     bindE (query (\<lambda>d. Inr (int (length (filter (unitMatches ilike bid f) (units d)))))) (\<lambda>total.
     let page = (if uf_Page f < 1 then 1 else uf_Page f);
         sz = (if uf_Size f < 1 \<or> uf_Size f > 100 then 20 else uf_Size f)
     in bindE (query (\<lambda>d. Inr (take (nat sz) (drop (nat ((page - 1) * sz))
          (sort_key un_Number (filter (unitMatches ilike bid f) (units d))))))) (\<lambda>out.
        returnE (out, total)))"

definition repoUpdateUnit :: "BuildingUnit \<Rightarrow> BuildingUnit dbm" where
  "repoUpdateUnit u = bindE timeNow (\<lambda>t. let u' = u\<lparr>un_UpdatedAt := t\<rparr> in
     thenE (mapErr mapDup (exec (\<lambda>d. if unitClash d u' then Inl uniqueViolation
        else if \<not> unitRowOk d u' then Inl (Constraint ''units'')
        else Inr ((), d\<lparr>units := saveRow un_ID u' (units d)\<rparr>)))) (returnE u'))"

definition repoDeleteUnit :: "uuid \<Rightarrow> unit dbm" where
  "repoDeleteUnit uid = exec (\<lambda>d. if list_ex (\<lambda>u. un_ID u = uid) (units d) \<and> unitReferenced d uid
     then Inl (Constraint ''23503'') else Inr ((), d\<lparr>units := filter (\<lambda>u. un_ID u \<noteq> uid) (units d)\<rparr>))"

section \<open>Service: buildings\<close>

definition ErrNoManager :: go_error where "ErrNoManager = Sentinel ''ErrNoManager''"

abbreviation (input) msgForbidden :: string where "msgForbidden \<equiv> ''access denied''"

definition authorizedBuilding :: "User option \<Rightarrow> uuid \<Rightarrow> Building dbm" where
  "authorizedBuilding manager bid =
     (case manager of None \<Rightarrow> throwE ErrNoManager
      | Some m \<Rightarrow>
        bindE (mapErr (\<lambda>e. if e = RecordNotFound then AppErr (NotFound ''building not found'') else e) (FindBuilding bid)) (\<lambda>b.
        bindE (CanManagerAccess (usr_ID m) (bl_ID b)) (\<lambda>ok.
        thenE (throwIf (\<not> ok) (AppErr (Forbidden msgForbidden))) (returnE b))))"

record BuildingInput =
  bi_Name :: string
  bi_Address :: "string option"
  bi_BlockCount :: "int option"
  bi_FloorCount :: "int option"
  bi_UnitCount :: "int option"
  bi_BuiltYear :: "int option"
  bi_ManagerPhone :: "string option"
  bi_EmergencyPhone :: "string option"
  bi_Notes :: "string option"

definition badPhone :: "string option \<Rightarrow> bool" where
  "badPhone p \<longleftrightarrow> (case p of None \<Rightarrow> False | Some s \<Rightarrow> s \<noteq> '''' \<and> \<not> iranianMobile s)"

definition negativeField :: "mapRange \<Rightarrow> (string \<times> int option) list \<Rightarrow> string option" where
  "negativeField iter kvs = map_option fst (find (\<lambda>(name, v). case v of None \<Rightarrow> False | Some x \<Rightarrow> x < 0) (iter kvs))"

definition orElse :: "'a option \<Rightarrow> 'a \<Rightarrow> 'a" where
  "orElse x y = (case x of None \<Rightarrow> y | Some v \<Rightarrow> v)"

definition invalidField :: "string \<Rightarrow> string \<Rightarrow> string \<Rightarrow> go_error" where
  "invalidField msg field rule = AppErr (WithDetail (BadRequest msg) field rule)"

definition applyBuildingInput :: "mapRange \<Rightarrow> Building \<Rightarrow> BuildingInput \<Rightarrow> Building result" where
  "applyBuildingInput iter b inp =
     (let name = trimSpace (bi_Name inp)
      in if name = '''' then Inl (invalidField ''the building name is required'' ''name'' ''required'')
      else if badPhone (bi_ManagerPhone inp) then Inl (invalidField ''invalid mobile number'' ''manager_phone'' ''mobile_format'')
      else if badPhone (bi_EmergencyPhone inp) then Inl (invalidField ''invalid mobile number'' ''emergency_phone'' ''mobile_format'')
      else case negativeField iter [(''block_count'', bi_BlockCount inp), (''floor_count'', bi_FloorCount inp), (''unit_count'', bi_UnitCount inp)] of
        Some field \<Rightarrow> Inl (invalidField ''a count cannot be negative'' field ''min_0'')
      | None \<Rightarrow>
        if (case bi_BuiltYear inp of None \<Rightarrow> False | Some y \<Rightarrow> y < 1250 \<or> y > 1500)
        then Inl (invalidField ''invalid year'' ''built_year'' ''jalali_year'')
        else Inr (b\<lparr>bl_Name := name, bl_Address := bi_Address inp,
               bl_BlockCount := orElse (bi_BlockCount inp) (bl_BlockCount b),
               bl_FloorCount := orElse (bi_FloorCount inp) (bl_FloorCount b),
               bl_UnitCount := orElse (bi_UnitCount inp) (bl_UnitCount b),
               bl_BuiltYear := bi_BuiltYear inp, bl_ManagerPhone := bi_ManagerPhone inp,
               bl_EmergencyPhone := bi_EmergencyPhone inp, bl_Notes := bi_Notes inp\<rparr>))"

definition zeroBuilding :: "uuid \<Rightarrow> Building" where
  "zeroBuilding bid = \<lparr>bl_ID = bid, bl_Name = '''', bl_Address = None, bl_BlockCount = 0, bl_FloorCount = 0, bl_UnitCount = 0,
     bl_BuiltYear = None, bl_ManagerPhone = None, bl_EmergencyPhone = None, bl_Notes = None, bl_CreatedAt = 0, bl_UpdatedAt = 0,
     bl_DeletedAt = None\<rparr>"

definition CreateBuilding :: "mapRange \<Rightarrow> User \<Rightarrow> BuildingInput \<Rightarrow> Building dbm" where
  "CreateBuilding iter manager inp =
     bindE newUUID (\<lambda>bid.
     bindE (liftE (applyBuildingInput iter (zeroBuilding bid) inp)) (\<lambda>b0.
     bindE (repoCreateBuilding b0) (\<lambda>b.
     thenE (GrantManager (usr_ID manager) (bl_ID b)) (returnE b))))"

definition UpdateBuilding :: "mapRange \<Rightarrow> User \<Rightarrow> uuid \<Rightarrow> BuildingInput \<Rightarrow> (Building \<times> Building) dbm" where
  "UpdateBuilding iter manager bid inp =
     bindE (authorizedBuilding (Some manager) bid) (\<lambda>before.
     bindE (liftE (applyBuildingInput iter before inp)) (\<lambda>after0.
     bindE (repoUpdateBuilding after0) (\<lambda>after. returnE (after, before))))"

definition GetBuilding :: "User \<Rightarrow> uuid \<Rightarrow> Building dbm" where
  "GetBuilding manager bid = authorizedBuilding (Some manager) bid"

definition ListBuildings :: "User \<Rightarrow> Building list dbm" where
  "ListBuildings manager = ListBuildingsForManager (usr_ID manager)"

definition DeleteBuilding :: "User \<Rightarrow> uuid \<Rightarrow> unit dbm" where
  "DeleteBuilding manager bid = bindE (authorizedBuilding (Some manager) bid) (\<lambda>_. repoDeleteBuilding bid)"

section \<open>Service: managers\<close>

definition ListManagers :: "User \<Rightarrow> uuid \<Rightarrow> BuildingManager list dbm" where
  "ListManagers manager bid = bindE (authorizedBuilding (Some manager) bid) (\<lambda>_. ListBuildingManagers bid)"

definition GrantManagerByPhone :: "User \<Rightarrow> uuid \<Rightarrow> string \<Rightarrow> BuildingManager dbm" where
  "GrantManagerByPhone manager bid phone =
     bindE (authorizedBuilding (Some manager) bid) (\<lambda>_.
     thenE (throwIf (\<not> iranianMobile phone) (AppErr (BadRequest ''invalid mobile number'')))
     (bindE (mapErr (\<lambda>e. if e = RecordNotFound then AppErr (NotFound ''no user with this number'') else e)
        (FindActiveUserByPhone phone)) (\<lambda>target.
      thenE (throwIf (mt_Role target = RoleSuperAdmin) (AppErr (BadRequest ''the superadmin cannot manage a building'')))
      (thenE (mapErr (\<lambda>e. if e = ErrManagerAlreadyGranted then AppErr (Conflict ''already a manager'') else e)
         (InsertManagerGrant (mt_ID target) bid))
      (thenE (whenE (mt_Role target = RoleResident) (PromoteResidentToManager (mt_ID target)))
       (ManagerGrantRow (mt_ID target) bid))))))"

definition RevokeManager :: "User \<Rightarrow> uuid \<Rightarrow> uuid \<Rightarrow> unit dbm" where
  "RevokeManager manager bid uid =
     bindE (authorizedBuilding (Some manager) bid) (\<lambda>_.
     bindE (CanManagerAccess uid bid) (\<lambda>granted.
     thenE (throwIf (\<not> granted) (AppErr (NotFound ''no grant'')))
     (bindE (CountBuildingManagers bid) (\<lambda>n.
      thenE (throwIf (n \<le> 1) (AppErr (Conflict ''one manager must remain'')))
      (thenE (throwIf (uid = usr_ID manager) (AppErr (BadRequest ''appoint another manager first'')))
      (bindE (RevokeManagerGuarded uid bid) (\<lambda>(deleted, stillGranted).
       if deleted then returnE ()
       else if stillGranted then throwE (AppErr (Conflict ''one manager must remain''))
       else throwE (AppErr (NotFound ''no grant'')))))))))"

section \<open>Service: units\<close>

record UnitInput =
  ui_Number :: string
  ui_Block :: "string option"
  ui_Floor :: "int option"
  ui_AreaM2 :: "int option"
  ui_ParkingCount :: "int option"
  ui_ParkingNumbers :: "string option"
  ui_StorageCount :: "int option"
  ui_StorageNumbers :: "string option"
  ui_Status :: "string option"
  ui_Notes :: "string option"

definition applyUnitInput :: "mapRange \<Rightarrow> BuildingUnit \<Rightarrow> UnitInput \<Rightarrow> BuildingUnit result" where
  "applyUnitInput iter u inp =
     (let number = trimSpace (ui_Number inp)
      in if number = '''' then Inl (invalidField ''the unit number is required'' ''number'' ''required'')
      else if (case ui_AreaM2 inp of None \<Rightarrow> un_AreaM2 u = 0 | Some a \<Rightarrow> a \<le> 0)
        then Inl (invalidField ''the area must be positive'' ''area_m2'' ''gt_0'')
      else if (case ui_Floor inp of None \<Rightarrow> False | Some f \<Rightarrow> f < 0) then Inl (invalidField ''the floor cannot be negative'' ''floor'' ''min_0'')
      else if (case ui_Status inp of None \<Rightarrow> False | Some s \<Rightarrow> s \<notin> set unitStatuses)
        then Inl (invalidField ''invalid status'' ''status'' ''invalid_enum'')
      else case negativeField iter [(''parking_count'', ui_ParkingCount inp), (''storage_count'', ui_StorageCount inp)] of
        Some field \<Rightarrow> Inl (invalidField ''a count cannot be negative'' field ''min_0'')
      | None \<Rightarrow> Inr (u\<lparr>un_Number := number, un_Block := ui_Block inp, un_Floor := orElse (ui_Floor inp) (un_Floor u),
            un_AreaM2 := orElse (ui_AreaM2 inp) (un_AreaM2 u), un_ParkingCount := orElse (ui_ParkingCount inp) (un_ParkingCount u),
            un_ParkingNumbers := ui_ParkingNumbers inp, un_StorageCount := orElse (ui_StorageCount inp) (un_StorageCount u),
            un_StorageNumbers := ui_StorageNumbers inp, un_Status := orElse (ui_Status inp) (un_Status u), un_Notes := ui_Notes inp\<rparr>))"

definition authorizedUnit :: "User option \<Rightarrow> uuid \<Rightarrow> BuildingUnit dbm" where
  "authorizedUnit manager uid =
     (case manager of None \<Rightarrow> throwE ErrNoManager
      | Some m \<Rightarrow>
        bindE (mapErr (\<lambda>e. if e = RecordNotFound then AppErr (NotFound ''unit not found'') else e) (FindUnit uid)) (\<lambda>u.
        bindE (CanManagerAccess (usr_ID m) (un_BuildingID u)) (\<lambda>ok.
        thenE (throwIf (\<not> ok) (AppErr (Forbidden msgForbidden))) (returnE u))))"

definition zeroUnit :: "uuid \<Rightarrow> uuid \<Rightarrow> BuildingUnit" where
  "zeroUnit uid bid = \<lparr>un_ID = uid, un_BuildingID = bid, un_Number = '''', un_Block = None, un_Floor = 0, un_AreaM2 = 0,
     un_ParkingCount = 0, un_ParkingNumbers = None, un_StorageCount = 0, un_StorageNumbers = None, un_Status = '''', un_Notes = None,
     un_CreatedAt = 0, un_UpdatedAt = 0, un_DeletedAt = None\<rparr>"

definition duplicateNumber :: "go_error \<Rightarrow> go_error" where
  "duplicateNumber e = (if e = ErrDuplicateUnitNumber
     then AppErr (WithDetail (Conflict ''the unit number is taken'') ''number'' ''unique_per_building'') else e)"

definition CreateUnit :: "mapRange \<Rightarrow> User \<Rightarrow> uuid \<Rightarrow> UnitInput \<Rightarrow> BuildingUnit dbm" where
  "CreateUnit iter manager bid inp =
     bindE (authorizedBuilding (Some manager) bid) (\<lambda>_.
     bindE newUUID (\<lambda>uid.
     bindE (liftE (applyUnitInput iter (zeroUnit uid bid) inp)) (\<lambda>u.
     mapErr duplicateNumber (repoCreateUnit u))))"

definition UpdateUnit :: "mapRange \<Rightarrow> User \<Rightarrow> uuid \<Rightarrow> UnitInput \<Rightarrow> (BuildingUnit \<times> BuildingUnit) dbm" where
  "UpdateUnit iter manager uid inp =
     bindE (authorizedUnit (Some manager) uid) (\<lambda>before.
     bindE (liftE (applyUnitInput iter before inp)) (\<lambda>after0.
     bindE (mapErr duplicateNumber (repoUpdateUnit after0)) (\<lambda>after. returnE (after, before))))"

definition GetUnit :: "User \<Rightarrow> uuid \<Rightarrow> BuildingUnit dbm" where
  "GetUnit manager uid = authorizedUnit (Some manager) uid"

definition ListUnits :: "(string \<Rightarrow> string \<Rightarrow> bool) \<Rightarrow> User \<Rightarrow> uuid \<Rightarrow> UnitFilter \<Rightarrow> (BuildingUnit list \<times> int) dbm" where
  "ListUnits ilike manager bid f = bindE (authorizedBuilding (Some manager) bid) (\<lambda>_. repoListUnits ilike bid f)"

definition DeleteUnit :: "User \<Rightarrow> uuid \<Rightarrow> unit dbm" where
  "DeleteUnit manager uid = bindE (authorizedUnit (Some manager) uid) (\<lambda>_. repoDeleteUnit uid)"

end
