(* ===== verification/GoTime.thy ===== *)
theory GoTime
  imports GoStd "HOL-Library.Monad_Syntax"
begin

text \<open>
  \<open>time.Parse(time.RFC3339, s)\<close> and \<open>fmt.Sscanf(s, "%d", &n)\<close>. An instant is the number of seconds since
  1970-01-01T00:00:00Z; a fraction of a second is checked and dropped, the resolution of the model being the second.
\<close>

section \<open>Numbers\<close>

text \<open>\<open>Sscanf\<close> with \<open>%d\<close> on a string without leading space: an optional sign and the longest run of digits;
  what follows is not read.\<close>

definition sscanfD :: "string \<Rightarrow> int option" where
  "sscanfD s =
     (let neg = (s \<noteq> [] \<and> hd s = CHR ''-''); signed = (s \<noteq> [] \<and> (hd s = CHR ''-'' \<or> hd s = CHR ''+''));
          ds = takeWhile isDigit (if signed then tl s else s);
          v = (if neg then - int (readNat ds) else int (readNat ds))
      in if ds = [] \<or> \<not> in64 v then None else Some v)"

section \<open>Instants\<close>

definition skipChar :: "char \<Rightarrow> string \<Rightarrow> string option" where
  "skipChar ch s = (case s of [] \<Rightarrow> None | x # r \<Rightarrow> if x = ch then Some r else None)"

text \<open>\<open>getnum\<close>: two digits, or one when the field is not fixed.\<close>

definition getnum :: "bool \<Rightarrow> string \<Rightarrow> (int \<times> string) option" where
  "getnum fixed s =
     (case s of [] \<Rightarrow> None
      | a # r \<Rightarrow> if \<not> isDigit a then None
        else (case r of
            b # q \<Rightarrow> if isDigit b then Some (int (readNat [a, b]), q) else if fixed then None else Some (int (readNat [a]), r)
          | [] \<Rightarrow> if fixed then None else Some (int (readNat [a]), r)))"

definition getBetween :: "bool \<Rightarrow> int \<Rightarrow> int \<Rightarrow> string \<Rightarrow> (int \<times> string) option" where
  "getBetween fixed lo hi s = do { (n, r) \<leftarrow> getnum fixed s; if lo \<le> n \<and> n \<le> hi then Some (n, r) else None }"

definition getYear :: "string \<Rightarrow> (int \<times> string) option" where
  "getYear s = (if 4 \<le> length s \<and> list_all isDigit (take 4 s) then Some (int (readNat (take 4 s)), drop 4 s) else None)"

definition skipFraction :: "string \<Rightarrow> string" where
  "skipFraction s = (case s of a # b # r \<Rightarrow> if (a = CHR ''.'' \<or> a = CHR '','') \<and> isDigit b then dropWhile isDigit r else s | _ \<Rightarrow> s)"

definition getZone :: "string \<Rightarrow> (int \<times> string) option" where
  "getZone s =
     (case s of [] \<Rightarrow> None
      | g # r \<Rightarrow> if g = CHR ''Z'' then Some (0, r)
        else if g \<noteq> CHR ''+'' \<and> g \<noteq> CHR ''-'' then None
        else do { (h, r1) \<leftarrow> getBetween True 0 24 r; r2 \<leftarrow> skipChar (CHR '':'') r1; (m, r3) \<leftarrow> getBetween True 0 60 r2;
                  Some (if g = CHR ''-'' then - (h * 3600 + m * 60) else h * 3600 + m * 60, r3) })"

definition parseRFC3339 :: "string \<Rightarrow> int option" where
  "parseRFC3339 s0 =
     do { (y, s1) \<leftarrow> getYear s0; s2 \<leftarrow> skipChar (CHR ''-'') s1; (mo, s3) \<leftarrow> getBetween True 1 12 s2;
          s4 \<leftarrow> skipChar (CHR ''-'') s3; (d, s5) \<leftarrow> getnum True s4; s6 \<leftarrow> skipChar (CHR ''T'') s5;
          (h, s7) \<leftarrow> getBetween False 0 23 s6; s8 \<leftarrow> skipChar (CHR '':'') s7; (mi, s9) \<leftarrow> getBetween True 0 59 s8;
          s10 \<leftarrow> skipChar (CHR '':'') s9; (se, s11) \<leftarrow> getBetween True 0 59 s10;
          (off, rest) \<leftarrow> getZone (skipFraction s11);
          if rest \<noteq> [] \<or> d < 1 \<or> daysIn mo y < d then None
          else Some (dayNumber y mo d * 86400 + h * 3600 + mi * 60 + se - off) }"

lemma parseRFC3339_examples:
  "parseRFC3339 ''1970-01-02T03:04:05Z'' = Some 97445"
  "parseRFC3339 ''2026-02-29T00:00:00Z'' = None"
  "parseRFC3339 ''1970-01-01T3:30:00.250+03:30'' = Some 0"
  by code_simp+

lemma takeWhile_showNat [simp]: "takeWhile isDigit (showNat n) = showNat n"
  using showNat_digits [of n] by (simp add: list_all_iff)

lemma sscanfD_showInt: "in64 x \<Longrightarrow> sscanfD (showInt x) = Some x"
  using hd_showNat [of "nat x"] by (auto simp: sscanfD_def showInt_def Let_def)

end
