(* ===== verification/Announcement.thy ===== *)
theory Announcement
  imports Building_Service GoTime
begin

text \<open>
  Announcements: \<open>internal/announcement/repository.go\<close> and \<open>service.go\<close> on the tables of migration 0008.
  \<open>uuid.Parse\<close> is the parameter \<open>parse\<close>. The sets that the code builds as maps from the units of a resident are the
  predicates \<open>hasBlock\<close>, \<open>hasFloor\<close> and \<open>hasUnit\<close>.
\<close>

abbreviation (input) AudienceAll :: string where "AudienceAll \<equiv> ''all''"
abbreviation (input) AudienceBlock :: string where "AudienceBlock \<equiv> ''block''"
abbreviation (input) AudienceFloor :: string where "AudienceFloor \<equiv> ''floor''"
abbreviation (input) AudienceUnit :: string where "AudienceUnit \<equiv> ''unit''"

type_synonym uuidParser = "string \<Rightarrow> uuid option"

section \<open>Repository\<close>

record UnitInfo =
  ui_ID :: uuid
  ui_BuildingID :: uuid
  ui_Block :: "string option"
  ui_Floor :: int

record AnnouncementWithRead =
  awr_Announcement :: Announcement
  awr_IsRead :: bool
  awr_ReadAt :: "int option"

definition unitInfo :: "BuildingUnit \<Rightarrow> UnitInfo" where
  "unitInfo u = \<lparr>ui_ID = un_ID u, ui_BuildingID = un_BuildingID u, ui_Block = un_Block u, ui_Floor = un_Floor u\<rparr>"

text \<open>The join of active occupancies with live persons of the phone and live units.\<close>

definition residentRows :: "db \<Rightarrow> string \<Rightarrow> BuildingUnit list" where
  "residentRows d phone = concat (map (\<lambda>x. concat (map (\<lambda>p. filter (\<lambda>u. un_ID u = oc_UnitID x \<and> un_DeletedAt u = None) (units d))
     (filter (\<lambda>p. pe_ID p = oc_PersonID x \<and> pe_Phone p = Some phone \<and> pe_DeletedAt p = None) (persons d))))
     (filter (\<lambda>x. oc_EndDate x = None) (occupancies d)))"

definition ResidentUnits :: "string \<Rightarrow> UnitInfo list dbm" where
  "ResidentUnits phone = (if phone = '''' then returnE [] else query (\<lambda>d. Inr (map unitInfo (residentRows d phone))))"

definition annIsManagerOf :: "uuid \<Rightarrow> uuid \<Rightarrow> bool dbm" where
  "annIsManagerOf uid bid = query (\<lambda>d. Inr (0 < length (filter (isGrant uid bid) (user_buildings d))))"

interpretation ann_scope: building_scope annIsManagerOf
  by unfold_locales (auto simp: annIsManagerOf_def isGrant_def scope_defs split: if_splits)

definition AttachmentPath :: "uuid \<Rightarrow> string dbm" where
  "AttachmentPath fid = query (\<lambda>d. case firstRow (\<lambda>f. fl_ID f = fid) (stored_files d) of Inl e \<Rightarrow> Inl e | Inr f \<Rightarrow> Inr (fl_Path f))"

text \<open>\<open>chk_ann_audience\<close>, \<open>chk_ann_expire\<close> and the foreign keys.\<close>

definition annRowOk :: "db \<Rightarrow> Announcement \<Rightarrow> bool" where
  "annRowOk d a \<longleftrightarrow>
     (an_AudienceType a = AudienceAll \<and> an_AudienceValue a \<in> {None, Some ''''} \<or>
      an_AudienceType a \<in> {AudienceBlock, AudienceFloor, AudienceUnit} \<and> an_AudienceValue a \<notin> {None, Some ''''}) \<and>
     (case (an_PublishAt a, an_ExpireAt a) of (Some p, Some e) \<Rightarrow> p < e | _ \<Rightarrow> True) \<and>
     list_ex (\<lambda>b. bl_ID b = an_BuildingID a) (buildings d) \<and>
     (case an_CreatedBy a of None \<Rightarrow> True | Some u \<Rightarrow> list_ex (\<lambda>v. usr_ID v = u) (users d))"

definition annCreate :: "Announcement \<Rightarrow> Announcement dbm" where
  "annCreate a = bindE timeNow (\<lambda>t. let a' = a\<lparr>an_CreatedAt := t, an_UpdatedAt := t\<rparr> in
     thenE (exec (\<lambda>d. if list_ex (\<lambda>b. an_ID b = an_ID a') (announcements d) \<or> \<not> annRowOk d a' then Inl (Constraint ''announcements'')
        else Inr ((), d\<lparr>announcements := announcements d @ [a']\<rparr>))) (returnE a'))"

definition annGet :: "uuid \<Rightarrow> Announcement dbm" where
  "annGet aid = query (\<lambda>d. firstRow (\<lambda>a. an_ID a = aid) (announcements d))"

definition annSave :: "Announcement \<Rightarrow> Announcement dbm" where
  "annSave a = bindE timeNow (\<lambda>t. let a' = a\<lparr>an_UpdatedAt := t\<rparr> in
     thenE (exec (\<lambda>d. if \<not> annRowOk d a' then Inl (Constraint ''announcements'')
        else Inr ((), d\<lparr>announcements := saveRow an_ID a' (announcements d)\<rparr>))) (returnE a'))"

definition annDelete :: "uuid \<Rightarrow> unit dbm" where
  "annDelete aid = exec (\<lambda>d. Inr ((), d\<lparr>announcements := filter (\<lambda>a. an_ID a \<noteq> aid) (announcements d),
     announcement_reads := filter (\<lambda>r. ar_AnnouncementID r \<noteq> aid) (announcement_reads d)\<rparr>))"

definition annListForBuilding :: "uuid \<Rightarrow> int \<Rightarrow> int \<Rightarrow> (Announcement list \<times> int) dbm" where
  "annListForBuilding bid page0 sz0 =
     (let page = (if page0 < 1 then 1 else page0); sz = (if sz0 \<le> 0 \<or> sz0 > 100 then 20 else sz0); P = (\<lambda>a. an_BuildingID a = bid)
      in bindE (query (\<lambda>d. Inr (int (length (filter P (announcements d)))))) (\<lambda>total.
         bindE (query (\<lambda>d. Inr (take (nat sz) (drop (nat ((page - 1) * sz)) (sort_key (\<lambda>a. - an_CreatedAt a) (filter P (announcements d))))))) (\<lambda>items.
         returnE (items, total))))"

text \<open>The condition that \<open>TargetUserIDs\<close> adds to its query; \<open>None\<close> is the early return without users.\<close>

definition audienceWhere :: "uuidParser \<Rightarrow> Announcement \<Rightarrow> (BuildingUnit \<Rightarrow> bool) option" where
  "audienceWhere parse a =
     (if an_AudienceType a = AudienceAll then Some (\<lambda>_. True)
      else if an_AudienceType a = AudienceBlock then
        map_option (\<lambda>v u. (case un_Block u of None \<Rightarrow> '''' | Some b \<Rightarrow> b) = v) (an_AudienceValue a)
      else if an_AudienceType a = AudienceFloor then map_option (\<lambda>v u. showInt (un_Floor u) = v) (an_AudienceValue a)
      else if an_AudienceType a = AudienceUnit then
        (case an_AudienceValue a of None \<Rightarrow> None | Some v \<Rightarrow> map_option (\<lambda>uid u. un_ID u = uid) (parse v))
      else None)"

definition targetRows :: "db \<Rightarrow> uuid \<Rightarrow> (BuildingUnit \<Rightarrow> bool) \<Rightarrow> uuid list" where
  "targetRows d bid P = remdups (map usr_ID (filter (\<lambda>u. usr_DeletedAt u = None \<and> usr_IsActive u \<and>
     list_ex (\<lambda>un. un_BuildingID un = bid \<and> P un) (residentRows d (usr_Phone u))) (users d)))"

definition TargetUserIDs :: "uuidParser \<Rightarrow> Announcement \<Rightarrow> uuid list dbm" where
  "TargetUserIDs parse a = (case audienceWhere parse a of None \<Rightarrow> returnE []
     | Some P \<Rightarrow> query (\<lambda>d. Inr (targetRows d (an_BuildingID a) P)))"

definition floorToString :: "int \<Rightarrow> string" where
  "floorToString f = showInt f"

definition hasBlock :: "UnitInfo list \<Rightarrow> uuid \<Rightarrow> string \<Rightarrow> bool" where
  "hasBlock us bid v \<longleftrightarrow> list_ex (\<lambda>u. ui_BuildingID u = bid \<and> v \<noteq> '''' \<and> ui_Block u = Some v) us"

definition hasFloor :: "UnitInfo list \<Rightarrow> uuid \<Rightarrow> string \<Rightarrow> bool" where
  "hasFloor us bid v \<longleftrightarrow> list_ex (\<lambda>u. ui_BuildingID u = bid \<and> floorToString (ui_Floor u) = v) us"

definition hasUnit :: "UnitInfo list \<Rightarrow> uuid \<Rightarrow> bool" where
  "hasUnit us uid \<longleftrightarrow> list_ex (\<lambda>u. ui_ID u = uid) us"

definition hasBuilding :: "UnitInfo list \<Rightarrow> uuid \<Rightarrow> bool" where
  "hasBuilding us bid \<longleftrightarrow> list_ex (\<lambda>u. ui_BuildingID u = bid) us"

definition isVisible :: "uuidParser \<Rightarrow> Announcement \<Rightarrow> UnitInfo list \<Rightarrow> bool" where
  "isVisible parse a us =
     (if an_AudienceType a = AudienceAll then True
      else if an_AudienceType a = AudienceBlock then
        (case an_AudienceValue a of None \<Rightarrow> False | Some v \<Rightarrow> hasBlock us (an_BuildingID a) v)
      else if an_AudienceType a = AudienceFloor then
        (case an_AudienceValue a of None \<Rightarrow> False | Some v \<Rightarrow> hasFloor us (an_BuildingID a) v)
      else if an_AudienceType a = AudienceUnit then
        (case an_AudienceValue a of None \<Rightarrow> False | Some v \<Rightarrow> (case parse v of None \<Rightarrow> False | Some uid \<Rightarrow> hasUnit us uid))
      else False)"

text \<open>\<open>publish_at <= now\<close> and \<open>expire_at > now\<close>, where they are set.\<close>

definition inWindow :: "Announcement \<Rightarrow> int \<Rightarrow> bool" where
  "inWindow a now \<longleftrightarrow> (case an_PublishAt a of None \<Rightarrow> True | Some p \<Rightarrow> \<not> now < p) \<and> (case an_ExpireAt a of None \<Rightarrow> True | Some e \<Rightarrow> now < e)"

definition visibleAnnouncements :: "uuidParser \<Rightarrow> UnitInfo list \<Rightarrow> int \<Rightarrow> Announcement list dbm" where
  "visibleAnnouncements parse us now =
     bindE (query (\<lambda>d. Inr (sort_key (\<lambda>a. - an_CreatedAt a) (filter (\<lambda>a. hasBuilding us (an_BuildingID a) \<and> inWindow a now) (announcements d))))) (\<lambda>candidates.
     returnE (filter (\<lambda>a. isVisible parse a us) candidates))"

definition unreadFlag :: "Announcement \<Rightarrow> AnnouncementWithRead" where
  "unreadFlag a = \<lparr>awr_Announcement = a, awr_IsRead = False, awr_ReadAt = None\<rparr>"

definition VisibleAnnouncements :: "uuidParser \<Rightarrow> UnitInfo list \<Rightarrow> int \<Rightarrow> AnnouncementWithRead list dbm" where
  "VisibleAnnouncements parse us now = bindE (visibleAnnouncements parse us now) (\<lambda>xs. returnE (map unreadFlag xs))"

definition repoListForResident :: "uuidParser \<Rightarrow> UnitInfo list \<Rightarrow> int \<Rightarrow> int \<Rightarrow> int \<Rightarrow> (AnnouncementWithRead list \<times> int) dbm" where
  "repoListForResident parse us now page0 sz0 =
     (if us = [] then returnE ([], 0)
      else let page = (if page0 < 1 then 1 else page0); sz = (if sz0 \<le> 0 \<or> sz0 > 100 then 20 else sz0)
        in bindE (visibleAnnouncements parse us now) (\<lambda>vis.
           let start = (page - 1) * sz
           in if start \<ge> int (length vis) then returnE ([], int (length vis))
              else returnE (map unreadFlag (take (nat sz) (drop (nat start) vis)), int (length vis))))"

definition ListAllVisibleIDs :: "uuidParser \<Rightarrow> UnitInfo list \<Rightarrow> int \<Rightarrow> uuid list dbm" where
  "ListAllVisibleIDs parse us now = bindE (visibleAnnouncements parse us now) (\<lambda>xs. returnE (map an_ID xs))"

definition IsVisible :: "uuidParser \<Rightarrow> uuid \<Rightarrow> UnitInfo list \<Rightarrow> int \<Rightarrow> bool dbm" where
  "IsVisible parse aid us now = bindE (annGet aid) (\<lambda>a.
     if \<not> inWindow a now then returnE False
     else if \<not> hasBuilding us (an_BuildingID a) then returnE False
     else returnE (isVisible parse a us))"

definition repoMarkRead :: "uuid \<Rightarrow> uuid \<Rightarrow> unit dbm" where
  "repoMarkRead aid uid = bindE timeNow (\<lambda>now. exec (\<lambda>d.
     if list_ex (\<lambda>r. ar_AnnouncementID r = aid \<and> ar_UserID r = uid) (announcement_reads d) then Inr ((), d)
     else if \<not> list_ex (\<lambda>a. an_ID a = aid) (announcements d) \<or> \<not> list_ex (\<lambda>u. usr_ID u = uid) (users d) then Inl (Constraint ''announcement_reads'')
     else Inr ((), d\<lparr>announcement_reads := announcement_reads d @ [\<lparr>ar_AnnouncementID = aid, ar_UserID = uid, ar_ReadAt = now\<rparr>]\<rparr>)))"

definition ReadsForUser :: "uuid \<Rightarrow> uuid list dbm" where
  "ReadsForUser uid = query (\<lambda>d. Inr (map ar_AnnouncementID (filter (\<lambda>r. ar_UserID r = uid) (announcement_reads d))))"

definition UnreadCountForResident :: "uuidParser \<Rightarrow> UnitInfo list \<Rightarrow> uuid \<Rightarrow> int \<Rightarrow> int dbm" where
  "UnreadCountForResident parse us uid now = bindE (ListAllVisibleIDs parse us now) (\<lambda>ids.
     if ids = [] then returnE 0
     else bindE (ReadsForUser uid) (\<lambda>read. returnE (int (length (filter (\<lambda>i. i \<notin> set read) ids)))))"

section \<open>Service\<close>

record AnnouncementInput =
  ani_Title :: string
  ani_Body :: string
  ani_AudienceType :: string
  ani_AudienceValue :: "string option"
  ani_PublishAt :: "string option"
  ani_ExpireAt :: "string option"
  ani_AttachmentFileID :: "string option"

definition validAudience :: "string list" where
  "validAudience = [AudienceAll, AudienceBlock, AudienceFloor, AudienceUnit]"

text \<open>\<open>SELECT DISTINCT\<close> of the same join as \<open>ResidentUnits\<close>.\<close>

definition residentUnits :: "string \<Rightarrow> UnitInfo list dbm" where
  "residentUnits phone = query (\<lambda>d. Inr (remdups (map unitInfo (residentRows d phone))))"

text \<open>\<open>applyInput\<close> in its parts: title, body, audience, times, attachment.\<close>

definition applyTitle :: "bool \<Rightarrow> AnnouncementInput \<Rightarrow> Announcement \<Rightarrow> Announcement result" where
  "applyTitle create inp a =
     (if create \<or> ani_Title inp \<noteq> '''' then
        if trimSpace (ani_Title inp) = '''' then Inl (AppErr (BadRequest ''msgTitleRequired''))
        else if length (runesOf (ani_Title inp)) > 200 then Inl (AppErr (BadRequest ''the title is too long''))
        else Inr (a\<lparr>an_Title := trimSpace (ani_Title inp)\<rparr>)
      else Inr a)"

definition applyBody :: "bool \<Rightarrow> AnnouncementInput \<Rightarrow> Announcement \<Rightarrow> Announcement result" where
  "applyBody create inp a =
     (if create \<or> ani_Body inp \<noteq> '''' then
        if trimSpace (ani_Body inp) = '''' then Inl (AppErr (BadRequest ''msgBodyRequired'')) else Inr (a\<lparr>an_Body := ani_Body inp\<rparr>)
      else Inr a)"

definition unitInBuilding :: "uuid \<Rightarrow> uuid \<Rightarrow> bool dbm" where
  "unitInBuilding uid bid = query (\<lambda>d. Inr (list_ex (\<lambda>u. un_ID u = uid \<and> un_BuildingID u = bid \<and> un_DeletedAt u = None) (units d)))"

definition audienceValue :: "uuidParser \<Rightarrow> string \<Rightarrow> string \<Rightarrow> uuid \<Rightarrow> string dbm" where
  "audienceValue parse typ val bid =
     (if typ = AudienceUnit then
        (case parse val of None \<Rightarrow> throwE (AppErr (WithDetail (BadRequest ''msgAudienceValueInvalid'') ''audience_value'' ''uuid''))
         | Some uid \<Rightarrow> bindE (unitInBuilding uid bid) (\<lambda>ok.
             thenE (throwIf (\<not> ok) (AppErr (BadRequest ''msgUnitNotFound''))) (returnE val)))
      else if typ = AudienceFloor then
        (case sscanfD val of None \<Rightarrow> throwE (AppErr (WithDetail (BadRequest ''msgAudienceValueInvalid'') ''audience_value'' ''floor_integer''))
         | Some n \<Rightarrow> returnE (showInt n))
      else thenE (throwIf (length val > 20) (AppErr (BadRequest ''the block name is too long''))) (returnE val))"

definition applyAudience :: "uuidParser \<Rightarrow> bool \<Rightarrow> AnnouncementInput \<Rightarrow> Announcement \<Rightarrow> Announcement dbm" where
  "applyAudience parse create inp a =
     (if create \<or> ani_AudienceType inp \<noteq> '''' then
        let typ = ani_AudienceType inp;
            val = (case ani_AudienceValue inp of None \<Rightarrow> None | Some v \<Rightarrow> if trimSpace v = '''' then None else Some (trimSpace v))
        in if typ \<notin> set validAudience then throwE (AppErr (BadRequest ''msgAudienceInvalid''))
           else if typ = AudienceAll then
             thenE (throwIf (val \<noteq> None) (AppErr (BadRequest ''msgAudienceAllNoValue'')))
              (returnE (a\<lparr>an_AudienceType := typ, an_AudienceValue := None\<rparr>))
           else (case val of None \<Rightarrow> throwE (AppErr (BadRequest ''msgAudienceValueRequired''))
             | Some v \<Rightarrow> bindE (audienceValue parse typ v (an_BuildingID a)) (\<lambda>v'.
                 returnE (a\<lparr>an_AudienceType := typ, an_AudienceValue := Some v'\<rparr>)))
      else thenE (throwIf (ani_AudienceValue inp \<noteq> None) (AppErr (BadRequest ''msgAudienceInvalid''))) (returnE a))"

definition timeField :: "bool \<Rightarrow> string \<Rightarrow> string option \<Rightarrow> int option \<Rightarrow> int option result" where
  "timeField create msg inp old =
     (case inp of None \<Rightarrow> Inr (if create then None else old)
      | Some s \<Rightarrow> if trimSpace s = '''' then Inr None
        else (case parseRFC3339 s of None \<Rightarrow> Inl (AppErr (BadRequest msg)) | Some t \<Rightarrow> Inr (Some t)))"

definition applyTimes :: "bool \<Rightarrow> AnnouncementInput \<Rightarrow> Announcement \<Rightarrow> Announcement result" where
  "applyTimes create inp a =
     (case timeField create ''msgPublishAtInvalid'' (ani_PublishAt inp) (an_PublishAt a) of Inl e \<Rightarrow> Inl e
      | Inr p \<Rightarrow> (case timeField create ''msgExpireAtInvalid'' (ani_ExpireAt inp) (an_ExpireAt a) of Inl e \<Rightarrow> Inl e
        | Inr x \<Rightarrow> if (case (p, x) of (Some p', Some x') \<Rightarrow> \<not> p' < x' | _ \<Rightarrow> False) then Inl (AppErr (BadRequest ''msgExpireBeforePublish''))
          else Inr (a\<lparr>an_PublishAt := p, an_ExpireAt := x\<rparr>)))"

definition applyAttachment :: "uuidParser \<Rightarrow> bool \<Rightarrow> AnnouncementInput \<Rightarrow> Announcement \<Rightarrow> Announcement dbm" where
  "applyAttachment parse create inp a =
     (case ani_AttachmentFileID inp of None \<Rightarrow> returnE (if create then a\<lparr>an_AttachmentFile := None\<rparr> else a)
      | Some s \<Rightarrow> if trimSpace s = '''' then returnE (a\<lparr>an_AttachmentFile := None\<rparr>)
        else (case parse (trimSpace s) of None \<Rightarrow> throwE (AppErr (BadRequest ''invalid attachment id''))
          | Some fid \<Rightarrow> bindE (mapErr (\<lambda>e. if e = RecordNotFound then AppErr (BadRequest ''attachment not found'') else e) (AttachmentPath fid)) (\<lambda>path.
              returnE (a\<lparr>an_AttachmentFile := Some path\<rparr>))))"

definition annApplyInput :: "uuidParser \<Rightarrow> bool \<Rightarrow> AnnouncementInput \<Rightarrow> Announcement \<Rightarrow> Announcement dbm" where
  "annApplyInput parse create inp a =
     bindE (liftE (applyTitle create inp a)) (\<lambda>a1.
     bindE (liftE (applyBody create inp a1)) (\<lambda>a2.
     bindE (applyAudience parse create inp a2) (\<lambda>a3.
     bindE (liftE (applyTimes create inp a3)) (applyAttachment parse create inp))))"

text \<open>\<open>string(runes)\<close>: the UTF-8 encoding of code points.\<close>

definition encodeRune :: "nat \<Rightarrow> nat list" where
  "encodeRune r = (if r < 128 then [r] else if r < 2048 then [192 + r div 64, 128 + r mod 64]
     else if r < 65536 then [224 + r div 4096, 128 + (r div 64) mod 64, 128 + r mod 64]
     else [240 + r div 262144, 128 + (r div 4096) mod 64, 128 + (r div 64) mod 64, 128 + r mod 64])"

definition runesToString :: "nat list \<Rightarrow> string" where
  "runesToString rs = map char_of (concat (map encodeRune rs))"

definition shortBody :: "string \<Rightarrow> string" where
  "shortBody body = (if length (runesOf body) > 200 then runesToString (take 200 (runesOf body) @ [8230]) else body)"

definition notifyTargets :: "uuidParser \<Rightarrow> Announcement \<Rightarrow> unit dbm" where
  "notifyTargets parse a = bindE (tryE (TargetUserIDs parse a)) (\<lambda>r. case r of Inl _ \<Rightarrow> returnE ()
     | Inr ids \<Rightarrow> forE ids (\<lambda>uid. ignoreE (notifCreate uid ''announcement_published'' (''new announcement: '' @ an_Title a) (shortBody (an_Body a))
         (Some ''announcement'') (Some (an_ID a)))))"

definition annAuth :: "User option \<Rightarrow> User dbm" where
  "annAuth u = (case u of None \<Rightarrow> throwE (AppErr (Unauthorized ''msgUnauthorized'')) | Some v \<Rightarrow> returnE v)"

definition annScope :: "User \<Rightarrow> uuid \<Rightarrow> unit dbm" where
  "annScope manager bid = bindE (annIsManagerOf (usr_ID manager) bid) (\<lambda>ok. throwIf (\<not> ok) (AppErr (Forbidden ''msgForbidden'')))"

definition annLoad :: "uuid \<Rightarrow> Announcement dbm" where
  "annLoad aid = mapErr (\<lambda>e. if e = RecordNotFound then AppErr (NotFound ''msgNotFound'') else e) (annGet aid)"

definition newAnnouncement :: "uuid \<Rightarrow> uuid \<Rightarrow> User \<Rightarrow> Announcement" where
  "newAnnouncement aid bid manager = \<lparr>an_ID = aid, an_BuildingID = bid, an_Title = '''', an_Body = '''', an_AudienceType = '''',
     an_AudienceValue = None, an_PublishAt = None, an_ExpireAt = None, an_AttachmentFile = None, an_CreatedBy = Some (usr_ID manager),
     an_CreatedAt = 0, an_UpdatedAt = 0\<rparr>"

definition annCreateFor :: "uuidParser \<Rightarrow> User option \<Rightarrow> uuid \<Rightarrow> AnnouncementInput \<Rightarrow> Announcement dbm" where
  "annCreateFor parse mgr bid inp =
     bindE (annAuth mgr) (\<lambda>manager.
     thenE (annScope manager bid)
     (bindE newUUID (\<lambda>aid.
      bindE (annApplyInput parse True inp (newAnnouncement aid bid manager)) (\<lambda>a0.
      bindE (annCreate a0) (\<lambda>a.
      bindE timeNow (\<lambda>now.
      thenE (whenE (inWindow a now) (notifyTargets parse a))
      (thenE (ignoreE (auditAppend (Some (usr_ID manager)) ''announcement.publish'' ''announcement'' (Some (an_ID a)) None (Some (SnapAnnouncement a))))
       (returnE a))))))))"

definition annForManager :: "User option \<Rightarrow> uuid \<Rightarrow> Announcement dbm" where
  "annForManager mgr aid =
     bindE (annAuth mgr) (\<lambda>manager. bindE (annLoad aid) (\<lambda>a. thenE (annScope manager (an_BuildingID a)) (returnE a)))"

definition annUpdate :: "uuidParser \<Rightarrow> User option \<Rightarrow> uuid \<Rightarrow> AnnouncementInput \<Rightarrow> Announcement dbm" where
  "annUpdate parse mgr aid inp =
     bindE (annForManager mgr aid) (\<lambda>before.
     bindE (annApplyInput parse False inp before) (\<lambda>a0.
     bindE (annSave a0) (\<lambda>a.
     thenE (ignoreE (auditAppend (map_option usr_ID mgr) ''announcement.update'' ''announcement'' (Some (an_ID a))
        (Some (SnapAnnouncement before)) (Some (SnapAnnouncement a))))
      (returnE a))))"

definition annDeleteFor :: "User option \<Rightarrow> uuid \<Rightarrow> unit dbm" where
  "annDeleteFor mgr aid =
     bindE (annForManager mgr aid) (\<lambda>a.
     thenE (annDelete aid)
      (ignoreE (auditAppend (map_option usr_ID mgr) ''announcement.delete'' ''announcement'' (Some (an_ID a)) (Some (SnapAnnouncement a)) None)))"

definition annListForManager :: "User option \<Rightarrow> uuid \<Rightarrow> int \<Rightarrow> int \<Rightarrow> (Announcement list \<times> int) dbm" where
  "annListForManager mgr bid page sz = bindE (annAuth mgr) (\<lambda>manager. thenE (annScope manager bid) (annListForBuilding bid page sz))"

definition annListForResident :: "uuidParser \<Rightarrow> User option \<Rightarrow> int \<Rightarrow> int \<Rightarrow> (AnnouncementWithRead list \<times> int) dbm" where
  "annListForResident parse res page sz =
     bindE (annAuth res) (\<lambda>resident.
     bindE (residentUnits (usr_Phone resident)) (\<lambda>us.
     if us = [] then returnE ([], 0)
     else bindE timeNow (\<lambda>now.
       bindE (repoListForResident parse us now page sz) (\<lambda>(items, total).
       bindE (ReadsForUser (usr_ID resident)) (\<lambda>read.
       returnE (map (\<lambda>x. if an_ID (awr_Announcement x) \<in> set read then x\<lparr>awr_IsRead := True\<rparr> else x) items, total))))))"

text \<open>An error of \<open>ReadsForUser\<close> is discarded: nothing is read then.\<close>

definition annGetForResident :: "uuidParser \<Rightarrow> User option \<Rightarrow> uuid \<Rightarrow> AnnouncementWithRead dbm" where
  "annGetForResident parse res aid =
     bindE (annAuth res) (\<lambda>resident.
     bindE (annLoad aid) (\<lambda>a.
     bindE (residentUnits (usr_Phone resident)) (\<lambda>us.
     bindE timeNow (\<lambda>now.
     bindE (IsVisible parse aid us now) (\<lambda>vis.
     thenE (throwIf (\<not> vis) (AppErr (NotFound ''msgNotFound'')))
     (bindE (tryE (ReadsForUser (usr_ID resident))) (\<lambda>r.
      returnE ((unreadFlag a)\<lparr>awr_IsRead := (case r of Inl _ \<Rightarrow> False | Inr read \<Rightarrow> aid \<in> set read)\<rparr>)))))))) "

definition annMarkRead :: "uuidParser \<Rightarrow> User option \<Rightarrow> uuid \<Rightarrow> unit dbm" where
  "annMarkRead parse res aid =
     bindE (annAuth res) (\<lambda>resident.
     bindE (annLoad aid) (\<lambda>_.
     bindE (residentUnits (usr_Phone resident)) (\<lambda>us.
     bindE timeNow (\<lambda>now.
     bindE (IsVisible parse aid us now) (\<lambda>vis.
     thenE (throwIf (\<not> vis) (AppErr (NotFound ''msgNotFound''))) (repoMarkRead aid (usr_ID resident)))))))"

definition annUnreadCount :: "uuidParser \<Rightarrow> User option \<Rightarrow> int dbm" where
  "annUnreadCount parse res =
     bindE (annAuth res) (\<lambda>resident.
     bindE (residentUnits (usr_Phone resident)) (\<lambda>us.
     if us = [] then returnE 0
     else bindE timeNow (\<lambda>now. UnreadCountForResident parse us (usr_ID resident) now)))"

end
