(* ===== verification/Announcement_Facts.thy ===== *)
theory Announcement_Facts
  imports Announcement Triples Samples
begin

text \<open>
  Announcements: what is stored is well typed, the notified residents are those who can see the announcement, and the
  read marks of a resident are kept.
\<close>

section \<open>Well-typed announcements\<close>

definition audienceTyped :: "uuidParser \<Rightarrow> db \<Rightarrow> uuid \<Rightarrow> string \<Rightarrow> string option \<Rightarrow> bool" where
  "audienceTyped parse d bid typ val \<longleftrightarrow>
     (case val of None \<Rightarrow> typ = AudienceAll
      | Some v \<Rightarrow> typ = AudienceBlock \<and> v \<noteq> '''' \<and> length v \<le> 20 \<or> typ = AudienceFloor \<and> (\<exists>n. in64 n \<and> v = showInt n) \<or>
          typ = AudienceUnit \<and> (\<exists>uid. parse v = Some uid \<and> (\<exists>u\<in>set (units d). un_ID u = uid \<and> un_BuildingID u = bid)))"

definition windowOk :: "int option \<Rightarrow> int option \<Rightarrow> bool" where
  "windowOk p e \<longleftrightarrow> (case (p, e) of (Some p', Some e') \<Rightarrow> p' < e' | _ \<Rightarrow> True)"

definition annTyped :: "uuidParser \<Rightarrow> db \<Rightarrow> Announcement \<Rightarrow> bool" where
  "annTyped parse d a \<longleftrightarrow> audienceTyped parse d (an_BuildingID a) (an_AudienceType a) (an_AudienceValue a) \<and> windowOk (an_PublishAt a) (an_ExpireAt a)"

definition annAllTyped :: "uuidParser \<Rightarrow> db \<Rightarrow> bool" where
  "annAllTyped parse d \<longleftrightarrow> (\<forall>a\<in>set (announcements d). annTyped parse d a)"

lemma sscanfD_in64: "sscanfD s = Some n \<Longrightarrow> in64 n"
  by (auto simp: sscanfD_def Let_def split: if_splits)

lemma audienceValue_Inr:
  "audienceValue parse typ v bid w = (Inr v', w') \<Longrightarrow> typ \<in> set validAudience \<Longrightarrow> typ \<noteq> AudienceAll \<Longrightarrow> v \<noteq> '''' \<Longrightarrow>
     audienceTyped parse (db w) bid typ (Some v')"
  by (auto simp: audienceTyped_def audienceValue_def unitInBuilding_def validAudience_def bindE_def thenE_def query_def throwIf_def throwE_def returnE_def list_ex_iff
      dest: sscanfD_in64 split: option.splits if_splits)

lemma reads_annInput:
  "reads (audienceValue parse typ v bid)" "reads (applyAudience parse cr inp a)" "reads (applyAttachment parse cr inp a)"
  "reads (annApplyInput parse cr inp a)"
  unfolding annApplyInput_def applyAudience_def audienceValue_def applyAttachment_def unitInBuilding_def AttachmentPath_def Let_def
  by (auto intro!: reads_bindE reads_thenE reads_mapErr reads_rules split: option.splits)

lemma applyAudience_typed:
  assumes "applyAudience parse cr inp a w = (Inr a', w')" and "annTyped parse (db w) a \<or> cr \<and> an_PublishAt a = None"
  shows "annTyped parse (db w) a' \<and> an_ID a' = an_ID a \<and> an_BuildingID a' = an_BuildingID a"
proof (cases "cr \<or> ani_AudienceType inp \<noteq> ''''")
  case False
  thus ?thesis using assms by (auto simp: applyAudience_def thenE_def bindE_def throwIf_def throwE_def returnE_def split: if_splits)
next
  case True
  have t: "windowOk (an_PublishAt a) (an_ExpireAt a)" using assms(2) by (auto simp: annTyped_def windowOk_def)
  let ?at = "ani_AudienceType inp"
  have v: "?at \<in> set validAudience" using assms(1) True by (auto simp: applyAudience_def Let_def throwE_def split: if_splits)
  show ?thesis
  proof (cases "?at = AudienceAll")
    case True
    hence "a' = a\<lparr>an_AudienceType := ?at, an_AudienceValue := None\<rparr>"
      using assms(1) v by (auto simp: applyAudience_def Let_def thenE_def bindE_def throwIf_def throwE_def returnE_def split: if_splits)
    thus ?thesis using True t by (simp add: annTyped_def audienceTyped_def)
  next
    case False
    obtain s where s: "ani_AudienceValue inp = Some s" "trimSpace s \<noteq> ''''" and
      b: "bindE (audienceValue parse ?at (trimSpace s) (an_BuildingID a)) (\<lambda>v'. returnE (a\<lparr>an_AudienceType := ?at, an_AudienceValue := Some v'\<rparr>)) w = (Inr a', w')"
      using assms(1) v True False by (auto simp: applyAudience_def Let_def throwE_def split: option.splits if_splits)
    obtain v' w1 where v': "audienceValue parse ?at (trimSpace s) (an_BuildingID a) w = (Inr v', w1)"
      "a' = a\<lparr>an_AudienceType := ?at, an_AudienceValue := Some v'\<rparr>" using b by (auto elim!: bindE_splitE simp: returnE_def)
    show ?thesis using audienceValue_Inr [OF v'(1) v False s(2)] v'(2) t by (simp add: annTyped_def)
  qed
qed

lemma annTyped_upd [simp]:
  "annTyped parse d (a\<lparr>an_AttachmentFile := x\<rparr>) = annTyped parse d a"
  "annTyped parse d (a\<lparr>an_Title := y\<rparr>) = annTyped parse d a" "annTyped parse d (a\<lparr>an_Body := y\<rparr>) = annTyped parse d a"
  "annTyped parse d (a\<lparr>an_UpdatedAt := t\<rparr>) = annTyped parse d a" "annTyped parse d (a\<lparr>an_CreatedAt := t\<rparr>) = annTyped parse d a"
  by (simp_all add: annTyped_def)

lemma applyTimes_typed:
  assumes "applyTimes cr inp a = Inr a'" and "annTyped parse d a"
  shows "annTyped parse d a' \<and> an_ID a' = an_ID a \<and> an_BuildingID a' = an_BuildingID a"
proof -
  have w: "\<not> (case (p, x) of (Some p', Some x') \<Rightarrow> \<not> p' < x' | _ \<Rightarrow> False) \<longleftrightarrow> windowOk p x" for p x
    by (auto simp: windowOk_def split: option.splits)
  obtain p x where "a' = a\<lparr>an_PublishAt := p, an_ExpireAt := x\<rparr>" "windowOk p x"
    using assms(1) unfolding applyTimes_def w [symmetric] by (auto simp del: prod.case option.case split: sum.splits if_splits)
  thus ?thesis using assms(2) by (simp add: annTyped_def)
qed

lemma applyAttachment_typed:
  assumes "applyAttachment parse cr inp a w = (Inr a', w')" and "annTyped parse d a"
  shows "annTyped parse d a' \<and> an_ID a' = an_ID a \<and> an_BuildingID a' = an_BuildingID a"
proof -
  have "a' = a \<or> (\<exists>x. a' = a\<lparr>an_AttachmentFile := x\<rparr>)"
    using assms(1) by (auto simp: applyAttachment_def bindE_def mapErr_def returnE_def throwE_def split: option.splits if_splits prod.splits sum.splits)
  thus ?thesis using assms(2) by auto
qed

lemma annApplyInput_typed:
  assumes "annApplyInput parse cr inp a w = (Inr a', w')" and "annTyped parse (db w) a \<or> cr \<and> an_PublishAt a = None"
  shows "annTyped parse (db w) a' \<and> an_ID a' = an_ID a \<and> an_BuildingID a' = an_BuildingID a"
proof -
  obtain a1 a2 a3 a4 w1 where h: "applyTitle cr inp a = Inr a1" "applyBody cr inp a1 = Inr a2" "applyAudience parse cr inp a2 w = (Inr a3, w1)"
    "applyTimes cr inp a3 = Inr a4" "applyAttachment parse cr inp a4 w1 = (Inr a', w')"
    using assms(1) unfolding annApplyInput_def by (auto elim!: bindE_splitE simp: liftE_def)
  have "a2 = a \<or> (\<exists>t. a2 = a\<lparr>an_Title := t\<rparr>) \<or> (\<exists>b. a2 = a\<lparr>an_Body := b\<rparr>) \<or> (\<exists>t b. a2 = a\<lparr>an_Title := t, an_Body := b\<rparr>)"
    using h(1,2) by (auto simp: applyTitle_def applyBody_def split: if_splits)
  hence "an_ID a2 = an_ID a" "an_BuildingID a2 = an_BuildingID a" "annTyped parse (db w) a2 \<or> cr \<and> an_PublishAt a2 = None"
    using assms(2) by auto
  with applyAudience_typed [OF h(3)] have 3: "annTyped parse (db w) a3 \<and> an_ID a3 = an_ID a \<and> an_BuildingID a3 = an_BuildingID a" by simp
  from applyTimes_typed [OF h(4), of parse "db w"] 3 have "annTyped parse (db w) a4 \<and> an_ID a4 = an_ID a \<and> an_BuildingID a4 = an_BuildingID a" by simp
  thus ?thesis using applyAttachment_typed [OF h(5), of "db w"] by simp
qed

lemma audienceTyped_side:
  "units d' = units d \<Longrightarrow> audienceTyped parse d' bid typ val = audienceTyped parse d bid typ val"
  by (cases val) (simp_all add: audienceTyped_def)

lemma annTyped_side: "units d' = units d \<Longrightarrow> annTyped parse d' a = annTyped parse d a"
  using audienceTyped_side [of d' d] by (simp add: annTyped_def)

lemma annTyped_tables [simp]:
  "annTyped parse (d\<lparr>announcements := xs\<rparr>) a = annTyped parse d a" "annTyped parse (d\<lparr>announcement_reads := rs\<rparr>) a = annTyped parse d a"
  "annTyped parse (d\<lparr>notifications := ns\<rparr>) a = annTyped parse d a" "annTyped parse (d\<lparr>audit_logs := as\<rparr>) a = annTyped parse d a"
  by (rule annTyped_side, simp)+

lemma annAllTyped_free: "sideFree (annAllTyped parse)"
  by (simp add: sideFree_def annAllTyped_def)

lemma reads_annScope: "reads (annAuth u)" "reads (annScope m bid)" "reads (annLoad aid)" "reads (annForManager u aid)" "reads (TargetUserIDs parse a)"
  "reads (residentUnits ph)" "reads (IsVisible parse aid us now)" "reads (ReadsForUser uid)"
  unfolding annAuth_def annScope_def annIsManagerOf_def annLoad_def annGet_def annForManager_def TargetUserIDs_def residentUnits_def IsVisible_def ReadsForUser_def
  by (auto intro!: reads_bindE reads_thenE reads_mapErr reads_rules split: option.splits)

lemma notifyTargets_pres: "sideFree I \<Longrightarrow> preserves I (notifyTargets parse a)"
  unfolding notifyTargets_def
  by (intro preserves_bindE preserves_reads [OF reads_tryE [OF reads_annScope(5)]])
    (auto intro!: preserves_forE preserves_ignoreE notifCreate_pres preserves_env split: sum.splits)

lemma tri_annApplyInput:
  assumes "\<And>d. P d \<Longrightarrow> annTyped parse d a \<or> cr \<and> an_PublishAt a = None"
  shows "tri P (annApplyInput parse cr inp a) (\<lambda>a' d. P d \<and> annTyped parse d a') P"
  using annApplyInput_typed [of parse cr inp a] assms reads_run [OF reads_annInput(4)] by (intro triI) metis+

lemma annCreateFor_typed: "preserves (annAllTyped parse) (annCreateFor parse mgr bid inp)"
proof -
  let ?I = "annAllTyped parse"
  have c: "tri (\<lambda>d. ?I d \<and> annTyped parse d a) (annCreate a) (\<lambda>_. ?I) ?I" for a
    unfolding annCreate_def Let_def
    by (intro tri_bind [OF tri_keep [OF reads_rules(5)]] tri_then [OF tri_exec tri_return]) (auto simp: annAllTyped_def split: if_splits)
  have rest: "preserves ?I (bindE timeNow (\<lambda>now. thenE (whenE (inWindow a now) (notifyTargets parse a))
      (thenE (ignoreE (auditAppend u ''announcement.publish'' ''announcement'' (Some (an_ID a)) None (Some (SnapAnnouncement a)))) (returnE a))))" for a u
    by (intro preserves_bindE preserves_thenE preserves_whenE preserves_ignoreE preserves_env notifyTargets_pres auditAppend_pres annAllTyped_free)
  show ?thesis unfolding preserves_tri annCreateFor_def
    by (rule tri_bind [OF tri_keep [OF reads_annScope(1)]], simp, rule tri_then [OF tri_keep [OF reads_annScope(2)]], simp,
        rule tri_bind [OF tri_keep [OF reads_rules(4)]], simp, rule tri_bind [OF tri_annApplyInput], simp add: newAnnouncement_def,
        rule tri_bind [OF c], rule rest [unfolded preserves_tri])
qed

lemma annForManager_Inr:
  "annForManager mgr aid w = (Inr a, w') \<Longrightarrow> a \<in> set (announcements (db w)) \<and> an_ID a = aid \<and> db w' = db w \<and>
     (\<exists>m. mgr = Some m \<and> list_ex (isGrant (usr_ID m) (an_BuildingID a)) (user_buildings (db w)))"
  by (auto simp: annForManager_def annAuth_def annLoad_def annGet_def annScope_def annIsManagerOf_def bindE_def thenE_def mapErr_def query_def throwIf_def
      throwE_def returnE_def list_ex_iff filter_empty_conv dest: firstRow_Inr split: option.splits prod.splits sum.splits if_splits)

lemma annUpdate_typed: "preserves (annAllTyped parse) (annUpdate parse mgr aid inp)"
proof -
  let ?I = "annAllTyped parse"
  have l: "tri ?I (annForManager mgr aid) (\<lambda>a d. ?I d \<and> annTyped parse d a) ?I"
    by (intro triI) (auto simp: annAllTyped_def dest: annForManager_Inr reads_run [OF reads_annScope(4)])
  have c: "tri (\<lambda>d. (?I d \<and> annTyped parse d b) \<and> annTyped parse d a) (annSave a) (\<lambda>_. ?I) ?I" for a b
    unfolding annSave_def Let_def
    by (intro tri_bind [OF tri_keep [OF reads_rules(5)]] tri_then [OF tri_exec tri_return]) (auto simp: annAllTyped_def dest!: set_saveRow split: if_splits)
  have rest: "preserves ?I (thenE (ignoreE (auditAppend u ''announcement.update'' ''announcement'' x y z)) (returnE a))" for a :: Announcement and u x y z
    by (intro preserves_thenE preserves_ignoreE preserves_env auditAppend_pres annAllTyped_free)
  have ap: "tri (\<lambda>d. ?I d \<and> annTyped parse d b) (annApplyInput parse False inp b) (\<lambda>a d. (?I d \<and> annTyped parse d b) \<and> annTyped parse d a) ?I" for b
    by (rule tri_weaken [OF tri_annApplyInput [where P = "\<lambda>d. ?I d \<and> annTyped parse d b"]]) auto
  show ?thesis unfolding preserves_tri annUpdate_def
    by (rule tri_bind [OF l], rule tri_bind [OF ap], rule tri_bind [OF c], rule rest [unfolded preserves_tri])
qed

lemma annDelete_typed: "preserves (annAllTyped parse) (annDeleteFor mgr aid)"
  unfolding annDeleteFor_def annDelete_def
  by (intro preserves_bindE preserves_thenE preserves_ignoreE auditAppend_pres annAllTyped_free preserves_exec preserves_reads [OF reads_annScope(4)])
    (auto simp: annAllTyped_def)

lemma annMarkRead_typed: "preserves (annAllTyped parse) (annMarkRead parse res aid)"
  unfolding annMarkRead_def repoMarkRead_def
  by (intro preserves_bindE preserves_thenE preserves_exec preserves_env preserves_reads [OF reads_annScope(1)] preserves_reads [OF reads_annScope(3)]
      preserves_reads [OF reads_annScope(6)] preserves_reads [OF reads_annScope(7)])
    (auto simp: annAllTyped_def split: if_splits)

inductive ann_step :: "uuidParser \<Rightarrow> db world \<Rightarrow> db world \<Rightarrow> bool" for parse where
  create: "annCreateFor parse mgr bid inp w = (r, w') \<Longrightarrow> ann_step parse w w'"
| update: "annUpdate parse mgr aid inp w = (r, w') \<Longrightarrow> ann_step parse w w'"
| delete: "annDeleteFor mgr aid w = (q, w') \<Longrightarrow> ann_step parse w w'"
| markRead: "annMarkRead parse res aid w = (q, w') \<Longrightarrow> ann_step parse w w'"

lemma ann_step_typed: "ann_step parse w w' \<Longrightarrow> annAllTyped parse (db w) \<Longrightarrow> annAllTyped parse (db w')"
  by (induction rule: ann_step.induct)
    (blast intro: preserves_run [OF annCreateFor_typed] preserves_run [OF annUpdate_typed] preserves_run [OF annDelete_typed] preserves_run [OF annMarkRead_typed])+

text \<open>C23. Stored announcements are well typed: along every sequence of announcement requests an
  announcement for all has no value, one for a block has a nonempty name of at most 20 bytes,
  one for a floor a number in canonical form, one for a unit the id of a unit of the building,
  and it expires after it is published.\<close>

theorem announcements_typed:
  assumes "(ann_step parse)\<^sup>*\<^sup>* w w'" and "\<forall>a\<in>set (announcements (db w)). annTyped parse (db w) a"
  shows "\<forall>a\<in>set (announcements (db w')). annTyped parse (db w') a"
proof -
  from assms have "annAllTyped parse (db w')"
    by (induction rule: rtranclp_induct) (simp_all add: annAllTyped_def [symmetric] ann_step_typed)
  thus ?thesis by (simp add: annAllTyped_def)
qed

section \<open>Targets and visibility\<close>

lemma set_residentRows:
  "u \<in> set (residentRows d phone) \<longleftrightarrow> u \<in> set (units d) \<and> un_DeletedAt u = None \<and>
     (\<exists>x\<in>set (occupancies d). oc_EndDate x = None \<and> oc_UnitID x = un_ID u \<and>
        (\<exists>p\<in>set (persons d). pe_ID p = oc_PersonID x \<and> pe_Phone p = Some phone \<and> pe_DeletedAt p = None))"
  (is "?L \<longleftrightarrow> ?R")
proof
  assume ?L thus ?R by (auto simp: residentRows_def)
next
  assume ?R
  then obtain x p where "u \<in> set (units d)" "un_DeletedAt u = None" "x \<in> set (occupancies d)" "oc_EndDate x = None" "oc_UnitID x = un_ID u"
    "p \<in> set (persons d)" "pe_ID p = oc_PersonID x" "pe_Phone p = Some phone" "pe_DeletedAt p = None" by blast
  thus ?L by (auto simp: residentRows_def intro!: bexI [of _ x])
qed

lemma isVisible_audience:
  assumes "annTyped parse d a" and "distinct (map un_ID (units d))" and us: "us = remdups (map unitInfo (residentRows d phone))"
  shows "hasBuilding us (an_BuildingID a) \<and> isVisible parse a us \<longleftrightarrow>
     (\<exists>P. audienceWhere parse a = Some P \<and> list_ex (\<lambda>u. un_BuildingID u = an_BuildingID a \<and> P u) (residentRows d phone))"
proof (cases "an_AudienceValue a")
  case None
  thus ?thesis using assms(1) by (auto simp: annTyped_def audienceTyped_def us isVisible_def audienceWhere_def hasBuilding_def list_ex_iff unitInfo_def)
next
  case (Some v)
  have own: "un_BuildingID u = an_BuildingID a"
    if "an_AudienceType a = AudienceUnit" "parse v = Some uid" "u \<in> set (residentRows d phone)" "un_ID u = uid" for u uid
    using that assms(1,2) Some rows_inj [OF assms(2)] by (auto simp: annTyped_def audienceTyped_def set_residentRows)
  consider "an_AudienceType a = AudienceBlock" "v \<noteq> ''''" | "an_AudienceType a = AudienceFloor" | "an_AudienceType a = AudienceUnit" "\<exists>uid. parse v = Some uid"
    using assms(1) Some by (auto simp: annTyped_def audienceTyped_def)
  thus ?thesis
  proof cases
    case 1
    thus ?thesis using Some by (auto simp: us isVisible_def audienceWhere_def hasBuilding_def hasBlock_def list_ex_iff unitInfo_def split: option.splits)
  next
    case 2
    thus ?thesis using Some by (auto simp: us isVisible_def audienceWhere_def hasBuilding_def hasFloor_def floorToString_def list_ex_iff unitInfo_def)
  next
    case 3
    then obtain uid where "parse v = Some uid" by blast
    with 3 own [of uid] show ?thesis using Some by (auto simp: us isVisible_def audienceWhere_def hasBuilding_def hasUnit_def list_ex_iff unitInfo_def)
  qed
qed

lemma annGet_run:
  assumes "distinct (map an_ID (announcements (db w)))" "a \<in> set (announcements (db w))" "annGet (an_ID a) w = (Inr b, w')"
  shows "b = a \<and> db w' = db w"
  using assms rows_inj by (auto simp: annGet_def query_def dest!: firstRow_Inr split: if_splits)

lemma IsVisible_Inr:
  assumes "distinct (map an_ID (announcements (db w)))" "a \<in> set (announcements (db w))" "IsVisible parse (an_ID a) us now w = (Inr b, w')"
  shows "b \<longleftrightarrow> inWindow a now \<and> hasBuilding us (an_BuildingID a) \<and> isVisible parse a us"
proof -
  obtain x w1 where "annGet (an_ID a) w = (Inr x, w1)"
    "(if \<not> inWindow x now then returnE False else if \<not> hasBuilding us (an_BuildingID x) then returnE False else returnE (isVisible parse x us)) w1 = (Inr b, w')"
    using assms(3) unfolding IsVisible_def by (auto elim: bindE_splitE)
  thus ?thesis using annGet_run [OF assms(1,2)] by (auto simp: returnE_def split: if_splits)
qed

text \<open>C22. Two definitions of the audience agree: for a well-typed stored announcement and an active
  account, the SQL query that chooses whom to notify contains the account exactly when the
  in-memory rule shows the announcement to it inside the publication window.\<close>

theorem targets_iff_visible:
  assumes "u \<in> set (users (db w))" "usr_IsActive u" "usr_DeletedAt u = None" "a \<in> set (announcements (db w))" "annTyped parse (db w) a"
    and "distinct (map usr_ID (users (db w)))" "distinct (map un_ID (units (db w)))" "distinct (map an_ID (announcements (db w)))"
    and "TargetUserIDs parse a w = (Inr ids, w1)" "residentUnits (usr_Phone u) w = (Inr us, w2)" "IsVisible parse (an_ID a) us now w = (Inr vis, w3)"
  shows "vis \<longleftrightarrow> usr_ID u \<in> set ids \<and> inWindow a now"
proof -
  have us: "us = remdups (map unitInfo (residentRows (db w) (usr_Phone u)))" using assms(10) by (auto simp: residentUnits_def query_def split: if_splits)
  have ids: "set ids = (case audienceWhere parse a of None \<Rightarrow> {} | Some P \<Rightarrow> set (targetRows (db w) (an_BuildingID a) P))"
    using assms(9) by (auto simp: TargetUserIDs_def query_def returnE_def split: option.splits if_splits)
  have "usr_ID u \<in> set (targetRows (db w) (an_BuildingID a) P) \<longleftrightarrow> list_ex (\<lambda>un. un_BuildingID un = an_BuildingID a \<and> P un) (residentRows (db w) (usr_Phone u))" for P
    using assms(1-3) rows_inj [OF assms(6)] by (auto simp: targetRows_def)
  hence "usr_ID u \<in> set ids \<longleftrightarrow> hasBuilding us (an_BuildingID a) \<and> isVisible parse a us"
    unfolding isVisible_audience [OF assms(5,7) us] ids by (auto split: option.splits)
  thus ?thesis using IsVisible_Inr [OF assms(8,4,11)] by blast
qed

section \<open>Read marks\<close>

lemma annMarkRead_Inr:
  assumes "annMarkRead parse (Some u) aid w = (Inr (), w')"
  shows "(\<exists>r\<in>set (announcement_reads (db w')). ar_AnnouncementID r = aid \<and> ar_UserID r = usr_ID u) \<and>
     (db w' = db w \<or> (\<exists>t. db w' = (db w)\<lparr>announcement_reads := announcement_reads (db w) @ [\<lparr>ar_AnnouncementID = aid, ar_UserID = usr_ID u, ar_ReadAt = t\<rparr>]\<rparr>))"
proof -
  obtain w1 where k: "db w1 = db w" and m: "repoMarkRead aid (usr_ID u) w1 = (Inr (), w')"
    using assms unfolding annMarkRead_def annAuth_def
    by (auto elim!: bindE_splitE thenE_splitE throwIf_splitE dest!: reads_run [OF reads_annScope(3)] reads_run [OF reads_annScope(6)]
        reads_run [OF reads_annScope(7)] reads_run [OF reads_rules(5)] reads_run [OF reads_rules(1)])
  show ?thesis using m k by (auto simp: repoMarkRead_def bindE_def timeNow_def exec_def list_ex_iff split: if_splits)
qed

lemma annMarkRead_again:
  assumes "r \<in> set (announcement_reads d)" "ar_AnnouncementID r = aid" "ar_UserID r = usr_ID u"
  shows "preserves (\<lambda>x. x = d) (annMarkRead parse (Some u) aid)"
  unfolding annMarkRead_def repoMarkRead_def annAuth_def option.case bindE_return
  by (intro preserves_bindE preserves_thenE preserves_exec preserves_env preserves_reads [OF reads_annScope(1)] preserves_reads [OF reads_annScope(3)]
      preserves_reads [OF reads_annScope(6)] preserves_reads [OF reads_annScope(7)])
    (use assms in \<open>auto simp: list_ex_iff split: if_splits\<close>)

lemma annGetForResident_read:
  assumes "no_faults v" "annGetForResident parse (Some u) aid v = (Inr x, v')"
  shows "awr_IsRead x \<longleftrightarrow> (\<exists>r\<in>set (announcement_reads (db v)). ar_UserID r = usr_ID u \<and> ar_AnnouncementID r = aid)"
  using assms by (auto simp: annGetForResident_def annAuth_def annLoad_def annGet_def residentUnits_def IsVisible_def ReadsForUser_def bindE_def thenE_def
      mapErr_def query_run timeNow_def tryE_def returnE_def throwIf_def throwE_def split: prod.splits sum.splits if_splits)

text \<open>Read marks: marking an announcement as read touches only the mark of this account and
  announcement, doing it again changes nothing, and the announcement is then reported as read
  to the account.\<close>

theorem read_mark_kept:
  assumes "annMarkRead parse (Some u) aid w = (Inr (), w')"
  shows "filter (\<lambda>r. ar_UserID r \<noteq> usr_ID u \<or> ar_AnnouncementID r \<noteq> aid) (announcement_reads (db w')) =
       filter (\<lambda>r. ar_UserID r \<noteq> usr_ID u \<or> ar_AnnouncementID r \<noteq> aid) (announcement_reads (db w)) \<and>
     announcements (db w') = announcements (db w) \<and>
     (\<forall>v. db v = db w' \<longrightarrow> db (snd (annMarkRead parse (Some u) aid v)) = db w') \<and>
     (\<forall>v x v'. db v = db w' \<and> no_faults v \<and> annGetForResident parse (Some u) aid v = (Inr x, v') \<longrightarrow> awr_IsRead x)"
proof -
  obtain r where r: "r \<in> set (announcement_reads (db w'))" "ar_AnnouncementID r = aid" "ar_UserID r = usr_ID u"
    using annMarkRead_Inr [OF assms] by blast
  have "db (snd (annMarkRead parse (Some u) aid v)) = db w'" if "db v = db w'" for v
    using annMarkRead_again [OF r] that by (simp add: preserves_def)
  moreover have "awr_IsRead x" if "db v = db w'" "no_faults v" "annGetForResident parse (Some u) aid v = (Inr x, v')" for v x v'
    using annGetForResident_read [OF that(2,3)] r that(1) by auto
  ultimately show ?thesis using annMarkRead_Inr [OF assms] by auto
qed

section \<open>Examples\<close>

definition sampleParse :: uuidParser where
  "sampleParse s = (if s = ''11'' then Some 11 else None)"

definition sampleAnnouncement :: Announcement where
  "sampleAnnouncement = \<lparr>an_ID = 95, an_BuildingID = 1, an_Title = ''water'', an_Body = ''off at nine'', an_AudienceType = AudienceUnit,
     an_AudienceValue = Some ''11'', an_PublishAt = Some 900, an_ExpireAt = Some 2000, an_AttachmentFile = None, an_CreatedBy = Some 21,
     an_CreatedAt = 900, an_UpdatedAt = 900\<rparr>"

definition annWorld :: "db world" where
  "annWorld = exampleWorld (sampleDb\<lparr>announcements := [sampleAnnouncement]\<rparr>)"

lemmas annWorld_defs = annWorld_def sampleAnnouncement_def sampleDb_def sampleParse_def sampleResident_def sampleManager_def mkUser_def mkUnit_def
  mkPerson_def mkOccupancy_def exampleWorld_def

lemma annWorld_typed: "\<forall>a\<in>set (announcements (db annWorld)). annTyped sampleParse (db annWorld) a"
  by (simp add: annWorld_defs annTyped_def audienceTyped_def windowOk_def)

definition sampleAnnInput :: AnnouncementInput where
  "sampleAnnInput = \<lparr>ani_Title = ''lift'', ani_Body = ''stopped'', ani_AudienceType = AudienceFloor, ani_AudienceValue = Some ''+1'',
     ani_PublishAt = None, ani_ExpireAt = Some ''2026-01-01T00:00:00Z'', ani_AttachmentFileID = None\<rparr>"

definition annRun :: "db world" where
  "annRun = snd (annCreateFor sampleParse (Some sampleManager) 1 sampleAnnInput annWorld)"

lemma annRun_stored: "map an_AudienceValue (announcements (db annRun)) = [Some ''11'', Some ''1'']"
  by code_simp

theorem announcements_typed_witness:
  "length (announcements (db annRun)) = 2 \<and> list_all (annTyped sampleParse (db annRun)) (announcements (db annRun))"
proof -
  have "ann_step sampleParse annWorld annRun" unfolding annRun_def
    by (rule ann_step.create [of sampleParse "Some sampleManager" 1 sampleAnnInput]) (rule surjective_pairing)
  hence "(ann_step sampleParse)\<^sup>*\<^sup>* annWorld annRun" by blast
  from announcements_typed [OF this annWorld_typed] show ?thesis using arg_cong [OF annRun_stored, of length] by (simp add: list_all_iff)
qed

lemma annWorld_runs:
  "TargetUserIDs sampleParse sampleAnnouncement annWorld = (Inr [22], tick annWorld)"
  "residentUnits (usr_Phone sampleResident) annWorld = (Inr [unitInfo (mkUnit 11 1 ''1'')], tick annWorld)"
  "IsVisible sampleParse (an_ID sampleAnnouncement) [unitInfo (mkUnit 11 1 ''1'')] 1000 annWorld = (Inr True, tick annWorld)"
  by (simp_all add: TargetUserIDs_def residentUnits_def IsVisible_def annGet_def audienceWhere_def targetRows_def residentRows_def query_def annWorld_defs
      unitInfo_def bindE_def firstRow_def inWindow_def hasBuilding_def isVisible_def hasUnit_def returnE_def tick_def)

theorem targets_iff_visible_witness:
  "IsVisible sampleParse 95 [unitInfo (mkUnit 11 1 ''1'')] 1000 annWorld = (Inr True, tick annWorld) \<and>
   (\<exists>ids. TargetUserIDs sampleParse sampleAnnouncement annWorld = (Inr ids, tick annWorld) \<and> 22 \<in> set ids) \<and> inWindow sampleAnnouncement 1000"
proof -
  have h: "sampleResident \<in> set (users (db annWorld))" "usr_IsActive sampleResident" "usr_DeletedAt sampleResident = None"
    "sampleAnnouncement \<in> set (announcements (db annWorld))" "distinct (map usr_ID (users (db annWorld)))" "distinct (map un_ID (units (db annWorld)))"
    "distinct (map an_ID (announcements (db annWorld)))" by (simp_all add: annWorld_defs)
  have "annTyped sampleParse (db annWorld) sampleAnnouncement" using annWorld_typed h(4) by blast
  from targets_iff_visible [OF h(1-4) this h(5-7) annWorld_runs] show ?thesis
    using annWorld_runs(1,3) by (simp add: sampleAnnouncement_def)
qed

definition annMarked :: "db world" where
  "annMarked = snd (annMarkRead sampleParse (Some sampleResident) 95 annWorld)"

lemma annMarked_ok: "annMarkRead sampleParse (Some sampleResident) 95 annWorld = (Inr (), annMarked)"
proof -
  have "fst (annMarkRead sampleParse (Some sampleResident) 95 annWorld) = Inr ()" by code_simp
  thus ?thesis by (simp add: annMarked_def prod_eq_iff)
qed

theorem read_mark_kept_witness:
  "db (snd (annMarkRead sampleParse (Some sampleResident) 95 annMarked)) = db annMarked \<and> announcements (db annMarked) = [sampleAnnouncement]"
  using read_mark_kept [OF annMarked_ok] by (auto simp: annWorld_def exampleWorld_def)

end
