(* ===== verification/Http.thy ===== *)
theory Http
  imports Database GoStd
begin

text \<open>
  The HTTP layer: what a handler answers, the conversion of errors (\<open>httpx.WriteError\<close> and
  \<open>Recovery\<close>), the CORS middleware and the small request helpers the handlers share. A handler
  is monadic code; where the source calls \<open>httpx.WriteError(c, err)\<close> and returns, the model fails
  with \<open>err\<close>, and \<open>serve\<close> turns the outcome into the reply. A panic is answered by \<open>Recovery\<close> with
  \<open>ErrInternal\<close>, which is what \<open>WriteError\<close> gives for every error that is not an \<open>AppError\<close>.
\<close>

datatype 'a reply = Reply int 'a | Fail app_error

definition serve :: "int \<Rightarrow> 'a dbm \<Rightarrow> 'a reply dbm" where
  "serve status f = bindE (tryE f) (\<lambda>r. returnE (case r of Inl e \<Rightarrow> Fail (WriteError e) | Inr x \<Rightarrow> Reply status x))"

text \<open>\<open>c.ShouldBindJSON(&req)\<close>: \<open>None\<close> is a body that is not the JSON of the request type; \<open>ok\<close> are the
  \<open>binding\<close> tags.\<close>

definition bindJSON :: "('r \<Rightarrow> bool) \<Rightarrow> string \<Rightarrow> 'r option \<Rightarrow> 'r dbm" where
  "bindJSON ok msg body = (case body of None \<Rightarrow> throwE (AppErr (BadRequest msg))
     | Some r \<Rightarrow> thenE (throwIf (\<not> ok r) (AppErr (BadRequest msg))) (returnE r))"

section \<open>CORS\<close>

text \<open>\<open>strings.ToLower\<close> on ASCII; an origin is ASCII.\<close>

definition lowerChar :: "char \<Rightarrow> char" where
  "lowerChar ch = (let n = (of_char ch :: nat) in if 65 \<le> n \<and> n \<le> 90 then char_of (n + 32) else ch)"

definition normalizeOrigin :: "string \<Rightarrow> string" where
  "normalizeOrigin o' = map lowerChar (trimRightChar (CHR ''/'') o')"

record corsOut =
  co_AllowOrigin :: "string option"
  co_AllowCredentials :: bool
  co_AllowMethods :: bool
  co_Aborted :: bool

definition CORS :: "string list \<Rightarrow> string \<Rightarrow> string \<Rightarrow> corsOut" where
  "CORS allowedOrigins httpMethod origin =
     (let allowAll = (length allowedOrigins = 1 \<and> hd allowedOrigins = ''*'');
          allowed = map normalizeOrigin (filter (\<lambda>o'. o' \<noteq> '''' \<and> o' \<noteq> ''*'') allowedOrigins);
          echo = (\<not> allowAll \<and> origin \<noteq> '''' \<and> normalizeOrigin origin \<in> set allowed)
      in \<lparr>co_AllowOrigin = (if allowAll then Some ''*'' else if echo then Some origin else None),
          co_AllowCredentials = echo, co_AllowMethods = (origin \<noteq> ''''),
          co_Aborted = (httpMethod = ''OPTIONS'')\<rparr>)"

text \<open>\<open>RequestID\<close>: the inbound id or a new one.\<close>

definition RequestID :: "(uuid \<Rightarrow> string) \<Rightarrow> string \<Rightarrow> string dbm" where
  "RequestID str inbound = (if inbound = '''' then bindE newUUID (\<lambda>u. returnE (str u)) else returnE inbound)"

end
