(* ===== verification/Auth_Handlers.thy ===== *)
theory Auth_Handlers
  imports Auth_Token Http
begin

text \<open>
  \<open>internal/auth/handlers.go\<close>, \<open>cookies.go\<close> and \<open>middleware.go\<close>: the session endpoints, the browser
  cookies with the double-submit check, authentication, roles and scopes. The auditor is the audit
  service of \<open>main.go\<close>.
\<close>

section \<open>Requests and replies\<close>

record httpReq =
  hq_Cookie :: "string \<Rightarrow> string option"
  hq_Header :: "string \<Rightarrow> string"
  hq_RefreshBody :: "string option"

record cookie =
  ck_Name :: string
  ck_Value :: string
  ck_MaxAge :: int
  ck_Path :: string
  ck_Secure :: bool
  ck_HttpOnly :: bool

record sessionBody =
  sb_AccessToken :: string
  sb_ExpiresIn :: int
  sb_RefreshToken :: "string option"
  sb_User :: "(uuid \<times> string \<times> string) option"
  sb_Cookies :: "cookie list"

abbreviation (input) RefreshCookieName :: string where "RefreshCookieName \<equiv> ''hamsa_refresh''"
abbreviation (input) CSRFCookieName :: string where "CSRFCookieName \<equiv> ''hamsa_csrf''"
abbreviation (input) CSRFHeaderName :: string where "CSRFHeaderName \<equiv> ''X-CSRF-Token''"
abbreviation (input) ClientHeaderName :: string where "ClientHeaderName \<equiv> ''X-Hamsa-Client''"
abbreviation (input) ClientWeb :: string where "ClientWeb \<equiv> ''web''"
abbreviation (input) refreshCookiePath :: string where "refreshCookiePath \<equiv> ''/api/v1/auth''"
abbreviation (input) csrfCookiePath :: string where "csrfCookiePath \<equiv> ''/''"

record Handler =
  hd_Tokens :: TokenService
  hd_Secure :: bool

section \<open>Cookies\<close>

definition defaultRefreshTTL :: int where "defaultRefreshTTL = 30 * 24 * 3600"

definition refreshCookieMaxAge :: "Handler \<Rightarrow> int" where
  "refreshCookieMaxAge h = (if ts_refreshTTL (hd_Tokens h) > 0 then ts_refreshTTL (hd_Tokens h) else defaultRefreshTTL)"

definition setSessionCookies :: "crypto \<Rightarrow> Handler \<Rightarrow> string \<Rightarrow> cookie list dbm" where
  "setSessionCookies c h refreshToken =
     bindE (tryE (randomHex c)) (\<lambda>r.
     returnE ([\<lparr>ck_Name = RefreshCookieName, ck_Value = refreshToken, ck_MaxAge = refreshCookieMaxAge h,
               ck_Path = refreshCookiePath, ck_Secure = hd_Secure h, ck_HttpOnly = True\<rparr>] @
       (case r of Inl _ \<Rightarrow> [] | Inr csrf \<Rightarrow> [\<lparr>ck_Name = CSRFCookieName, ck_Value = csrf, ck_MaxAge = refreshCookieMaxAge h,
               ck_Path = csrfCookiePath, ck_Secure = hd_Secure h, ck_HttpOnly = False\<rparr>])))"

definition clearSessionCookies :: "Handler \<Rightarrow> cookie list" where
  "clearSessionCookies h =
     [\<lparr>ck_Name = RefreshCookieName, ck_Value = '''', ck_MaxAge = -1, ck_Path = refreshCookiePath,
       ck_Secure = hd_Secure h, ck_HttpOnly = True\<rparr>,
      \<lparr>ck_Name = CSRFCookieName, ck_Value = '''', ck_MaxAge = -1, ck_Path = csrfCookiePath,
       ck_Secure = hd_Secure h, ck_HttpOnly = False\<rparr>]"

definition refreshTokenFrom :: "httpReq \<Rightarrow> string \<times> bool" where
  "refreshTokenFrom q =
     (case hq_RefreshBody q of
        Some t \<Rightarrow> if t \<noteq> '''' then (t, False)
          else (case hq_Cookie q RefreshCookieName of Some raw \<Rightarrow> if raw \<noteq> '''' then (raw, True) else ('''', False) | None \<Rightarrow> ('''', False))
      | None \<Rightarrow> (case hq_Cookie q RefreshCookieName of Some raw \<Rightarrow> if raw \<noteq> '''' then (raw, True) else ('''', False) | None \<Rightarrow> ('''', False)))"

definition browserClient :: "httpReq \<Rightarrow> bool" where
  "browserClient q \<longleftrightarrow> hq_Header q ClientHeaderName = ClientWeb"

definition validCSRF :: "httpReq \<Rightarrow> bool" where
  "validCSRF q =
     (case hq_Cookie q CSRFCookieName of
        None \<Rightarrow> False
      | Some ck \<Rightarrow> if ck = '''' then False
          else let header = hq_Header q CSRFHeaderName in if header = '''' then False else ck = header)"

section \<open>Sessions\<close>

definition respondSession :: "crypto \<Rightarrow> Handler \<Rightarrow> httpReq \<Rightarrow> User \<Rightarrow> sessionBody dbm" where
  "respondSession c h q u =
     bindE (mapErr (\<lambda>_. AppErr ErrInternal) (IssueAccessToken c (hd_Tokens h) (usr_ID u))) (\<lambda>(access, expiresAt).
     bindE (mapErr (\<lambda>_. AppErr ErrInternal) (IssueRefreshToken c (hd_Tokens h) (usr_ID u))) (\<lambda>refresh.
     thenE (ignoreE (auditAppend (Some (usr_ID u)) ''user.login'' ''user'' (Some (usr_ID u)) None
              (Some (SnapFields [(''phone'', usr_Phone u), (''role'', usr_Role u)]))))
     (bindE (setSessionCookies c h refresh) (\<lambda>cks.
      bindE timeNow (\<lambda>now.
      returnE \<lparr>sb_AccessToken = access, sb_ExpiresIn = expiresAt - now,
        sb_RefreshToken = (if browserClient q then None else Some refresh),
        sb_User = Some (usr_ID u, usr_Name u, usr_Role u), sb_Cookies = cks\<rparr>)))))"

record credentialsReq =
  cq_Phone :: string
  cq_Password :: string
  cq_Name :: string

definition credentialsBound :: "credentialsReq \<Rightarrow> bool" where
  "credentialsBound r \<longleftrightarrow> cq_Phone r \<noteq> '''' \<and> cq_Password r \<noteq> ''''"

definition newUser :: "uuid \<Rightarrow> credentialsReq \<Rightarrow> string \<Rightarrow> string \<Rightarrow> User" where
  "newUser uid req role hash = \<lparr>usr_ID = uid, usr_Phone = cq_Phone req, usr_PasswordHash = Some hash, usr_Role = role,
     usr_Name = cq_Name req, usr_FCMToken = None, usr_IsActive = True, usr_CreatedAt = 0, usr_UpdatedAt = 0, usr_DeletedAt = None\<rparr>"

definition authSetup :: "crypto \<Rightarrow> Handler \<Rightarrow> httpReq \<Rightarrow> credentialsReq option \<Rightarrow> sessionBody dbm" where
  "authSetup c h q body =
     bindE (bindJSON credentialsBound ''phone and password are required'' body) (\<lambda>req.
     thenE (throwIf (\<not> iranianMobile (cq_Phone req)) ErrInvalidPhone)
     (thenE (liftE (ValidatePassword c (cq_Password req)))
     (bindE (mapErr (\<lambda>_. AppErr (Internal ''counting accounts failed'')) usersCountActive) (\<lambda>n.
      thenE (throwIf (n > 0) (AppErr (Conflict ''an account exists already'')))
      (bindE (mapErr (\<lambda>_. AppErr ErrInternal) (liftE (HashPassword c (cq_Password req)))) (\<lambda>hash.
       bindE newUUID (\<lambda>uid.
       bindE (mapErr (\<lambda>_. AppErr (Internal ''creating the account failed''))
         (usersCreate (newUser uid req RoleSuperAdmin hash))) (respondSession c h q))))))))"

record registerReq = credentialsReq +
  rq_Code :: string

definition registerUser :: "crypto \<Rightarrow> registerReq \<Rightarrow> string \<Rightarrow> string \<Rightarrow> User dbm" where
  "registerUser c req role hash =
     bindE (tryE (usersFindByPhone (cq_Phone req))) (\<lambda>r.
     case r of
       Inr u \<Rightarrow>
         let u' = u\<lparr>usr_PasswordHash := Some hash, usr_Name := (if cq_Name req \<noteq> '''' then cq_Name req else usr_Name u)\<rparr>
         in thenE (mapErr (\<lambda>_. AppErr (Internal ''saving the password failed'')) (usersUpdatePassword u')) (returnE u')
     | Inl e \<Rightarrow>
         if e = RecordNotFound then bindE newUUID (\<lambda>uid.
           mapErr (\<lambda>_. AppErr (Internal ''registration failed''))
             (usersCreate (newUser uid \<lparr>cq_Phone = cq_Phone req, cq_Password = cq_Password req, cq_Name = cq_Name req\<rparr> role hash)))
         else throwE (AppErr (Internal ''loading the account failed'')))"

definition register :: "crypto \<Rightarrow> Handler \<Rightarrow> httpReq \<Rightarrow> registerReq option \<Rightarrow> sessionBody dbm" where
  "register c h q body =
     bindE (bindJSON (\<lambda>r. cq_Phone r \<noteq> '''' \<and> cq_Password r \<noteq> '''' \<and> rq_Code r \<noteq> '''') ''phone, code and password are required'' body) (\<lambda>req.
     thenE (throwIf (\<not> iranianMobile (cq_Phone req)) ErrInvalidPhone)
     (thenE (liftE (ValidatePassword c (cq_Password req)))
     (bindE (Redeem c (cq_Phone req) (rq_Code req)) (\<lambda>role.
      bindE (mapErr (\<lambda>_. AppErr ErrInternal) (liftE (HashPassword c (cq_Password req)))) (\<lambda>hash.
      bindE (registerUser c req role hash) (respondSession c h q))))))"

definition login :: "crypto \<Rightarrow> Handler \<Rightarrow> httpReq \<Rightarrow> credentialsReq option \<Rightarrow> sessionBody dbm" where
  "login c h q body =
     bindE (bindJSON credentialsBound ''phone and password are required'' body) (\<lambda>req.
     thenE (throwIf (\<not> iranianMobile (cq_Phone req)) ErrWrongLogin)
     (bindE (mapErr (\<lambda>e. if e = RecordNotFound then ErrWrongLogin else AppErr (Internal ''loading the account failed''))
        (usersFindByPhone (cq_Phone req))) (\<lambda>u.
      thenE (throwIf (case usr_PasswordHash u of None \<Rightarrow> True | Some hash \<Rightarrow> \<not> CheckPassword c hash (cq_Password req)) ErrWrongLogin)
      (respondSession c h q u))))"

record changePasswordReq =
  cp_Current :: string
  cp_New :: string

definition changePassword :: "crypto \<Rightarrow> User option \<Rightarrow> changePasswordReq option \<Rightarrow> unit dbm" where
  "changePassword c cur body =
     (case cur of None \<Rightarrow> throwE (AppErr (Unauthorized ''authentication required''))
      | Some u \<Rightarrow>
        bindE (bindJSON (\<lambda>r. cp_Current r \<noteq> '''' \<and> cp_New r \<noteq> '''') ''both passwords are required'' body) (\<lambda>req.
        thenE (liftE (ValidatePassword c (cp_New req)))
        (thenE (throwIf (case usr_PasswordHash u of None \<Rightarrow> True | Some hash \<Rightarrow> \<not> CheckPassword c hash (cp_Current req)) ErrWrongLogin)
        (bindE (mapErr (\<lambda>_. AppErr ErrInternal) (liftE (HashPassword c (cp_New req)))) (\<lambda>hash.
         mapErr (\<lambda>_. AppErr (Internal ''saving the password failed'')) (usersUpdatePassword (u\<lparr>usr_PasswordHash := Some hash\<rparr>)))))))"

record createInviteReq =
  iq_Phone :: string
  iq_Role :: string

definition createInvite :: "crypto \<Rightarrow> User \<Rightarrow> createInviteReq option \<Rightarrow> (string \<times> string) dbm" where
  "createInvite c caller body =
     bindE (bindJSON (\<lambda>r. iq_Phone r \<noteq> '''') ''phone is required'' body) (\<lambda>req.
     let role = (if iq_Role req = '''' then RoleResident else iq_Role req)
     in thenE (throwIf (role \<noteq> RoleResident \<and> role \<noteq> RoleManager) (AppErr (BadRequest ''invalid invite role'')))
     (bindE (IssueInvite c (iq_Phone req) role (Some (usr_ID caller))) (\<lambda>code.
      thenE (ignoreE (auditAppend (Some (usr_ID caller)) ''invite.issued'' ''invite'' None None
               (Some (SnapFields [(''phone'', iq_Phone req), (''role'', role)]))))
      (returnE (code, role)))))"

definition refresh :: "crypto \<Rightarrow> Handler \<Rightarrow> httpReq \<Rightarrow> sessionBody dbm" where
  "refresh c h q =
     (case refreshTokenFrom q of (raw, fromCookie) \<Rightarrow>
      thenE (throwIf (raw = '''') (AppErr (Unauthorized ''no session to renew'')))
      (thenE (throwIf (fromCookie \<and> \<not> validCSRF q) (AppErr (Forbidden ''invalid CSRF token'')))
      (bindE (RotateRefreshToken c (hd_Tokens h) raw) (\<lambda>rot.
       bindE (setSessionCookies c h (ro_RefreshToken rot)) (\<lambda>cks.
       returnE \<lparr>sb_AccessToken = ro_AccessToken rot, sb_ExpiresIn = ro_ExpiresIn rot,
         sb_RefreshToken = (if \<not> fromCookie \<and> \<not> browserClient q then Some (ro_RefreshToken rot) else None),
         sb_User = None, sb_Cookies = cks\<rparr>)))))"

definition logout :: "crypto \<Rightarrow> Handler \<Rightarrow> httpReq \<Rightarrow> cookie list dbm" where
  "logout c h q =
     (case refreshTokenFrom q of (raw, fromCookie) \<Rightarrow>
      thenE (throwIf (fromCookie \<and> \<not> validCSRF q) (AppErr (Forbidden ''invalid CSRF token'')))
      (thenE (whenE (raw \<noteq> '''') (mapErr (\<lambda>_. AppErr (Internal ''logout failed'')) (RevokeFamilyByToken c raw)))
      (returnE (clearSessionCookies h))))"

section \<open>Authentication and scope\<close>

definition Authenticate :: "crypto \<Rightarrow> string \<Rightarrow> User dbm" where
  "Authenticate c header =
     thenE (throwIf (\<not> hasPrefix header ''Bearer '') (AppErr (Unauthorized ''authentication required'')))
     (bindE (mapErr (\<lambda>_. AppErr (Unauthorized ''invalid or expired token''))
        (ParseAccessToken c (trimSpace (drop (length ''Bearer '') header)))) (\<lambda>uid.
      bindE (mapErr (\<lambda>_. AppErr (Unauthorized ''invalid account'')) (usersFindByID uid)) (\<lambda>u.
      thenE (throwIf (\<not> usr_IsActive u) (AppErr (Unauthorized ''invalid account''))) (returnE u))))"

definition RequireRole :: "string list \<Rightarrow> User option \<Rightarrow> User dbm" where
  "RequireRole roles cur = (case cur of None \<Rightarrow> throwE (AppErr (Unauthorized ''authentication required''))
     | Some u \<Rightarrow> thenE (throwIf (usr_Role u \<notin> set roles) (AppErr (Forbidden ''access denied''))) (returnE u))"

definition ManagerBuildingIDs :: "uuid \<Rightarrow> uuid list dbm" where
  "ManagerBuildingIDs uid = query (\<lambda>d. Inr (map ub_BuildingID (filter (\<lambda>g. ub_UserID g = uid) (user_buildings d))))"

definition occupiedBy :: "db \<Rightarrow> string \<Rightarrow> Occupancy \<Rightarrow> bool" where
  "occupiedBy d phone o' \<longleftrightarrow> oc_EndDate o' = None \<and>
     list_ex (\<lambda>p. pe_ID p = oc_PersonID o' \<and> pe_Phone p = Some phone \<and> pe_DeletedAt p = None) (persons d)"

definition ResidentUnitIDs :: "string \<Rightarrow> uuid list dbm" where
  "ResidentUnitIDs phone = query (\<lambda>d. Inr (remdups (map oc_UnitID (filter (occupiedBy d phone) (occupancies d)))))"

definition CanManagerAccessBuilding :: "uuid \<Rightarrow> uuid \<Rightarrow> bool dbm" where
  "CanManagerAccessBuilding uid bid = query (\<lambda>d.
     Inr (0 < length (filter (\<lambda>g. ub_UserID g = uid \<and> ub_BuildingID g = bid) (user_buildings d))))"

interpretation access_scope: building_scope CanManagerAccessBuilding
  by unfold_locales (auto simp: CanManagerAccessBuilding_def scope_defs split: if_splits)

definition CanResidentAccessUnit :: "string \<Rightarrow> uuid \<Rightarrow> bool dbm" where
  "CanResidentAccessUnit phone uid = query (\<lambda>d.
     Inr (0 < length (filter (\<lambda>o'. occupiedBy d phone o' \<and> oc_UnitID o' = uid) (occupancies d))))"

record meBody =
  me_ID :: uuid
  me_Phone :: string
  me_Name :: string
  me_Role :: string
  me_Buildings :: "uuid list option"
  me_Units :: "uuid list option"

text \<open>The tables of the scope exist in the migrated schema, so that no query fails with SQLSTATE 42P01.\<close>

definition me :: "User option \<Rightarrow> meBody dbm" where
  "me cur =
     (case cur of None \<Rightarrow> throwE (AppErr (Unauthorized ''authentication required''))
      | Some u \<Rightarrow>
        let resp = \<lparr>me_ID = usr_ID u, me_Phone = usr_Phone u, me_Name = usr_Name u, me_Role = usr_Role u,
                    me_Buildings = None, me_Units = None\<rparr>
        in if usr_Role u = RoleSuperAdmin then returnE (resp\<lparr>me_Buildings := Some []\<rparr>)
        else if usr_Role u = RoleManager then
          bindE (mapErr (\<lambda>_. AppErr (Internal ''loading buildings failed'')) (ManagerBuildingIDs (usr_ID u))) (\<lambda>bs.
          returnE (resp\<lparr>me_Buildings := Some bs\<rparr>))
        else if usr_Role u = RoleResident then
          bindE (mapErr (\<lambda>_. AppErr (Internal ''loading units failed'')) (ResidentUnitIDs (usr_Phone u))) (\<lambda>us.
          returnE (resp\<lparr>me_Units := Some us\<rparr>))
        else returnE resp)"

end
