(* ===== verification/Maintenance.thy ===== *)
theory Maintenance
  imports Building_Service
begin

text \<open>
  Maintenance requests: \<open>internal/maintenance/models.go\<close>, \<open>repository.go\<close> and \<open>service.go\<close> on the table of
  migration 0007. \<open>json.Number\<close> is its text. The notification and audit services are those of \<open>main.go\<close>;
  their errors are discarded.
\<close>

section \<open>Values and transitions\<close>

abbreviation (input) PriNormal :: string where "PriNormal \<equiv> ''normal''"
abbreviation (input) PriImportant :: string where "PriImportant \<equiv> ''important''"
abbreviation (input) PriUrgent :: string where "PriUrgent \<equiv> ''urgent''"
abbreviation (input) MStatusNew :: string where "MStatusNew \<equiv> ''new''"
abbreviation (input) MStatusUnderReview :: string where "MStatusUnderReview \<equiv> ''under_review''"
abbreviation (input) MStatusInProgress :: string where "MStatusInProgress \<equiv> ''in_progress''"
abbreviation (input) MStatusDone :: string where "MStatusDone \<equiv> ''done''"
abbreviation (input) MStatusClosed :: string where "MStatusClosed \<equiv> ''closed''"

definition validCategories :: "string list" where
  "validCategories = [''elevator'', ''utilities'', ''electrical'', ''water'', ''cleaning'', ''common_area'', ''parking'', ''other'']"

definition validPriorities :: "string list" where
  "validPriorities = [PriNormal, PriImportant, PriUrgent]"

definition validStatuses :: "string list" where
  "validStatuses = [MStatusNew, MStatusUnderReview, MStatusInProgress, MStatusDone, MStatusClosed]"

definition allowedTransitions :: "(string \<times> string list) list" where
  "allowedTransitions = [(MStatusNew, [MStatusUnderReview]), (MStatusUnderReview, [MStatusInProgress, MStatusClosed]),
     (MStatusInProgress, [MStatusDone, MStatusClosed]), (MStatusDone, [MStatusClosed])]"

definition canTransition :: "string \<Rightarrow> string \<Rightarrow> bool" where
  "canTransition s nxt = (case map_of allowedTransitions s of None \<Rightarrow> False | Some m \<Rightarrow> nxt \<in> set m)"

section \<open>Repository\<close>

definition maintRowOk :: "db \<Rightarrow> MaintenanceRequest \<Rightarrow> bool" where
  "maintRowOk d m \<longleftrightarrow> mr_Category m \<in> set validCategories \<and> mr_Priority m \<in> set validPriorities \<and> mr_Status m \<in> set validStatuses \<and>
     (case mr_RecordedCost m of None \<Rightarrow> True | Some n \<Rightarrow> 0 \<le> n) \<and>
     list_ex (\<lambda>b. bl_ID b = mr_BuildingID m) (buildings d) \<and> list_ex (\<lambda>u. usr_ID u = mr_SubmittedBy m) (users d) \<and>
     (case mr_UnitID m of None \<Rightarrow> True | Some uid \<Rightarrow> list_ex (\<lambda>u. un_ID u = uid) (units d)) \<and>
     (case mr_AssigneePersonID m of None \<Rightarrow> True | Some pid \<Rightarrow> list_ex (\<lambda>p. pe_ID p = pid) (persons d))"

definition maintIsManagerOf :: "uuid \<Rightarrow> uuid \<Rightarrow> bool dbm" where
  "maintIsManagerOf uid bid = query (\<lambda>d. Inr (0 < length (filter (isGrant uid bid) (user_buildings d))))"

interpretation maint_scope: building_scope maintIsManagerOf
  by unfold_locales (auto simp: maintIsManagerOf_def isGrant_def scope_defs split: if_splits)

text \<open>\<open>SELECT path FROM files WHERE id = ?\<close>: \<open>Scan\<close> leaves the empty path when there is no row.\<close>

definition filePath :: "db \<Rightarrow> uuid \<Rightarrow> string" where
  "filePath d fid = (case find (\<lambda>f. fl_ID f = fid) (stored_files d) of None \<Rightarrow> '''' | Some f \<Rightarrow> fl_Path f)"

definition PhotoPath :: "uuid \<Rightarrow> string dbm" where
  "PhotoPath fid = query (\<lambda>d. if filePath d fid = '''' then Inl RecordNotFound else Inr (filePath d fid))"

definition maintCreate :: "MaintenanceRequest \<Rightarrow> unit dbm" where
  "maintCreate m = exec (\<lambda>d. if list_ex (\<lambda>q. mr_ID q = mr_ID m) (maintenance_requests d) \<or> \<not> maintRowOk d m
     then Inl (Constraint ''maintenance_requests'')
     else Inr ((), d\<lparr>maintenance_requests := maintenance_requests d @ [m]\<rparr>))"

definition maintGet :: "uuid \<Rightarrow> MaintenanceRequest dbm" where
  "maintGet mid = query (\<lambda>d. firstRow (\<lambda>m. mr_ID m = mid) (maintenance_requests d))"

definition maintSave :: "MaintenanceRequest \<Rightarrow> MaintenanceRequest dbm" where
  "maintSave m = bindE timeNow (\<lambda>t. let m' = m\<lparr>mr_UpdatedAt := t\<rparr> in
     thenE (exec (\<lambda>d. if \<not> maintRowOk d m' then Inl (Constraint ''maintenance_requests'')
        else Inr ((), d\<lparr>maintenance_requests := saveRow mr_ID m' (maintenance_requests d)\<rparr>))) (returnE m'))"

record MaintFilter =
  mf_Status :: string
  mf_Priority :: string
  mf_Category :: string
  mf_Page :: int
  mf_Size :: int

definition maintMatches :: "uuid \<Rightarrow> MaintFilter \<Rightarrow> MaintenanceRequest \<Rightarrow> bool" where
  "maintMatches bid f m \<longleftrightarrow> mr_BuildingID m = bid \<and> (mf_Status f = '''' \<or> mr_Status m = mf_Status f) \<and>
     (mf_Priority f = '''' \<or> mr_Priority m = mf_Priority f) \<and> (mf_Category f = '''' \<or> mr_Category m = mf_Category f)"

definition newestPage :: "(MaintenanceRequest \<Rightarrow> bool) \<Rightarrow> int \<Rightarrow> int \<Rightarrow> (MaintenanceRequest list \<times> int) dbm" where
  "newestPage P page sz =
     bindE (query (\<lambda>d. Inr (int (length (filter P (maintenance_requests d)))))) (\<lambda>total.
     bindE (query (\<lambda>d. Inr (take (nat sz) (drop (nat ((page - 1) * sz))
        (sort_key (\<lambda>m. - mr_CreatedAt m) (filter P (maintenance_requests d))))))) (\<lambda>items.
     returnE (items, total)))"

definition ListForBuilding :: "uuid \<Rightarrow> MaintFilter \<Rightarrow> (MaintenanceRequest list \<times> int) dbm" where
  "ListForBuilding bid f = newestPage (maintMatches bid f) (mf_Page f) (mf_Size f)"

definition ListForUser :: "uuid \<Rightarrow> int \<Rightarrow> int \<Rightarrow> (MaintenanceRequest list \<times> int) dbm" where
  "ListForUser uid page sz = newestPage (\<lambda>m. mr_SubmittedBy m = uid) page sz"

text \<open>The rows of the join of \<open>ResolveResidentUnit\<close>; the newest occupancy is first.\<close>

definition residentUnitRows :: "db \<Rightarrow> string \<Rightarrow> (uuid \<times> uuid) list" where
  "residentUnitRows d phone = map snd (sort_key (\<lambda>(t, _). - t) (concat (map (\<lambda>p.
     concat (map (\<lambda>x. map (\<lambda>u. (oc_CreatedAt x, un_BuildingID u, oc_UnitID x))
        (filter (\<lambda>u. un_ID u = oc_UnitID x \<and> un_DeletedAt u = None) (units d)))
      (filter (\<lambda>x. oc_PersonID x = pe_ID p \<and> oc_EndDate x = None) (occupancies d))))
     (filter (\<lambda>p. pe_Phone p = Some phone) (persons d)))))"

definition ResolveResidentUnit :: "string \<Rightarrow> (uuid \<times> uuid) option dbm" where
  "ResolveResidentUnit phone = query (\<lambda>d. case residentUnitRows d phone of [] \<Rightarrow> Inr None
     | (bid, uid) # _ \<Rightarrow> Inr (if uid = uuidNil then None else Some (bid, uid)))"

definition PersonExists :: "uuid \<Rightarrow> bool dbm" where
  "PersonExists pid = query (\<lambda>d. Inr (0 < length (filter (\<lambda>p. pe_ID p = pid \<and> pe_DeletedAt p = None) (persons d))))"

definition openStatuses :: "string list" where
  "openStatuses = [MStatusNew, MStatusUnderReview, MStatusInProgress, MStatusDone]"

definition CountOpenForUser :: "uuid \<Rightarrow> int dbm" where
  "CountOpenForUser uid = query (\<lambda>d. Inr (int (length (filter (\<lambda>m. mr_SubmittedBy m = uid \<and> mr_Status m \<in> set openStatuses)
     (maintenance_requests d)))))"

text \<open>\<open>ORDER BY created_at DESC, id DESC\<close>.\<close>

definition newerRequest :: "MaintenanceRequest \<Rightarrow> MaintenanceRequest \<Rightarrow> bool" where
  "newerRequest a b \<longleftrightarrow> mr_CreatedAt b < mr_CreatedAt a \<or> mr_CreatedAt a = mr_CreatedAt b \<and> mr_ID b < mr_ID a"

definition LatestForUser :: "uuid \<Rightarrow> MaintenanceRequest option dbm" where
  "LatestForUser uid = query (\<lambda>d. Inr (case sort_by newerRequest (filter (\<lambda>m. mr_SubmittedBy m = uid) (maintenance_requests d)) of
     [] \<Rightarrow> None | m # _ \<Rightarrow> Some m))"

section \<open>Service\<close>

record SubmitInput =
  si_Title :: string
  si_Category :: string
  si_Description :: "string option"
  si_Location :: "string option"
  si_PhotoFileID :: "uuid option"
  si_Priority :: string

definition validateSubmit :: "SubmitInput \<Rightarrow> unit result" where
  "validateSubmit inp =
     (let title = trimSpace (si_Title inp); cat = trimSpace (si_Category inp); pri0 = trimSpace (si_Priority inp);
          pri = (if pri0 = '''' then PriNormal else pri0)
      in if title = '''' then Inl (invalidField ''the title is required'' ''title'' ''required'')
      else if length (runesOf title) > 150 then Inl (invalidField ''the title is too long'' ''title'' ''max_length'')
      else if cat = '''' \<or> cat \<notin> set validCategories then Inl (invalidField ''invalid category'' ''category'' ''invalid'')
      else if pri \<notin> set validPriorities then Inl (invalidField ''invalid priority'' ''priority'' ''invalid'')
      else if (case si_Description inp of None \<Rightarrow> False | Some s \<Rightarrow> length (runesOf s) > 2000)
        then Inl (invalidField ''the description is too long'' ''description'' ''max_length'')
      else Inr ())"

definition newRequest :: "User \<Rightarrow> SubmitInput \<Rightarrow> string option \<Rightarrow> uuid \<Rightarrow> uuid \<Rightarrow> uuid \<Rightarrow> int \<Rightarrow> MaintenanceRequest" where
  "newRequest user inp photo mid bid uid now =
     \<lparr>mr_ID = mid, mr_BuildingID = bid, mr_UnitID = Some uid, mr_SubmittedBy = usr_ID user, mr_Title = trimSpace (si_Title inp),
      mr_Category = trimSpace (si_Category inp), mr_Description = si_Description inp, mr_Location = si_Location inp, mr_PhotoFile = photo,
      mr_Priority = (if trimSpace (si_Priority inp) = '''' then PriNormal else trimSpace (si_Priority inp)),
      mr_Status = MStatusNew, mr_AssigneePersonID = None, mr_RecordedCost = None, mr_Notes = None,
      mr_CreatedAt = now, mr_UpdatedAt = now, mr_ClosedAt = None\<rparr>"

definition Submit :: "User \<Rightarrow> SubmitInput \<Rightarrow> MaintenanceRequest dbm" where
  "Submit user inp =
     thenE (liftE (validateSubmit inp))
     (bindE (case si_PhotoFileID inp of None \<Rightarrow> returnE None
        | Some fid \<Rightarrow> bindE (mapErr (\<lambda>e. if e = RecordNotFound then invalidField ''the photo was not found'' ''photo_file_id'' ''not_found'' else e)
            (PhotoPath fid)) (\<lambda>p. returnE (Some p))) (\<lambda>photo.
      bindE (ResolveResidentUnit (usr_Phone user)) (\<lambda>r.
      case r of None \<Rightarrow> throwE (AppErr (Forbidden ''only a resident can submit a request''))
      | Some (bid, uid) \<Rightarrow>
        bindE timeNow (\<lambda>now. bindE newUUID (\<lambda>mid.
        let m = newRequest user inp photo mid bid uid now
        in thenE (maintCreate m)
           (thenE (ignoreE (notifCreate (mr_SubmittedBy m) ''request_submitted'' ''new request'' (''request '' @ mr_Title m @ '' was submitted'')
              (Some ''maintenance_request'') (Some (mr_ID m))))
           (thenE (ignoreE (auditAppend (Some (usr_ID user)) ''maintenance.create'' ''maintenance_request'' (Some (mr_ID m)) None (Some (SnapRequest m))))
            (returnE m))))))))"

definition pageOr1 :: "int \<Rightarrow> int" where "pageOr1 p = (if p < 1 then 1 else p)"
definition sizeOr20 :: "int \<Rightarrow> int" where "sizeOr20 n = (if n < 1 \<or> n > 100 then 20 else n)"

definition maintListForResident :: "User \<Rightarrow> int \<Rightarrow> int \<Rightarrow> (MaintenanceRequest list \<times> int) dbm" where
  "maintListForResident user page sz = ListForUser (usr_ID user) (pageOr1 page) (sizeOr20 sz)"

definition maintLoad :: "uuid \<Rightarrow> MaintenanceRequest dbm" where
  "maintLoad mid = mapErr (\<lambda>e. if e = RecordNotFound then AppErr (NotFound ''request not found'') else e) (maintGet mid)"

definition maintGetForResident :: "User \<Rightarrow> uuid \<Rightarrow> MaintenanceRequest dbm" where
  "maintGetForResident user mid = bindE (maintLoad mid) (\<lambda>m.
     thenE (throwIf (mr_SubmittedBy m \<noteq> usr_ID user) (AppErr (Forbidden ''no access to this request''))) (returnE m))"

definition maintListForManager :: "User \<Rightarrow> uuid \<Rightarrow> MaintFilter \<Rightarrow> (MaintenanceRequest list \<times> int) dbm" where
  "maintListForManager manager bid f =
     bindE (maintIsManagerOf (usr_ID manager) bid) (\<lambda>ok.
     thenE (throwIf (\<not> ok) (AppErr (Forbidden ''no access to this building'')))
     (thenE (throwIf (mf_Status f \<noteq> '''' \<and> mf_Status f \<notin> set validStatuses) (invalidField ''invalid status'' ''status'' ''invalid''))
     (thenE (throwIf (mf_Priority f \<noteq> '''' \<and> mf_Priority f \<notin> set validPriorities) (invalidField ''invalid priority'' ''priority'' ''invalid''))
     (thenE (throwIf (mf_Category f \<noteq> '''' \<and> mf_Category f \<notin> set validCategories) (invalidField ''invalid category'' ''category'' ''invalid''))
      (ListForBuilding bid (f\<lparr>mf_Page := pageOr1 (mf_Page f), mf_Size := sizeOr20 (mf_Size f)\<rparr>))))))"

definition maintForManager :: "User \<Rightarrow> uuid \<Rightarrow> MaintenanceRequest dbm" where
  "maintForManager manager mid = bindE (maintLoad mid) (\<lambda>m.
     bindE (maintIsManagerOf (usr_ID manager) (mr_BuildingID m)) (\<lambda>ok.
     thenE (throwIf (\<not> ok) (AppErr (Forbidden ''no access to this building''))) (returnE m)))"

record MaintUpdate =
  mu_Status :: "string option"
  mu_AssigneePersonID :: "uuid option"
  mu_RecordedCost :: "string option"
  mu_Notes :: "string option"

definition moveStatus :: "string option \<Rightarrow> MaintenanceRequest \<Rightarrow> MaintenanceRequest dbm" where
  "moveStatus st m = (case st of None \<Rightarrow> returnE m
     | Some raw \<Rightarrow> let nxt = trimSpace raw
       in if nxt = '''' \<or> nxt \<notin> set validStatuses then throwE (invalidField ''invalid status'' ''status'' ''invalid'')
       else if nxt = mr_Status m then returnE m
       else if \<not> canTransition (mr_Status m) nxt
         then throwE (AppErr (WithDetail (Conflict ''the status change is not allowed'') ''status'' ''illegal_transition''))
       else if nxt = MStatusClosed then bindE timeNow (\<lambda>now. returnE (m\<lparr>mr_Status := nxt, mr_ClosedAt := Some now\<rparr>))
       else returnE (m\<lparr>mr_Status := nxt\<rparr>))"

definition setAssignee :: "uuid option \<Rightarrow> MaintenanceRequest \<Rightarrow> MaintenanceRequest dbm" where
  "setAssignee a m = (case a of None \<Rightarrow> returnE m
     | Some pid \<Rightarrow> if pid = uuidNil then returnE (m\<lparr>mr_AssigneePersonID := None\<rparr>)
       else bindE (PersonExists pid) (\<lambda>ok.
         thenE (throwIf (\<not> ok) (invalidField ''the assignee was not found'' ''assignee_person_id'' ''not_found''))
          (returnE (m\<lparr>mr_AssigneePersonID := Some pid\<rparr>))))"

definition setCost :: "string option \<Rightarrow> MaintenanceRequest \<Rightarrow> MaintenanceRequest result" where
  "setCost n m = (case n of None \<Rightarrow> Inr m
     | Some s \<Rightarrow> let raw = trimSpace s
       in if raw = '''' \<or> raw = ''null'' then Inr (m\<lparr>mr_RecordedCost := None\<rparr>)
       else case parseInt64 raw of
           None \<Rightarrow> Inl (invalidField ''invalid cost'' ''recorded_cost'' ''gte_0'')
         | Some cost \<Rightarrow> if cost < 0 then Inl (invalidField ''invalid cost'' ''recorded_cost'' ''gte_0'') else Inr (m\<lparr>mr_RecordedCost := Some cost\<rparr>))"

definition setNotes :: "string option \<Rightarrow> MaintenanceRequest \<Rightarrow> MaintenanceRequest" where
  "setNotes n m = (case n of None \<Rightarrow> m | Some s \<Rightarrow> if trimSpace s = '''' then m\<lparr>mr_Notes := None\<rparr> else m\<lparr>mr_Notes := Some s\<rparr>)"

text \<open>The notification and the audit entry of a status change.\<close>

definition announceStatus :: "User \<Rightarrow> MaintenanceRequest \<Rightarrow> MaintenanceRequest \<Rightarrow> unit dbm" where
  "announceStatus manager before m =
     thenE (ignoreE (notifCreate (mr_SubmittedBy m) ''request_status_changed'' ''request status changed''
        (''request '' @ mr_Title m @ '' is now '' @ mr_Status m) (Some ''maintenance_request'') (Some (mr_ID m))))
     (ignoreE (auditAppend (Some (usr_ID manager)) ''maintenance.status_changed'' ''maintenance_request'' (Some (mr_ID m))
        (Some (SnapRequest before)) (Some (SnapRequest m))))"

definition maintUpdate :: "User \<Rightarrow> uuid \<Rightarrow> MaintUpdate \<Rightarrow> (MaintenanceRequest \<times> MaintenanceRequest) dbm" where
  "maintUpdate manager mid inp =
     bindE (maintForManager manager mid) (\<lambda>before.
     bindE (moveStatus (mu_Status inp) before) (\<lambda>m1.
     bindE (setAssignee (mu_AssigneePersonID inp) m1) (\<lambda>m2.
     bindE (liftE (setCost (mu_RecordedCost inp) m2)) (\<lambda>m3.
     bindE timeNow (\<lambda>now.
     bindE (maintSave ((setNotes (mu_Notes inp) m3)\<lparr>mr_UpdatedAt := now\<rparr>)) (\<lambda>m.
     thenE (whenE (mr_Status m1 \<noteq> mr_Status before) (announceStatus manager before m))
      (returnE (m, before))))))))"

end
