(* ===== verification/Payment_Repo.thy ===== *)
theory Payment_Repo
  imports Billing_Repo Notification_Audit
begin

text \<open>
  Payments and unit balances: \<open>internal/payment/repository.go\<close> and
  \<open>internal/payment/balance_service.go\<close> on the tables of migration 0005. SQL sums
  are exact; reading one that does not fit an \<open>int64\<close> fails. The clock of the database is
  the clock of the service.
\<close>

section \<open>Invoices as the ledger sees them\<close>

record ledgerInvoice =
  li_ID :: uuid
  li_BuildingID :: uuid
  li_UnitID :: uuid
  li_InvoiceNumber :: string
  li_Status :: string
  li_PaidAmount :: money
  li_FinalAmount :: money
  li_DebitAdj :: money
  li_CreditAdj :: money

definition effective :: "ledgerInvoice \<Rightarrow> money" where
  "effective l = i64 (li_FinalAmount l + li_DebitAdj l - li_CreditAdj l)"

definition adjSum :: "string \<Rightarrow> (uuid \<Rightarrow> bool) \<Rightarrow> InvoiceAdjustment list \<Rightarrow> int" where
  "adjSum kind P adjs = sum_list (map ia_Amount (filter (\<lambda>a. ia_Kind a = kind \<and> P (ia_InvoiceID a)) adjs))"

definition scanInt64 :: "int list \<Rightarrow> 'a \<Rightarrow> 'a result" where
  "scanInt64 xs r = (if list_all in64 xs then Inr r else Inl (Constraint ''value out of range for int64''))"

definition ledgerRow :: "db \<Rightarrow> Invoice \<Rightarrow> ledgerInvoice" where
  "ledgerRow d i = \<lparr>li_ID = inv_ID i, li_BuildingID = inv_BuildingID i, li_UnitID = inv_UnitID i,
     li_InvoiceNumber = inv_InvoiceNumber i, li_Status = inv_Status i, li_PaidAmount = inv_PaidAmount i,
     li_FinalAmount = inv_FinalAmount i,
     li_DebitAdj = adjSum AdjustmentDebit (\<lambda>x. x = inv_ID i) (invoice_adjustments d),
     li_CreditAdj = adjSum AdjustmentCredit (\<lambda>x. x = inv_ID i) (invoice_adjustments d)\<rparr>"

definition repoInvoiceForUpdate :: "uuid \<Rightarrow> ledgerInvoice dbm" where
  "repoInvoiceForUpdate iid =
     bindE (query (\<lambda>d. Inr (find (\<lambda>i. inv_ID i = iid) (invoices d)))) (\<lambda>locked.
     thenE (throwIf (locked = None \<or> iid = uuidNil) RecordNotFound)
     (query (\<lambda>d. case find (\<lambda>i. inv_ID i = iid) (invoices d) of
         None \<Rightarrow> Inl RecordNotFound
       | Some i \<Rightarrow> let l = ledgerRow d i in scanInt64 [li_DebitAdj l, li_CreditAdj l] l)))"

definition repoApplyInvoicePaid :: "uuid \<Rightarrow> money \<Rightarrow> string \<Rightarrow> unit dbm" where
  "repoApplyInvoicePaid iid newPaid st = bindE timeNow (\<lambda>t.
     exec (updateInvoices (\<lambda>i. inv_ID i = iid)
       (\<lambda>i. i\<lparr>inv_PaidAmount := newPaid, inv_Status := st, inv_UpdatedAt := t\<rparr>)))"

section \<open>Payments\<close>

definition paymentRowOk :: "db \<Rightarrow> Payment \<Rightarrow> bool" where
  "paymentRowOk d p \<longleftrightarrow> 0 < pay_Amount p \<and>
     pay_Method p \<in> {MethodManual, MethodGateway} \<and>
     pay_Status p \<in> {StatusRecorded, StatusVerified, StatusFailed, StatusReversed} \<and>
     list_ex (\<lambda>b. bl_ID b = pay_BuildingID p) (buildings d) \<and>
     list_ex (\<lambda>u. un_ID u = pay_UnitID p) (units d) \<and>
     (case pay_InvoiceID p of None \<Rightarrow> True | Some iid \<Rightarrow> list_ex (\<lambda>i. inv_ID i = iid) (invoices d)) \<and>
     (pay_Status p = StatusRecorded \<and> pay_Authority p \<noteq> None \<longrightarrow>
        \<not> list_ex (\<lambda>q. pay_ID q \<noteq> pay_ID p \<and> pay_Status q = StatusRecorded \<and> pay_Authority q = pay_Authority p)
            (payments d))"

definition storePayment :: "Payment \<Rightarrow> db \<Rightarrow> (unit \<times> db) result" where
  "storePayment p d = (if \<not> paymentRowOk d p then Inl (Constraint ''payments'')
     else Inr ((), d\<lparr>payments := saveRow pay_ID p (payments d)\<rparr>))"

definition insertPayment :: "Payment \<Rightarrow> db \<Rightarrow> (unit \<times> db) result" where
  "insertPayment p d = (if list_ex (\<lambda>q. pay_ID q = pay_ID p) (payments d) then Inl (Constraint ''payments_pkey'')
     else storePayment p d)"

definition repoCreatePayment :: "Payment \<Rightarrow> Payment dbm" where
  "repoCreatePayment p = bindE timeNow (\<lambda>t.
     let p' = p\<lparr>pay_CreatedAt := t, pay_UpdatedAt := t\<rparr> in thenE (exec (insertPayment p')) (returnE p'))"

definition repoGetPayment :: "uuid \<Rightarrow> Payment dbm" where
  "repoGetPayment pid = query (\<lambda>d. firstRow (\<lambda>p. pay_ID p = pid) (payments d))"

definition repoGetPaymentByAuthority :: "string \<Rightarrow> Payment dbm" where
  "repoGetPaymentByAuthority auth = query (\<lambda>d.
     firstRow (\<lambda>p. pay_Authority p = Some auth \<and> pay_Status p = StatusRecorded) (payments d))"

definition repoSavePayment :: "Payment \<Rightarrow> Payment dbm" where
  "repoSavePayment p = bindE timeNow (\<lambda>t.
     let p' = p\<lparr>pay_UpdatedAt := t\<rparr> in thenE (exec (storePayment p')) (returnE p'))"

record PaymentFilter =
  pf_BuildingID :: uuid
  pf_UnitID :: uuid
  pf_UnitIDs :: "uuid list"
  pf_From :: "int option"
  pf_To :: "int option"
  pf_Method :: string
  pf_Page :: int
  pf_Size :: int

definition paymentMatches :: "PaymentFilter \<Rightarrow> Payment \<Rightarrow> bool" where
  "paymentMatches f p \<longleftrightarrow>
     (if pf_UnitIDs f \<noteq> [] then pay_UnitID p \<in> set (pf_UnitIDs f)
      else if pf_UnitID f \<noteq> uuidNil then pay_UnitID p = pf_UnitID f
      else if pf_BuildingID f \<noteq> uuidNil then pay_BuildingID p = pf_BuildingID f else True) \<and>
     (pf_Method f \<noteq> '''' \<longrightarrow> pay_Method p = pf_Method f) \<and>
     (case pf_From f of None \<Rightarrow> True | Some t \<Rightarrow> dateOf t \<le> pay_PaidAt p) \<and>
     (case pf_To f of None \<Rightarrow> True | Some t \<Rightarrow> pay_PaidAt p \<le> dateOf t)"

definition repoListPayments :: "PaymentFilter \<Rightarrow> (Payment list \<times> int) dbm" where
  "repoListPayments f =
     bindE (query (\<lambda>d. Inr (int (length (filter (paymentMatches f) (payments d)))))) (\<lambda>n.
     let page = (if pf_Page f < 1 then 1 else pf_Page f);
         sz = (if pf_Size f < 1 \<or> pf_Size f > 100 then 20 else pf_Size f)
     in bindE (query (\<lambda>d. Inr (pageOf page sz (sort_key (\<lambda>p. - pay_CreatedAt p)
                (filter (paymentMatches f) (payments d)))))) (\<lambda>out. returnE (out, n)))"

section \<open>Scope\<close>

definition payOccupantUserIDs :: "uuid \<Rightarrow> uuid list dbm" where
  "payOccupantUserIDs uid = query (\<lambda>d. Inr (remdups (map usr_ID (filter (\<lambda>u.
     list_ex (\<lambda>p. pe_Phone p = Some (usr_Phone u) \<and> pe_DeletedAt p = None \<and>
       list_ex (\<lambda>o'. oc_PersonID o' = pe_ID p \<and> oc_UnitID o' = uid \<and> oc_EndDate o' = None \<and> oc_IsActive o')
         (occupancies d)) (persons d)) (users d)))))"

definition residentUnits :: "db \<Rightarrow> string \<Rightarrow> uuid list" where
  "residentUnits d phone = remdups (map oc_UnitID (filter (\<lambda>o'. oc_EndDate o' = None \<and>
     list_ex (\<lambda>p. pe_ID p = oc_PersonID o' \<and> pe_Phone p = Some phone \<and> pe_DeletedAt p = None) (persons d))
     (occupancies d)))"

definition repoResidentUnitIDs :: "string \<Rightarrow> uuid list dbm" where
  "repoResidentUnitIDs phone = query (\<lambda>d. Inr (residentUnits d phone))"

definition payIsManagerOf :: "uuid \<Rightarrow> uuid \<Rightarrow> bool dbm" where
  "payIsManagerOf uid bid = query (\<lambda>d.
     Inr (0 < length (filter (\<lambda>g. ub_UserID g = uid \<and> ub_BuildingID g = bid) (user_buildings d))))"

interpretation payment_scope: building_scope payIsManagerOf
  by unfold_locales (auto simp: payIsManagerOf_def scope_defs split: if_splits)

definition repoUnitByID :: "uuid \<Rightarrow> BuildingUnit dbm" where
  "repoUnitByID uid = query (\<lambda>d. firstRow (\<lambda>u. un_ID u = uid \<and> un_DeletedAt u = None) (units d))"

section \<open>Balances\<close>

record balanceAggregates =
  agg_Prior :: int
  agg_Current :: int
  agg_Late :: int
  agg_Paid :: int
  agg_Credit :: int
  agg_DebitAdj :: int
  agg_CreditAdj :: int
  agg_Verified :: int
  agg_AbsorbedPaid :: int
  agg_AbsorbedCredit :: int

definition nonCancelled :: "db \<Rightarrow> uuid \<Rightarrow> Invoice list" where
  "nonCancelled d uid = filter (\<lambda>i. inv_UnitID i = uid \<and> inv_Status i \<noteq> InvoiceCanceled) (invoices d)"

definition openInvoices :: "db \<Rightarrow> uuid \<Rightarrow> Invoice list" where
  "openInvoices d uid = filter (\<lambda>i. inv_Status i \<in> {InvoiceUnpaid, InvoicePartial, InvoiceExpired}) (nonCancelled d uid)"

definition balanceAggregatesQuery :: "db \<Rightarrow> uuid \<Rightarrow> balanceAggregates" where
  "balanceAggregatesQuery d uid =
     (let nc = nonCancelled d uid; op = openInvoices d uid; own = (\<lambda>iid. list_ex (\<lambda>i. inv_ID i = iid) nc)
      in \<lparr>agg_Prior = sum_list (map inv_PriorDebt op), agg_Current = sum_list (map inv_BaseAmount op),
          agg_Late = sum_list (map inv_LateFeeAmount op), agg_Paid = sum_list (map inv_PaidAmount op),
          agg_Credit = sum_list (map inv_CreditAmount op),
          agg_DebitAdj = adjSum AdjustmentDebit own (invoice_adjustments d),
          agg_CreditAdj = adjSum AdjustmentCredit own (invoice_adjustments d),
          agg_Verified = sum_list (map pay_Amount (filter (\<lambda>p. pay_UnitID p = uid \<and> pay_Status p = StatusVerified) (payments d))),
          agg_AbsorbedPaid = sum_list (map inv_PaidAmount nc),
          agg_AbsorbedCredit = sum_list (map inv_CreditAmount nc)\<rparr>)"

definition aggFields :: "balanceAggregates \<Rightarrow> int list" where
  "aggFields a = [agg_Prior a, agg_Current a, agg_Late a, agg_Paid a, agg_Credit a, agg_DebitAdj a,
     agg_CreditAdj a, agg_Verified a, agg_AbsorbedPaid a, agg_AbsorbedCredit a]"

definition balanceOf :: "uuid \<Rightarrow> balanceAggregates \<Rightarrow> int \<Rightarrow> UnitBalance" where
  "balanceOf uid a now =
     (let prior = i64 (agg_Prior a + agg_DebitAdj a);
          credit = i64 (agg_Credit a + agg_CreditAdj a);
          bal = i64 (prior + agg_Current a + agg_Late a - agg_Paid a - credit);
          asset = i64 (agg_Verified a - i64 (agg_AbsorbedPaid a + agg_AbsorbedCredit a))
      in \<lparr>bal_UnitID = uid, bal_PriorDebt = prior, bal_CurrentInvoiceAmount = agg_Current a,
          bal_LateFeeTotal = agg_Late a, bal_Credit = credit, bal_PaidTotal = agg_Paid a,
          bal_CreditAsset = (if asset < 0 then 0 else asset), bal_Balance = (if bal < 0 then 0 else bal),
          bal_UpdatedAt = now\<rparr>)"

definition upsertBalance :: "UnitBalance \<Rightarrow> db \<Rightarrow> (unit \<times> db) result" where
  "upsertBalance b d = (if \<not> list_ex (\<lambda>u. un_ID u = bal_UnitID b) (units d) then Inl (Constraint ''unit_balances'')
     else Inr ((), d\<lparr>unit_balances := saveRow bal_UnitID b (unit_balances d)\<rparr>))"

definition recomputeBalance :: "uuid \<Rightarrow> UnitBalance dbm" where
  "recomputeBalance uid =
     bindE (query (\<lambda>d. let a = balanceAggregatesQuery d uid in scanInt64 (aggFields a) a)) (\<lambda>agg.
     bindE timeNow (\<lambda>now.
     let ub = balanceOf uid agg now
     in thenE (exec (upsertBalance ub)) (returnE ub)))"

definition repoGetUnitBalance :: "uuid \<Rightarrow> UnitBalance dbm" where
  "repoGetUnitBalance uid = query (\<lambda>d. firstRow (\<lambda>b. bal_UnitID b = uid) (unit_balances d))"

section \<open>The balance service\<close>

definition BalanceSnapshot :: "uuid \<Rightarrow> (money \<times> money) dbm" where
  "BalanceSnapshot uid = bindE (tryE (repoGetUnitBalance uid)) (\<lambda>r.
     case r of Inr ub \<Rightarrow> returnE (bal_Balance ub, bal_CreditAsset ub)
     | Inl e \<Rightarrow> if e = RecordNotFound then returnE (0, 0) else throwE e)"

definition RecomputeUnit :: "uuid \<Rightarrow> UnitBalance dbm" where
  "RecomputeUnit uid = recomputeBalance uid"

definition RecomputeInvoice :: "uuid \<Rightarrow> unit dbm" where
  "RecomputeInvoice iid =
     bindE (query (\<lambda>d. Inr (map_option inv_UnitID (find (\<lambda>i. inv_ID i = iid) (invoices d))))) (\<lambda>r.
     case r of None \<Rightarrow> returnE ()
     | Some uid \<Rightarrow> if uid = uuidNil then returnE () else bindE (recomputeBalance uid) (\<lambda>_. returnE ()))"

definition ReversePayment :: "uuid \<Rightarrow> Payment dbm" where
  "ReversePayment pid = transaction (
     bindE (repoGetPayment pid) (\<lambda>p.
     bindE (repoSavePayment (p\<lparr>pay_Status := StatusReversed\<rparr>)) (\<lambda>p'.
     bindE (recomputeBalance (pay_UnitID p)) (\<lambda>_. returnE p'))))"

end
