(* ===== verification/Expense.thy ===== *)
theory Expense
  imports Building_Service Payment_Repo GoTime "HOL-Library.Product_Lexorder"
begin

text \<open>
  Expenses and the financial report: \<open>internal/expense/repository.go\<close> and \<open>service.go\<close> on the table of migration
  0006. Dates are day numbers, \<open>json.Number\<close> is its text, \<open>uuid.Parse\<close> is the parameter \<open>parse\<close>. The handlers, not the
  service, write the audit entries.
\<close>

abbreviation (input) ApprovalPending :: string where "ApprovalPending \<equiv> ''pending''"
abbreviation (input) ApprovalApproved :: string where "ApprovalApproved \<equiv> ''approved''"
abbreviation (input) ApprovalRejected :: string where "ApprovalRejected \<equiv> ''rejected''"

definition Categories :: "string list" where
  "Categories = [''water'', ''electricity'', ''gas'', ''elevator'', ''cleaning'', ''security'', ''repair'', ''insurance'', ''equipment'', ''other'']"

record FinancialReport =
  fr_Month :: string
  fr_MonthlyIncome :: int
  fr_MonthlyExpense :: int
  fr_Net :: int
  fr_TotalDebt :: int
  fr_TotalPayments :: int
  fr_TotalExpenses :: int

section \<open>Repository\<close>

definition expRowOk :: "db \<Rightarrow> Expense \<Rightarrow> bool" where
  "expRowOk d e \<longleftrightarrow> ex_Category e \<in> set Categories \<and> 0 < ex_Amount e \<and> ex_ApprovalStatus e \<in> {ApprovalPending, ApprovalApproved, ApprovalRejected} \<and>
     list_ex (\<lambda>b. bl_ID b = ex_BuildingID e) (buildings d) \<and>
     (case ex_PayerPersonID e of None \<Rightarrow> True | Some pid \<Rightarrow> list_ex (\<lambda>p. pe_ID p = pid) (persons d))"

definition expIsManagerOf :: "uuid \<Rightarrow> uuid \<Rightarrow> bool dbm" where
  "expIsManagerOf uid bid = query (\<lambda>d. Inr (0 < length (filter (isGrant uid bid) (user_buildings d))))"

interpretation exp_scope: building_scope expIsManagerOf
  by unfold_locales (auto simp: expIsManagerOf_def isGrant_def scope_defs split: if_splits)

definition ReceiptPath :: "uuid \<Rightarrow> string dbm" where
  "ReceiptPath fid = query (\<lambda>d. let path = (case find (\<lambda>f. fl_ID f = fid) (stored_files d) of None \<Rightarrow> '''' | Some f \<Rightarrow> fl_Path f)
     in if path = '''' then Inl RecordNotFound else Inr path)"

definition CreateExpense :: "Expense \<Rightarrow> Expense dbm" where
  "CreateExpense e = bindE timeNow (\<lambda>t. let e' = e\<lparr>ex_CreatedAt := t, ex_UpdatedAt := t\<rparr> in
     thenE (exec (\<lambda>d. if list_ex (\<lambda>x. ex_ID x = ex_ID e') (expenses d) \<or> \<not> expRowOk d e' then Inl (Constraint ''expenses'')
        else Inr ((), d\<lparr>expenses := expenses d @ [e']\<rparr>))) (returnE e'))"

definition GetExpense :: "uuid \<Rightarrow> Expense dbm" where
  "GetExpense eid = query (\<lambda>d. firstRow (\<lambda>e. ex_ID e = eid \<and> ex_DeletedAt e = None) (expenses d))"

definition SaveExpense :: "Expense \<Rightarrow> Expense dbm" where
  "SaveExpense e = bindE timeNow (\<lambda>t. let e' = e\<lparr>ex_UpdatedAt := t\<rparr> in
     thenE (exec (\<lambda>d. if \<not> expRowOk d e' then Inl (Constraint ''expenses'')
        else Inr ((), d\<lparr>expenses := saveRow ex_ID e' (expenses d)\<rparr>))) (returnE e'))"

definition SoftDeleteExpense :: "uuid \<Rightarrow> unit dbm" where
  "SoftDeleteExpense eid = bindE timeNow (\<lambda>now. exec (\<lambda>d. Inr ((), d\<lparr>expenses :=
     updateWhere (\<lambda>e. ex_ID e = eid \<and> ex_DeletedAt e = None) (\<lambda>e. e\<lparr>ex_DeletedAt := Some now, ex_UpdatedAt := now\<rparr>) (expenses d)\<rparr>)))"

record ExpenseFilter =
  ef_Category :: string
  ef_Approval :: string
  ef_From :: "int option"
  ef_To :: "int option"
  ef_Page :: int
  ef_Size :: int

definition expMatches :: "uuid \<Rightarrow> ExpenseFilter \<Rightarrow> Expense \<Rightarrow> bool" where
  "expMatches bid f e \<longleftrightarrow> ex_BuildingID e = bid \<and> ex_DeletedAt e = None \<and> (ef_Category f = '''' \<or> ex_Category e = ef_Category f) \<and>
     (ef_Approval f = '''' \<or> ex_ApprovalStatus e = ef_Approval f) \<and>
     (case ef_From f of None \<Rightarrow> True | Some t \<Rightarrow> t \<le> ex_ExpenseDate e) \<and> (case ef_To f of None \<Rightarrow> True | Some t \<Rightarrow> ex_ExpenseDate e \<le> t)"

definition ListExpenses :: "uuid \<Rightarrow> ExpenseFilter \<Rightarrow> (Expense list \<times> int) dbm" where
  "ListExpenses bid f =
     bindE (query (\<lambda>d. Inr (int (length (filter (expMatches bid f) (expenses d)))))) (\<lambda>total.
     bindE (query (\<lambda>d. Inr (take (nat (ef_Size f)) (drop (nat ((ef_Page f - 1) * ef_Size f))
        (sort_key (\<lambda>e. (- ex_ExpenseDate e, - ex_CreatedAt e)) (filter (expMatches bid f) (expenses d))))))) (\<lambda>items.
     returnE (items, total)))"

text \<open>The first days of the month and of the next one.\<close>

definition monthWindow :: "int \<Rightarrow> int \<Rightarrow> int \<times> int" where
  "monthWindow year month = (dayNumber year month 1, if month = 12 then dayNumber (year + 1) 1 1 else dayNumber year (month + 1) 1)"

definition sumQuery :: "(db \<Rightarrow> int) \<Rightarrow> int dbm" where
  "sumQuery f = query (\<lambda>d. let n = f d in scanInt64 [n] n)"

definition incomeIn :: "uuid \<Rightarrow> int \<times> int \<Rightarrow> db \<Rightarrow> int" where
  "incomeIn bid win d = sum_list (map pay_Amount (filter (\<lambda>p. pay_BuildingID p = bid \<and> pay_Status p = StatusVerified \<and>
     fst win \<le> pay_PaidAt p \<and> pay_PaidAt p < snd win) (payments d)))"

definition expenseIn :: "uuid \<Rightarrow> int \<times> int \<Rightarrow> db \<Rightarrow> int" where
  "expenseIn bid win d = sum_list (map ex_Amount (filter (\<lambda>e. ex_BuildingID e = bid \<and> ex_DeletedAt e = None \<and>
     fst win \<le> ex_ExpenseDate e \<and> ex_ExpenseDate e < snd win) (expenses d)))"

text \<open>The balances joined with the live units of the building.\<close>

definition buildingBalances :: "uuid \<Rightarrow> db \<Rightarrow> (UnitBalance \<times> BuildingUnit) list" where
  "buildingBalances bid d = concat (map (\<lambda>b. map (Pair b) (filter (\<lambda>u. un_ID u = bal_UnitID b \<and> un_BuildingID u = bid \<and> un_DeletedAt u = None)
     (units d))) (unit_balances d))"

definition debtOf :: "uuid \<Rightarrow> db \<Rightarrow> int" where
  "debtOf bid d = sum_list (map (bal_Balance \<circ> fst) (filter (\<lambda>x. 0 < bal_Balance (fst x)) (buildingBalances bid d)))"

definition expRepoReport :: "uuid \<Rightarrow> int \<Rightarrow> int \<Rightarrow> FinancialReport dbm" where
  "expRepoReport bid year month =
     (let win = monthWindow year month
      in transaction (
         bindE (sumQuery (incomeIn bid win)) (\<lambda>income.
         bindE (sumQuery (expenseIn bid win)) (\<lambda>expense.
         bindE (sumQuery (debtOf bid)) (\<lambda>debt.
         bindE (sumQuery (\<lambda>d. sum_list (map pay_Amount (filter (\<lambda>p. pay_BuildingID p = bid \<and> pay_Status p = StatusVerified) (payments d))))) (\<lambda>pays.
         bindE (sumQuery (\<lambda>d. sum_list (map ex_Amount (filter (\<lambda>e. ex_BuildingID e = bid \<and> ex_DeletedAt e = None) (expenses d))))) (\<lambda>exps.
         returnE \<lparr>fr_Month = '''', fr_MonthlyIncome = income, fr_MonthlyExpense = expense, fr_Net = i64 (income - expense),
                  fr_TotalDebt = debt, fr_TotalPayments = pays, fr_TotalExpenses = exps\<rparr>))))))) "

section \<open>Service\<close>

record ExpenseInput =
  ei_Title :: string
  ei_Category :: string
  ei_Amount :: string
  ei_ExpenseDate :: string
  ei_Description :: "string option"
  ei_PayerPersonID :: "uuid option"
  ei_ReceiptFileID :: "string option"
  ei_ApprovalStatus :: string

definition validCategory :: "string \<Rightarrow> bool" where
  "validCategory ct = list_ex (\<lambda>v. v = ct) Categories"

text \<open>The checks that call \<open>fail()\<close>, and the assignments; a field that fails its check is not stored, because the
  request is refused at the end.\<close>

definition expFieldsOk :: "bool \<Rightarrow> ExpenseInput \<Rightarrow> bool" where
  "expFieldsOk create inp \<longleftrightarrow>
     (ei_Title inp \<noteq> '''' \<or> create \<longrightarrow> trimSpace (ei_Title inp) \<noteq> '''' \<and> length (runesOf (trimSpace (ei_Title inp))) \<le> 150) \<and>
     (ei_Category inp \<noteq> '''' \<or> create \<longrightarrow> validCategory (ei_Category inp)) \<and>
     (ei_Amount inp \<noteq> '''' \<or> create \<longrightarrow> (case parseInt64 (ei_Amount inp) of None \<Rightarrow> False | Some n \<Rightarrow> 0 < n)) \<and>
     (ei_ExpenseDate inp \<noteq> '''' \<or> create \<longrightarrow> parseDate (ei_ExpenseDate inp) \<noteq> None) \<and>
     (ei_ApprovalStatus inp \<noteq> '''' \<longrightarrow> ei_ApprovalStatus inp \<in> {ApprovalPending, ApprovalApproved, ApprovalRejected})"

definition expSetFields :: "bool \<Rightarrow> ExpenseInput \<Rightarrow> Expense \<Rightarrow> Expense" where
  "expSetFields create inp e = e\<lparr>
     ex_Title := (if ei_Title inp \<noteq> '''' \<or> create then trimSpace (ei_Title inp) else ex_Title e),
     ex_Category := (if ei_Category inp \<noteq> '''' \<or> create then ei_Category inp else ex_Category e),
     ex_Amount := (case parseInt64 (ei_Amount inp) of None \<Rightarrow> ex_Amount e | Some n \<Rightarrow> n),
     ex_ExpenseDate := (case parseDate (ei_ExpenseDate inp) of None \<Rightarrow> ex_ExpenseDate e | Some t \<Rightarrow> t),
     ex_ApprovalStatus := (if ei_ApprovalStatus inp \<noteq> '''' then ei_ApprovalStatus inp else if create then ApprovalPending else ex_ApprovalStatus e),
     ex_Description := (case ei_Description inp of None \<Rightarrow> ex_Description e | Some s \<Rightarrow> Some s),
     ex_PayerPersonID := (case ei_PayerPersonID inp of None \<Rightarrow> ex_PayerPersonID e | Some p \<Rightarrow> Some p)\<rparr>"

definition applyReceipt :: "(string \<Rightarrow> uuid option) \<Rightarrow> ExpenseInput \<Rightarrow> Expense \<Rightarrow> Expense dbm" where
  "applyReceipt parse inp e =
     (case ei_ReceiptFileID inp of None \<Rightarrow> returnE e
      | Some s \<Rightarrow> if s = '''' then returnE (e\<lparr>ex_ReceiptFile := None\<rparr>)
        else (case parse s of None \<Rightarrow> throwE (AppErr (BadRequest ''receipt not found''))
          | Some fid \<Rightarrow> bindE (mapErr (\<lambda>x. if x = RecordNotFound then AppErr (BadRequest ''receipt not found'') else x) (ReceiptPath fid)) (\<lambda>path.
              returnE (e\<lparr>ex_ReceiptFile := Some path\<rparr>))))"

definition expApplyInput :: "(string \<Rightarrow> uuid option) \<Rightarrow> bool \<Rightarrow> ExpenseInput \<Rightarrow> Expense \<Rightarrow> Expense dbm" where
  "expApplyInput parse create inp e =
     bindE (applyReceipt parse inp (expSetFields create inp e)) (\<lambda>e'.
     thenE (throwIf (\<not> expFieldsOk create inp) (AppErr (BadRequest ''invalid expense''))) (returnE e'))"

definition expScope :: "User \<Rightarrow> uuid \<Rightarrow> unit dbm" where
  "expScope manager bid = bindE (expIsManagerOf (usr_ID manager) bid) (\<lambda>ok. throwIf (\<not> ok) (AppErr (Forbidden ''no access to this building'')))"

definition newExpense :: "uuid \<Rightarrow> uuid \<Rightarrow> User \<Rightarrow> Expense" where
  "newExpense eid bid manager = \<lparr>ex_ID = eid, ex_BuildingID = bid, ex_Title = '''', ex_Category = '''', ex_Amount = 0, ex_ExpenseDate = 0,
     ex_Description = None, ex_PayerPersonID = None, ex_ReceiptFile = None, ex_ApprovalStatus = '''', ex_CreatedBy = Some (usr_ID manager),
     ex_CreatedAt = 0, ex_UpdatedAt = 0, ex_DeletedAt = None\<rparr>"

definition expCreate :: "(string \<Rightarrow> uuid option) \<Rightarrow> User \<Rightarrow> uuid \<Rightarrow> ExpenseInput \<Rightarrow> Expense dbm" where
  "expCreate parse manager bid inp =
     thenE (expScope manager bid)
     (bindE newUUID (\<lambda>eid. bindE (expApplyInput parse True inp (newExpense eid bid manager)) CreateExpense))"

definition expGet :: "User \<Rightarrow> uuid \<Rightarrow> Expense dbm" where
  "expGet manager eid = bindE (GetExpense eid) (\<lambda>e. thenE (expScope manager (ex_BuildingID e)) (returnE e))"

definition expUpdate :: "(string \<Rightarrow> uuid option) \<Rightarrow> User \<Rightarrow> uuid \<Rightarrow> ExpenseInput \<Rightarrow> Expense dbm" where
  "expUpdate parse manager eid inp = bindE (expGet manager eid) (\<lambda>e. bindE (expApplyInput parse False inp e) SaveExpense)"

definition expList :: "User \<Rightarrow> uuid \<Rightarrow> ExpenseFilter \<Rightarrow> (Expense list \<times> int) dbm" where
  "expList manager bid f = thenE (expScope manager bid)
     (ListExpenses bid (f\<lparr>ef_Page := (if ef_Page f < 1 then 1 else ef_Page f), ef_Size := (if ef_Size f < 1 \<or> ef_Size f > 100 then 20 else ef_Size f)\<rparr>))"

definition expDelete :: "User \<Rightarrow> uuid \<Rightarrow> unit dbm" where
  "expDelete manager eid = bindE (expGet manager eid) (\<lambda>_. SoftDeleteExpense eid)"

text \<open>\<open>strconv.Atoi\<close> on 64 bits is \<open>ParseInt(s, 10, 0)\<close>.\<close>

definition parseMonth :: "string \<Rightarrow> (int \<times> int) option" where
  "parseMonth s =
     (if length s \<noteq> 7 \<or> s ! 4 \<noteq> CHR ''-'' then None
      else (case (parseInt64 (take 4 s), parseInt64 (take 2 (drop 5 s))) of
          (Some y, Some m) \<Rightarrow> if m < 1 \<or> m > 12 \<or> y < 1 then None else Some (y, m)
        | _ \<Rightarrow> None))"

definition expReport :: "User \<Rightarrow> uuid \<Rightarrow> string \<Rightarrow> FinancialReport dbm" where
  "expReport manager bid month = thenE (expScope manager bid)
     (case parseMonth month of None \<Rightarrow> throwE (AppErr (BadRequest ''invalid month''))
      | Some (y, m) \<Rightarrow> bindE (expRepoReport bid y m) (\<lambda>rep. returnE (rep\<lparr>fr_Month := month\<rparr>)))"

end
