(* ===== verification/Dashboard.thy ===== *)
theory Dashboard
  imports Auth_Handlers Announcement Maintenance Expense
begin

text \<open>
  The two dashboards: \<open>internal/dashboard/service.go\<close> and \<open>models.go\<close>, read-only aggregations over the tables of the
  other components. Ids and times are not rendered as text, an omitted field is \<open>None\<close> or its zero value, and the
  location of the clock is UTC. Wrapping an error with \<open>%w\<close> keeps it.

  The row type of the invoice query has no field for the column \<open>invoice_number\<close> (its \<open>InvoiceNo\<close> is the column
  \<open>invoice_no\<close>), so that the number of the latest invoice stays empty.
\<close>

section \<open>Payloads\<close>

record LatestInvoice =
  lin_ID :: uuid
  lin_InvoiceNo :: string
  lin_UnitNumber :: string
  lin_PeriodTitle :: string
  lin_FinalAmount :: money
  lin_DueDate :: "int option"
  lin_Status :: string

record LatestRequest =
  lr_ID :: uuid
  lr_Title :: string
  lr_Priority :: string
  lr_Status :: string
  lr_CreatedAt :: int

record LatestAnnouncement =
  la_ID :: uuid
  la_Title :: string
  la_CreatedAt :: int
  la_IsRead :: bool

record HomeSummary =
  hs_PayableAmount :: money
  hs_UnitCount :: int
  hs_LatestInvoice :: "LatestInvoice option"
  hs_OpenRequestCount :: int
  hs_LatestRequest :: "LatestRequest option"
  hs_LatestAnnouncements :: "LatestAnnouncement list"
  hs_UnreadAnnouncementCount :: int
  hs_GeneratedAt :: int

record ManagerQuickAction =
  qa_Key :: string
  qa_Title :: string
  qa_Path :: string

record DashboardAlert =
  al_Kind :: string
  al_Severity :: int
  al_UnitID :: "uuid option"
  al_UnitNumber :: string
  al_Amount :: money
  al_Title :: string
  al_RefType :: string
  al_RefID :: uuid
  al_CreatedAt :: "int option"

record BuildingDashboard =
  bd_BuildingID :: uuid
  bd_UnitCount :: int
  bd_OccupiedUnitCount :: int
  bd_DebtorUnitCount :: int
  bd_TotalDebt :: money
  bd_MonthIncome :: money
  bd_MonthExpense :: money
  bd_OpenRequests :: int
  bd_PendingExpenses :: int
  bd_Month :: string
  bd_Alerts :: "DashboardAlert list"
  bd_QuickActions :: "ManagerQuickAction list"
  bd_GeneratedAt :: int

section \<open>The resident's home\<close>

text \<open>The invoice query: the open invoices of the units joined with their unit and period, ordered by
  \<open>issue_date DESC NULLS LAST, created_at DESC\<close>.\<close>

definition newerInvoice :: "Invoice \<Rightarrow> Invoice \<Rightarrow> bool" where
  "newerInvoice a b \<longleftrightarrow>
     (case (inv_IssueDate a, inv_IssueDate b) of
        (Some s, Some t) \<Rightarrow> t < s \<or> s = t \<and> inv_CreatedAt b < inv_CreatedAt a
      | (Some _, None) \<Rightarrow> True
      | (None, Some _) \<Rightarrow> False
      | (None, None) \<Rightarrow> inv_CreatedAt b < inv_CreatedAt a)"

definition residentInvoices :: "uuid list \<Rightarrow> db \<Rightarrow> (Invoice \<times> string \<times> string) list" where
  "residentInvoices unitIDs d = sort_by (\<lambda>x y. newerInvoice (fst x) (fst y)) (concat (map (\<lambda>i.
     concat (map (\<lambda>u. map (\<lambda>p. (i, un_Number u, bp_Title p)) (filter (\<lambda>p. bp_ID p = inv_PeriodID i) (billing_periods d)))
       (filter (\<lambda>u. un_ID u = inv_UnitID i) (units d))))
     (filter (\<lambda>i. inv_UnitID i \<in> set unitIDs \<and> inv_Status i \<in> {InvoiceUnpaid, InvoicePartial, InvoiceExpired}) (invoices d))))"

definition clampedDue :: "money \<Rightarrow> money \<Rightarrow> money" where
  "clampedDue final paid = (let due = i64 (final - paid) in if due < 0 then 0 else due)"

fun payableSum :: "int \<Rightarrow> (Invoice \<times> string \<times> string) list \<Rightarrow> int" where
  "payableSum acc [] = acc"
| "payableSum acc (x # xs) = payableSum (i64 (acc + clampedDue (inv_FinalAmount (fst x)) (inv_PaidAmount (fst x)))) xs"

definition latestInvoice :: "Invoice \<times> string \<times> string \<Rightarrow> LatestInvoice" where
  "latestInvoice x = (case x of (i, number, title) \<Rightarrow>
     \<lparr>lin_ID = inv_ID i, lin_InvoiceNo = '''', lin_UnitNumber = number, lin_PeriodTitle = title, lin_FinalAmount = inv_FinalAmount i,
      lin_DueDate = inv_DueDate i, lin_Status = inv_Status i\<rparr>)"

definition payableAndLatestInvoice :: "uuid list \<Rightarrow> (int \<times> LatestInvoice option) dbm" where
  "payableAndLatestInvoice unitIDs = bindE (query (\<lambda>d. Inr (residentInvoices unitIDs d))) (\<lambda>rows.
     returnE (payableSum 0 rows, case rows of [] \<Rightarrow> None | x # _ \<Rightarrow> Some (latestInvoice x)))"

definition openRequestSummary :: "uuid \<Rightarrow> (int \<times> LatestRequest option) dbm" where
  "openRequestSummary rid = bindE (CountOpenForUser rid) (\<lambda>n. bindE (LatestForUser rid) (\<lambda>m.
     returnE (n, map_option (\<lambda>m. \<lparr>lr_ID = mr_ID m, lr_Title = mr_Title m, lr_Priority = mr_Priority m, lr_Status = mr_Status m,
        lr_CreatedAt = mr_CreatedAt m\<rparr>) m)))"

text \<open>The insertion sort of the source, with its array and its two loops.\<close>

fun siftBack :: "nat \<Rightarrow> AnnouncementWithRead list \<Rightarrow> AnnouncementWithRead list" where
  "siftBack 0 arr = arr"
| "siftBack (Suc j) arr =
     (if an_CreatedAt (awr_Announcement (arr ! j)) < an_CreatedAt (awr_Announcement (arr ! Suc j))
      then siftBack j (arr[j := arr ! Suc j, Suc j := arr ! j]) else arr)"

fun sortFrom :: "nat \<Rightarrow> nat \<Rightarrow> AnnouncementWithRead list \<Rightarrow> AnnouncementWithRead list" where
  "sortFrom 0 i arr = arr"
| "sortFrom (Suc k) i arr = sortFrom k (Suc i) (siftBack i arr)"

definition sortAnnouncementsNewestFirst :: "AnnouncementWithRead list \<Rightarrow> AnnouncementWithRead list" where
  "sortAnnouncementsNewestFirst arr = sortFrom (length arr - 1) 1 arr"

definition announcementSummary :: "uuidParser \<Rightarrow> User \<Rightarrow> (LatestAnnouncement list \<times> int) dbm" where
  "announcementSummary parse resident =
     bindE (ResidentUnits (usr_Phone resident)) (\<lambda>us.
     bindE timeNow (\<lambda>now.
     bindE (UnreadCountForResident parse us (usr_ID resident) now) (\<lambda>unread.
     bindE (VisibleAnnouncements parse us now) (\<lambda>vis.
     bindE (ReadsForUser (usr_ID resident)) (\<lambda>reads'.
     let marked = map (\<lambda>x. if an_ID (awr_Announcement x) \<in> set reads' then x\<lparr>awr_IsRead := True\<rparr> else x) vis;
         ordered = (if length marked > 1 then sortAnnouncementsNewestFirst marked else marked)
     in returnE (map (\<lambda>x. \<lparr>la_ID = an_ID (awr_Announcement x), la_Title = an_Title (awr_Announcement x),
          la_CreatedAt = an_CreatedAt (awr_Announcement x), la_IsRead = awr_IsRead x\<rparr>) (take 5 ordered), unread))))))"

definition Home :: "uuidParser \<Rightarrow> User option \<Rightarrow> HomeSummary dbm" where
  "Home parse res = (case res of None \<Rightarrow> throwE (AppErr (Unauthorized ''msgUnauthorized''))
     | Some resident \<Rightarrow>
       bindE (ResidentUnitIDs (usr_Phone resident)) (\<lambda>unitIDs.
       bindE timeNow (\<lambda>now.
       let out = \<lparr>hs_PayableAmount = 0, hs_UnitCount = int (length unitIDs), hs_LatestInvoice = None, hs_OpenRequestCount = 0,
             hs_LatestRequest = None, hs_LatestAnnouncements = [], hs_UnreadAnnouncementCount = 0, hs_GeneratedAt = now\<rparr>
       in if unitIDs = [] then returnE out
          else bindE (payableAndLatestInvoice unitIDs) (\<lambda>(payable, latest).
               bindE (openRequestSummary (usr_ID resident)) (\<lambda>(openCount, latestReq).
               bindE (announcementSummary parse resident) (\<lambda>(latestAnn, unread).
               returnE (out\<lparr>hs_PayableAmount := payable, hs_LatestInvoice := latest, hs_OpenRequestCount := openCount,
                 hs_LatestRequest := latestReq, hs_LatestAnnouncements := latestAnn, hs_UnreadAnnouncementCount := unread\<rparr>)))))))"

section \<open>The manager's dashboard\<close>

definition monthOf :: "int \<Rightarrow> int" where
  "monthOf t =
     (let z = dateOf t + 719468; doe = z mod 146097;
          yoe = (doe - doe div 1460 + doe div 36524 - doe div 146096) div 365;
          doy = doe - (365 * yoe + yoe div 4 - yoe div 100);
          mp = (5 * doy + 2) div 153
      in if mp < 10 then mp + 3 else mp - 9)"

text \<open>\<open>monthFloor\<close> and the start of the next month, as days.\<close>

definition monthFloor :: "int \<Rightarrow> int" where
  "monthFloor t = dayNumber (yearOf t) (monthOf t) 1"

definition monthNext :: "int \<Rightarrow> int" where
  "monthNext t = (if monthOf t = 12 then dayNumber (yearOf t + 1) 1 1 else dayNumber (yearOf t) (monthOf t + 1) 1)"

text \<open>\<open>Format("2006-01")\<close>.\<close>

definition formatMonth :: "int \<Rightarrow> int \<Rightarrow> string" where
  "formatMonth y m = (if y < 0 then CHR ''-'' # pad0 4 (showNat (nat (- y))) else pad0 4 (showNat (nat y))) @ ''-'' @ pad0 2 (showNat (nat m))"

definition countQuery :: "(db \<Rightarrow> 'a list) \<Rightarrow> int dbm" where
  "countQuery f = query (\<lambda>d. Inr (int (length (f d))))"

definition openOf :: "uuid \<Rightarrow> db \<Rightarrow> MaintenanceRequest list" where
  "openOf bid d = filter (\<lambda>m. mr_BuildingID m = bid \<and> mr_Status m \<in> set openStatuses) (maintenance_requests d)"

definition pendingOf :: "uuid \<Rightarrow> db \<Rightarrow> Expense list" where
  "pendingOf bid d = filter (\<lambda>e. ex_BuildingID e = bid \<and> ex_DeletedAt e = None \<and> ex_ApprovalStatus e = ApprovalPending) (expenses d)"

definition debtorsOf :: "uuid \<Rightarrow> db \<Rightarrow> (UnitBalance \<times> BuildingUnit) list" where
  "debtorsOf bid d = filter (\<lambda>x. 0 < bal_Balance (fst x)) (buildingBalances bid d)"

definition perKindLimit :: nat where "perKindLimit = 10"

definition debtorAlert :: "UnitBalance \<times> BuildingUnit \<Rightarrow> DashboardAlert" where
  "debtorAlert x = \<lparr>al_Kind = ''debtor_unit'', al_Severity = 1, al_UnitID = Some (bal_UnitID (fst x)), al_UnitNumber = un_Number (snd x),
     al_Amount = bal_Balance (fst x), al_Title = ''debtor unit'', al_RefType = ''unit'', al_RefID = bal_UnitID (fst x), al_CreatedAt = None\<rparr>"

definition pastDueRows :: "uuid \<Rightarrow> int \<Rightarrow> db \<Rightarrow> (Invoice \<times> BuildingUnit) list" where
  "pastDueRows bid now d = sort_key (\<lambda>x. case inv_DueDate (fst x) of None \<Rightarrow> 0 | Some t \<Rightarrow> t) (concat (map (\<lambda>i. map (Pair i)
     (filter (\<lambda>u. un_ID u = inv_UnitID i \<and> un_BuildingID u = bid \<and> un_DeletedAt u = None) (units d)))
     (filter (\<lambda>i. (case inv_DueDate i of None \<Rightarrow> False | Some t \<Rightarrow> t * 86400 < now) \<and> inv_Status i \<in> {InvoiceUnpaid, InvoicePartial}) (invoices d))))"

definition pastDueAlert :: "Invoice \<times> BuildingUnit \<Rightarrow> DashboardAlert" where
  "pastDueAlert x = \<lparr>al_Kind = ''past_due_invoice'', al_Severity = 2, al_UnitID = Some (inv_UnitID (fst x)), al_UnitNumber = un_Number (snd x),
     al_Amount = clampedDue (inv_FinalAmount (fst x)) (inv_PaidAmount (fst x)), al_Title = ''past due invoice'', al_RefType = ''invoice'',
     al_RefID = inv_ID (fst x), al_CreatedAt = inv_DueDate (fst x)\<rparr>"

definition requestAlert :: "MaintenanceRequest \<Rightarrow> DashboardAlert" where
  "requestAlert m = \<lparr>al_Kind = ''open_request'', al_Severity = (if mr_Priority m = PriUrgent then 2 else if mr_Priority m = PriImportant then 1 else 0),
     al_UnitID = None, al_UnitNumber = '''', al_Amount = 0, al_Title = mr_Title m, al_RefType = ''maintenance_request'', al_RefID = mr_ID m,
     al_CreatedAt = Some (mr_CreatedAt m)\<rparr>"

definition expenseAlert :: "Expense \<Rightarrow> DashboardAlert" where
  "expenseAlert e = \<lparr>al_Kind = ''pending_expense'', al_Severity = 1, al_UnitID = None, al_UnitNumber = '''', al_Amount = ex_Amount e,
     al_Title = ex_Title e, al_RefType = ''expense'', al_RefID = ex_ID e, al_CreatedAt = Some (ex_ExpenseDate e)\<rparr>"

definition dashAlerts :: "uuid \<Rightarrow> int \<Rightarrow> DashboardAlert list dbm" where
  "dashAlerts bid now =
     bindE (query (\<lambda>d. Inr (take perKindLimit (sort_key (\<lambda>x. - bal_Balance (fst x)) (debtorsOf bid d))))) (\<lambda>debtors.
     bindE (query (\<lambda>d. Inr (take perKindLimit (pastDueRows bid now d)))) (\<lambda>pastDue.
     bindE (query (\<lambda>d. Inr (take perKindLimit (sort_key (\<lambda>m. - mr_CreatedAt m) (openOf bid d))))) (\<lambda>reqs.
     bindE (query (\<lambda>d. Inr (take perKindLimit (sort_key (\<lambda>e. - ex_ExpenseDate e) (pendingOf bid d))))) (\<lambda>exps.
     returnE (take 20 (map debtorAlert debtors @ map pastDueAlert pastDue @ map requestAlert reqs @ map expenseAlert exps))))))"

definition defaultQuickActions :: "(uuid \<Rightarrow> string) \<Rightarrow> uuid \<Rightarrow> ManagerQuickAction list" where
  "defaultQuickActions str bid = [
     \<lparr>qa_Key = ''issue_charge'', qa_Title = ''issue charge'', qa_Path = ''/manager/periods/'' @ str bid @ ''/new''\<rparr>,
     \<lparr>qa_Key = ''record_expense'', qa_Title = ''record expense'', qa_Path = ''/manager/expenses/'' @ str bid @ ''/new''\<rparr>,
     \<lparr>qa_Key = ''record_payment'', qa_Title = ''record payment'', qa_Path = ''/manager/ledger/'' @ str bid\<rparr>,
     \<lparr>qa_Key = ''send_announcement'', qa_Title = ''publish announcement'', qa_Path = ''/manager/announcements/'' @ str bid @ ''/new''\<rparr>,
     \<lparr>qa_Key = ''open_requests'', qa_Title = ''requests'', qa_Path = ''/manager/maintenance/'' @ str bid\<rparr>]"

definition BuildingDashboardFor :: "(uuid \<Rightarrow> string) \<Rightarrow> User option \<Rightarrow> uuid \<Rightarrow> BuildingDashboard dbm" where
  "BuildingDashboardFor str mgr bid = (case mgr of None \<Rightarrow> throwE (AppErr (Unauthorized ''msgUnauthorized''))
     | Some manager \<Rightarrow>
       bindE (CanManagerAccessBuilding (usr_ID manager) bid) (\<lambda>ok.
       thenE (throwIf (\<not> ok) (AppErr (Forbidden ''msgForbidden'')))
       (bindE timeNow (\<lambda>now.
        let win = (monthFloor now, monthNext now)
        in bindE (countQuery (\<lambda>d. filter (\<lambda>u. un_BuildingID u = bid \<and> un_DeletedAt u = None) (units d))) (\<lambda>unitCount.
           bindE (countQuery (\<lambda>d. filter (\<lambda>u. un_BuildingID u = bid \<and> un_DeletedAt u = None \<and> un_Status u = ''occupied'') (units d))) (\<lambda>occupied.
           bindE (sumQuery (\<lambda>d. sum_list (map (\<lambda>x. max (bal_Balance (fst x)) 0) (buildingBalances bid d)))) (\<lambda>debt.
           bindE (countQuery (debtorsOf bid)) (\<lambda>debtors.
           bindE (sumQuery (incomeIn bid win)) (\<lambda>income.
           bindE (sumQuery (expenseIn bid win)) (\<lambda>expense.
           bindE (countQuery (openOf bid)) (\<lambda>openRequests.
           bindE (countQuery (pendingOf bid)) (\<lambda>pending.
           bindE (dashAlerts bid now) (\<lambda>alerts.
           returnE \<lparr>bd_BuildingID = bid, bd_UnitCount = unitCount, bd_OccupiedUnitCount = occupied, bd_DebtorUnitCount = debtors,
             bd_TotalDebt = debt, bd_MonthIncome = income, bd_MonthExpense = expense, bd_OpenRequests = openRequests,
             bd_PendingExpenses = pending, bd_Month = formatMonth (yearOf now) (monthOf now), bd_Alerts = alerts,
             bd_QuickActions = defaultQuickActions str bid, bd_GeneratedAt = now\<rparr>)))))))))))))"

end
