(* ===== verification/Dashboard_Facts.thy ===== *)
theory Dashboard_Facts
  imports Dashboard Samples
begin

text \<open>
  The dashboards against the components they summarise: the month figures of the manager's dashboard are those of
  the financial report, and the hand-written sort of the resident's home is the stable sort.
\<close>

section \<open>The insertion sort\<close>

abbreviation createdAt :: "AnnouncementWithRead \<Rightarrow> int" where
  "createdAt x \<equiv> an_CreatedAt (awr_Announcement x)"

abbreviation newestFirst :: "AnnouncementWithRead list \<Rightarrow> bool" where
  "newestFirst xs \<equiv> sorted_wrt (\<lambda>x y. createdAt y \<le> createdAt x) xs"

definition place :: "AnnouncementWithRead \<Rightarrow> AnnouncementWithRead list \<Rightarrow> AnnouncementWithRead list" where
  "place x xs = filter (\<lambda>y. createdAt x \<le> createdAt y) xs @ x # filter (\<lambda>y. createdAt y < createdAt x) xs"

lemma siftBack_place: "newestFirst P \<Longrightarrow> siftBack (length P) (P @ x # S) = place x P @ S"
proof (induction P arbitrary: S rule: rev_induct)
  case Nil thus ?case by (simp add: place_def)
next
  case (snoc y P)
  have P: "newestFirst P" "\<forall>z\<in>set P. createdAt y \<le> createdAt z" using snoc.prems by (auto simp: sorted_wrt_append)
  show ?case
  proof (cases "createdAt y < createdAt x")
    case True
    have "siftBack (length (P @ [y])) ((P @ [y]) @ x # S) = siftBack (length P) (P @ x # y # S)"
      using True by (simp add: nth_append list_update_append)
    also have "\<dots> = place x P @ y # S" by (rule snoc.IH [OF P(1)])
    finally show ?thesis using True by (simp add: place_def)
  next
    case False
    hence "filter (\<lambda>z. createdAt x \<le> createdAt z) P = P" "filter (\<lambda>z. createdAt z < createdAt x) P = []"
      using P(2) by (auto simp: filter_id_conv filter_empty_conv)
    thus ?thesis using False by (simp add: place_def nth_append)
  qed
qed

lemma place_newestFirst: "newestFirst P \<Longrightarrow> newestFirst (place x P)"
  by (auto simp: place_def sorted_wrt_append sorted_wrt_filter)

lemma sortFrom_place: "newestFirst P \<Longrightarrow> sortFrom (length S) (length P) (P @ S) = foldl (\<lambda>Q x. place x Q) P S"
proof (induction S arbitrary: P)
  case (Cons x S)
  have "length (place x P) = Suc (length P)" using sum_length_filter_compl [of "\<lambda>y. createdAt x \<le> createdAt y" P] by (simp add: place_def not_le)
  thus ?case using Cons.IH [OF place_newestFirst [OF Cons.prems, of x]] by (simp add: siftBack_place [OF Cons.prems])
qed simp

lemma filter_place: "filter (\<lambda>y. createdAt y = k) (place x P) = filter (\<lambda>y. createdAt y = k) P @ (if createdAt x = k then [x] else [])"
proof (cases "createdAt x \<le> k")
  case True
  hence "filter (\<lambda>y. createdAt y = k) (filter (\<lambda>y. createdAt x \<le> createdAt y) P) = filter (\<lambda>y. createdAt y = k) P"
    "filter (\<lambda>y. createdAt y = k) (filter (\<lambda>y. createdAt y < createdAt x) P) = []"
    by (auto simp: filter_empty_conv intro!: filter_cong)
  thus ?thesis by (simp add: place_def)
next
  case False
  hence "filter (\<lambda>y. createdAt y = k) (filter (\<lambda>y. createdAt x \<le> createdAt y) P) = []"
    "filter (\<lambda>y. createdAt y = k) (filter (\<lambda>y. createdAt y < createdAt x) P) = filter (\<lambda>y. createdAt y = k) P"
    by (auto simp: filter_empty_conv intro!: filter_cong)
  thus ?thesis using False by (simp add: place_def)
qed

lemma foldl_place:
  "newestFirst P \<Longrightarrow> newestFirst (foldl (\<lambda>Q x. place x Q) P S) \<and> mset (foldl (\<lambda>Q x. place x Q) P S) = mset P + mset S \<and>
     filter (\<lambda>y. createdAt y = k) (foldl (\<lambda>Q x. place x Q) P S) = filter (\<lambda>y. createdAt y = k) P @ filter (\<lambda>y. createdAt y = k) S"
proof (induction S arbitrary: P)
  case (Cons x S)
  have "mset (place x P) = add_mset x (mset P)" using multiset_partition [of "mset P" "\<lambda>y. createdAt x \<le> createdAt y"] by (simp add: place_def not_le)
  thus ?case using filter_place [of k x P] Cons.IH [OF place_newestFirst [OF Cons.prems, of x]] by auto
qed simp

lemma newestFirst_sorted: "newestFirst xs \<longleftrightarrow> sorted (map (\<lambda>x. - createdAt x) xs)"
  by (simp add: sorted_map)

text \<open>C39. The insertion sort of the resident's home, two nested loops of swaps in an array, returns
  the stable sort by creation time, newest first, of every list.\<close>

theorem sortAnnouncements_stable: "sortAnnouncementsNewestFirst xs = sort_key (\<lambda>x. - an_CreatedAt (awr_Announcement x)) xs"
proof -
  let ?ys = "foldl (\<lambda>Q x. place x Q) [] xs"
  have s: "sortAnnouncementsNewestFirst xs = ?ys"
  proof (cases xs)
    case (Cons x S)
    have "sortFrom (length S) (length [x]) ([x] @ S) = foldl (\<lambda>Q x. place x Q) [x] S" by (rule sortFrom_place) simp
    thus ?thesis using Cons by (simp add: sortAnnouncementsNewestFirst_def place_def)
  qed (simp add: sortAnnouncementsNewestFirst_def)
  have "filter (\<lambda>x. - createdAt k = - createdAt x) ?ys = filter (\<lambda>x. - createdAt k = - createdAt x) xs" for k
    using foldl_place [of "[]" xs "createdAt k"] by (simp add: eq_commute)
  hence "sort_key (\<lambda>x. - createdAt x) xs = ?ys"
    using foldl_place [of "[]" xs] by (intro properties_for_sort_key) (auto simp: newestFirst_sorted)
  thus ?thesis using s by simp
qed

section \<open>Reading the figures\<close>

lemma sumQuery_Inr: "sumQuery f w = (Inr n, w') \<Longrightarrow> n = f (db w) \<and> db w' = db w"
  by (auto simp: sumQuery_def query_def scanInt64_def Let_def split: if_splits)

lemma countQuery_Inr: "countQuery f w = (Inr n, w') \<Longrightarrow> n = int (length (f (db w))) \<and> db w' = db w"
  by (auto simp: countQuery_def query_def split: if_splits)

lemma reads_expScope: "reads (expScope m bid)" "reads (CanManagerAccessBuilding uid bid)" "reads (dashAlerts bid now)"
  unfolding expScope_def expIsManagerOf_def CanManagerAccessBuilding_def dashAlerts_def
  by (intro reads_bindE reads_thenE reads_rules)+

lemma expRepoReport_Inr:
  assumes "expRepoReport bid y m w = (Inr r, w')"
  shows "r = \<lparr>fr_Month = '''', fr_MonthlyIncome = incomeIn bid (monthWindow y m) (db w), fr_MonthlyExpense = expenseIn bid (monthWindow y m) (db w),
     fr_Net = i64 (incomeIn bid (monthWindow y m) (db w) - expenseIn bid (monthWindow y m) (db w)), fr_TotalDebt = debtOf bid (db w),
     fr_TotalPayments = sum_list (map pay_Amount (filter (\<lambda>p. pay_BuildingID p = bid \<and> pay_Status p = StatusVerified) (payments (db w)))),
     fr_TotalExpenses = sum_list (map ex_Amount (filter (\<lambda>e. ex_BuildingID e = bid \<and> ex_DeletedAt e = None) (expenses (db w))))\<rparr>"
proof -
  obtain w1 w2 where "(bindE (sumQuery (incomeIn bid (monthWindow y m))) (\<lambda>income.
         bindE (sumQuery (expenseIn bid (monthWindow y m))) (\<lambda>expense.
         bindE (sumQuery (debtOf bid)) (\<lambda>debt.
         bindE (sumQuery (\<lambda>d. sum_list (map pay_Amount (filter (\<lambda>p. pay_BuildingID p = bid \<and> pay_Status p = StatusVerified) (payments d))))) (\<lambda>pays.
         bindE (sumQuery (\<lambda>d. sum_list (map ex_Amount (filter (\<lambda>e. ex_BuildingID e = bid \<and> ex_DeletedAt e = None) (expenses d))))) (\<lambda>exps.
         returnE \<lparr>fr_Month = '''', fr_MonthlyIncome = income, fr_MonthlyExpense = expense, fr_Net = i64 (income - expense),
                  fr_TotalDebt = debt, fr_TotalPayments = pays, fr_TotalExpenses = exps\<rparr>)))))) w1 = (Inr r, w2)" "db w1 = db w"
    using assms unfolding expRepoReport_def Let_def transaction_def by (auto split: if_splits prod.splits sum.splits)
  thus ?thesis by (auto elim!: bindE_splitE dest!: sumQuery_Inr simp: returnE_def)
qed

lemma expReport_Inr:
  assumes "expReport m bid month w = (Inr r, w')"
  shows "\<exists>y mo. parseMonth month = Some (y, mo) \<and> fr_MonthlyIncome r = incomeIn bid (monthWindow y mo) (db w) \<and>
     fr_MonthlyExpense r = expenseIn bid (monthWindow y mo) (db w) \<and> fr_TotalDebt r = debtOf bid (db w) \<and>
     fr_TotalPayments r = sum_list (map pay_Amount (filter (\<lambda>p. pay_BuildingID p = bid \<and> pay_Status p = StatusVerified) (payments (db w)))) \<and>
     fr_TotalExpenses r = sum_list (map ex_Amount (filter (\<lambda>e. ex_BuildingID e = bid \<and> ex_DeletedAt e = None) (expenses (db w))))"
proof -
  obtain y mo q w1 w2 where "parseMonth month = Some (y, mo)" "expRepoReport bid y mo w1 = (Inr q, w2)" "r = q\<lparr>fr_Month := month\<rparr>" "db w1 = db w"
    using assms unfolding expReport_def
    by (auto elim!: thenE_splitE bindE_splitE dest!: reads_run [OF reads_expScope(1)] simp: returnE_def throwE_def split: option.splits)
  thus ?thesis using expRepoReport_Inr [of bid y mo w1 q w2] by simp
qed

section \<open>The month\<close>

lemma parseMonth_formatMonth:
  assumes "parseMonth (formatMonth y m) = Some (a, b)"
  shows "a = y \<and> b = m"
proof -
  let ?p = "pad0 4 (showNat (nat y))" and ?q = "pad0 2 (showNat (nat m))"
  have len: "length (formatMonth y m) = 7" using assms by (auto simp: parseMonth_def split: if_splits)
  have y: "\<not> y < 0" using len by (auto simp: formatMonth_def length_pad0)
  have l: "length ?p = 4" "length ?q = 2" using len y by (auto simp: formatMonth_def length_pad0)
  have s: "formatMonth y m = ?p @ ''-'' @ ?q" using y by (simp add: formatMonth_def)
  have t: "take 4 (formatMonth y m) = ?p" "take 2 (drop 5 (formatMonth y m)) = ?q" unfolding s using l by simp_all
  have small: "int n < 2 ^ 63" if "length (pad0 k (showNat n)) = k" "k \<le> 4" for n k
  proof -
    have "length (showNat n) \<le> 4" using that by (simp add: length_pad0)
    hence "(10::nat) ^ length (showNat n) \<le> 10 ^ 4" by (intro power_increasing) auto
    thus ?thesis using showNat_bound [of n] by simp
  qed
  have "parseInt64 ?p = Some (int (nat y))" "parseInt64 ?q = Some (int (nat m))"
    using small [OF l(1)] small [OF l(2)] by (simp_all add: parseInt64_pad0)
  thus ?thesis using assms y unfolding parseMonth_def t by (auto split: if_splits)
qed

lemma positive_sum: "sum_list (map (\<lambda>x. max (bal_Balance (fst x)) 0) xs) = sum_list (map (bal_Balance \<circ> fst) (filter (\<lambda>x. 0 < bal_Balance (fst x)) xs))"
  by (induction xs) auto

text \<open>C27. The dashboard agrees with the financial report: for the month that the manager's dashboard
  names, its income, expense and total debt are exactly those of the report over the same
  data, and reading it changes nothing.\<close>

theorem dashboard_matches_report:
  assumes "BuildingDashboardFor str (Some m) bid w = (Inr dash, w1)" and "expReport m bid (bd_Month dash) v = (Inr rep, v1)" and "db v = db w"
  shows "bd_MonthIncome dash = fr_MonthlyIncome rep \<and> bd_MonthExpense dash = fr_MonthlyExpense rep \<and> bd_TotalDebt dash = fr_TotalDebt rep \<and>
     db w1 = db w"
proof -
  have "\<exists>now. bd_MonthIncome dash = incomeIn bid (monthFloor now, monthNext now) (db w) \<and>
    bd_MonthExpense dash = expenseIn bid (monthFloor now, monthNext now) (db w) \<and> bd_Month dash = formatMonth (yearOf now) (monthOf now) \<and>
    bd_TotalDebt dash = sum_list (map (\<lambda>x. max (bal_Balance (fst x)) 0) (buildingBalances bid (db w))) \<and> db w1 = db w"
    using assms(1) unfolding BuildingDashboardFor_def option.case Let_def
    by (auto elim!: bindE_splitE thenE_splitE throwIf_splitE dest!: sumQuery_Inr countQuery_Inr reads_run [OF reads_expScope(2)] reads_run [OF reads_expScope(3)]
        reads_run [OF reads_rules(5)] simp: returnE_def) blast
  then obtain now where "bd_MonthIncome dash = incomeIn bid (monthFloor now, monthNext now) (db w)"
    "bd_MonthExpense dash = expenseIn bid (monthFloor now, monthNext now) (db w)" "bd_Month dash = formatMonth (yearOf now) (monthOf now)"
    "bd_TotalDebt dash = sum_list (map (\<lambda>x. max (bal_Balance (fst x)) 0) (buildingBalances bid (db w)))" "db w1 = db w" by blast
  moreover obtain y mo where "parseMonth (bd_Month dash) = Some (y, mo)" "fr_MonthlyIncome rep = incomeIn bid (monthWindow y mo) (db w)"
    "fr_MonthlyExpense rep = expenseIn bid (monthWindow y mo) (db w)" "fr_TotalDebt rep = debtOf bid (db w)"
    using expReport_Inr [OF assms(2)] assms(3) by auto
  ultimately show ?thesis using parseMonth_formatMonth [of "yearOf now" "monthOf now" y mo]
    by (simp add: monthWindow_def monthFloor_def monthNext_def positive_sum debtOf_def)
qed

section \<open>Deleting an expense\<close>

definition dropExpense :: "uuid \<Rightarrow> int \<Rightarrow> Expense list \<Rightarrow> Expense list" where
  "dropExpense eid now = updateWhere (\<lambda>e. ex_ID e = eid \<and> ex_DeletedAt e = None) (\<lambda>e. e\<lparr>ex_DeletedAt := Some now, ex_UpdatedAt := now\<rparr>)"

lemma sum_dropExpense:
  assumes "distinct (map ex_ID rows)" "e \<in> set rows" "ex_DeletedAt e = None"
  shows "sum_list (map ex_Amount (filter (\<lambda>x. P x \<and> ex_DeletedAt x = None) (dropExpense (ex_ID e) now rows))) =
     sum_list (map ex_Amount (filter (\<lambda>x. P x \<and> ex_DeletedAt x = None) rows)) - (if P e then ex_Amount e else 0)"
  using assms
proof (induction rows)
  case (Cons x rows)
  show ?case
  proof (cases "x = e")
    case True
    have "ex_ID y \<noteq> ex_ID e" if "y \<in> set rows" for y using Cons.prems(1) True that by (auto simp: image_iff)
    hence "dropExpense (ex_ID e) now rows = rows" by (auto simp: dropExpense_def updateWhere_def intro!: map_idI)
    thus ?thesis using True Cons.prems(3) by (simp add: dropExpense_def updateWhere_def)
  next
    case False
    hence m: "e \<in> set rows" using Cons.prems(2) by simp
    hence "ex_ID x \<noteq> ex_ID e" using Cons.prems(1) by (auto simp: image_iff)
    hence step: "dropExpense (ex_ID e) now (x # rows) = x # dropExpense (ex_ID e) now rows" by (simp add: dropExpense_def updateWhere_def)
    have "distinct (map ex_ID rows)" using Cons.prems(1) by simp
    from Cons.IH [OF this m Cons.prems(3)] show ?thesis unfolding step by simp
  qed
qed simp

lemma expDelete_Inr:
  assumes "expDelete m eid w = (Inr (), w')"
  shows "\<exists>e now. e \<in> set (expenses (db w)) \<and> ex_ID e = eid \<and> ex_DeletedAt e = None \<and>
     list_ex (isGrant (usr_ID m) (ex_BuildingID e)) (user_buildings (db w)) \<and> db w' = (db w)\<lparr>expenses := dropExpense eid now (expenses (db w))\<rparr>"
  using assms by (auto simp: expDelete_def expGet_def GetExpense_def expScope_def expIsManagerOf_def SoftDeleteExpense_def bindE_def thenE_def query_def
      throwIf_def throwE_def returnE_def timeNow_def exec_def dropExpense_def list_ex_iff filter_empty_conv dest!: firstRow_Inr split: if_splits prod.splits sum.splits) blast

text \<open>C28. Deleting an expense takes exactly its amount out of the totals of the financial report of
  its building, and out of the month when its date is in it; income, payments and debt stay,
  and the row is kept with its amount.\<close>

theorem expense_delete_report:
  assumes "expDelete m eid w = (Inr (), w')" and "distinct (map ex_ID (expenses (db w)))"
    and "expReport u bid month v = (Inr r, v1)" "db v = db w" and "expReport u bid month v' = (Inr r', v1')" "db v' = db w'"
  shows "\<exists>e y mo. e \<in> set (expenses (db w)) \<and> ex_ID e = eid \<and> ex_DeletedAt e = None \<and> parseMonth month = Some (y, mo) \<and>
     fr_TotalExpenses r' = fr_TotalExpenses r - (if ex_BuildingID e = bid then ex_Amount e else 0) \<and>
     fr_MonthlyExpense r' = fr_MonthlyExpense r -
       (if ex_BuildingID e = bid \<and> fst (monthWindow y mo) \<le> ex_ExpenseDate e \<and> ex_ExpenseDate e < snd (monthWindow y mo) then ex_Amount e else 0) \<and>
     fr_MonthlyIncome r' = fr_MonthlyIncome r \<and> fr_TotalPayments r' = fr_TotalPayments r \<and> fr_TotalDebt r' = fr_TotalDebt r \<and>
     map ex_ID (expenses (db w')) = map ex_ID (expenses (db w)) \<and> map ex_Amount (expenses (db w')) = map ex_Amount (expenses (db w))"
proof -
  obtain e now where e: "e \<in> set (expenses (db w))" "ex_ID e = eid" "ex_DeletedAt e = None"
    "db w' = (db w)\<lparr>expenses := dropExpense eid now (expenses (db w))\<rparr>" using expDelete_Inr [OF assms(1)] by blast
  note sums = sum_dropExpense [OF assms(2) e(1,3), unfolded e(2)]
  obtain y mo where r: "parseMonth month = Some (y, mo)" "fr_MonthlyIncome r = incomeIn bid (monthWindow y mo) (db w)"
    "fr_MonthlyExpense r = expenseIn bid (monthWindow y mo) (db w)" "fr_TotalDebt r = debtOf bid (db w)"
    "fr_TotalPayments r = sum_list (map pay_Amount (filter (\<lambda>p. pay_BuildingID p = bid \<and> pay_Status p = StatusVerified) (payments (db w))))"
    "fr_TotalExpenses r = sum_list (map ex_Amount (filter (\<lambda>e. ex_BuildingID e = bid \<and> ex_DeletedAt e = None) (expenses (db w))))"
    using expReport_Inr [OF assms(3)] assms(4) by auto
  have r': "fr_MonthlyIncome r' = fr_MonthlyIncome r" "fr_TotalDebt r' = fr_TotalDebt r" "fr_TotalPayments r' = fr_TotalPayments r"
    "fr_MonthlyExpense r' = expenseIn bid (monthWindow y mo) (db w')"
    "fr_TotalExpenses r' = sum_list (map ex_Amount (filter (\<lambda>e. ex_BuildingID e = bid \<and> ex_DeletedAt e = None) (expenses (db w'))))"
    using expReport_Inr [OF assms(5)] r e(4) unfolding assms(6) by (auto simp: incomeIn_def debtOf_def buildingBalances_def)
  have month: "expenseIn bid win (db w') = expenseIn bid win (db w) -
     (if ex_BuildingID e = bid \<and> fst win \<le> ex_ExpenseDate e \<and> ex_ExpenseDate e < snd win then ex_Amount e else 0)" for win
    using sums [of "\<lambda>x. ex_BuildingID x = bid \<and> fst win \<le> ex_ExpenseDate x \<and> ex_ExpenseDate x < snd win" now]
    by (simp add: expenseIn_def e(4) conj_ac)
  have keep: "map f (dropExpense eid now rows) = map f rows" if "\<And>x d t. f (x\<lparr>ex_DeletedAt := d, ex_UpdatedAt := t\<rparr>) = f x" for f :: "Expense \<Rightarrow> 'b" and rows
    using that by (simp add: dropExpense_def updateWhere_def)
  show ?thesis using e r r' month sums [of "\<lambda>x. ex_BuildingID x = bid" now] keep [of ex_ID "expenses (db w)"] keep [of ex_Amount "expenses (db w)"]
    by (intro exI [of _ e] exI [of _ y] exI [of _ mo]) simp
qed

section \<open>Examples\<close>

definition mkExpense :: "uuid \<Rightarrow> int \<Rightarrow> int \<Rightarrow> Expense" where
  "mkExpense i amount day = \<lparr>ex_ID = i, ex_BuildingID = 1, ex_Title = ''gas'', ex_Category = ''gas'', ex_Amount = amount, ex_ExpenseDate = day,
     ex_Description = None, ex_PayerPersonID = None, ex_ReceiptFile = None, ex_ApprovalStatus = ApprovalPending, ex_CreatedBy = Some 21,
     ex_CreatedAt = 0, ex_UpdatedAt = 0, ex_DeletedAt = None\<rparr>"

definition dashWorld :: "db world" where
  "dashWorld = exampleWorld (sampleDb\<lparr>expenses := [mkExpense 96 300 3, mkExpense 97 50 40]\<rparr>)"

definition sampleDash :: BuildingDashboard where
  "sampleDash = projr (fst (BuildingDashboardFor (\<lambda>_. ''b'') (Some sampleManager) 1 dashWorld))"

definition sampleReport :: "db world \<Rightarrow> FinancialReport" where
  "sampleReport w = projr (fst (expReport sampleManager 1 ''1970-01'' w))"

lemma digits: "digitChar 0 = CHR ''0''" "digitChar 1 = CHR ''1''" "digitChar 7 = CHR ''7''" "digitChar 9 = CHR ''9''"
  by code_simp+

lemma show_1970: "showNat 1970 = ''1970''" "showNat 1 = ''1''"
proof -
  show 1: "showNat 1 = ''1''" by (subst showNat.simps) (simp add: digits [simplified])
  have "showNat 19 = ''19''" by (subst showNat.simps) (simp add: digits 1 [simplified])
  hence "showNat 197 = ''197''" by (subst showNat.simps) (simp add: digits)
  thus "showNat 1970 = ''1970''" by (subst showNat.simps) (simp add: digits)
qed

lemma year_1970: "yearOf 1000 = 1970"
  by code_simp

lemma month_jan: "monthOf 1000 = 1"
  by code_simp

lemma format_1970: "formatMonth 1970 1 = ''1970-01''"
proof -
  have "nat 1970 = 1970" "nat 1 = 1" by simp_all
  thus ?thesis by (simp only: formatMonth_def show_1970 pad0_def) simp
qed

lemmas month_1970 = year_1970 month_jan format_1970

lemma dashWorld_sums:
  "in64 (\<Sum>x\<leftarrow>buildingBalances 1 (db dashWorld). max (bal_Balance (fst x)) 0)" "in64 (incomeIn 1 win (db dashWorld))" "in64 (expenseIn 1 win (db dashWorld))"
  by (simp_all add: dashWorld_def exampleWorld_def sampleDb_def emptyDb_def buildingBalances_def incomeIn_def expenseIn_def mkGatewayPayment_def mkExpense_def in64_def)

lemma sampleDash_exists:
  "\<exists>dash. fst (BuildingDashboardFor (\<lambda>_. ''b'') (Some sampleManager) 1 dashWorld) = Inr dash \<and> bd_Month dash = ''1970-01''"
proof -
  have w: "no_faults dashWorld" "clock dashWorld = (\<lambda>_. 1000)" "list_ex (\<lambda>g. ub_UserID g = usr_ID sampleManager \<and> ub_BuildingID g = 1) (user_buildings (db dashWorld))"
    by (simp_all add: dashWorld_def exampleWorld_def no_faults_def sampleDb_def sampleManager_def mkUser_def)
  show ?thesis using w(3) dashWorld_sums
    by (simp add: BuildingDashboardFor_def CanManagerAccessBuilding_def countQuery_def sumQuery_def scanInt64_def dashAlerts_def bindE_def thenE_def
      query_run w(1) throwIf_def returnE_def timeNow_def w(2) month_1970 Let_def filter_empty_conv list_ex_iff)
qed

lemma sampleDash_run: "BuildingDashboardFor (\<lambda>_. ''b'') (Some sampleManager) 1 dashWorld = (Inr sampleDash, snd (BuildingDashboardFor (\<lambda>_. ''b'') (Some sampleManager) 1 dashWorld))"
  and sampleDash_month: "bd_Month sampleDash = ''1970-01''"
  using sampleDash_exists by (auto simp: sampleDash_def prod_eq_iff)

lemma sampleReport_run:
  assumes "\<not> isl (fst (expReport sampleManager 1 ''1970-01'' w))"
  shows "expReport sampleManager 1 ''1970-01'' w = (Inr (sampleReport w), snd (expReport sampleManager 1 ''1970-01'' w))"
  using assms by (simp add: sampleReport_def prod_eq_iff)

lemma sampleReport_values:
  "\<not> isl (fst (expReport sampleManager 1 ''1970-01'' dashWorld))" "fr_MonthlyExpense (sampleReport dashWorld) = 300" "fr_TotalExpenses (sampleReport dashWorld) = 350"
  by code_simp+

theorem dashboard_matches_report_witness: "bd_MonthExpense sampleDash = 300 \<and> bd_MonthIncome sampleDash = fr_MonthlyIncome (sampleReport dashWorld)"
  using dashboard_matches_report [OF sampleDash_run, unfolded sampleDash_month, OF sampleReport_run [OF sampleReport_values(1)] refl] sampleReport_values(2) by simp

definition deletedWorld :: "db world" where
  "deletedWorld = snd (expDelete sampleManager 96 dashWorld)"

lemma deletedWorld_run: "expDelete sampleManager 96 dashWorld = (Inr (), deletedWorld)" "\<not> isl (fst (expReport sampleManager 1 ''1970-01'' deletedWorld))"
proof -
  have "fst (expDelete sampleManager 96 dashWorld) = Inr ()" by code_simp
  thus "expDelete sampleManager 96 dashWorld = (Inr (), deletedWorld)" by (simp add: deletedWorld_def prod_eq_iff)
  show "\<not> isl (fst (expReport sampleManager 1 ''1970-01'' deletedWorld))" by code_simp
qed

theorem expense_delete_report_witness:
  "fr_TotalPayments (sampleReport deletedWorld) = fr_TotalPayments (sampleReport dashWorld) \<and> map ex_ID (expenses (db deletedWorld)) = [96, 97] \<and>
   fr_TotalExpenses (sampleReport deletedWorld) = 50"
proof -
  have d: "distinct (map ex_ID (expenses (db dashWorld)))" "map ex_ID (expenses (db dashWorld)) = [96, 97]" by (simp_all add: dashWorld_def exampleWorld_def mkExpense_def)
  from expense_delete_report [OF deletedWorld_run(1) d(1) sampleReport_run [OF sampleReport_values(1)] refl sampleReport_run [OF deletedWorld_run(2)] refl]
  obtain e where "e \<in> set (expenses (db dashWorld))" "ex_ID e = 96" "fr_TotalPayments (sampleReport deletedWorld) = fr_TotalPayments (sampleReport dashWorld)"
    "map ex_ID (expenses (db deletedWorld)) = [96, 97]"
    "fr_TotalExpenses (sampleReport deletedWorld) = fr_TotalExpenses (sampleReport dashWorld) - (if ex_BuildingID e = 1 then ex_Amount e else 0)" using d(2) by auto
  thus ?thesis using sampleReport_values(3) by (auto simp: dashWorld_def exampleWorld_def mkExpense_def)
qed

end
