(* ===== verification/Maintenance_Machine.thy ===== *)
theory Maintenance_Machine
  imports Maintenance Triples Samples
begin

text \<open>
  Maintenance requests as a state machine: the requests of the maintenance service are the steps of
  \<open>maint_step\<close>. A request moves only along \<open>allowedTransitions\<close>, keeps what its submitter wrote, and can always
  be brought to its end.
\<close>

section \<open>The lifecycle\<close>

definition maintKept :: "MaintenanceRequest \<Rightarrow> MaintenanceRequest \<Rightarrow> bool" where
  "maintKept m n \<longleftrightarrow> mr_ID n = mr_ID m \<and> mr_BuildingID n = mr_BuildingID m \<and> mr_UnitID n = mr_UnitID m \<and> mr_SubmittedBy n = mr_SubmittedBy m \<and>
     mr_Title n = mr_Title m \<and> mr_Category n = mr_Category m \<and> mr_Priority n = mr_Priority m \<and> mr_PhotoFile n = mr_PhotoFile m \<and>
     mr_CreatedAt n = mr_CreatedAt m \<and> canTransition\<^sup>*\<^sup>* (mr_Status m) (mr_Status n) \<and>
     (mr_Status m = MStatusClosed \<longrightarrow> mr_ClosedAt n = mr_ClosedAt m)"

definition maint_rel :: "db \<Rightarrow> db \<Rightarrow> bool" where
  "maint_rel d d' \<longleftrightarrow> distinct (map mr_ID (maintenance_requests d)) \<longrightarrow>
     distinct (map mr_ID (maintenance_requests d')) \<and> all_kept maintKept (maintenance_requests d) (maintenance_requests d')"

lemma closed_final: "\<not> canTransition MStatusClosed s"
  by (simp add: canTransition_def allowedTransitions_def)

lemma closed_final_rtrancl: "canTransition\<^sup>*\<^sup>* MStatusClosed s \<longleftrightarrow> s = MStatusClosed"
  using closed_final by (auto elim: converse_rtranclpE)

lemma maintKept_refl [simp]: "maintKept m m"
  by (simp add: maintKept_def)

lemma maintKept_trans: "maintKept x y \<Longrightarrow> maintKept y z \<Longrightarrow> maintKept x z"
  by (auto simp: maintKept_def closed_final_rtrancl intro: rtranclp_trans)

lemma maint_rel_refl [simp]: "maint_rel d d"
  by (simp add: maint_rel_def all_kept_refl [of maintKept])

lemma maint_rel_trans: "transp maint_rel"
  by (rule transpI) (auto simp: maint_rel_def intro: all_kept_trans [of maintKept] maintKept_trans)

lemma maint_rel_side: "maintenance_requests d' = maintenance_requests d \<Longrightarrow> maint_rel d d'"
  by (simp add: maint_rel_def all_kept_refl [of maintKept])

lemma obeys_maint_env:
  "obeys maint_rel newUUID" "obeys maint_rel timeNow" "obeys maint_rel (query q)" "obeys maint_rel (returnE x)"
  "obeys maint_rel (throwE e)" "obeys maint_rel (throwIf b e)" "obeys maint_rel (liftE r)"
  by (rule obeys_reads, rule reads_rules)+

lemma obeys_maint_channels:
  "obeys maint_rel (notifCreate u t ti b rt rid)" "obeys maint_rel (auditAppend a ac ot oid s s')"
  unfolding notifCreate_def auditAppend_def insertNotification_def Let_def
  by (intro obeys_intros obeys_maint_env obeys_exec [OF maint_rel_trans] maint_rel_side; auto split: if_splits)+

lemma obeys_announceStatus: "obeys maint_rel (announceStatus manager b m)"
  unfolding announceStatus_def by (intro obeys_intros obeys_maint_channels)

lemma obeys_maintCreate: "obeys maint_rel (maintCreate m)"
  unfolding maintCreate_def
  by (rule obeys_exec [OF maint_rel_trans])
    (fastforce simp: maint_rel_def list_ex_iff all_kept_append [of maintKept] split: if_splits)

lemma obeys_Submit: "obeys maint_rel (Submit user inp)"
  unfolding Submit_def PhotoPath_def ResolveResidentUnit_def Let_def
  by (intro obeys_intros obeys_maint_env obeys_maint_channels obeys_maintCreate)
    (auto intro!: obeys_intros obeys_maint_env obeys_maint_channels obeys_maintCreate split: option.splits)

text \<open>What the parts of an update do to the row that was read.\<close>

lemma moveStatus_kept:
  "moveStatus st m w = (Inr m', w') \<Longrightarrow> maintKept m m' \<and> db w' = db w \<and> (mr_Status m' = mr_Status m \<and> m' = m \<or> canTransition (mr_Status m) (mr_Status m'))"
  by (auto simp: moveStatus_def returnE_def throwE_def bindE_def timeNow_def Let_def maintKept_def closed_final
      split: option.splits if_splits)

lemma setAssignee_kept: "setAssignee a m w = (Inr m', w') \<Longrightarrow> maintKept m m' \<and> mr_Status m' = mr_Status m"
  by (auto simp: setAssignee_def returnE_def PersonExists_def query_def throwIf_def throwE_def bindE_def thenE_def maintKept_def
      split: option.splits if_splits)

lemma setCost_kept: "setCost n m = Inr m' \<Longrightarrow> maintKept m m' \<and> mr_Status m' = mr_Status m"
  by (auto simp: setCost_def Let_def maintKept_def split: option.splits if_splits)

lemma setNotes_kept: "maintKept m (setNotes n m)" "mr_Status (setNotes n m) = mr_Status m"
  by (auto simp: setNotes_def maintKept_def split: option.splits)

lemma reads_update:
  "reads (moveStatus st m)" "reads (setAssignee a m)" "reads (maintForManager u mid)"
  unfolding moveStatus_def setAssignee_def PersonExists_def Let_def maintForManager_def maintLoad_def maintGet_def maintIsManagerOf_def
  by (auto intro!: reads_bindE reads_thenE reads_mapErr reads_rules split: option.splits)

lemma maintForManager_Inr:
  "maintForManager u mid w = (Inr m, w') \<Longrightarrow> m \<in> set (maintenance_requests (db w)) \<and> mr_ID m = mid \<and> db w' = db w \<and>
     list_ex (isGrant (usr_ID u) (mr_BuildingID m)) (user_buildings (db w))"
  by (auto simp: maintForManager_def maintLoad_def maintGet_def maintIsManagerOf_def bindE_def thenE_def mapErr_def query_def throwIf_def
      throwE_def returnE_def list_ex_iff filter_empty_conv dest: firstRow_Inr split: prod.splits sum.splits if_splits)

lemma save_kept:
  "x \<in> set (maintenance_requests d) \<Longrightarrow> maintKept x y \<Longrightarrow> maint_rel d (d\<lparr>maintenance_requests := saveRow mr_ID y (maintenance_requests d)\<rparr>)"
  using saveRow_kept [of mr_ID "maintenance_requests d" x y maintKept] by (simp add: maint_rel_def maintKept_def [of x y])

lemma obeys_maintUpdate: "obeys maint_rel (maintUpdate u mid inp)"
proof (rule obeysI_tri [OF maint_rel_trans])
  fix d0 :: db
  let ?I = "\<lambda>x m d. d = d0 \<and> x \<in> set (maintenance_requests d0) \<and> maintKept x m"
  have load: "tri (\<lambda>d. d = d0) (maintForManager u mid) (\<lambda>x d. ?I x x d) (maint_rel d0)"
    by (intro triI) (auto dest: maintForManager_Inr reads_run [OF reads_update(3)])
  have move: "tri (?I x m) (moveStatus st m) (?I x) (maint_rel d0)" for st m x
    by (intro triI) (auto dest: moveStatus_kept reads_run [OF reads_update(1)] intro: maintKept_trans)
  have assign: "tri (?I x m) (setAssignee a m) (?I x) (maint_rel d0)" for a m x
    by (intro triI) (auto dest: setAssignee_kept reads_run [OF reads_update(2)] intro: maintKept_trans)
  have cost: "tri (?I x m) (liftE (setCost n m)) (?I x) (maint_rel d0)" for n m x
    by (intro tri_lift) (auto dest: setCost_kept intro: maintKept_trans)
  have save: "tri (?I x m) (maintSave ((setNotes n m)\<lparr>mr_UpdatedAt := t\<rparr>)) (\<lambda>_. maint_rel d0) (maint_rel d0)" for n m x t
  proof -
    have "maintKept x ((setNotes n m)\<lparr>mr_UpdatedAt := t'\<rparr>)" if "maintKept x m" for t'
      using maintKept_trans [OF that setNotes_kept(1) [of m n]] by (simp add: maintKept_def)
    thus ?thesis unfolding maintSave_def Let_def
      by (intro tri_bind [OF tri_keep [OF reads_rules(5)]] tri_then [OF tri_exec tri_return])
        (auto intro: save_kept split: if_splits)
  qed
  have rest: "tri (maint_rel d0) (thenE (whenE b (announceStatus u x m)) (returnE y)) (\<lambda>_. maint_rel d0) (maint_rel d0)" for b x m and y :: "MaintenanceRequest \<times> MaintenanceRequest"
  proof -
    have "obeys maint_rel (thenE (whenE b (announceStatus u x m)) (returnE y))"
      by (intro obeys_then obeys_when obeys_announceStatus obeys_maint_env)
    thus ?thesis by (simp add: obeys_def)
  qed
  show "tri (\<lambda>d. d = d0) (maintUpdate u mid inp) (\<lambda>_. maint_rel d0) (maint_rel d0)"
    unfolding maintUpdate_def
    by (rule tri_bind [OF load], rule tri_bind [OF move], rule tri_bind [OF assign], rule tri_bind [OF cost],
        rule tri_bind [OF tri_keep [OF reads_rules(5)]], simp, rule tri_bind [OF save], rule rest)
qed

inductive maint_step :: "db world \<Rightarrow> db world \<Rightarrow> bool" where
  submit: "Submit user inp w = (r, w') \<Longrightarrow> maint_step w w'"
| update: "maintUpdate manager mid upd w = (q, w') \<Longrightarrow> maint_step w w'"
| other: "maintenance_requests (db w') = maintenance_requests (db w) \<Longrightarrow> maint_step w w'"

lemma maint_step_rel: "maint_step w w' \<Longrightarrow> maint_rel (db w) (db w')"
  by (induction rule: maint_step.induct)
    (auto intro: obeys_run [OF obeys_Submit] obeys_run [OF obeys_maintUpdate] maint_rel_side)

interpretation maint: request_machine maint_step maint_rel
  by unfold_locales (simp_all add: maint_step_rel maint_rel_trans)

text \<open>C20. The lifecycle of a maintenance request: along every sequence of submissions, manager updates
  and requests that leave the table alone, a request keeps its identity, its submitter,
  building, unit, title, category and priority, its status moves only along the allowed
  transitions, and closed is final and keeps its closing time.\<close>

theorem maintenance_lifecycle:
  assumes "maint_step\<^sup>*\<^sup>* w w'" and "distinct (map mr_ID (maintenance_requests (db w)))" and "m \<in> set (maintenance_requests (db w))"
  shows "\<exists>n. {x\<in>set (maintenance_requests (db w')). mr_ID x = mr_ID m} = {n} \<and> canTransition\<^sup>*\<^sup>* (mr_Status m) (mr_Status n) \<and>
     (mr_Status m = MStatusClosed \<longrightarrow> mr_Status n = MStatusClosed \<and> mr_ClosedAt n = mr_ClosedAt m) \<and>
     mr_SubmittedBy n = mr_SubmittedBy m \<and> mr_BuildingID n = mr_BuildingID m \<and> mr_UnitID n = mr_UnitID m \<and>
     mr_Title n = mr_Title m \<and> mr_Category n = mr_Category m \<and> mr_Priority n = mr_Priority m"
proof -
  have r: "distinct (map mr_ID (maintenance_requests (db w')))" "all_kept maintKept (maintenance_requests (db w)) (maintenance_requests (db w'))"
    using maint.steps_rel [OF assms(1)] assms(2) by (simp_all add: maint_rel_def)
  obtain n where n: "n \<in> set (maintenance_requests (db w'))" "maintKept m n" using all_keptD [OF r(2) assms(3)] by blast
  hence "{x\<in>set (maintenance_requests (db w')). mr_ID x = mr_ID m} = {n}"
    by (auto simp: maintKept_def intro: rows_inj [OF r(1)])
  thus ?thesis using n(2) by (intro exI [of _ n]) (auto simp: maintKept_def closed_final_rtrancl)
qed

section \<open>Closing a request\<close>

definition statusUpdate :: "string \<Rightarrow> MaintUpdate" where
  "statusUpdate s = \<lparr>mu_Status = Some s, mu_AssigneePersonID = None, mu_RecordedCost = None, mu_Notes = None\<rparr>"

definition closingSteps :: "string \<Rightarrow> string list" where
  "closingSteps s = (if s = MStatusNew then [MStatusUnderReview, MStatusClosed] else [MStatusClosed])"

lemma announceStatus_runs:
  assumes "no_faults w"
  shows "\<exists>ns as w'. announceStatus u b m w = (Inr (), w') \<and> no_faults w' \<and> db w' = (db w)\<lparr>notifications := ns, audit_logs := as\<rparr>"
proof -
  let ?n = "ignoreE (notifCreate (mr_SubmittedBy m) ''request_status_changed'' ''request status changed''
        (''request '' @ mr_Title m @ '' is now '' @ mr_Status m) (Some ''maintenance_request'') (Some (mr_ID m)))"
  obtain ns w1 where n: "?n w = (Inr (), w1)" "no_faults w1" "db w1 = (db w)\<lparr>notifications := ns\<rparr>"
    using channels_run(1) [OF assms] by blast
  obtain as w2 where "ignoreE (auditAppend (Some (usr_ID u)) ''maintenance.status_changed'' ''maintenance_request'' (Some (mr_ID m))
        (Some (SnapRequest b)) (Some (SnapRequest m))) w1 = (Inr (), w2)" "no_faults w2" "db w2 = (db w1)\<lparr>audit_logs := as\<rparr>"
    using channels_run(2) [OF n(2)] by blast
  thus ?thesis using n by (simp add: announceStatus_def thenE_def bindE_run) blast
qed

lemma trim_status: "s \<in> set validStatuses \<Longrightarrow> trimSpace s = s \<and> s \<noteq> ''''"
  by (auto simp: validStatuses_def intro!: trimSpace_visible) (simp_all add: visible_def)

lemma moveStatus_runs:
  assumes "s \<in> set validStatuses" "s \<noteq> mr_Status m" "canTransition (mr_Status m) s"
  shows "\<exists>m1 w1. moveStatus (Some s) m w = (Inr m1, w1) \<and> no_faults w1 = no_faults w \<and> db w1 = db w \<and> mr_Status m1 = s \<and>
     (s = MStatusClosed \<longrightarrow> mr_ClosedAt m1 \<noteq> None) \<and> m1 = m\<lparr>mr_Status := s, mr_ClosedAt := mr_ClosedAt m1\<rparr>"
  using assms trim_status [OF assms(1)] by (auto simp: moveStatus_def Let_def bindE_def timeNow_def returnE_def)

text \<open>A request that a manager can act on: its row satisfies the constraints and the manager has the grant.\<close>

definition manageable :: "User \<Rightarrow> MaintenanceRequest \<Rightarrow> db \<Rightarrow> bool" where
  "manageable u m d \<longleftrightarrow> distinct (map mr_ID (maintenance_requests d)) \<and> m \<in> set (maintenance_requests d) \<and> maintRowOk d m \<and>
     list_ex (isGrant (usr_ID u) (mr_BuildingID m)) (user_buildings d)"

lemma maintForManager_runs:
  assumes "no_faults w" "manageable u m (db w)"
  shows "\<exists>w1. maintForManager u (mr_ID m) w = (Inr m, w1) \<and> no_faults w1 \<and> db w1 = db w"
proof -
  have "firstRow (\<lambda>x. mr_ID x = mr_ID m) (maintenance_requests (db w)) = Inr m"
  proof (cases "find (\<lambda>x. mr_ID x = mr_ID m) (maintenance_requests (db w))")
    case None
    thus ?thesis using assms(2) by (auto simp: manageable_def find_None_iff)
  next
    case (Some x)
    hence "x \<in> set (maintenance_requests (db w))" "mr_ID x = mr_ID m" by (auto simp: find_Some_iff)
    hence "x = m" using assms(2) rows_inj by (auto simp: manageable_def)
    thus ?thesis using Some by (simp add: firstRow_def)
  qed
  moreover have "filter (isGrant (usr_ID u) (mr_BuildingID m)) (user_buildings (db w)) \<noteq> []"
    using assms(2) by (auto simp: manageable_def list_ex_iff filter_empty_conv)
  ultimately show ?thesis using assms(1)
    by (simp add: maintForManager_def maintLoad_def maintGet_def maintIsManagerOf_def bindE_def thenE_def mapErr_def query_run throwIf_def returnE_def)
qed

lemma maintSave_runs:
  assumes "no_faults w" "\<And>t. maintRowOk (db w) (m\<lparr>mr_UpdatedAt := t\<rparr>)"
  shows "\<exists>t w1. maintSave m w = (Inr (m\<lparr>mr_UpdatedAt := t\<rparr>), w1) \<and> no_faults w1 \<and>
     db w1 = (db w)\<lparr>maintenance_requests := saveRow mr_ID (m\<lparr>mr_UpdatedAt := t\<rparr>) (maintenance_requests (db w))\<rparr>"
  using assms by (auto simp: maintSave_def bindE_def timeNow_def Let_def thenE_def exec_def returnE_def)

lemma maintRowOk_saved [simp]:
  "maintRowOk (d\<lparr>maintenance_requests := rows, notifications := ns, audit_logs := as\<rparr>) m = maintRowOk d m"
  by (simp add: maintRowOk_def split: option.splits)

lemma manageable_saved:
  assumes "manageable u m d" "mr_ID m' = mr_ID m" "mr_BuildingID m' = mr_BuildingID m" "maintRowOk d m'"
  shows "manageable u m' (d\<lparr>maintenance_requests := saveRow mr_ID m' (maintenance_requests d), notifications := ns, audit_logs := as\<rparr>)"
proof -
  have "distinct (map mr_ID (saveRow mr_ID m' (maintenance_requests d)))"
    using saveRow_kept [of mr_ID "maintenance_requests d" m m' "\<lambda>_ _. True"] assms(1,2) by (simp add: manageable_def)
  moreover have "m' \<in> set (saveRow mr_ID m' (maintenance_requests d))"
    using assms(1,2) by (auto simp: manageable_def saveRow_def set_updateWhere list_ex_iff)
  ultimately show ?thesis using assms by (simp add: manageable_def)
qed

lemma maintUpdate_runs:
  assumes nf: "no_faults w" and m: "manageable u m (db w)"
    and s: "s \<in> set validStatuses" "s \<noteq> mr_Status m" "canTransition (mr_Status m) s"
  shows "\<exists>m' w'. maintUpdate u (mr_ID m) (statusUpdate s) w = (Inr (m', m), w') \<and> no_faults w' \<and> manageable u m' (db w') \<and>
     mr_ID m' = mr_ID m \<and> mr_Status m' = s \<and> (s = MStatusClosed \<longrightarrow> mr_ClosedAt m' \<noteq> None)"
proof -
  obtain w1 where w1: "maintForManager u (mr_ID m) w = (Inr m, w1)" "no_faults w1" "db w1 = db w"
    using maintForManager_runs [OF nf m] by blast
  obtain m1 w2 where w2: "moveStatus (Some s) m w1 = (Inr m1, w2)" "no_faults w2" "db w2 = db w" "s = MStatusClosed \<longrightarrow> mr_ClosedAt m1 \<noteq> None"
    and m1: "m1 = m\<lparr>mr_Status := s, mr_ClosedAt := mr_ClosedAt m1\<rparr>"
    using moveStatus_runs [OF s, of w1] w1(2,3) by metis
  let ?now = "clock w2 (cnext w2)" and ?w = "w2\<lparr>cnext := Suc (cnext w2)\<rparr>"
  have ok: "maintRowOk (db w) (m1\<lparr>mr_UpdatedAt := t\<rparr>)" for t
    using m s(1) by (subst m1) (simp add: manageable_def maintRowOk_def)
  obtain t w3 where w3: "maintSave (m1\<lparr>mr_UpdatedAt := ?now\<rparr>) ?w = (Inr (m1\<lparr>mr_UpdatedAt := ?now, mr_UpdatedAt := t\<rparr>), w3)" "no_faults w3"
    "db w3 = (db w)\<lparr>maintenance_requests := saveRow mr_ID (m1\<lparr>mr_UpdatedAt := t\<rparr>) (maintenance_requests (db w))\<rparr>"
    using maintSave_runs [of ?w "m1\<lparr>mr_UpdatedAt := ?now\<rparr>"] w2(2,3) ok by auto
  let ?m = "m1\<lparr>mr_UpdatedAt := t\<rparr>"
  obtain ns as w4 where w4: "announceStatus u m ?m w3 = (Inr (), w4)" "no_faults w4" "db w4 = (db w3)\<lparr>notifications := ns, audit_logs := as\<rparr>"
    using announceStatus_runs [OF w3(2)] by blast
  have st: "mr_Status m1 = s" "mr_ID ?m = mr_ID m" "mr_BuildingID ?m = mr_BuildingID m" by (subst m1, simp)+
  have "maintUpdate u (mr_ID m) (statusUpdate s) w = (Inr (?m, m), w4)"
    using w1(1) w2(1) w3(1) w4(1) s(2) st(1)
    by (simp add: maintUpdate_def statusUpdate_def bindE_def thenE_def setAssignee_def returnE_def liftE_def setCost_def timeNow_def setNotes_def whenE_def)
  moreover have "manageable u ?m (db w4)"
    using manageable_saved [OF m st(2,3) ok] w3(3) w4(3) by simp
  ultimately show ?thesis using w4(2) st w2(4) by (intro exI [of _ ?m] exI [of _ w4]) simp
qed

lemma closingSteps_cases:
  assumes "maintRowOk d m" "mr_Status m \<noteq> MStatusClosed"
  shows "mr_Status m = MStatusNew \<and> closingSteps (mr_Status m) = [MStatusUnderReview, MStatusClosed] \<or>
     canTransition (mr_Status m) MStatusClosed \<and> closingSteps (mr_Status m) = [MStatusClosed]"
  using assms by (auto simp: maintRowOk_def validStatuses_def closingSteps_def canTransition_def allowedTransitions_def)

text \<open>C21. Every open maintenance request can be closed: when the database answers, a manager with the
  grant brings it to closed, with a closing time, by the status updates of closingSteps, at
  most two, all of which succeed.\<close>

theorem maintenance_can_close:
  assumes "no_faults w" and "manageable u m (db w)" and "mr_Status m \<noteq> MStatusClosed"
  shows "\<exists>ms w' n. mapE (\<lambda>s. maintUpdate u (mr_ID m) (statusUpdate s)) (closingSteps (mr_Status m)) w = (Inr ms, w') \<and>
     n \<in> set (maintenance_requests (db w')) \<and> mr_ID n = mr_ID m \<and> mr_Status n = MStatusClosed \<and> mr_ClosedAt n \<noteq> None"
proof -
  have v: "MStatusClosed \<in> set validStatuses" "MStatusUnderReview \<in> set validStatuses" by (simp_all add: validStatuses_def)
  have fin: "\<exists>n w'. maintUpdate u (mr_ID x) (statusUpdate MStatusClosed) v = (Inr (n, x), w') \<and> n \<in> set (maintenance_requests (db w')) \<and>
      mr_ID n = mr_ID x \<and> mr_Status n = MStatusClosed \<and> mr_ClosedAt n \<noteq> None"
    if h: "no_faults v" "manageable u x (db v)" and t: "canTransition (mr_Status x) MStatusClosed" for v x
  proof -
    have "MStatusClosed \<noteq> mr_Status x" using t closed_final by metis
    thus ?thesis using maintUpdate_runs [OF h v(1) _ t] by (fastforce simp: manageable_def)
  qed
  have "maintRowOk (db w) m" using assms(2) by (simp add: manageable_def)
  from closingSteps_cases [OF this assms(3)] show ?thesis
  proof (elim disjE conjE)
    assume new: "mr_Status m = MStatusNew" and st: "closingSteps (mr_Status m) = [MStatusUnderReview, MStatusClosed]"
    have t: "canTransition (mr_Status m) MStatusUnderReview" "MStatusUnderReview \<noteq> mr_Status m"
      "canTransition MStatusUnderReview MStatusClosed" using new by (simp_all add: canTransition_def allowedTransitions_def)
    obtain x w1 where x: "maintUpdate u (mr_ID m) (statusUpdate MStatusUnderReview) w = (Inr (x, m), w1)" "no_faults w1" "manageable u x (db w1)"
      "mr_ID x = mr_ID m" "mr_Status x = MStatusUnderReview" using maintUpdate_runs [OF assms(1,2) v(2) t(2,1)] by blast
    from fin [OF x(2,3)] obtain n w2 where "maintUpdate u (mr_ID x) (statusUpdate MStatusClosed) w1 = (Inr (n, x), w2)"
      "n \<in> set (maintenance_requests (db w2))" "mr_ID n = mr_ID x" "mr_Status n = MStatusClosed" "mr_ClosedAt n \<noteq> None"
      using t(3) x(5) by auto
    thus ?thesis using x(1,4) by (simp add: st bindE_def returnE_def) blast
  next
    assume "canTransition (mr_Status m) MStatusClosed" and st: "closingSteps (mr_Status m) = [MStatusClosed]"
    from fin [OF assms(1,2) this(1)] obtain n w2 where "maintUpdate u (mr_ID m) (statusUpdate MStatusClosed) w = (Inr (n, m), w2)"
      "n \<in> set (maintenance_requests (db w2))" "mr_ID n = mr_ID m" "mr_Status n = MStatusClosed" "mr_ClosedAt n \<noteq> None" by blast
    thus ?thesis by (simp add: st bindE_def returnE_def) blast
  qed
qed

section \<open>Examples\<close>

definition sampleRequest :: MaintenanceRequest where
  "sampleRequest = \<lparr>mr_ID = 91, mr_BuildingID = 1, mr_UnitID = Some 11, mr_SubmittedBy = 22, mr_Title = ''lift'', mr_Category = ''elevator'',
     mr_Description = None, mr_Location = None, mr_PhotoFile = None, mr_Priority = PriUrgent, mr_Status = MStatusNew,
     mr_AssigneePersonID = None, mr_RecordedCost = None, mr_Notes = None, mr_CreatedAt = 0, mr_UpdatedAt = 0, mr_ClosedAt = None\<rparr>"

definition maintWorld :: "db world" where
  "maintWorld = exampleWorld (sampleDb\<lparr>maintenance_requests := [sampleRequest]\<rparr>)"

lemma maintWorld_ok: "no_faults maintWorld" "manageable sampleManager sampleRequest (db maintWorld)"
  by (simp_all add: maintWorld_def no_faults_def exampleWorld_def manageable_def sampleDb_def sampleRequest_def maintRowOk_def
      validCategories_def validPriorities_def validStatuses_def mkBuilding_def sampleResident_def sampleManager_def mkUser_def mkUnit_def isGrant_def)

theorem maintenance_can_close_witness:
  "\<exists>ms w' n. mapE (\<lambda>s. maintUpdate sampleManager 91 (statusUpdate s)) [MStatusUnderReview, MStatusClosed] maintWorld = (Inr ms, w') \<and>
     n \<in> set (maintenance_requests (db w')) \<and> mr_ID n = 91 \<and> mr_Status n = MStatusClosed \<and> mr_ClosedAt n \<noteq> None"
  using maintenance_can_close [OF maintWorld_ok] by (simp add: sampleRequest_def closingSteps_def)

definition maintRun :: "db world" where
  "maintRun = snd (maintUpdate sampleManager 91 (statusUpdate MStatusUnderReview) maintWorld)"

theorem maintenance_lifecycle_witness:
  "\<exists>n. {x\<in>set (maintenance_requests (db maintRun)). mr_ID x = 91} = {n} \<and> canTransition\<^sup>*\<^sup>* MStatusNew (mr_Status n) \<and> mr_SubmittedBy n = 22"
proof -
  have "maint_step maintWorld maintRun" unfolding maintRun_def
    by (rule maint_step.update [of sampleManager 91 "statusUpdate MStatusUnderReview"]) (rule surjective_pairing)
  hence st: "maint_step\<^sup>*\<^sup>* maintWorld maintRun" by blast
  have "distinct (map mr_ID (maintenance_requests (db maintWorld)))" "sampleRequest \<in> set (maintenance_requests (db maintWorld))"
    using maintWorld_ok(2) by (simp_all add: manageable_def)
  from maintenance_lifecycle [OF st this] show ?thesis by (auto simp: sampleRequest_def)
qed

section \<open>The workflow of a request ends\<close>

definition stepsLeft :: "string \<Rightarrow> nat" where
  "stepsLeft s = (if s = MStatusNew then 4 else if s = MStatusUnderReview then 3 else if s = MStatusInProgress then 2 else if s = MStatusDone then 1 else 0)"

definition requestStatus :: "uuid \<Rightarrow> db \<Rightarrow> string option" where
  "requestStatus i d = map_option mr_Status (find (\<lambda>m. mr_ID m = i) (maintenance_requests d))"

lemma stepsLeft_le: "stepsLeft s \<le> 4"
  by (simp add: stepsLeft_def)

lemma canTransition_left: "canTransition s t \<Longrightarrow> stepsLeft t < stepsLeft s"
  by (auto simp: canTransition_def allowedTransitions_def stepsLeft_def split: if_splits)

lemma transitions_left:
  assumes "canTransition\<^sup>*\<^sup>* s t"
  shows "t = s \<or> stepsLeft t < stepsLeft s"
  using assms by (induction) (auto dest: canTransition_left intro: less_trans)

lemma requestStatus_kept:
  assumes "maint_rel d d'" and "distinct (map mr_ID (maintenance_requests d))" and "requestStatus i d = Some s"
  shows "\<exists>t. requestStatus i d' = Some t \<and> canTransition\<^sup>*\<^sup>* s t"
proof -
  obtain m where m: "m \<in> set (maintenance_requests d)" "mr_ID m = i" "mr_Status m = s"
    using assms(3) by (auto simp: requestStatus_def find_Some_iff in_set_conv_nth)
  have r: "distinct (map mr_ID (maintenance_requests d'))" "all_kept maintKept (maintenance_requests d) (maintenance_requests d')"
    using assms(1,2) by (simp_all add: maint_rel_def)
  obtain n where n: "n \<in> set (maintenance_requests d')" "maintKept m n" using all_keptD [OF r(2) m(1)] by blast
  moreover obtain x where x: "find (\<lambda>m. mr_ID m = i) (maintenance_requests d') = Some x"
    using n m(2) by (fastforce simp: find_None_iff maintKept_def)
  hence "x \<in> set (maintenance_requests d')" "mr_ID x = i" by (auto simp: find_Some_iff in_set_conv_nth)
  ultimately have "x = n" using m(2) by (intro rows_inj [OF r(1)]) (auto simp: maintKept_def)
  thus ?thesis using x n(2) m(3) by (auto simp: requestStatus_def maintKept_def)
qed

text \<open>C40. The workflow of a maintenance request ends: in every infinite sequence of submissions,
  manager updates and other requests the status of a request changes at most four times, so
  that from some point on it is fixed.\<close>

theorem maintenance_settles:
  assumes "\<And>n. maint_step (ws n) (ws (Suc n))" and "distinct (map mr_ID (maintenance_requests (db (ws 0))))" and "requestStatus i (db (ws 0)) \<noteq> None"
  shows "finite {n. requestStatus i (db (ws (Suc n))) \<noteq> requestStatus i (db (ws n))} \<and> card {n. requestStatus i (db (ws (Suc n))) \<noteq> requestStatus i (db (ws n))} \<le> 4"
proof -
  let ?r = "\<lambda>n. stepsLeft (the (requestStatus i (db (ws n))))"
  have ok: "distinct (map mr_ID (maintenance_requests (db (ws n)))) \<and> requestStatus i (db (ws n)) \<noteq> None" for n
  proof (induction n)
    case (Suc n)
    thus ?case using requestStatus_kept [OF maint_step_rel [OF assms(1)], of n] maint_step_rel [OF assms(1), of n] by (auto simp: maint_rel_def)
  qed (use assms in simp)
  have d: "requestStatus i (db (ws (Suc n))) = requestStatus i (db (ws n)) \<or> ?r (Suc n) < ?r n" for n
    using requestStatus_kept [OF maint_step_rel [OF assms(1)], of n] ok [of n] transitions_left by fastforce
  hence eq: "{n. requestStatus i (db (ws (Suc n))) \<noteq> requestStatus i (db (ws n))} = {n. ?r (Suc n) < ?r n}" by fastforce
  have "?r (Suc n) \<le> ?r n" for n using d [of n] by auto
  from drops_bounded [of ?r, OF this] show ?thesis unfolding eq using stepsLeft_le order_trans by blast
qed

definition maintStream :: "nat \<Rightarrow> db world" where
  "maintStream n = (if n = 0 then maintWorld else maintRun)"

theorem maintenance_settles_witness:
  "card {n. requestStatus 91 (db (maintStream (Suc n))) \<noteq> requestStatus 91 (db (maintStream n))} \<le> 4 \<and> requestStatus 91 (db (maintStream 0)) = Some MStatusNew \<and>
   requestStatus 91 (db (maintStream 1)) = Some MStatusUnderReview"
proof -
  have s: "requestStatus 91 (db (maintStream 0)) = Some MStatusNew" "requestStatus 91 (db (maintStream 1)) = Some MStatusUnderReview" by code_simp+
  have "maint_step (maintStream n) (maintStream (Suc n))" for n
    unfolding maintStream_def maintRun_def
    by (auto intro: maint_step.other maint_step.update [of sampleManager 91 "statusUpdate MStatusUnderReview", OF surjective_pairing])
  from maintenance_settles [of maintStream 91, OF this] s maintWorld_ok(2) show ?thesis
    by (simp add: manageable_def maintStream_def)
qed

end
