(* ===== verification/Gateway.thy ===== *)
theory Gateway
  imports Database GoStd
begin

text \<open>
  \<open>internal/payment/gateway/gateway.go\<close>: the gateway contract, the Zarinpal adapter and the
  mock. The HTTP exchange of the Zarinpal adapter is the parameter \<open>post\<close> (URL and payload
  to a decoded envelope or an error); \<open>fmtTime\<close> renders a time with the layouts of the mock.
\<close>

record StartRequest =
  sr_AmountToman :: int
  sr_CallbackURL :: string
  sr_Description :: string

record StartResult =
  st_PayURL :: string
  st_Authority :: string

record VerifyResult =
  vr_OK :: bool
  vr_RefID :: string

definition ErrVerifyFailed :: go_error where "ErrVerifyFailed = Sentinel ''ErrVerifyFailed''"
definition ErrAmountMismatch :: go_error where "ErrAmountMismatch = Sentinel ''ErrAmountMismatch''"

record PaymentGateway =
  gw_Name :: string
  gw_Start :: "StartRequest \<Rightarrow> StartResult dbm"
  gw_Verify :: "string \<Rightarrow> int \<Rightarrow> VerifyResult dbm"

text \<open>The contract of a gateway towards the service: its calls do not write to our database.\<close>

locale payment_gateway =
  fixes gw :: PaymentGateway
  assumes start_reads: "reads (gw_Start gw req)"
    and verify_reads: "reads (gw_Verify gw authority amount)"

section \<open>Zarinpal\<close>

datatype json = JStr string | JNum rat | JOther

record zarinpalEnvelope =
  env_Data :: "(string \<times> json) list option"
  env_Errors :: "(string \<times> json) list"

record Zarinpal =
  z_MerchantID :: string
  z_Sandbox :: bool

type_synonym http_post = "string \<Rightarrow> (string \<times> json) list \<Rightarrow> zarinpalEnvelope result"

definition zarinpalHost :: "Zarinpal \<Rightarrow> string" where
  "zarinpalHost z = (if z_Sandbox z then ''sandbox.zarinpal.com'' else ''payment.zarinpal.com'')"

definition zarinpalRial :: "int \<Rightarrow> int" where
  "zarinpalRial toman = i64 (toman * 10)"

definition jsonString :: "(string \<times> json) list \<Rightarrow> string \<Rightarrow> string" where
  "jsonString m k = (case map_of m k of Some (JStr s) \<Rightarrow> s | _ \<Rightarrow> '''')"

definition zarinpalStart :: "http_post \<Rightarrow> Zarinpal \<Rightarrow> StartRequest \<Rightarrow> StartResult result" where
  "zarinpalStart post z req =
     bindR (post (''https://'' @ zarinpalHost z @ ''/pg/v4/payment/request.json'')
       [(''merchant_id'', JStr (z_MerchantID z)), (''amount'', JNum (of_int (zarinpalRial (sr_AmountToman req)))),
        (''callback_url'', JStr (sr_CallbackURL req)), (''description'', JStr (sr_Description req))]) (\<lambda>env.
     case env_Data env of
       None \<Rightarrow> Inl (Sentinel ''zarinpal: request rejected'')
     | Some data \<Rightarrow>
         if env_Errors env \<noteq> [] then Inl (Sentinel ''zarinpal: request rejected'')
         else let authority = jsonString data ''authority''
         in if authority = '''' then Inl (Sentinel ''zarinpal: missing authority'')
         else Inr \<lparr>st_PayURL = ''https://'' @ zarinpalHost z @ ''/pg/StartPay/'' @ authority,
                   st_Authority = authority\<rparr>)"

text \<open>\<open>int64(code)\<close> truncates the decoded number.\<close>

definition zarinpalCode :: "(string \<times> json) list option \<Rightarrow> int" where
  "zarinpalCode data = (case data of None \<Rightarrow> 0 | Some m \<Rightarrow>
     (case map_of m ''code'' of Some (JNum r) \<Rightarrow> (if r \<ge> 0 then \<lfloor>r\<rfloor> else \<lceil>r\<rceil>) | _ \<Rightarrow> 0))"

definition zarinpalVerify :: "http_post \<Rightarrow> Zarinpal \<Rightarrow> string \<Rightarrow> int \<Rightarrow> VerifyResult result" where
  "zarinpalVerify post z authority amount =
     bindR (post (''https://'' @ zarinpalHost z @ ''/pg/v4/payment/verify.json'')
       [(''merchant_id'', JStr (z_MerchantID z)), (''amount'', JNum (of_int (zarinpalRial amount))),
        (''authority'', JStr authority)]) (\<lambda>env.
     if env_Errors env \<noteq> [] then Inl ErrVerifyFailed
     else if zarinpalCode (env_Data env) = 100 \<or> zarinpalCode (env_Data env) = 101
       then Inr \<lparr>vr_OK = True, vr_RefID = jsonString (case env_Data env of None \<Rightarrow> [] | Some m \<Rightarrow> m) ''ref_id''\<rparr>
     else Inl ErrVerifyFailed)"

definition zarinpalGateway :: "http_post \<Rightarrow> Zarinpal \<Rightarrow> PaymentGateway" where
  "zarinpalGateway post z = \<lparr>gw_Name = ''zarinpal'', gw_Start = (\<lambda>req. liftE (zarinpalStart post z req)),
     gw_Verify = (\<lambda>authority amount. liftE (zarinpalVerify post z authority amount))\<rparr>"

interpretation zarinpal: payment_gateway "zarinpalGateway post z"
  by unfold_locales (auto simp: zarinpalGateway_def)

section \<open>Mock\<close>

record Mock =
  mock_FailNext :: bool
  mock_MismatchNext :: bool

definition mockStart :: "(int \<Rightarrow> string) \<Rightarrow> StartRequest \<Rightarrow> StartResult dbm" where
  "mockStart fmtTime req = bindE timeNow (\<lambda>t.
     let authority = ''MOCK-'' @ fmtTime t;
         sep = (if isInfixOf ''?'' (sr_CallbackURL req) then ''&'' else ''?'')
     in returnE \<lparr>st_PayURL = sr_CallbackURL req @ sep @ ''Authority='' @ authority, st_Authority = authority\<rparr>)"

text \<open>The mock clears the flag it consumes; the second component is its state after the call.\<close>

definition mockVerify :: "(int \<Rightarrow> string) \<Rightarrow> Mock \<Rightarrow> int \<Rightarrow> VerifyResult result \<times> Mock" where
  "mockVerify fmtTime k now =
     (if mock_MismatchNext k then (Inl ErrAmountMismatch, k\<lparr>mock_MismatchNext := False\<rparr>)
      else if mock_FailNext k then (Inl ErrVerifyFailed, k\<lparr>mock_FailNext := False\<rparr>)
      else (Inr \<lparr>vr_OK = True, vr_RefID = ''MOCKREF-'' @ fmtTime now\<rparr>, k))"

definition mockGateway :: "(int \<Rightarrow> string) \<Rightarrow> Mock \<Rightarrow> PaymentGateway" where
  "mockGateway fmtTime k = \<lparr>gw_Name = ''mock'', gw_Start = mockStart fmtTime,
     gw_Verify = (\<lambda>_ _. bindE timeNow (\<lambda>t. liftE (fst (mockVerify fmtTime k t))))\<rparr>"

interpretation mock: payment_gateway "mockGateway fmtTime k"
  by unfold_locales (auto simp: mockGateway_def mockStart_def Let_def)

end
