(* ===== verification/Payment_Service.thy ===== *)
theory Payment_Service
  imports Payment_Repo Gateway
begin

text \<open>
  \<open>internal/payment/service.go\<close>: manual payments, gateway start and callback, balances and
  ledger queries. A \<open>PaymentService\<close> is the record of its configuration; \<open>uuid.Parse\<close> is
  the parameter \<open>parse\<close>.
\<close>

record PaymentService =
  svc_gw :: PaymentGateway
  svc_callback :: string
  svc_webReturn :: string

definition NewPaymentService :: "PaymentGateway \<Rightarrow> string \<Rightarrow> string \<Rightarrow> PaymentService" where
  "NewPaymentService gw callbackURL webReturnURL =
     \<lparr>svc_gw = gw, svc_callback = callbackURL, svc_webReturn = trimRightChar (CHR ''/'') webReturnURL\<rparr>"

section \<open>Return URLs\<close>

definition badPath :: "string \<Rightarrow> bool" where
  "badPath path \<longleftrightarrow> \<not> hasPrefix path ''/'' \<or> hasPrefix path ''//'' \<or> isInfixOf [CHR ''/'', CHR 0x5C] path"

definition callbackURLFor :: "PaymentService \<Rightarrow> string \<Rightarrow> string" where
  "callbackURLFor s returnPath =
     (if trimRightChar (CHR ''/'') (svc_webReturn s) = '''' \<or> returnPath = '''' then svc_callback s
      else if badPath returnPath then svc_callback s
      else let sep = (if isInfixOf ''?'' (svc_callback s) then ''&'' else ''?'')
      in svc_callback s @ sep @ ''return_path='' @ queryEscape returnPath)"

text \<open>\<open>url.Values.Encode\<close> sorts the parameters by name.\<close>

definition BrowserReturnURL :: "PaymentService \<Rightarrow> string \<Rightarrow> string \<Rightarrow> string \<Rightarrow> string \<Rightarrow> string" where
  "BrowserReturnURL s path0 paymentID st invoiceID =
     (let base = trimRightChar (CHR ''/'') (svc_webReturn s)
      in if base = '''' then ''''
      else let path = (if path0 = '''' \<or> badPath path0 then ''/payment/result'' else path0)
      in base @ path @ ''?'' @
         (if invoiceID \<noteq> '''' then ''invoice_id='' @ queryEscape invoiceID @ ''&'' else '''') @
         ''payment_id='' @ queryEscape paymentID @ ''&status='' @ queryEscape st)"

section \<open>Applying money to an invoice\<close>

record paymentApplication =
  pa_applied :: money
  pa_status :: string

definition outstandingOf :: "ledgerInvoice \<Rightarrow> money" where
  "outstandingOf l = (let o' = i64 (effective l - li_PaidAmount l) in if o' < 0 then 0 else o')"

definition applyToInvoice :: "ledgerInvoice \<Rightarrow> money \<Rightarrow> paymentApplication" where
  "applyToInvoice l amount =
     (let eff = effective l;
          outstanding = outstandingOf l;
          applied = (if amount > outstanding then outstanding else amount);
          newPaid = i64 (li_PaidAmount l + applied)
      in \<lparr>pa_applied = applied,
          pa_status = (if newPaid \<ge> eff then InvoicePaid else if newPaid > 0 then InvoicePartial else InvoiceUnpaid)\<rparr>)"

section \<open>Access\<close>

definition canAccessUnit :: "User \<Rightarrow> uuid \<Rightarrow> bool dbm" where
  "canAccessUnit u uid =
     bindE (repoUnitByID uid) (\<lambda>un.
     if usr_Role u = RoleManager then payIsManagerOf (usr_ID u) (un_BuildingID un)
     else bindE (repoResidentUnitIDs (usr_Phone u)) (\<lambda>us. returnE (uid \<in> set us)))"

definition payAuthorizedInvoice :: "User \<Rightarrow> uuid \<Rightarrow> ledgerInvoice dbm" where
  "payAuthorizedInvoice u iid =
     bindE (mapErr (\<lambda>e. if e = RecordNotFound then AppErr (NotFound ''msgInvoiceNotFound'') else e)
        (repoInvoiceForUpdate iid)) (\<lambda>l.
     bindE (canAccessUnit u (li_UnitID l)) (\<lambda>ok.
     thenE (throwIf (\<not> ok) (AppErr (Forbidden ''msgNotPermitted''))) (returnE l)))"

section \<open>Notification text\<close>

fun groupDigits :: "nat \<Rightarrow> string \<Rightarrow> string" where
  "groupDigits i [] = []"
| "groupDigits i (c # s) = (if i > 0 \<and> Suc (length s) mod 3 = 0 then [CHR '','', c] else [c]) @ groupDigits (Suc i) s"

definition formatToman :: "money \<Rightarrow> string" where
  "formatToman v = (let s = showInt v in if length s \<le> 3 then s else groupDigits 0 s)"

definition notifyRecorded :: "Payment \<Rightarrow> unit dbm" where
  "notifyRecorded p = bindE (tryE (payOccupantUserIDs (pay_UnitID p))) (\<lambda>r.
     case r of Inl _ \<Rightarrow> returnE ()
     | Inr uids \<Rightarrow> forE uids (\<lambda>uid. ignoreE (notifCreate uid ''payment_recorded'' ''payment recorded''
         (''a payment of '' @ formatToman (pay_Amount p) @ '' toman was recorded for your unit'')
         (Some ''payment'') (Some (pay_ID p)))))"

section \<open>Manual payments\<close>

record ManualPaymentInput =
  mpi_Amount :: string
  mpi_PaidAt :: string
  mpi_TrackingNumber :: string

definition paidAtOf :: "string \<Rightarrow> int dbm" where
  "paidAtOf s = (if s = '''' then bindE timeNow (\<lambda>t. returnE (dateOf t))
     else case parseDate s of None \<Rightarrow> throwE (AppErr (BadRequest ''invalid payment date'')) | Some d \<Rightarrow> returnE d)"

text \<open>The transaction of a verified payment: the row, the invoice, the balance.\<close>

definition settleManual :: "Payment \<Rightarrow> ledgerInvoice \<Rightarrow> uuid \<Rightarrow> money \<Rightarrow> Payment dbm" where
  "settleManual p l iid amount =
     (let app = applyToInvoice l amount
      in transaction (
         bindE (repoCreatePayment p) (\<lambda>p'.
         thenE (repoApplyInvoicePaid iid (i64 (li_PaidAmount l + pa_applied app)) (pa_status app))
         (bindE (recomputeBalance (li_UnitID l)) (\<lambda>_. returnE p')))))"

definition manualPayment :: "uuid \<Rightarrow> User \<Rightarrow> uuid \<Rightarrow> ledgerInvoice \<Rightarrow> money \<Rightarrow> int \<Rightarrow> string \<Rightarrow> Payment" where
  "manualPayment pid u iid l amount paidAt tracking =
     \<lparr>pay_ID = pid, pay_BuildingID = li_BuildingID l, pay_UnitID = li_UnitID l, pay_InvoiceID = Some iid,
      pay_Method = MethodManual, pay_Amount = amount, pay_PaidAt = paidAt,
      pay_TrackingNumber = (if tracking \<noteq> '''' then Some tracking else None), pay_Gateway = None,
      pay_Authority = None, pay_RecordedBy = Some (usr_ID u), pay_Status = StatusVerified,
      pay_CreatedAt = 0, pay_UpdatedAt = 0\<rparr>"

definition RecordManual :: "User \<Rightarrow> uuid \<Rightarrow> ManualPaymentInput \<Rightarrow> Payment dbm" where
  "RecordManual u iid inp =
     thenE (throwIf (usr_Role u \<noteq> RoleManager) (AppErr (Forbidden ''msgNotPermitted'')))
     (case parseInt64 (mpi_Amount inp) of None \<Rightarrow> throwE (AppErr (BadRequest ''msgAmountInvalid''))
      | Some amount \<Rightarrow>
        thenE (throwIf (amount \<le> 0) (AppErr (BadRequest ''msgAmountInvalid'')))
        (bindE (paidAtOf (mpi_PaidAt inp)) (\<lambda>paidAt.
         bindE (payAuthorizedInvoice u iid) (\<lambda>l.
         thenE (throwIf (li_Status l = InvoiceCanceled) (AppErr (Conflict ''msgInvoiceCancelled'')))
         (bindE newUUID (\<lambda>pid.
          bindE (settleManual (manualPayment pid u iid l amount paidAt (mpi_TrackingNumber inp)) l iid amount) (\<lambda>p.
          thenE (notifyRecorded p) (returnE p))))))))"

section \<open>Gateway payments\<close>

definition StartGateway ::
  "PaymentService \<Rightarrow> User \<Rightarrow> uuid \<Rightarrow> money option \<Rightarrow> string \<Rightarrow> (Payment \<times> string) dbm" where
  "StartGateway s u iid amount returnPath =
     bindE (payAuthorizedInvoice u iid) (\<lambda>l.
     thenE (throwIf (li_Status l = InvoiceCanceled) (AppErr (Conflict ''msgInvoiceCancelled'')))
     (thenE (throwIf (case amount of Some a \<Rightarrow> a \<le> 0 | None \<Rightarrow> False) (AppErr (BadRequest ''msgAmountInvalid'')))
     (let amt = (case amount of Some a \<Rightarrow> a | None \<Rightarrow> outstandingOf l)
      in thenE (throwIf (amt \<le> 0) (AppErr (Conflict ''no outstanding debt'')))
     (bindE (mapErr (\<lambda>_. AppErr (Internal ''gateway unreachable''))
        (gw_Start (svc_gw s) \<lparr>sr_AmountToman = amt, sr_CallbackURL = callbackURLFor s returnPath,
           sr_Description = ''invoice '' @ li_InvoiceNumber l\<rparr>)) (\<lambda>res.
      bindE newUUID (\<lambda>pid. bindE timeNow (\<lambda>now.
      bindE (repoCreatePayment \<lparr>pay_ID = pid, pay_BuildingID = li_BuildingID l, pay_UnitID = li_UnitID l,
         pay_InvoiceID = Some iid, pay_Method = MethodGateway, pay_Amount = amt, pay_PaidAt = dateOf now,
         pay_TrackingNumber = None, pay_Gateway = Some (gw_Name (svc_gw s)),
         pay_Authority = Some (st_Authority res), pay_RecordedBy = Some (usr_ID u), pay_Status = StatusRecorded,
         pay_CreatedAt = 0, pay_UpdatedAt = 0\<rparr>) (\<lambda>p.
      returnE (p, st_PayURL res)))))))))"

definition findCallbackPayment :: "(string \<Rightarrow> uuid option) \<Rightarrow> string \<Rightarrow> string \<Rightarrow> Payment dbm" where
  "findCallbackPayment parse paymentID authority =
     (if paymentID \<noteq> '''' then
        (case parse paymentID of None \<Rightarrow> throwE (AppErr (NotFound ''msgCallbackUnknown''))
         | Some pid \<Rightarrow> mapErr (\<lambda>_. AppErr (NotFound ''msgCallbackUnknown'')) (repoGetPayment pid))
      else if authority \<noteq> '''' then
        mapErr (\<lambda>_. AppErr (NotFound ''msgCallbackUnknown'')) (repoGetPaymentByAuthority authority)
      else throwE (AppErr (BadRequest ''payment_id or Authority required'')))"

definition settleGateway :: "Payment \<Rightarrow> Payment dbm" where
  "settleGateway p = transaction (
     bindE (repoSavePayment p) (\<lambda>p'.
     case pay_InvoiceID p of None \<Rightarrow> returnE p'
     | Some iid \<Rightarrow>
       bindE (repoInvoiceForUpdate iid) (\<lambda>l.
       let app = applyToInvoice l (pay_Amount p)
       in thenE (repoApplyInvoicePaid (li_ID l) (i64 (li_PaidAmount l + pa_applied app)) (pa_status app))
          (bindE (recomputeBalance (li_UnitID l)) (\<lambda>_. returnE p')))))"

definition finishCallback :: "PaymentService \<Rightarrow> Payment \<Rightarrow> Payment dbm" where
  "finishCallback s p =
     (case pay_Authority p of
        Some authority \<Rightarrow>
          if pay_Status p \<noteq> StatusRecorded \<or> pay_Method p \<noteq> MethodGateway then returnE p
          else bindE (tryE (gw_Verify (svc_gw s) authority (pay_Amount p))) (\<lambda>res.
          case res of
            Inl _ \<Rightarrow> repoSavePayment (p\<lparr>pay_Status := StatusFailed\<rparr>)
          | Inr v \<Rightarrow>
            if \<not> vr_OK v then repoSavePayment (p\<lparr>pay_Status := StatusFailed\<rparr>)
            else bindE (settleGateway (p\<lparr>pay_Status := StatusVerified, pay_TrackingNumber := Some (vr_RefID v)\<rparr>)) (\<lambda>p'.
                 thenE (notifyRecorded p') (returnE p')))
      | None \<Rightarrow> returnE p)"

definition HandleCallback :: "(string \<Rightarrow> uuid option) \<Rightarrow> PaymentService \<Rightarrow> string \<Rightarrow> string \<Rightarrow> Payment dbm" where
  "HandleCallback parse s paymentID authority =
     bindE (findCallbackPayment parse paymentID authority) (finishCallback s)"

section \<open>Balances and ledgers\<close>

definition UnitBalanceFor :: "User \<Rightarrow> uuid \<Rightarrow> UnitBalance dbm" where
  "UnitBalanceFor u uid =
     bindE (mapErr (\<lambda>e. if e = RecordNotFound then AppErr (NotFound ''unit not found'') else e) (canAccessUnit u uid)) (\<lambda>ok.
     thenE (throwIf (\<not> ok) (AppErr (Forbidden ''msgNotPermitted''))) (RecomputeUnit uid))"

definition BuildingLedger :: "User \<Rightarrow> uuid \<Rightarrow> PaymentFilter \<Rightarrow> (Payment list \<times> int) dbm" where
  "BuildingLedger u bid f =
     thenE (throwIf (usr_Role u \<noteq> RoleManager) (AppErr (Forbidden ''msgNotPermitted'')))
     (bindE (payIsManagerOf (usr_ID u) bid) (\<lambda>ok.
      thenE (throwIf (\<not> ok) (AppErr (Forbidden ''msgNotPermitted'')))
      (repoListPayments (f\<lparr>pf_BuildingID := bid\<rparr>))))"

definition MyPayments :: "User \<Rightarrow> PaymentFilter \<Rightarrow> (Payment list \<times> int) dbm" where
  "MyPayments u f =
     bindE (repoResidentUnitIDs (usr_Phone u)) (\<lambda>us.
     if us = [] then returnE ([], 0) else repoListPayments (f\<lparr>pf_UnitIDs := us\<rparr>))"

end
