(* ===== verification/Payment_Ledger.thy ===== *)
theory Payment_Ledger
  imports Payment_Service Billing_Machine Samples
begin

text \<open>
  Properties of payments and balances: the balance service is an environment of billing in
  the sense of \<open>billing_env\<close>, payments never touch the frozen part of the ledger, a payment is
  recorded completely or not at all, and the stored balance of a unit is the one its invoices,
  adjustments and payments determine.
\<close>

section \<open>The balance service as the environment of billing\<close>

lemma reads_BalanceSnapshot: "reads (BalanceSnapshot uid)"
  unfolding BalanceSnapshot_def repoGetUnitBalance_def
  by (rule reads_bindE, rule reads_tryE, rule reads_rules) (auto split: sum.splits)

lemma obeys_recomputeBalance: "obeys billing_rel (recomputeBalance uid)"
  unfolding recomputeBalance_def Let_def
  by (intro obeys_intros obeys_env obeys_plain) (auto simp: upsertBalance_def split: if_splits)

lemma obeys_RecomputeInvoice: "obeys billing_rel (RecomputeInvoice iid)"
  unfolding RecomputeInvoice_def
proof (rule obeys_bind)
  fix r :: "uuid option"
  show "obeys billing_rel (case r of None \<Rightarrow> returnE ()
     | Some uid \<Rightarrow> if uid = uuidNil then returnE () else bindE (recomputeBalance uid) (\<lambda>_. returnE ()))"
    by (cases r) (auto intro!: obeys_bind obeys_recomputeBalance obeys_env)
qed (rule obeys_env)

interpretation app: billing_env BalanceSnapshot "Some RecomputeInvoice"
  by unfold_locales (auto intro: reads_BalanceSnapshot obeys_RecomputeInvoice)

section \<open>Payment operations and the ledger\<close>

lemma obeys_applyPaid: "obeys billing_rel (repoApplyInvoicePaid iid newPaid st)"
proof -
  have "obeys billing_rel (exec (updateInvoices (\<lambda>i. inv_ID i = iid)
      (\<lambda>i. i\<lparr>inv_PaidAmount := newPaid, inv_Status := st, inv_UpdatedAt := t\<rparr>)))" for t
    by (rule obeys_exec [OF billing_rel_trans], erule billing_rel_updateInvoices)
       (auto simp: sameInvoice_def invoiceAmounts_def invoiceOwner_def)
  thus ?thesis unfolding repoApplyInvoicePaid_def by (intro obeys_intros obeys_env)
qed

lemma obeys_payment_rows:
  "obeys billing_rel (repoCreatePayment p)" "obeys billing_rel (repoSavePayment p)"
  unfolding repoCreatePayment_def repoSavePayment_def Let_def
  by (intro obeys_intros obeys_env obeys_plain; auto simp: insertPayment_def storePayment_def split: if_splits)+

lemma reads_payment [intro]:
  "reads (repoInvoiceForUpdate iid)" "reads (repoGetPayment pid)" "reads (repoGetPaymentByAuthority a)"
  "reads (payOccupantUserIDs uid)" "reads (repoResidentUnitIDs ph)" "reads (payIsManagerOf uid bid)"
  "reads (repoUnitByID uid)" "reads (repoListPayments f)"
  unfolding repoInvoiceForUpdate_def repoGetPayment_def repoGetPaymentByAuthority_def payOccupantUserIDs_def
    repoResidentUnitIDs_def payIsManagerOf_def repoUnitByID_def repoListPayments_def Let_def
  by (intro atom)+

lemma reads_canAccessUnit [intro]: "reads (canAccessUnit u uid)"
  unfolding canAccessUnit_def by (rule reads_bindE) (auto intro!: atom reads_payment)

lemma reads_payAuthorizedInvoice [intro]: "reads (payAuthorizedInvoice u iid)"
  unfolding payAuthorizedInvoice_def by (intro atom reads_payment reads_canAccessUnit)

lemma reads_paidAtOf [intro]: "reads (paidAtOf s)"
  unfolding paidAtOf_def by (cases "parseDate s") (auto intro!: atom)

lemma obeys_notifyRecorded: "obeys billing_rel (notifyRecorded p)"
  unfolding notifyRecorded_def
proof (rule obeys_bind)
  show "obeys billing_rel (tryE (payOccupantUserIDs (pay_UnitID p)))" by (rule obeys_reads) blast
  fix r :: "uuid list result"
  show "obeys billing_rel (case r of Inl _ \<Rightarrow> returnE ()
     | Inr uids \<Rightarrow> forE uids (\<lambda>uid. ignoreE (notifCreate uid ''payment_recorded'' ''payment recorded''
         (''a payment of '' @ formatToman (pay_Amount p) @ '' toman was recorded for your unit'')
         (Some ''payment'') (Some (pay_ID p)))))"
  proof (cases r)
    case (Inl e)
    thus ?thesis by (simp add: obeys_env)
  next
    case (Inr uids)
    show ?thesis unfolding Inr sum.case by (intro obeys_for obeys_ignore obeys_side_channels)
  qed
qed

lemma obeys_settleManual: "obeys billing_rel (settleManual p l iid amount)"
  unfolding settleManual_def Let_def
  by (intro obeys_intros obeys_env obeys_payment_rows obeys_applyPaid obeys_recomputeBalance)

lemma obeys_RecordManual: "obeys billing_rel (RecordManual u iid inp)"
proof (cases "parseInt64 (mpi_Amount inp)")
  case None
  thus ?thesis unfolding RecordManual_def by (simp, intro obeys_intros obeys_env)
next
  case (Some amount)
  show ?thesis unfolding RecordManual_def Some option.case
    by (intro obeys_intros obeys_env obeys_reads [OF reads_paidAtOf] obeys_reads [OF reads_payAuthorizedInvoice]
        obeys_settleManual obeys_notifyRecorded)
qed

lemma obeys_settleGateway: "obeys billing_rel (settleGateway p)"
proof (cases "pay_InvoiceID p")
  case None
  thus ?thesis unfolding settleGateway_def
    by (simp, intro obeys_intros obeys_env obeys_payment_rows)
next
  case (Some iid)
  show ?thesis unfolding settleGateway_def Some option.case Let_def
    by (intro obeys_intros obeys_env obeys_payment_rows obeys_reads [OF reads_payment(1)] obeys_applyPaid
        obeys_recomputeBalance)
qed

context payment_gateway
begin

lemma obeys_StartGateway: "svc_gw s = gw \<Longrightarrow> obeys billing_rel (StartGateway s u iid amount rp)"
  unfolding StartGateway_def Let_def
  by (intro obeys_intros obeys_env obeys_reads [OF reads_payAuthorizedInvoice] obeys_payment_rows)
     (simp add: obeys_reads start_reads)

lemma obeys_finishCallback:
  assumes "svc_gw s = gw" shows "obeys billing_rel (finishCallback s p)"
proof (cases "pay_Authority p")
  case None
  thus ?thesis by (simp add: finishCallback_def obeys_env)
next
  case (Some a)
  have "obeys billing_rel (case res of Inl _ \<Rightarrow> repoSavePayment (p\<lparr>pay_Status := StatusFailed\<rparr>)
      | Inr v \<Rightarrow> if \<not> vr_OK v then repoSavePayment (p\<lparr>pay_Status := StatusFailed\<rparr>)
        else bindE (settleGateway (p\<lparr>pay_Status := StatusVerified, pay_TrackingNumber := Some (vr_RefID v)\<rparr>)) (\<lambda>p'.
             thenE (notifyRecorded p') (returnE p')))" for res :: "VerifyResult result"
    by (cases res) (auto intro!: obeys_payment_rows obeys_bind obeys_then obeys_settleGateway obeys_notifyRecorded obeys_env)
  hence "obeys billing_rel (bindE (tryE (gw_Verify (svc_gw s) a (pay_Amount p))) (\<lambda>res.
      case res of Inl _ \<Rightarrow> repoSavePayment (p\<lparr>pay_Status := StatusFailed\<rparr>)
      | Inr v \<Rightarrow> if \<not> vr_OK v then repoSavePayment (p\<lparr>pay_Status := StatusFailed\<rparr>)
        else bindE (settleGateway (p\<lparr>pay_Status := StatusVerified, pay_TrackingNumber := Some (vr_RefID v)\<rparr>)) (\<lambda>p'.
             thenE (notifyRecorded p') (returnE p'))))"
    using assms verify_reads by (intro obeys_bind obeys_reads [OF reads_tryE]) auto
  thus ?thesis unfolding finishCallback_def Some option.case by (simp add: obeys_env)
qed

lemma reads_findCallbackPayment: "reads (findCallbackPayment parse paymentID authority)"
  unfolding findCallbackPayment_def by (auto intro!: atom reads_payment split: option.splits)

lemma obeys_HandleCallback: "svc_gw s = gw \<Longrightarrow> obeys billing_rel (HandleCallback parse s paymentID authority)"
  unfolding HandleCallback_def
  by (intro obeys_bind obeys_reads [OF reads_findCallbackPayment] obeys_finishCallback)

end

lemma obeys_ReversePayment: "obeys billing_rel (ReversePayment pid)"
  unfolding ReversePayment_def
  by (intro obeys_intros obeys_env obeys_reads [OF reads_payment(2)] obeys_payment_rows obeys_recomputeBalance)

section \<open>Applying money\<close>

text \<open>Amounts far from the bounds of \<open>int64\<close>.\<close>

definition ledger_in_range :: "ledgerInvoice \<Rightarrow> bool" where
  "ledger_in_range l \<longleftrightarrow> \<bar>li_FinalAmount l\<bar> < 2 ^ 60 \<and> \<bar>li_DebitAdj l\<bar> < 2 ^ 60 \<and> \<bar>li_CreditAdj l\<bar> < 2 ^ 60 \<and>
     0 \<le> li_PaidAmount l \<and> li_PaidAmount l < 2 ^ 60"

lemma effective_exact: "ledger_in_range l \<Longrightarrow> effective l = li_FinalAmount l + li_DebitAdj l - li_CreditAdj l"
  unfolding effective_def by (rule i64_id) (auto simp: ledger_in_range_def in64_def)

lemma outstandingOf_exact:
  "ledger_in_range l \<Longrightarrow> outstandingOf l = max 0 (li_FinalAmount l + li_DebitAdj l - li_CreditAdj l - li_PaidAmount l)"
proof -
  assume r: "ledger_in_range l"
  let ?o = "li_FinalAmount l + li_DebitAdj l - li_CreditAdj l - li_PaidAmount l"
  have "i64 ?o = ?o" by (rule i64_id) (use r in \<open>auto simp: ledger_in_range_def in64_def\<close>)
  thus ?thesis by (simp add: outstandingOf_def effective_exact [OF r] max_def)
qed

lemma applyToInvoice_exact:
  assumes "ledger_in_range l" "0 < amount"
  defines "eff \<equiv> li_FinalAmount l + li_DebitAdj l - li_CreditAdj l"
  shows "pa_applied (applyToInvoice l amount) = min amount (max 0 (eff - li_PaidAmount l))"
    and "i64 (li_PaidAmount l + pa_applied (applyToInvoice l amount)) = li_PaidAmount l + pa_applied (applyToInvoice l amount)"
proof -
  show *: "pa_applied (applyToInvoice l amount) = min amount (max 0 (eff - li_PaidAmount l))"
    unfolding applyToInvoice_def Let_def outstandingOf_exact [OF assms(1)] eff_def by simp linarith
  show "i64 (li_PaidAmount l + pa_applied (applyToInvoice l amount)) = li_PaidAmount l + pa_applied (applyToInvoice l amount)"
    unfolding * using assms(1,2) by (intro i64_id) (auto simp: ledger_in_range_def in64_def eff_def min_def max_def)
qed

text \<open>Applying money to an invoice: the applied amount is between zero and the payment, the
  invoice is never paid beyond its effective amount, a surplus is left over only when the
  invoice is settled, and the new status is paid exactly when the effective amount is covered
  and partial exactly when something but not everything is paid.\<close>

theorem applyToInvoice_spec:
  assumes "ledger_in_range l" and "0 < amount"
  shows "let app = applyToInvoice l amount; eff = li_FinalAmount l + li_DebitAdj l - li_CreditAdj l;
             newPaid = li_PaidAmount l + pa_applied app
         in 0 \<le> pa_applied app \<and> pa_applied app \<le> amount \<and> newPaid \<le> max eff (li_PaidAmount l) \<and>
            (pa_applied app < amount \<longrightarrow> eff \<le> newPaid) \<and>
            (pa_status app = InvoicePaid \<longleftrightarrow> eff \<le> newPaid) \<and>
            (pa_status app = InvoicePartial \<longleftrightarrow> newPaid < eff \<and> 0 < newPaid) \<and>
            pa_status app \<noteq> InvoiceUnpaid"
proof -
  let ?eff = "li_FinalAmount l + li_DebitAdj l - li_CreditAdj l"
  note e = applyToInvoice_exact [OF assms]
  have st: "pa_status (applyToInvoice l amount) =
      (if ?eff \<le> li_PaidAmount l + pa_applied (applyToInvoice l amount) then InvoicePaid
       else if 0 < li_PaidAmount l + pa_applied (applyToInvoice l amount) then InvoicePartial else InvoiceUnpaid)"
    using e(2) effective_exact [OF assms(1)] by (simp add: applyToInvoice_def Let_def)
  have p: "0 \<le> li_PaidAmount l" using assms(1) by (simp add: ledger_in_range_def)
  show ?thesis unfolding Let_def st unfolding e(1) using p assms(2)
    by (auto simp: min_def max_def split: if_splits)
qed

definition ex_ledger :: ledgerInvoice where
  "ex_ledger = \<lparr>li_ID = 1, li_BuildingID = 2, li_UnitID = 3, li_InvoiceNumber = ''BLD-2026-0001'',
     li_Status = InvoiceUnpaid, li_PaidAmount = 300, li_FinalAmount = 1000, li_DebitAdj = 50, li_CreditAdj = 200\<rparr>"

theorem applyToInvoice_spec_witness:
  "pa_applied (applyToInvoice ex_ledger 700) \<le> 700 \<and>
   (pa_status (applyToInvoice ex_ledger 700) = InvoicePaid \<longleftrightarrow> 850 \<le> 300 + pa_applied (applyToInvoice ex_ledger 700))"
  using applyToInvoice_spec [of ex_ledger 700] by (simp add: ex_ledger_def ledger_in_range_def Let_def)

section \<open>Fresh balances\<close>

text \<open>The stored balance of a unit is the one derived from its source rows.\<close>

definition fresh :: "db \<Rightarrow> uuid \<Rightarrow> bool" where
  "fresh d uid \<longleftrightarrow> (\<exists>t. find (\<lambda>b. bal_UnitID b = uid) (unit_balances d) =
     Some (balanceOf uid (balanceAggregatesQuery d uid) t))"

lemma fresh_side [simp]:
  "fresh (d\<lparr>notifications := ns\<rparr>) uid = fresh d uid" "fresh (d\<lparr>audit_logs := as\<rparr>) uid = fresh d uid"
  by (simp_all add: fresh_def balanceAggregatesQuery_def openInvoices_def nonCancelled_def)

lemma sideFree_fresh: "sideFree (\<lambda>d. fresh d uid)"
  by (simp add: sideFree_def)

lemma aggregates_upsert [simp]:
  "balanceAggregatesQuery (d\<lparr>unit_balances := bs\<rparr>) uid = balanceAggregatesQuery d uid"
  by (simp add: balanceAggregatesQuery_def openInvoices_def nonCancelled_def)

lemma bal_UnitID_balanceOf [simp]: "bal_UnitID (balanceOf uid a t) = uid"
  by (simp add: balanceOf_def Let_def)

lemma recomputeBalance_result:
  assumes "recomputeBalance uid w = (Inr ub, w')"
  shows "\<exists>t. ub = balanceOf uid (balanceAggregatesQuery (db w) uid) t \<and>
     db w' = (db w)\<lparr>unit_balances := saveRow bal_UnitID ub (unit_balances (db w))\<rparr>"
  using assms unfolding recomputeBalance_def
  by (auto elim!: bindE_splitE simp: query_def timeNow_def thenE_def exec_def upsertBalance_def returnE_def scanInt64_def Let_def
      split: if_splits)

lemma recomputeBalance_fresh:
  assumes "recomputeBalance uid w = (Inr ub, w')"
  shows "fresh (db w') uid"
proof -
  obtain t where t: "ub = balanceOf uid (balanceAggregatesQuery (db w) uid) t"
    "db w' = (db w)\<lparr>unit_balances := saveRow bal_UnitID ub (unit_balances (db w))\<rparr>"
    using recomputeBalance_result [OF assms] by blast
  thus ?thesis by (auto simp: fresh_def find_saveRow)
qed

lemma tri_recomputeBalance: "tri P (recomputeBalance uid) (\<lambda>_ d. fresh d uid) (\<lambda>_. True)"
  by (rule triI) (auto intro: recomputeBalance_fresh)

lemma notifyRecorded_total: "\<exists>w'. notifyRecorded p w = (Inr (), w')"
proof -
  have f: "\<exists>w'. forE xs (\<lambda>x. ignoreE (f x)) v = (Inr (), w')" for xs :: "'b list" and f :: "'b \<Rightarrow> (db, 'c) m" and v
    by (induction xs arbitrary: v) (auto simp: returnE_def thenE_def bindE_def ignoreE_def split: prod.splits)
  obtain r w1 where r: "tryE (payOccupantUserIDs (pay_UnitID p)) w = (Inr r, w1)"
    by (cases "payOccupantUserIDs (pay_UnitID p) w") (auto simp: tryE_def)
  thus ?thesis using f by (cases r) (auto simp: notifyRecorded_def bindE_def returnE_def)
qed

lemma preserves_notifyRecorded: "sideFree I \<Longrightarrow> preserves I (notifyRecorded p)"
  unfolding notifyRecorded_def
proof (rule preserves_bindE)
  assume s: "sideFree I"
  show "preserves I (tryE (payOccupantUserIDs (pay_UnitID p)))" by (intro preserves_reads reads_tryE reads_payment)
  fix r :: "uuid list result"
  show "preserves I (case r of Inl _ \<Rightarrow> returnE ()
     | Inr uids \<Rightarrow> forE uids (\<lambda>uid. ignoreE (notifCreate uid ''payment_recorded'' ''payment recorded''
         (''a payment of '' @ formatToman (pay_Amount p) @ '' toman was recorded for your unit'')
         (Some ''payment'') (Some (pay_ID p)))))"
  proof (cases r)
    case (Inl e)
    thus ?thesis by (simp add: preserves_reads reads_rules)
  next
    case (Inr uids)
    show ?thesis unfolding Inr sum.case by (intro preserves_forE preserves_ignoreE notifCreate_pres s)
  qed
qed

section \<open>Manual payments\<close>

lemma atomicE_total_tail:
  assumes "atomicE f" and "\<And>x w. \<exists>y w'. g x w = (Inr y, w')"
  shows "atomicE (bindE f g)"
  unfolding atomicE_def
proof (intro allI impI)
  fix w e w' assume b: "bindE f g w = (Inl e, w')"
  obtain r w1 where f: "f w = (r, w1)" by (cases "f w")
  have "g x w1 \<noteq> (Inl e, w')" for x using assms(2) [of x w1] by auto
  then obtain e1 where "r = Inl e1" using b f by (cases r) (auto simp: bindE_def)
  thus "db w' = db w" using b f atomicE_D [OF assms(1)] by (simp add: bindE_def)
qed

lemma notify_tail_total: "\<exists>y w'. thenE (notifyRecorded p) (returnE p) w = (Inr y, w')"
  using notifyRecorded_total [of p w] by (auto simp: thenE_def bindE_def returnE_def)

lemma atomicE_RecordManual: "atomicE (RecordManual u iid inp)"
proof (cases "parseInt64 (mpi_Amount inp)")
  case None
  thus ?thesis unfolding RecordManual_def by (simp add: atomicE_reads reads_rules reads_thenE)
next
  case (Some amount)
  show ?thesis unfolding RecordManual_def Some option.case
    by (intro atomicE_thenE atomicE_bindE atomicE_total_tail notify_tail_total reads_rules reads_paidAtOf
        reads_payAuthorizedInvoice) (simp add: settleManual_def Let_def atomicE_transaction)
qed

text \<open>The tables apart from the notifications and the audit trail.\<close>

definition ledgerPart :: "db \<Rightarrow> db" where
  "ledgerPart d = d\<lparr>notifications := [], audit_logs := []\<rparr>"

lemma sideFree_ledgerPart: "sideFree (\<lambda>d. P (ledgerPart d))"
  by (simp add: sideFree_def ledgerPart_def)

lemma notifyRecorded_ledgerPart:
  assumes "notifyRecorded p w = (r, w')" shows "ledgerPart (db w') = ledgerPart (db w)"
  using preserves_run [OF preserves_notifyRecorded [OF sideFree_ledgerPart [of "\<lambda>d. d = ledgerPart (db w)"]] _ assms]
  by simp

lemma ledgerPart_fields:
  "ledgerPart d = ledgerPart d' \<Longrightarrow> payments d = payments d' \<and> invoices d = invoices d' \<and>
     invoice_adjustments d = invoice_adjustments d' \<and> unit_balances d = unit_balances d'"
  unfolding ledgerPart_def by (drule arg_cong [where f = "\<lambda>x. (payments x, invoices x, invoice_adjustments x, unit_balances x)"]) simp

lemma fresh_ledgerPart: "fresh (ledgerPart d) uid = fresh d uid"
  by (simp add: ledgerPart_def)

text \<open>The row a payment leaves on its invoice.\<close>

definition paidInvoice :: "db \<Rightarrow> uuid \<Rightarrow> money \<Rightarrow> Invoice \<Rightarrow> bool" where
  "paidInvoice d iid amount i' \<longleftrightarrow> (\<exists>i. find (\<lambda>q. inv_ID q = iid) (invoices d) = Some i \<and>
     (let app = applyToInvoice (ledgerRow d i) amount
      in i' = i\<lparr>inv_PaidAmount := i64 (inv_PaidAmount i + pa_applied app), inv_Status := pa_status app,
               inv_UpdatedAt := inv_UpdatedAt i'\<rparr>))"

lemma repoInvoiceForUpdate_result:
  assumes "repoInvoiceForUpdate iid w = (Inr l, w')"
  shows "db w' = db w \<and> (\<exists>i. find (\<lambda>q. inv_ID q = iid) (invoices (db w)) = Some i \<and> l = ledgerRow (db w) i)"
  using assms unfolding repoInvoiceForUpdate_def
  by (auto elim!: bindE_splitE simp: query_def thenE_def throwIf_def returnE_def throwE_def scanInt64_def Let_def
      split: if_splits option.splits)

lemma repoCreatePayment_result:
  assumes "repoCreatePayment p w = (Inr p', w')"
  shows "\<exists>t. p' = p\<lparr>pay_CreatedAt := t, pay_UpdatedAt := t\<rparr> \<and> paymentRowOk (db w) p' \<and>
     (\<forall>q\<in>set (payments (db w)). pay_ID q \<noteq> pay_ID p) \<and> db w' = (db w)\<lparr>payments := payments (db w) @ [p']\<rparr>"
  using assms unfolding repoCreatePayment_def
  by (auto elim!: bindE_splitE simp: timeNow_def thenE_def exec_def returnE_def insertPayment_def storePayment_def
      saveRow_def list_ex_iff Let_def split: if_splits sum.splits)

lemma repoSavePayment_result:
  assumes "repoSavePayment p w = (Inr p', w')"
  shows "\<exists>t. p' = p\<lparr>pay_UpdatedAt := t\<rparr> \<and> paymentRowOk (db w) p' \<and>
     db w' = (db w)\<lparr>payments := saveRow pay_ID p' (payments (db w))\<rparr>"
  using assms unfolding repoSavePayment_def
  by (auto elim!: bindE_splitE simp: timeNow_def thenE_def exec_def returnE_def storePayment_def Let_def
      split: if_splits sum.splits)

lemma repoApplyInvoicePaid_result:
  assumes "repoApplyInvoicePaid iid np st w = (Inr x, w')"
  shows "\<exists>t. db w' = (db w)\<lparr>invoices := updateWhere (\<lambda>i. inv_ID i = iid)
     (\<lambda>i. i\<lparr>inv_PaidAmount := np, inv_Status := st, inv_UpdatedAt := t\<rparr>) (invoices (db w))\<rparr>"
  using assms unfolding repoApplyInvoicePaid_def
  by (intro exI [where x = "clock w (cnext w)"]) (auto elim!: bindE_splitE simp: timeNow_def exec_def updateInvoices_def Let_def split: if_splits sum.splits)

lemma transaction_splitE:
  assumes "transaction f w = (Inr x, w')"
  obtains w1 w2 where "db w1 = db w" "f w1 = (Inr x, w2)" "db w' = db w2"
proof -
  have "\<exists>w2. f (tick w) = (Inr x, w2) \<and> db w' = db w2"
    using assms by (auto simp: transaction_def split: if_splits prod.splits sum.splits)
  thus thesis using that [of "tick w"] by auto
qed

text \<open>What a settled payment leaves: the row, the invoice it pays and the balance of its unit.\<close>

definition settled :: "db \<Rightarrow> db \<Rightarrow> uuid \<Rightarrow> Payment \<Rightarrow> bool" where
  "settled d d' iid p \<longleftrightarrow>
     (\<exists>i i'. find (\<lambda>q. inv_ID q = iid) (invoices d) = Some i \<and> paidInvoice d iid (pay_Amount p) i' \<and>
        invoices d' = updateWhere (\<lambda>q. inv_ID q = iid) (\<lambda>q. q\<lparr>inv_PaidAmount := inv_PaidAmount i',
          inv_Status := inv_Status i', inv_UpdatedAt := inv_UpdatedAt i'\<rparr>) (invoices d) \<and>
        fresh d' (inv_UnitID i))"

lemma settled_tail:
  assumes l: "find (\<lambda>q. inv_ID q = iid) (invoices d) = Some i" and amt: "pay_Amount p = amount"
    and d1: "invoices (db w) = invoices d" "invoice_adjustments (db w) = invoice_adjustments d"
    and run: "thenE (repoApplyInvoicePaid iid (i64 (li_PaidAmount (ledgerRow d i) +
        pa_applied (applyToInvoice (ledgerRow d i) amount))) (pa_status (applyToInvoice (ledgerRow d i) amount)))
        (bindE (recomputeBalance (li_UnitID (ledgerRow d i))) (\<lambda>_. returnE p)) w = (Inr q, w')"
  shows "settled d (db w') iid p \<and> q = p \<and> payments (db w') = payments (db w)"
proof -
  let ?app = "applyToInvoice (ledgerRow d i) amount"
  let ?np = "i64 (li_PaidAmount (ledgerRow d i) + pa_applied ?app)"
  obtain u w1 ub where 1: "repoApplyInvoicePaid iid ?np (pa_status ?app) w = (Inr u, w1)"
    and 2: "recomputeBalance (inv_UnitID i) w1 = (Inr ub, w')" and q: "q = p"
    using run by (auto simp: thenE_def ledgerRow_def returnE_def elim!: bindE_splitE)
  obtain t where t: "db w1 = (db w)\<lparr>invoices := updateWhere (\<lambda>i. inv_ID i = iid)
      (\<lambda>i. i\<lparr>inv_PaidAmount := ?np, inv_Status := pa_status ?app, inv_UpdatedAt := t\<rparr>) (invoices (db w))\<rparr>"
    using repoApplyInvoicePaid_result [OF 1] by blast
  have b: "invoices (db w') = invoices (db w1) \<and> payments (db w') = payments (db w1)"
    using recomputeBalance_result [OF 2] by auto
  let ?i' = "i\<lparr>inv_PaidAmount := ?np, inv_Status := pa_status ?app, inv_UpdatedAt := t\<rparr>"
  have "paidInvoice d iid amount ?i'" using l by (simp add: paidInvoice_def Let_def ledgerRow_def)
  moreover have "invoices (db w') = updateWhere (\<lambda>q. inv_ID q = iid) (\<lambda>q. q\<lparr>inv_PaidAmount := inv_PaidAmount ?i',
          inv_Status := inv_Status ?i', inv_UpdatedAt := inv_UpdatedAt ?i'\<rparr>) (invoices d)"
    using b t d1 by simp
  ultimately have "settled d (db w') iid p"
    unfolding settled_def amt using l recomputeBalance_fresh [OF 2] by blast
  thus ?thesis using b t q by simp
qed

lemma payAuthorizedInvoice_result:
  assumes "payAuthorizedInvoice u iid w = (Inr l, w')"
  shows "db w' = db w \<and> (\<exists>i. find (\<lambda>q. inv_ID q = iid) (invoices (db w)) = Some i \<and> l = ledgerRow (db w) i \<and>
     (\<exists>un. find (\<lambda>v. un_ID v = inv_UnitID i \<and> un_DeletedAt v = None) (units (db w)) = Some un \<and>
       (if usr_Role u = RoleManager
        then \<exists>g\<in>set (user_buildings (db w)). ub_UserID g = usr_ID u \<and> ub_BuildingID g = un_BuildingID un
        else inv_UnitID i \<in> set (residentUnits (db w) (usr_Phone u)))))"
proof -
  obtain w1 w2 where 1: "repoInvoiceForUpdate iid w = (Inr l, w1)" and 2: "canAccessUnit u (li_UnitID l) w1 = (Inr True, w2)"
    and 3: "w' = w2"
    using assms unfolding payAuthorizedInvoice_def
    by (auto elim!: bindE_splitE simp: mapErr_def thenE_def throwIf_def returnE_def throwE_def
        split: prod.splits sum.splits if_splits)
  obtain i where i: "db w1 = db w" "find (\<lambda>q. inv_ID q = iid) (invoices (db w)) = Some i" "l = ledgerRow (db w) i"
    using repoInvoiceForUpdate_result [OF 1] by blast
  have li: "li_UnitID l = inv_UnitID i" by (simp add: i(3) ledgerRow_def)
  have "db w2 = db w1" using 2 by (intro reads_run [OF reads_canAccessUnit])
  moreover have "\<exists>un. find (\<lambda>v. un_ID v = inv_UnitID i \<and> un_DeletedAt v = None) (units (db w)) = Some un \<and>
       (if usr_Role u = RoleManager
        then \<exists>g\<in>set (user_buildings (db w)). ub_UserID g = usr_ID u \<and> ub_BuildingID g = un_BuildingID un
        else inv_UnitID i \<in> set (residentUnits (db w) (usr_Phone u)))"
    using 2 i(1) unfolding canAccessUnit_def repoUnitByID_def payIsManagerOf_def repoResidentUnitIDs_def li
    by (auto elim!: bindE_splitE simp: query_def firstRow_def returnE_def filter_empty_conv split: if_splits option.splits)
  ultimately show ?thesis using i 3 by simp
qed

lemma settleManual_result:
  assumes st: "settleManual q l iid amount w = (Inr p, w')" and q: "pay_Amount q = amount"
    and i: "find (\<lambda>q. inv_ID q = iid) (invoices (db w)) = Some i" "l = ledgerRow (db w) i"
  shows "settled (db w) (db w') iid p \<and> payments (db w') = payments (db w) @ [p] \<and>
     (\<forall>q\<in>set (payments (db w)). pay_ID q \<noteq> pay_ID p) \<and> (\<exists>t. p = q\<lparr>pay_CreatedAt := t, pay_UpdatedAt := t\<rparr>)"
proof -
  obtain v1 p' v2 v3 where v: "db v1 = db w" "repoCreatePayment q v1 = (Inr p', v2)"
    and t: "thenE (repoApplyInvoicePaid iid (i64 (li_PaidAmount l + pa_applied (applyToInvoice l amount)))
        (pa_status (applyToInvoice l amount))) (bindE (recomputeBalance (li_UnitID l)) (\<lambda>_. returnE p')) v2 = (Inr p, v3)"
    and d: "db w' = db v3"
    using st unfolding settleManual_def Let_def by (elim transaction_splitE bindE_splitE) blast
  note c = repoCreatePayment_result [OF v(2)]
  have v2: "invoices (db v2) = invoices (db w)" "invoice_adjustments (db v2) = invoice_adjustments (db w)"
    "payments (db v2) = payments (db w) @ [p']" and amt: "pay_Amount p' = amount" using c v(1) q by auto
  have "settled (db w) (db v3) iid p' \<and> p = p' \<and> payments (db v3) = payments (db v2)"
    using settled_tail [OF i(1) amt v2(1,2)] t i(2) by simp
  thus ?thesis using c v v2 d by auto
qed

text \<open>A manual payment is recorded completely or not at all: when the request fails, at a guard or
  at any statement of its transaction, every table is as it was.\<close>

theorem RecordManual_atomic:
  assumes "RecordManual u iid inp w = (Inl e, w')"
  shows "db w' = db w"
  using atomicE_RecordManual assms by (rule atomicE_D)

definition failingWorld :: "db world" where
  "failingWorld = sampleWorld\<lparr>faults := (\<lambda>n. n = 8)\<rparr>"

theorem RecordManual_atomic_witness:
  "\<exists>e w'. RecordManual sampleManager 61 \<lparr>mpi_Amount = ''700'', mpi_PaidAt = '''', mpi_TrackingNumber = ''''\<rparr> failingWorld
     = (Inl e, w') \<and> fnext w' = 9 \<and> db w' = sampleDb"
proof -
  let ?run = "RecordManual sampleManager 61 \<lparr>mpi_Amount = ''700'', mpi_PaidAt = '''', mpi_TrackingNumber = ''''\<rparr> failingWorld"
  have "isl (fst ?run)" and n: "fnext (snd ?run) = 9" by code_simp+
  then obtain e w' where r: "?run = (Inl e, w')" by (cases ?run; cases "fst ?run") auto
  thus ?thesis using RecordManual_atomic [OF r] n by (auto simp: sampleWorld_def failingWorld_def)
qed

text \<open>C7. A manual payment that succeeds was made by a manager of the building of the invoiced unit
  with a positive parsed amount on an invoice that was not cancelled; it appends exactly one
  payment row, verified and with a fresh id, credits the invoice with what applyToInvoice
  gives and leaves the stored balance of the unit equal to the one its invoices, adjustments
  and payments determine.\<close>

theorem RecordManual_ok:
  assumes run: "RecordManual u iid inp w = (Inr p, w')"
  shows "usr_Role u = RoleManager \<and> parseInt64 (mpi_Amount inp) = Some (pay_Amount p) \<and> 0 < pay_Amount p \<and>
     pay_Status p = StatusVerified \<and> pay_Method p = MethodManual \<and> pay_InvoiceID p = Some iid \<and>
     (\<forall>q\<in>set (payments (db w)). pay_ID q \<noteq> pay_ID p) \<and> payments (db w') = payments (db w) @ [p] \<and>
     (\<exists>i un g. find (\<lambda>q. inv_ID q = iid) (invoices (db w)) = Some i \<and> inv_Status i \<noteq> InvoiceCanceled \<and>
        find (\<lambda>v. un_ID v = inv_UnitID i \<and> un_DeletedAt v = None) (units (db w)) = Some un \<and>
        g \<in> set (user_buildings (db w)) \<and> ub_UserID g = usr_ID u \<and> ub_BuildingID g = un_BuildingID un) \<and>
     settled (db w) (db w') iid p"
proof -
  have role: "usr_Role u = RoleManager" using run
    by (cases "usr_Role u = RoleManager") (simp_all add: RecordManual_def throwE_def)
  obtain amount where amount: "parseInt64 (mpi_Amount inp) = Some amount" using run role
    by (cases "parseInt64 (mpi_Amount inp)") (simp_all add: RecordManual_def throwE_def)
  have pos: "0 < amount" using run role amount
    by (cases "0 < amount") (simp_all add: RecordManual_def throwE_def)
  obtain paidAt l w1 w2 w3 pid w4 w5 r where p: "paidAtOf (mpi_PaidAt inp) w = (Inr paidAt, w1)"
    and l: "payAuthorizedInvoice u iid w1 = (Inr l, w2)" and nc: "li_Status l \<noteq> InvoiceCanceled"
    and uu: "newUUID w2 = (Inr pid, w3)"
    and st: "settleManual (manualPayment pid u iid l amount paidAt (mpi_TrackingNumber inp)) l iid amount w3 = (Inr p, w4)"
    and nt: "notifyRecorded p w4 = (r, w5)" "w5 = w'"
    using run role amount pos unfolding RecordManual_def
    by (auto elim!: bindE_splitE simp: thenE_def throwIf_def returnE_def throwE_def split: if_splits)
  have d: "db w1 = db w" "db w3 = db w2" using reads_run [OF reads_paidAtOf p] uu by (auto simp: newUUID_def)
  note a = payAuthorizedInvoice_result [OF l] 
  obtain i where i: "find (\<lambda>q. inv_ID q = iid) (invoices (db w)) = Some i" "l = ledgerRow (db w) i"
    and d2: "db w2 = db w" using a d by auto
  have s: "settled (db w) (db w4) iid p" "payments (db w4) = payments (db w) @ [p]" "\<forall>q\<in>set (payments (db w)). pay_ID q \<noteq> pay_ID p"
    "pay_Status p = StatusVerified" "pay_Method p = MethodManual" "pay_InvoiceID p = Some iid" "pay_Amount p = amount"
    using settleManual_result [OF st] i d d2 by (auto simp: manualPayment_def)
  have lp: "ledgerPart (db w') = ledgerPart (db w4)" using notifyRecorded_ledgerPart [OF nt(1)] nt(2) by simp
  have "settled (db w) (db w') iid p" using s ledgerPart_fields [OF lp] fresh_ledgerPart [of "db w'"] fresh_ledgerPart [of "db w4"]
    by (simp add: settled_def lp)
  moreover have "payments (db w') = payments (db w) @ [p]" using ledgerPart_fields [OF lp] s(2) by simp
  moreover have "\<exists>i un g. find (\<lambda>q. inv_ID q = iid) (invoices (db w)) = Some i \<and> inv_Status i \<noteq> InvoiceCanceled \<and>
        find (\<lambda>v. un_ID v = inv_UnitID i \<and> un_DeletedAt v = None) (units (db w)) = Some un \<and>
        g \<in> set (user_buildings (db w)) \<and> ub_UserID g = usr_ID u \<and> ub_BuildingID g = un_BuildingID un"
    using a d role nc by (auto simp: ledgerRow_def)
  ultimately show ?thesis using role amount pos s by simp
qed

definition sampleManual :: "db world \<Rightarrow> Payment result \<times> db world" where
  "sampleManual = RecordManual sampleManager 61 \<lparr>mpi_Amount = ''700'', mpi_PaidAt = '''', mpi_TrackingNumber = ''''\<rparr>"

lemma sampleManual_returns: "\<not> isl (fst (sampleManual sampleWorld))"
  by code_simp

theorem RecordManual_ok_witness:
  "\<exists>p w'. sampleManual sampleWorld = (Inr p, w') \<and> pay_Amount p = 700 \<and> payments (db w') = payments sampleDb @ [p]"
proof -
  obtain p w' where r: "sampleManual sampleWorld = (Inr p, w')"
    using sampleManual_returns by (cases "sampleManual sampleWorld"; cases "fst (sampleManual sampleWorld)") auto
  moreover have "parseInt64 ''700'' = Some 700" by code_simp
  ultimately show ?thesis using RecordManual_ok [OF r [unfolded sampleManual_def]]
    by (auto simp: sampleWorld_def)
qed

section \<open>Gateway payments\<close>

lemma find_SomeD: "find P xs = Some x \<Longrightarrow> P x \<and> x \<in> set xs"
  by (auto simp: find_Some_iff)

lemma settleGateway_result:
  assumes "settleGateway p w = (Inr p', w')" and "pay_InvoiceID p = Some iid"
  shows "\<exists>t. p' = p\<lparr>pay_UpdatedAt := t\<rparr> \<and> settled (db w) (db w') iid p' \<and>
     payments (db w') = saveRow pay_ID p' (payments (db w))"
proof -
  obtain v1 q v2 l v3 v4 where v: "db v1 = db w" "repoSavePayment p v1 = (Inr q, v2)"
    and l: "repoInvoiceForUpdate iid v2 = (Inr l, v3)"
    and t: "thenE (repoApplyInvoicePaid (li_ID l) (i64 (li_PaidAmount l + pa_applied (applyToInvoice l (pay_Amount p))))
        (pa_status (applyToInvoice l (pay_Amount p)))) (bindE (recomputeBalance (li_UnitID l)) (\<lambda>_. returnE q)) v3 = (Inr p', v4)"
    and d: "db w' = db v4"
    using assms unfolding settleGateway_def Let_def option.case by (elim transaction_splitE bindE_splitE) (simp, elim bindE_splitE, blast)
  obtain tm where q: "q = p\<lparr>pay_UpdatedAt := tm\<rparr>" "db v2 = (db v1)\<lparr>payments := saveRow pay_ID q (payments (db v1))\<rparr>"
    using repoSavePayment_result [OF v(2)] by blast
  obtain i where i: "db v3 = db v2" "find (\<lambda>q. inv_ID q = iid) (invoices (db v2)) = Some i" "l = ledgerRow (db v2) i"
    using repoInvoiceForUpdate_result [OF l] by blast
  have lr: "ledgerRow (db v2) i = ledgerRow (db w) i" using q(2) v(1) by (simp add: ledgerRow_def)
  have id: "li_ID l = iid" using i(2,3) by (auto simp: ledgerRow_def find_Some_iff)
  have "settled (db w) (db v4) iid q \<and> p' = q \<and> payments (db v4) = payments (db v3)"
    using settled_tail [of iid "db w" i q "pay_Amount p" v3 p' v4] t i q v(1) lr id by simp
  thus ?thesis using q v(1) d i(1) by (intro exI [where x = tm]) simp
qed

text \<open>A callback that has nothing to do.\<close>

definition callbackDone :: "Payment \<Rightarrow> bool" where
  "callbackDone p \<longleftrightarrow> pay_Authority p = None \<or> pay_Status p \<noteq> StatusRecorded \<or> pay_Method p \<noteq> MethodGateway"

lemma finishCallback_done: "callbackDone p \<Longrightarrow> finishCallback s p = returnE p"
  by (auto simp: finishCallback_def callbackDone_def split: option.splits)

context payment_gateway
begin

lemma finishCallback_outcome:
  assumes s: "svc_gw s = gw" and run: "finishCallback s p w = (Inr p', w')" and opn: "\<not> callbackDone p"
  shows "\<exists>a res w1 t. pay_Authority p = Some a \<and> gw_Verify gw a (pay_Amount p) w = (res, w1) \<and>
     payments (db w') = saveRow pay_ID p' (payments (db w)) \<and>
     (case res of
        Inr v \<Rightarrow> if vr_OK v
          then p' = p\<lparr>pay_Status := StatusVerified, pay_TrackingNumber := Some (vr_RefID v), pay_UpdatedAt := t\<rparr> \<and>
               (\<forall>iid. pay_InvoiceID p = Some iid \<longrightarrow> settled (db w) (db w') iid p')
          else p' = p\<lparr>pay_Status := StatusFailed, pay_UpdatedAt := t\<rparr> \<and> db w' = (db w)\<lparr>payments := saveRow pay_ID p' (payments (db w))\<rparr>
      | Inl _ \<Rightarrow> p' = p\<lparr>pay_Status := StatusFailed, pay_UpdatedAt := t\<rparr> \<and> db w' = (db w)\<lparr>payments := saveRow pay_ID p' (payments (db w))\<rparr>)"
proof -
  obtain a where a: "pay_Authority p = Some a" using opn by (auto simp: callbackDone_def)
  obtain res w1 where v: "gw_Verify gw a (pay_Amount p) w = (res, w1)" by (cases "gw_Verify gw a (pay_Amount p) w")
  have d1: "db w1 = db w" using reads_run [OF verify_reads v] .
  have run': "(case res of Inl _ \<Rightarrow> repoSavePayment (p\<lparr>pay_Status := StatusFailed\<rparr>)
          | Inr v \<Rightarrow> if \<not> vr_OK v then repoSavePayment (p\<lparr>pay_Status := StatusFailed\<rparr>)
            else bindE (settleGateway (p\<lparr>pay_Status := StatusVerified, pay_TrackingNumber := Some (vr_RefID v)\<rparr>)) (\<lambda>p'.
                 thenE (notifyRecorded p') (returnE p'))) w1 = (Inr p', w')"
    using run a opn s v by (simp add: finishCallback_def callbackDone_def bindE_def tryE_def)
  have fail: "\<exists>t. p' = p\<lparr>pay_Status := StatusFailed, pay_UpdatedAt := t\<rparr> \<and> db w' = (db w)\<lparr>payments := saveRow pay_ID p' (payments (db w))\<rparr>"
    if "repoSavePayment (p\<lparr>pay_Status := StatusFailed\<rparr>) w1 = (Inr p', w')"
    using repoSavePayment_result [OF that] d1 by auto
  have ok: "\<exists>t. payments (db w') = saveRow pay_ID p' (payments (db w)) \<and>
               p' = p\<lparr>pay_Status := StatusVerified, pay_TrackingNumber := Some ref, pay_UpdatedAt := t\<rparr> \<and>
               (\<forall>iid. pay_InvoiceID p = Some iid \<longrightarrow> settled (db w) (db w') iid p')"
    if ver: "bindE (settleGateway (p\<lparr>pay_Status := StatusVerified, pay_TrackingNumber := Some ref\<rparr>)) (\<lambda>p'.
                 thenE (notifyRecorded p') (returnE p')) w1 = (Inr p', w')" for ref
  proof -
    obtain v2 r where st: "settleGateway (p\<lparr>pay_Status := StatusVerified, pay_TrackingNumber := Some ref\<rparr>) w1 = (Inr p', v2)"
      and n: "notifyRecorded p' v2 = (r, w')"
      using ver by (auto elim!: bindE_splitE simp: thenE_def returnE_def)
    note lp = notifyRecorded_ledgerPart [OF n]
    have "settled (db w) (db w') iid p'" if "pay_InvoiceID p = Some iid" for iid
      using settleGateway_result [OF st] that d1 ledgerPart_fields [OF lp] fresh_ledgerPart [of "db w'"] fresh_ledgerPart [of "db v2"]
      by (auto simp: settled_def lp)
    moreover have "payments (db v2) = saveRow pay_ID p' (payments (db w1)) \<and>
        (\<exists>t. p' = p\<lparr>pay_Status := StatusVerified, pay_TrackingNumber := Some ref, pay_UpdatedAt := t\<rparr>)"
    proof (cases "pay_InvoiceID p")
      case None
      thus ?thesis using st unfolding settleGateway_def
        by (auto elim!: transaction_splitE bindE_splitE dest!: repoSavePayment_result simp: returnE_def)
    next
      case (Some iid)
      thus ?thesis using settleGateway_result [OF st] by auto
    qed
    ultimately show ?thesis using ledgerPart_fields [OF lp] d1 by simp
  qed
  show ?thesis
  proof (cases res)
    case (Inl e)
    thus ?thesis using a v fail run' by fastforce
  next
    case (Inr vr)
    show ?thesis
    proof (cases "vr_OK vr")
      case True
      thus ?thesis using a v ok run' Inr by simp
    next
      case False
      thus ?thesis using a v fail run' Inr by fastforce
    qed
  qed
qed

lemma settled_payment_id:
  assumes s: "svc_gw s = gw" and run: "finishCallback s p w = (Inr p', w')"
    and k: "pay_ID p = pid" "find (\<lambda>q. pay_ID q = pid) (payments (db w)) = Some p"
  shows "find (\<lambda>q. pay_ID q = pid) (payments (db w')) = Some p' \<and> callbackDone p'"
proof (cases "callbackDone p")
  case True
  thus ?thesis using run k by (auto simp: finishCallback_done returnE_def)
next
  case False
  have "pay_ID p' = pay_ID p \<and> payments (db w') = saveRow pay_ID p' (payments (db w)) \<and> pay_Status p' \<noteq> StatusRecorded"
    using finishCallback_outcome [OF s run False] by (elim exE conjE) (auto split: sum.split_asm if_split_asm)
  thus ?thesis using k(1) by (simp add: find_saveRow callbackDone_def)
qed

end

lemma findCallbackPayment_by_id:
  assumes "paymentID \<noteq> ''''"
  shows "findCallbackPayment parse paymentID authority w = (Inr p, w') \<Longrightarrow>
     \<exists>pid. parse paymentID = Some pid \<and> find (\<lambda>q. pay_ID q = pid) (payments (db w)) = Some p \<and> db w' = db w"
  using assms unfolding findCallbackPayment_def repoGetPayment_def
  by (auto simp: mapErr_def query_def throwE_def firstRow_def split: option.splits prod.splits sum.splits if_splits)

lemma findCallbackPayment_by_authority:
  "findCallbackPayment parse '''' authority w = (Inr p, w') \<Longrightarrow>
     find (\<lambda>q. pay_Authority q = Some authority \<and> pay_Status q = StatusRecorded) (payments (db w)) = Some p \<and> db w' = db w"
  unfolding findCallbackPayment_def repoGetPaymentByAuthority_def
  by (auto simp: mapErr_def query_def throwE_def firstRow_def split: option.splits prod.splits sum.splits if_splits)

lemma findCallbackPayment_member:
  "findCallbackPayment parse paymentID authority w = (Inr p, w') \<Longrightarrow> p \<in> set (payments (db w)) \<and> db w' = db w"
  unfolding findCallbackPayment_def repoGetPayment_def repoGetPaymentByAuthority_def
  by (auto simp: mapErr_def query_def throwE_def firstRow_def find_Some_iff split: option.splits prod.splits sum.splits if_splits)

lemma zarinpalVerify_OK: "zarinpalVerify post z a amount = Inr v \<Longrightarrow> vr_OK v"
  by (auto simp: zarinpalVerify_def bindR_Inr_iff split: if_splits)

text \<open>What Zarinpal's answer makes of a recorded payment.\<close>

lemma zarinpal_finishCallback:
  assumes "svc_gw s = zarinpalGateway post z" and "finishCallback s p w = (Inr p', w')" and "\<not> callbackDone p"
  shows "\<exists>a t. pay_Authority p = Some a \<and> payments (db w') = saveRow pay_ID p' (payments (db w)) \<and>
        (case zarinpalVerify post z a (pay_Amount p) of
           Inr v \<Rightarrow> p' = p\<lparr>pay_Status := StatusVerified, pay_TrackingNumber := Some (vr_RefID v), pay_UpdatedAt := t\<rparr> \<and>
               (\<forall>iid. pay_InvoiceID p = Some iid \<longrightarrow> settled (db w) (db w') iid p')
         | Inl _ \<Rightarrow> p' = p\<lparr>pay_Status := StatusFailed, pay_UpdatedAt := t\<rparr> \<and>
               db w' = (db w)\<lparr>payments := saveRow pay_ID p' (payments (db w))\<rparr>)"
proof -
  obtain a res v t where o: "pay_Authority p = Some a" "gw_Verify (zarinpalGateway post z) a (pay_Amount p) w = (res, v)"
      "payments (db w') = saveRow pay_ID p' (payments (db w))"
    and c: "case res of
      Inr v \<Rightarrow> if vr_OK v
        then p' = p\<lparr>pay_Status := StatusVerified, pay_TrackingNumber := Some (vr_RefID v), pay_UpdatedAt := t\<rparr> \<and>
             (\<forall>iid. pay_InvoiceID p = Some iid \<longrightarrow> settled (db w) (db w') iid p')
        else p' = p\<lparr>pay_Status := StatusFailed, pay_UpdatedAt := t\<rparr> \<and> db w' = (db w)\<lparr>payments := saveRow pay_ID p' (payments (db w))\<rparr>
    | Inl _ \<Rightarrow> p' = p\<lparr>pay_Status := StatusFailed, pay_UpdatedAt := t\<rparr> \<and> db w' = (db w)\<lparr>payments := saveRow pay_ID p' (payments (db w))\<rparr>"
    using zarinpal.finishCallback_outcome [OF assms(1) assms(2,3)] by blast
  have r: "zarinpalVerify post z a (pay_Amount p) = res" using o(2) by (simp add: zarinpalGateway_def liftE_def)
  have "case res of
         Inr v \<Rightarrow> p' = p\<lparr>pay_Status := StatusVerified, pay_TrackingNumber := Some (vr_RefID v), pay_UpdatedAt := t\<rparr> \<and>
             (\<forall>iid. pay_InvoiceID p = Some iid \<longrightarrow> settled (db w) (db w') iid p')
       | Inl _ \<Rightarrow> p' = p\<lparr>pay_Status := StatusFailed, pay_UpdatedAt := t\<rparr> \<and>
             db w' = (db w)\<lparr>payments := saveRow pay_ID p' (payments (db w))\<rparr>"
  proof (cases res)
    case (Inr u)
    hence ok: "vr_OK u" using zarinpalVerify_OK r by simp
    show ?thesis using c unfolding Inr sum.case if_P [OF ok] .
  qed (use c in \<open>simp only: sum.case\<close>)
  with o(1,3) show ?thesis by (intro exI [of _ a] exI [of _ t]) (simp add: r)
qed

text \<open>C8. A successful gateway callback acts on the stored payment that it names, by its id or else by
  the authority of a recorded payment: one that is already settled is returned and nothing
  changes; otherwise Zarinpal is asked to verify the stored authority with the stored amount.
  A confirmation changes the status of the payment to verified, its tracking number to the
  reference of the gateway and its update time, and settles its invoice and balance; a refusal
  or an error of the gateway changes its status to failed and its update time, no other column
  and no other table.\<close>

theorem HandleCallback_outcome:
  assumes "svc_gw s = zarinpalGateway post z" and "HandleCallback parse s paymentID authority w = (Inr p', w')"
  shows "\<exists>p. (if paymentID \<noteq> '''' then \<exists>pid. parse paymentID = Some pid \<and> find (\<lambda>q. pay_ID q = pid) (payments (db w)) = Some p
         else find (\<lambda>q. pay_Authority q = Some authority \<and> pay_Status q = StatusRecorded) (payments (db w)) = Some p) \<and>
     (if callbackDone p then p' = p \<and> db w' = db w
      else \<exists>a t. pay_Authority p = Some a \<and> payments (db w') = saveRow pay_ID p' (payments (db w)) \<and>
        (case zarinpalVerify post z a (pay_Amount p) of
           Inr v \<Rightarrow> p' = p\<lparr>pay_Status := StatusVerified, pay_TrackingNumber := Some (vr_RefID v), pay_UpdatedAt := t\<rparr> \<and>
               (\<forall>iid. pay_InvoiceID p = Some iid \<longrightarrow> settled (db w) (db w') iid p')
         | Inl _ \<Rightarrow> p' = p\<lparr>pay_Status := StatusFailed, pay_UpdatedAt := t\<rparr> \<and>
               db w' = (db w)\<lparr>payments := saveRow pay_ID p' (payments (db w))\<rparr>))"
proof -
  obtain p w1 where p: "findCallbackPayment parse paymentID authority w = (Inr p, w1)" "finishCallback s p w1 = (Inr p', w')"
    using assms(2) unfolding HandleCallback_def by (auto elim: bindE_splitE)
  have k: "if paymentID \<noteq> '''' then \<exists>pid. parse paymentID = Some pid \<and> find (\<lambda>q. pay_ID q = pid) (payments (db w)) = Some p
         else find (\<lambda>q. pay_Authority q = Some authority \<and> pay_Status q = StatusRecorded) (payments (db w)) = Some p"
    using p(1) findCallbackPayment_by_id [of paymentID parse authority w p w1] findCallbackPayment_by_authority [of parse authority w p w1] by auto
  have m: "db w1 = db w" using findCallbackPayment_member [OF p(1)] by simp
  show ?thesis
  proof (cases "callbackDone p")
    case True
    thus ?thesis using p m k by (intro exI [of _ p]) (simp add: finishCallback_done returnE_def)
  next
    case False
    with zarinpal_finishCallback [OF assms(1) p(2)] k show ?thesis unfolding m by (intro exI [of _ p]) simp
  qed
qed

definition samplePost :: http_post where
  "samplePost url body = Inr \<lparr>env_Data = Some [(''code'', JNum 100), (''ref_id'', JStr ''R1'')], env_Errors = []\<rparr>"

definition sampleService :: PaymentService where
  "sampleService = NewPaymentService (zarinpalGateway samplePost \<lparr>z_MerchantID = ''M'', z_Sandbox = True\<rparr>)
     ''http://api/callback'' ''http://web/''"

definition sampleCallback :: "db world \<Rightarrow> Payment result \<times> db world" where
  "sampleCallback = HandleCallback (\<lambda>s. if s = ''71'' then Some 71 else None) sampleService ''71'' ''''"

lemma sampleCallback_returns: "\<not> isl (fst (sampleCallback sampleWorld))"
  by code_simp

lemma sampleService_gw: "svc_gw sampleService = zarinpalGateway samplePost \<lparr>z_MerchantID = ''M'', z_Sandbox = True\<rparr>"
  by (simp add: sampleService_def NewPaymentService_def)

theorem HandleCallback_outcome_witness:
  "\<exists>p' w'. sampleCallback sampleWorld = (Inr p', w') \<and> pay_ID p' = 71 \<and> pay_Status p' = StatusVerified \<and> pay_TrackingNumber p' = Some ''R1'' \<and>
     settled sampleDb (db w') 61 p'"
proof -
  obtain p' w' where r: "sampleCallback sampleWorld = (Inr p', w')"
    using sampleCallback_returns by (cases "sampleCallback sampleWorld"; cases "fst (sampleCallback sampleWorld)") auto
  have d: "db sampleWorld = sampleDb" by (simp add: sampleWorld_def)
  have "payments sampleDb = [mkGatewayPayment 71 1 11 61 400 ''A1'']" by (simp add: sampleDb_def)
  moreover have "\<not> callbackDone (mkGatewayPayment 71 1 11 61 400 ''A1'')" by (simp add: callbackDone_def mkGatewayPayment_def)
  moreover have "zarinpalVerify samplePost z a x = Inr \<lparr>vr_OK = True, vr_RefID = ''R1''\<rparr>" for z a x
    by (simp add: zarinpalVerify_def samplePost_def zarinpalCode_def jsonString_def)
  ultimately show ?thesis using HandleCallback_outcome [OF sampleService_gw r [unfolded sampleCallback_def]] r
    by (auto simp: d mkGatewayPayment_def)
qed

text \<open>C9. Gateway retries are idempotent: after a callback for a payment id has returned, every
  further callback for it changes nothing in the database and returns the same payment or an
  error.\<close>

theorem HandleCallback_idempotent:
  assumes "svc_gw s = zarinpalGateway post z" and "paymentID \<noteq> ''''"
    and first: "HandleCallback parse s paymentID authority w = (Inr p, w1)"
    and again: "HandleCallback parse s paymentID authority' w1 = (r, w2)"
  shows "db w2 = db w1 \<and> (r = Inr p \<or> isl r)"
proof -
  obtain q v where q: "findCallbackPayment parse paymentID authority w = (Inr q, v)" "finishCallback s q v = (Inr p, w1)"
    using first unfolding HandleCallback_def by (auto elim: bindE_splitE)
  obtain pid where pid: "parse paymentID = Some pid" "find (\<lambda>q. pay_ID q = pid) (payments (db w)) = Some q" "db v = db w"
    using findCallbackPayment_by_id [OF assms(2) q(1)] by blast
  have st: "find (\<lambda>q. pay_ID q = pid) (payments (db w1)) = Some p \<and> callbackDone p"
    using zarinpal.settled_payment_id [OF assms(1) q(2)] pid find_SomeD [OF pid(2)] by simp
  have "findCallbackPayment parse paymentID authority' w1 = (Inr p, tick w1) \<or>
        (\<exists>e. findCallbackPayment parse paymentID authority' w1 = (Inl e, tick w1))"
    using assms(2) pid(1) st by (simp add: findCallbackPayment_def repoGetPayment_def mapErr_def query_def firstRow_def)
  thus ?thesis using again st by (auto simp: HandleCallback_def bindE_def finishCallback_done returnE_def)
qed

theorem HandleCallback_idempotent_witness:
  "db (snd (sampleCallback (snd (sampleCallback sampleWorld)))) = db (snd (sampleCallback sampleWorld))"
proof -
  obtain p' w' where r: "sampleCallback sampleWorld = (Inr p', w')"
    using sampleCallback_returns by (cases "sampleCallback sampleWorld"; cases "fst (sampleCallback sampleWorld)") auto
  obtain r2 w2 where r2: "sampleCallback w' = (r2, w2)" by (cases "sampleCallback w'")
  show ?thesis using HandleCallback_idempotent [OF sampleService_gw _ r [unfolded sampleCallback_def] r2 [unfolded sampleCallback_def]]
    by (simp add: r r2)
qed

section \<open>Return addresses\<close>

lemma trimRightChar_last: "trimRightChar c s \<noteq> [] \<Longrightarrow> last (trimRightChar c s) \<noteq> c"
  using hd_dropWhile [of "\<lambda>x. x = c" "rev s"] by (simp add: trimRightChar_def last_rev)

text \<open>C38. No open redirect: whatever path the callback carries, the browser is sent to the configured
  web origin followed by a path that starts with a single slash and contains no slash followed
  by a backslash.\<close>

theorem BrowserReturnURL_same_origin:
  "let base = trimRightChar (CHR ''/'') (svc_webReturn s); url = BrowserReturnURL s path0 paymentID st invoiceID
   in if base = '''' then url = ''''
      else \<exists>path query. url = base @ path @ ''?'' @ query \<and> last base \<noteq> CHR ''/'' \<and>
        hasPrefix path ''/'' \<and> \<not> hasPrefix path ''//'' \<and> \<not> isInfixOf [CHR ''/'', CHR 0x5C] path"
proof (cases "trimRightChar (CHR ''/'') (svc_webReturn s) = ''''")
  case True
  thus ?thesis by (simp add: BrowserReturnURL_def)
next
  case False
  let ?path = "if path0 = '''' \<or> badPath path0 then ''/payment/result'' else path0"
  have "\<not> badPath ''/payment/result''" by code_simp
  hence "\<not> badPath ?path" by auto
  hence "hasPrefix ?path ''/'' \<and> \<not> hasPrefix ?path ''//'' \<and> \<not> isInfixOf [CHR ''/'', CHR 0x5C] ?path"
    by (auto simp: badPath_def)
  moreover have "\<exists>query. BrowserReturnURL s path0 paymentID st invoiceID =
      trimRightChar (CHR ''/'') (svc_webReturn s) @ ?path @ ''?'' @ query"
    using False by (simp add: BrowserReturnURL_def Let_def)
  ultimately show ?thesis using False trimRightChar_last by (auto simp: Let_def)
qed

text \<open>C37. The return path survives the gateway: for a nonempty return path that the check of paths
  accepts and a configured web origin without a trailing slash, which the constructor trims,
  the callback URL is the configured one followed by a question mark, or an ampersand when it
  has a question mark already, and the parameter return_path; its value contains no separator
  of a URL and unescapes to the path; and the browser is then sent to exactly the web origin,
  that path and the escaped invoice id, when there is one, payment id and status.\<close>

theorem return_path_roundtrip:
  assumes "svc_webReturn s \<noteq> ''''" and "trimRightChar (CHR ''/'') (svc_webReturn s) = svc_webReturn s"
    and "returnPath \<noteq> ''''" and "\<not> badPath returnPath"
  shows "\<exists>e. callbackURLFor s returnPath = svc_callback s @ (if isInfixOf ''?'' (svc_callback s) then ''&'' else ''?'') @ ''return_path='' @ e \<and>
     queryUnescape e = Some returnPath \<and> set e \<inter> {CHR ''&'', CHR ''='', CHR ''?'', CHR 0x23} = {} \<and>
     BrowserReturnURL s (the (queryUnescape e)) paymentID st invoiceID = svc_webReturn s @ returnPath @ ''?'' @
       (if invoiceID = '''' then '''' else ''invoice_id='' @ queryEscape invoiceID @ ''&'') @
       ''payment_id='' @ queryEscape paymentID @ ''&status='' @ queryEscape st"
proof -
  have "callbackURLFor s returnPath = svc_callback s @ (if isInfixOf ''?'' (svc_callback s) then ''&'' else ''?'') @ ''return_path='' @ queryEscape returnPath"
    using assms by (simp add: callbackURLFor_def)
  moreover have "BrowserReturnURL s returnPath paymentID st invoiceID = svc_webReturn s @ returnPath @ ''?'' @
       (if invoiceID = '''' then '''' else ''invoice_id='' @ queryEscape invoiceID @ ''&'') @ ''payment_id='' @ queryEscape paymentID @ ''&status='' @ queryEscape st"
    using assms by (simp add: BrowserReturnURL_def Let_def)
  ultimately show ?thesis using queryUnescape_queryEscape [of returnPath] queryEscape_plain [of returnPath]
    by (intro exI [of _ "queryEscape returnPath"]) simp
qed

theorem return_path_roundtrip_witness:
  "\<exists>e. callbackURLFor sampleService ''/r/invoices?id=5&x=1'' = ''http://api/callback?return_path='' @ e \<and>
     BrowserReturnURL sampleService (the (queryUnescape e)) ''71'' ''verified'' '''' = ''http://web/r/invoices?id=5&x=1?payment_id=71&status=verified''"
proof -
  have h: "svc_webReturn sampleService = ''http://web''" "svc_callback sampleService = ''http://api/callback''"
    "\<not> badPath ''/r/invoices?id=5&x=1''" "\<not> isInfixOf ''?'' ''http://api/callback''" "queryEscape ''71'' = ''71''" "queryEscape ''verified'' = ''verified''" by code_simp+
  show ?thesis
    using return_path_roundtrip [of sampleService "''/r/invoices?id=5&x=1''" "''71''" "''verified''" "''''"] h
    by (simp add: trimRightChar_def) metis
qed

section \<open>Balances\<close>

text \<open>The invoices of a unit add up: the stored final amount is the one of its parts.\<close>

definition invoiceTotals :: "db \<Rightarrow> uuid \<Rightarrow> bool" where
  "invoiceTotals d uid \<longleftrightarrow> list_all (\<lambda>i. inv_FinalAmount i =
     inv_BaseAmount i + inv_PriorDebt i + inv_LateFeeAmount i - inv_CreditAmount i) (openInvoices d uid)"

definition smallAggregates :: "balanceAggregates \<Rightarrow> bool" where
  "smallAggregates a \<longleftrightarrow> list_all (\<lambda>x. \<bar>x\<bar> < 2 ^ 59) (aggFields a)"

lemma sum_list_open:
  "list_all (\<lambda>i. inv_FinalAmount i = inv_BaseAmount i + inv_PriorDebt i + inv_LateFeeAmount i - inv_CreditAmount i) xs \<Longrightarrow>
   sum_list (map inv_PriorDebt xs) + sum_list (map inv_BaseAmount xs) + sum_list (map inv_LateFeeAmount xs)
     - sum_list (map inv_PaidAmount xs) - sum_list (map inv_CreditAmount xs)
   = sum_list (map (\<lambda>i. inv_FinalAmount i - inv_PaidAmount i) xs)"
  by (induction xs) auto

lemma balanceOf_exact:
  assumes "smallAggregates a"
  shows "bal_Balance (balanceOf uid a t) = max 0 (agg_Prior a + agg_Current a + agg_Late a - agg_Paid a - agg_Credit a
        + agg_DebitAdj a - agg_CreditAdj a) \<and>
    bal_CreditAsset (balanceOf uid a t) = max 0 (agg_Verified a - (agg_AbsorbedPaid a + agg_AbsorbedCredit a))"
proof -
  have "list_all (\<lambda>x. - 576460752303423488 < x \<and> x < 576460752303423488) (aggFields a)"
    using assms by (auto simp: smallAggregates_def abs_less_iff list_all_iff)
  hence r: "- 576460752303423488 < agg_Prior a" "agg_Prior a < 576460752303423488"
    "- 576460752303423488 < agg_Current a" "agg_Current a < 576460752303423488"
    "- 576460752303423488 < agg_Late a" "agg_Late a < 576460752303423488"
    "- 576460752303423488 < agg_Paid a" "agg_Paid a < 576460752303423488"
    "- 576460752303423488 < agg_Credit a" "agg_Credit a < 576460752303423488"
    "- 576460752303423488 < agg_DebitAdj a" "agg_DebitAdj a < 576460752303423488"
    "- 576460752303423488 < agg_CreditAdj a" "agg_CreditAdj a < 576460752303423488"
    "- 576460752303423488 < agg_Verified a" "agg_Verified a < 576460752303423488"
    "- 576460752303423488 < agg_AbsorbedPaid a" "agg_AbsorbedPaid a < 576460752303423488"
    "- 576460752303423488 < agg_AbsorbedCredit a" "agg_AbsorbedCredit a < 576460752303423488"
    by (simp_all add: aggFields_def)
  have id: "i64 x = x" if "- 9223372036854775808 \<le> x" "x < 9223372036854775808" for x
    using that by (intro i64_id) (simp add: in64_def)
  have 1: "i64 (agg_Prior a + agg_DebitAdj a) = agg_Prior a + agg_DebitAdj a"
    by (rule id) (use r in linarith)+
  have 2: "i64 (agg_Credit a + agg_CreditAdj a) = agg_Credit a + agg_CreditAdj a"
    by (rule id) (use r in linarith)+
  have 3: "i64 (agg_AbsorbedPaid a + agg_AbsorbedCredit a) = agg_AbsorbedPaid a + agg_AbsorbedCredit a"
    by (rule id) (use r in linarith)+
  have 4: "i64 (agg_Verified a - (agg_AbsorbedPaid a + agg_AbsorbedCredit a)) = agg_Verified a - (agg_AbsorbedPaid a + agg_AbsorbedCredit a)"
    by (rule id) (use r in linarith)+
  have 5: "i64 (agg_Prior a + agg_DebitAdj a + agg_Current a + agg_Late a - agg_Paid a - (agg_Credit a + agg_CreditAdj a))
       = agg_Prior a + agg_Current a + agg_Late a - agg_Paid a - agg_Credit a + agg_DebitAdj a - agg_CreditAdj a"
  proof -
    have "i64 (agg_Prior a + agg_DebitAdj a + agg_Current a + agg_Late a - agg_Paid a - (agg_Credit a + agg_CreditAdj a))
       = agg_Prior a + agg_DebitAdj a + agg_Current a + agg_Late a - agg_Paid a - (agg_Credit a + agg_CreditAdj a)"
      by (rule id) (use r in linarith)+
    thus ?thesis by simp
  qed
  show ?thesis unfolding balanceOf_def Let_def 1 2 3 4 5 by (simp add: max_def)
qed

text \<open>C26. The stored balance refines the ledger: for a unit whose open invoices have the final amount
  of their parts (base + prior debt + late fee - credit) and whose aggregated sums are below
  2^59 in absolute value, a successful recomputation stores the outstanding amount of its open
  invoices, the final amounts less what is paid, corrected by the adjustments, and the credit
  asset is what verified payments exceed the amounts the invoices absorbed; both are never
  negative and no other table changes.\<close>

theorem recomputeBalance_spec:
  assumes run: "recomputeBalance uid w = (Inr ub, w')"
    and "invoiceTotals (db w) uid" and small: "smallAggregates (balanceAggregatesQuery (db w) uid)"
  shows "bal_Balance ub = max 0 (sum_list (map (\<lambda>i. inv_FinalAmount i - inv_PaidAmount i) (openInvoices (db w) uid))
       + agg_DebitAdj (balanceAggregatesQuery (db w) uid) - agg_CreditAdj (balanceAggregatesQuery (db w) uid)) \<and>
     bal_CreditAsset ub = max 0 (sum_list (map pay_Amount (filter (\<lambda>p. pay_UnitID p = uid \<and> pay_Status p = StatusVerified) (payments (db w))))
       - sum_list (map (\<lambda>i. inv_PaidAmount i + inv_CreditAmount i) (nonCancelled (db w) uid))) \<and>
     find (\<lambda>b. bal_UnitID b = uid) (unit_balances (db w')) = Some ub \<and>
     db w' = (db w)\<lparr>unit_balances := unit_balances (db w')\<rparr>"
proof -
  let ?a = "balanceAggregatesQuery (db w) uid"
  obtain t where t: "ub = balanceOf uid ?a t"
    "db w' = (db w)\<lparr>unit_balances := saveRow bal_UnitID ub (unit_balances (db w))\<rparr>"
    using recomputeBalance_result [OF run] by blast
  have X: "bal_Balance ub = max 0 (agg_Prior ?a + agg_Current ?a + agg_Late ?a - agg_Paid ?a - agg_Credit ?a
        + agg_DebitAdj ?a - agg_CreditAdj ?a)"
    "bal_CreditAsset ub = max 0 (agg_Verified ?a - (agg_AbsorbedPaid ?a + agg_AbsorbedCredit ?a))"
    unfolding t(1) using balanceOf_exact [OF small] by auto
  have S: "agg_Prior ?a + agg_Current ?a + agg_Late ?a - agg_Paid ?a - agg_Credit ?a
      = sum_list (map (\<lambda>i. inv_FinalAmount i - inv_PaidAmount i) (openInvoices (db w) uid))"
    using sum_list_open assms(2) unfolding invoiceTotals_def by (simp add: balanceAggregatesQuery_def Let_def)
  have V: "agg_AbsorbedPaid ?a + agg_AbsorbedCredit ?a = sum_list (map (\<lambda>i. inv_PaidAmount i + inv_CreditAmount i) (nonCancelled (db w) uid))"
    "agg_Verified ?a = sum_list (map pay_Amount (filter (\<lambda>p. pay_UnitID p = uid \<and> pay_Status p = StatusVerified) (payments (db w))))"
    by (simp_all add: balanceAggregatesQuery_def Let_def sum_list_addf)
  show ?thesis unfolding X S V using t by (auto simp: find_saveRow)
qed

theorem recomputeBalance_spec_witness:
  "\<exists>ub w'. recomputeBalance 11 sampleWorld = (Inr ub, w') \<and> bal_Balance ub = 1000 \<and> bal_CreditAsset ub = 0"
proof -
  have "\<not> isl (fst (recomputeBalance 11 sampleWorld))" by code_simp
  then obtain ub w' where r: "recomputeBalance 11 sampleWorld = (Inr ub, w')"
    by (cases "recomputeBalance 11 sampleWorld"; cases "fst (recomputeBalance 11 sampleWorld)") auto
  have "invoiceTotals sampleDb 11" "smallAggregates (balanceAggregatesQuery sampleDb 11)"
    "sum_list (map (\<lambda>i. inv_FinalAmount i - inv_PaidAmount i) (openInvoices sampleDb 11))
       + agg_DebitAdj (balanceAggregatesQuery sampleDb 11) - agg_CreditAdj (balanceAggregatesQuery sampleDb 11) = 1000"
    "sum_list (map pay_Amount (filter (\<lambda>p. pay_UnitID p = 11 \<and> pay_Status p = StatusVerified) (payments sampleDb)))
       - sum_list (map (\<lambda>i. inv_PaidAmount i + inv_CreditAmount i) (nonCancelled sampleDb 11)) = 0" by code_simp+
  moreover have "db sampleWorld = sampleDb" by (simp add: sampleWorld_def)
  ultimately show ?thesis using recomputeBalance_spec [OF r] r by simp
qed

section \<open>Scope of the payment lists\<close>

lemma set_pageOf: "set (pageOf p s xs) \<subseteq> set xs"
  unfolding pageOf_def by (auto dest: in_set_takeD in_set_dropD split: if_splits)

lemma repoListPayments_result:
  assumes "repoListPayments f w = (Inr (ps, n), w')"
  shows "\<forall>p\<in>set ps. p \<in> set (payments (db w)) \<and> paymentMatches f p"
    and "n = int (length (filter (paymentMatches f) (payments (db w))))"
proof -
  have "set ps \<subseteq> set (filter (paymentMatches f) (payments (db w)))"
    and "n = int (length (filter (paymentMatches f) (payments (db w))))"
    using assms set_pageOf unfolding repoListPayments_def Let_def
    by (fastforce elim!: bindE_splitE simp: query_def returnE_def split: if_splits)+
  thus "\<forall>p\<in>set ps. p \<in> set (payments (db w)) \<and> paymentMatches f p"
    and "n = int (length (filter (paymentMatches f) (payments (db w))))" by auto
qed

text \<open>A resident's payment list contains only payments of units the resident currently occupies,
  and reading it changes nothing.\<close>

theorem MyPayments_scope:
  assumes "MyPayments u f w = (Inr (ps, n), w')"
  shows "db w' = db w \<and> (\<forall>p\<in>set ps. p \<in> set (payments (db w)) \<and> pay_UnitID p \<in> set (residentUnits (db w) (usr_Phone u)))"
proof -
  have "reads (MyPayments u f)" unfolding MyPayments_def by (rule reads_bindE) auto
  hence d: "db w' = db w" using assms by (rule reads_run)
  define us where "us = residentUnits (db w) (usr_Phone u)"
  have k: "(if us = [] then returnE ([], 0) else repoListPayments (f\<lparr>pf_UnitIDs := us\<rparr>)) (tick w) = (Inr (ps, n), w')"
    using assms unfolding MyPayments_def repoResidentUnitIDs_def
    by (auto elim!: bindE_splitE simp: query_def us_def split: if_splits)
  show ?thesis
  proof (cases "us = []")
    case True
    thus ?thesis using k d by (simp add: returnE_def)
  next
    case False
    thus ?thesis using k d repoListPayments_result(1) [of "f\<lparr>pf_UnitIDs := us\<rparr>" "tick w" ps n w'] by (auto simp: paymentMatches_def us_def)
  qed
qed

definition anyPayment :: PaymentFilter where
  "anyPayment = \<lparr>pf_BuildingID = 0, pf_UnitID = 0, pf_UnitIDs = [], pf_From = None, pf_To = None, pf_Method = '''',
     pf_Page = 1, pf_Size = 20\<rparr>"

theorem MyPayments_scope_witness:
  "\<exists>ps n w'. MyPayments sampleResident anyPayment sampleWorld = (Inr (ps, n), w') \<and> (\<forall>p\<in>set ps. pay_UnitID p = 11)"
proof -
  have "\<not> isl (fst (MyPayments sampleResident anyPayment sampleWorld))"
    and u: "residentUnits sampleDb (usr_Phone sampleResident) = [11]" by code_simp+
  then obtain ps n w' where r: "MyPayments sampleResident anyPayment sampleWorld = (Inr (ps, n), w')"
    by (cases "MyPayments sampleResident anyPayment sampleWorld"; cases "fst (MyPayments sampleResident anyPayment sampleWorld)") auto
  show ?thesis using MyPayments_scope [OF r] r u by (auto simp: sampleWorld_def)
qed

text \<open>The building ledger is given only to a manager granted the building, and without a unit
  filter it contains only payments of that building.\<close>

theorem BuildingLedger_scope:
  assumes "BuildingLedger u bid f w = (Inr (ps, n), w')" and "pf_UnitID f = uuidNil" "pf_UnitIDs f = []" and "bid \<noteq> uuidNil"
  shows "db w' = db w \<and> usr_Role u = RoleManager \<and>
     (\<exists>g\<in>set (user_buildings (db w)). ub_UserID g = usr_ID u \<and> ub_BuildingID g = bid) \<and>
     (\<forall>p\<in>set ps. p \<in> set (payments (db w)) \<and> pay_BuildingID p = bid)"
proof -
  have "reads (BuildingLedger u bid f)" unfolding BuildingLedger_def by (intro atom reads_payment)
  hence d: "db w' = db w" using assms(1) by (rule reads_run)
  have r: "usr_Role u = RoleManager"
      "\<exists>g\<in>set (user_buildings (db w)). ub_UserID g = usr_ID u \<and> ub_BuildingID g = bid"
    and k: "repoListPayments (f\<lparr>pf_BuildingID := bid\<rparr>) (tick w) = (Inr (ps, n), w')"
    using assms(1) unfolding BuildingLedger_def payIsManagerOf_def
    by (auto elim!: bindE_splitE simp: thenE_def throwIf_def throwE_def returnE_def query_def filter_empty_conv split: if_splits)
  show ?thesis using repoListPayments_result(1) [OF k] r d assms(2-4) by (auto simp: paymentMatches_def)
qed

theorem BuildingLedger_scope_witness:
  "\<exists>ps n w'. BuildingLedger sampleManager 1 anyPayment sampleWorld = (Inr (ps, n), w') \<and> (\<forall>p\<in>set ps. pay_BuildingID p = 1)"
proof -
  have "\<not> isl (fst (BuildingLedger sampleManager 1 anyPayment sampleWorld))" by code_simp
  then obtain ps n w' where r: "BuildingLedger sampleManager 1 anyPayment sampleWorld = (Inr (ps, n), w')"
    by (cases "BuildingLedger sampleManager 1 anyPayment sampleWorld"; cases "fst (BuildingLedger sampleManager 1 anyPayment sampleWorld)") auto
  show ?thesis using BuildingLedger_scope [OF r] r by (auto simp: anyPayment_def)
qed

definition otherBuildingDb :: db where
  "otherBuildingDb = sampleDb\<lparr>payments := [mkGatewayPayment 72 2 13 63 900 ''A2'']\<rparr>"

text \<open>The unit filter of the building ledger replaces the building condition: the manager of one
  building obtains the payments of a unit of another building.\<close>

theorem BuildingLedger_unit_filter_leaks:
  "payIsManagerOf (usr_ID sampleManager) 2 (exampleWorld otherBuildingDb) = (Inr False, tick (exampleWorld otherBuildingDb)) \<and>
   fst (BuildingLedger sampleManager 1 (anyPayment\<lparr>pf_UnitID := 13\<rparr>) (exampleWorld otherBuildingDb))
     = Inr ([mkGatewayPayment 72 2 13 63 900 ''A2''], 1)"
  by (rule conjI) (simp add: payIsManagerOf_def query_def otherBuildingDb_def sampleDb_def exampleWorld_def sampleManager_def mkUser_def, code_simp)

definition cancelledDb :: db where
  "cancelledDb = sampleDb\<lparr>invoices := [mkInvoice 61 ''BLD-2026-0001'' 1 51 11 400 InvoiceCanceled]\<rparr>"

text \<open>A payment that was started before its invoice was cancelled still settles the cancelled
  invoice: a confirmed callback turns it to paid, although starting a new payment for it is
  refused.\<close>

theorem callback_pays_cancelled_invoice:
  "map inv_Status (invoices (db (snd (sampleCallback (exampleWorld cancelledDb))))) = [InvoicePaid] \<and>
   fst (StartGateway sampleService sampleResident 61 None '''' (exampleWorld cancelledDb)) = Inl (AppErr (Conflict ''msgInvoiceCancelled''))"
  by (rule conjI) code_simp+

end
