(* ===== verification/Ledger_Machine.thy ===== *)
theory Ledger_Machine
  imports Payment_Ledger
begin

text \<open>
  Billing and payments together: the requests that write to the ledger, in any order and with any outcome, and
  what no sequence of them can change.
\<close>

section \<open>Steps\<close>

inductive ledger_step :: "http_post \<Rightarrow> Zarinpal \<Rightarrow> db world \<Rightarrow> db world \<Rightarrow> bool" for post z where
  billing: "billing_step BalanceSnapshot (Some RecomputeInvoice) w w' \<Longrightarrow> ledger_step post z w w'"
| recordManual: "RecordManual u iid inp w = (r, w') \<Longrightarrow> ledger_step post z w w'"
| startGateway: "svc_gw s = zarinpalGateway post z \<Longrightarrow> StartGateway s u iid amount rp w = (r2, w') \<Longrightarrow> ledger_step post z w w'"
| callback: "svc_gw s = zarinpalGateway post z \<Longrightarrow> HandleCallback parse s pid a w = (r3, w') \<Longrightarrow> ledger_step post z w w'"
| unitBalance: "UnitBalanceFor u uid w = (r4, w') \<Longrightarrow> ledger_step post z w w'"
| reverse: "ReversePayment pid w = (r5, w') \<Longrightarrow> ledger_step post z w w'"

lemma obeys_UnitBalanceFor: "obeys billing_rel (UnitBalanceFor u uid)"
  unfolding UnitBalanceFor_def RecomputeUnit_def
  by (intro obeys_intros obeys_env obeys_reads [OF reads_canAccessUnit] obeys_recomputeBalance)

lemma ledger_step_rel: "ledger_step post z w w' \<Longrightarrow> billing_rel (db w) (db w')"
  by (erule ledger_step.cases)
     (auto intro: app.step_billing_rel obeys_run [OF obeys_RecordManual] obeys_run [OF zarinpal.obeys_StartGateway]
       obeys_run [OF zarinpal.obeys_HandleCallback] obeys_run [OF obeys_UnitBalanceFor] obeys_run [OF obeys_ReversePayment])

interpretation ledger: request_machine "ledger_step post z" billing_rel
  by unfold_locales (simp_all add: ledger_step_rel billing_rel_trans)

section \<open>What no sequence of requests changes\<close>





definition sampleZ :: Zarinpal where "sampleZ = \<lparr>z_MerchantID = ''M'', z_Sandbox = True\<rparr>"

definition sampleRun :: "db world" where
  "sampleRun = snd (Close sampleManager 51 (snd (sampleCallback (snd (sampleManual sampleWorld)))))"

lemma sampleRun_steps: "(ledger_step samplePost sampleZ)\<^sup>*\<^sup>* sampleWorld sampleRun"
proof -
  have "ledger_step samplePost sampleZ w (snd (sampleManual w))" for w
    by (cases "sampleManual w") (auto simp: sampleManual_def intro: ledger_step.recordManual)
  moreover have "ledger_step samplePost sampleZ w (snd (sampleCallback w))" for w
    by (cases "sampleCallback w") (auto simp: sampleCallback_def sampleZ_def intro: ledger_step.callback [OF sampleService_gw])
  moreover have "ledger_step samplePost sampleZ w (snd (Close sampleManager 51 w))" for w
    by (cases "Close sampleManager 51 w") (auto intro: ledger_step.billing billing_step.close)
  ultimately show ?thesis unfolding sampleRun_def by (meson rtranclp.intros)
qed


text \<open>C2. Issued invoices are immutable: along every sequence of requests to the billing and payment
  services, whatever their arguments and outcomes, an invoice of an issued or closed period is
  never deleted, keeps its number, every amount column and its unit, and loses none of its
  items.\<close>

theorem issued_invoices_immutable:
  assumes "(ledger_step post z)\<^sup>*\<^sup>* w w'" and "invoice_pk (db w)"
    and "i \<in> set (invoices (db w))" and "statusOf (db w) (inv_PeriodID i) \<in> {Some PeriodIssued, Some PeriodClosed}"
  shows "\<exists>j\<in>set (invoices (db w')). inv_ID j = inv_ID i \<and> inv_InvoiceNumber j = inv_InvoiceNumber i \<and>
     inv_BaseAmount j = inv_BaseAmount i \<and> inv_PriorDebt j = inv_PriorDebt i \<and>
     inv_LateFeeAmount j = inv_LateFeeAmount i \<and> inv_CreditAmount j = inv_CreditAmount i \<and>
     inv_FinalAmount j = inv_FinalAmount i \<and> inv_UnitID j = inv_UnitID i \<and>
     {x\<in>set (invoice_items (db w)). ii_InvoiceID x = inv_ID i} \<subseteq> set (invoice_items (db w'))"
proof -
  have k: "ledger_kept (db w) (db w')" using ledger.steps_rel [OF assms(1)] assms(2) by (simp add: billing_rel_def)
  have f: "frozen (db w) (inv_PeriodID i)" using assms(4) by (auto simp: frozen_def frozenStatus_def)
  obtain j where j: "j \<in> set (invoices (db w'))" "sameInvoice i j" using k f assms(3) by (auto simp: ledger_kept_def)
  moreover have "{x\<in>set (invoice_items (db w)). ii_InvoiceID x = inv_ID i} \<subseteq> set (invoice_items (db w'))"
    using k f assms(3) by (auto simp: ledger_kept_def)
  ultimately show ?thesis by (auto simp: sameInvoice_def invoiceAmounts_def invoiceOwner_def)
qed

theorem issued_invoices_immutable_witness:
  "\<exists>j\<in>set (invoices (db sampleRun)). inv_ID j = 62 \<and> inv_InvoiceNumber j = ''BLD-2026-0002'' \<and> inv_FinalAmount j = 1500"
proof -
  let ?i = "mkInvoice 62 ''BLD-2026-0002'' 1 51 12 1500 InvoiceUnpaid"
  have h: "invoice_pk (db sampleWorld)" "?i \<in> set (invoices (db sampleWorld))"
    "statusOf (db sampleWorld) (inv_PeriodID ?i) \<in> {Some PeriodIssued, Some PeriodClosed}"
    by (simp_all add: sampleWorld_def sampleDb_def statusOf_def mkPeriod_def mkInvoice_def invoice_pk_def)
  show ?thesis using issued_invoices_immutable [OF sampleRun_steps h] by (auto simp: mkInvoice_def)
qed

end
