(* ===== verification/Occupancy_Service.thy ===== *)
theory Occupancy_Service
  imports Building_Service "HOL-Library.Product_Lexorder"
begin

text \<open>
  People and occupancies: \<open>internal/building/occupancy_repository.go\<close> and \<open>occupancy_service.go\<close> on the tables
  of migration 0003. A \<open>DATE\<close> is its day number; the zero \<open>Date\<close> (a missing field of the request) is
  \<open>zeroDate\<close>, the day of Go's zero time.
\<close>

abbreviation (input) RelOwner :: string where "RelOwner \<equiv> ''owner''"
abbreviation (input) RelTenant :: string where "RelTenant \<equiv> ''tenant''"
abbreviation (input) RelNonResidentOwner :: string where "RelNonResidentOwner \<equiv> ''non_resident_owner''"

definition relationships :: "string list" where
  "relationships = [RelOwner, RelTenant, RelNonResidentOwner]"

definition zeroDate :: int where "zeroDate = -719162"

section \<open>Repository: persons\<close>

definition personRowOk :: "db \<Rightarrow> Person \<Rightarrow> bool" where
  "personRowOk d p \<longleftrightarrow> list_ex (\<lambda>b. bl_ID b = pe_BuildingID p) (buildings d)"

definition personReferenced :: "db \<Rightarrow> uuid \<Rightarrow> bool" where
  "personReferenced d pid \<longleftrightarrow> list_ex (\<lambda>x. oc_PersonID x = pid) (occupancies d) \<or> list_ex (\<lambda>e. ex_PayerPersonID e = Some pid) (expenses d) \<or>
     list_ex (\<lambda>m. mr_AssigneePersonID m = Some pid) (maintenance_requests d)"

definition repoCreatePerson :: "Person \<Rightarrow> Person dbm" where
  "repoCreatePerson p = bindE timeNow (\<lambda>t. let p' = p\<lparr>pe_CreatedAt := t, pe_UpdatedAt := t\<rparr> in
     thenE (exec (\<lambda>d. if list_ex (\<lambda>q. pe_ID q = pe_ID p) (persons d) \<or> \<not> personRowOk d p' then Inl (Constraint ''persons'')
        else Inr ((), d\<lparr>persons := persons d @ [p']\<rparr>))) (returnE p'))"

definition FindPerson :: "uuid \<Rightarrow> Person dbm" where
  "FindPerson pid = query (\<lambda>d. firstRow (\<lambda>p. pe_ID p = pid) (persons d))"

text \<open>\<open>NULL ILIKE pattern\<close> is not true; the disjunction is one \<open>Where\<close>, which gorm puts in parentheses.\<close>

definition personMatches :: "(string \<Rightarrow> string \<Rightarrow> bool) \<Rightarrow> uuid \<Rightarrow> string \<Rightarrow> Person \<Rightarrow> bool" where
  "personMatches ilike bid q p \<longleftrightarrow> pe_BuildingID p = bid \<and> pe_DeletedAt p = None \<and>
     (q = '''' \<or> (let pat = ''%'' @ q @ ''%'' in ilike (pe_FullName p) pat \<or>
        (case pe_Phone p of None \<Rightarrow> False | Some s \<Rightarrow> ilike s pat) \<or> (case pe_NationalID p of None \<Rightarrow> False | Some s \<Rightarrow> ilike s pat)))"

text \<open>gorm adds no \<open>LIMIT\<close> for a negative value and no \<open>OFFSET\<close> for one that is not positive.\<close>

definition limitOffset :: "int \<Rightarrow> int \<Rightarrow> 'a list \<Rightarrow> 'a list" where
  "limitOffset limit offset xs = (let ys = (if offset > 0 then drop (nat offset) xs else xs)
     in if limit \<ge> 0 then take (nat limit) ys else ys)"

definition repoListPersons :: "(string \<Rightarrow> string \<Rightarrow> bool) \<Rightarrow> uuid \<Rightarrow> string \<Rightarrow> int \<Rightarrow> int \<Rightarrow> (Person list \<times> int) dbm" where
  "repoListPersons ilike bid q page sz =
     bindE (query (\<lambda>d. Inr (int (length (filter (personMatches ilike bid q) (persons d)))))) (\<lambda>total.
     bindE (query (\<lambda>d. Inr (limitOffset sz ((page - 1) * sz)
       (sort_key (\<lambda>p. - pe_CreatedAt p) (filter (personMatches ilike bid q) (persons d)))))) (\<lambda>items.
     returnE (items, total)))"

definition repoUpdatePerson :: "Person \<Rightarrow> Person dbm" where
  "repoUpdatePerson p = bindE timeNow (\<lambda>t. let p' = p\<lparr>pe_UpdatedAt := t\<rparr> in
     thenE (exec (\<lambda>d. if \<not> personRowOk d p' then Inl (Constraint ''persons'')
        else Inr ((), d\<lparr>persons := saveRow pe_ID p' (persons d)\<rparr>))) (returnE p'))"

definition repoDeletePerson :: "uuid \<Rightarrow> unit dbm" where
  "repoDeletePerson pid = exec (\<lambda>d. if list_ex (\<lambda>p. pe_ID p = pid) (persons d) \<and> personReferenced d pid
     then Inl (Constraint ''23503'') else Inr ((), d\<lparr>persons := filter (\<lambda>p. pe_ID p \<noteq> pid) (persons d)\<rparr>))"

section \<open>Repository: occupancies\<close>

definition ErrOccupancyConflict :: go_error where
  "ErrOccupancyConflict = Sentinel ''ErrOccupancyConflict''"

definition occupancyRowOk :: "db \<Rightarrow> Occupancy \<Rightarrow> bool" where
  "occupancyRowOk d x \<longleftrightarrow> oc_Relationship x \<in> set relationships \<and> (case oc_EndDate x of None \<Rightarrow> True | Some e \<Rightarrow> oc_StartDate x \<le> e) \<and>
     list_ex (\<lambda>u. un_ID u = oc_UnitID x) (units d) \<and> list_ex (\<lambda>p. pe_ID p = oc_PersonID x) (persons d)"

definition openTenant :: "uuid \<Rightarrow> Occupancy \<Rightarrow> bool" where
  "openTenant uid x \<longleftrightarrow> oc_UnitID x = uid \<and> oc_Relationship x = RelTenant \<and> oc_EndDate x = None"

text \<open>\<open>uq_occupancies_active_tenant\<close>.\<close>

definition tenantClash :: "db \<Rightarrow> Occupancy \<Rightarrow> bool" where
  "tenantClash d x \<longleftrightarrow> openTenant (oc_UnitID x) x \<and> list_ex (\<lambda>y. oc_ID y \<noteq> oc_ID x \<and> openTenant (oc_UnitID x) y) (occupancies d)"

definition closeOccupancies :: "Occupancy \<Rightarrow> Occupancy list \<Rightarrow> Occupancy list" where
  "closeOccupancies x rows = updateWhere
     (\<lambda>y. oc_UnitID y = oc_UnitID x \<and> oc_Relationship y = oc_Relationship x \<and> oc_EndDate y = None)
     (\<lambda>y. y\<lparr>oc_EndDate := Some (max (oc_StartDate y) (oc_StartDate x - 1)), oc_IsActive := False\<rparr>) rows"

definition repoCreateOccupancy :: "Occupancy \<Rightarrow> Occupancy dbm" where
  "repoCreateOccupancy x = transaction (
     thenE (exec (\<lambda>d. Inr ((), d\<lparr>occupancies := closeOccupancies x (occupancies d)\<rparr>)))
     (bindE timeNow (\<lambda>t. let x' = x\<lparr>oc_CreatedAt := t\<rparr> in
      thenE (mapErr (\<lambda>e. if e = uniqueViolation then ErrOccupancyConflict else e) (exec (\<lambda>d.
        if list_ex (\<lambda>y. oc_ID y = oc_ID x') (occupancies d) \<or> tenantClash d x' then Inl uniqueViolation
        else if \<not> occupancyRowOk d x' then Inl (Constraint ''occupancies'')
        else Inr ((), d\<lparr>occupancies := occupancies d @ [x']\<rparr>)))) (returnE x'))))"

definition FindOccupancy :: "uuid \<Rightarrow> Occupancy dbm" where
  "FindOccupancy oid = query (\<lambda>d. firstRow (\<lambda>x. oc_ID x = oid) (occupancies d))"

text \<open>The preloaded person of a row is the second component.\<close>

definition repoListOccupancies :: "uuid \<Rightarrow> (Occupancy \<times> Person option) list dbm" where
  "repoListOccupancies uid =
     bindE (query (\<lambda>d. Inr (sort_key (\<lambda>x. (- oc_StartDate x, - oc_CreatedAt x)) (filter (\<lambda>x. oc_UnitID x = uid) (occupancies d))))) (\<lambda>items.
     if items = [] then returnE []
     else query (\<lambda>d. Inr (map (\<lambda>x. (x, find (\<lambda>p. pe_ID p = oc_PersonID x) (persons d))) items)))"

definition repoEndOccupancy :: "uuid \<Rightarrow> int \<Rightarrow> unit dbm" where
  "repoEndOccupancy oid endDate = exec (\<lambda>d.
     let rows = updateWhere (\<lambda>x. oc_ID x = oid) (\<lambda>x. x\<lparr>oc_EndDate := Some endDate, oc_IsActive := False\<rparr>) (occupancies d)
     in if list_ex (\<lambda>x. oc_ID x = oid \<and> endDate < oc_StartDate x) (occupancies d) then Inl (Constraint ''occupancies'')
        else Inr ((), d\<lparr>occupancies := rows\<rparr>))"

section \<open>Repository: occupant counts\<close>

definition repoRecordOccupantCount :: "OccupantCount \<Rightarrow> OccupantCount dbm" where
  "repoRecordOccupantCount x = bindE timeNow (\<lambda>t. let x' = x\<lparr>ocn_CreatedAt := t\<rparr> in
     thenE (exec (\<lambda>d. if list_ex (\<lambda>y. ocn_ID y = ocn_ID x) (occupant_counts d) \<or> ocn_OccupantCount x < 0 \<or>
          \<not> list_ex (\<lambda>u. un_ID u = ocn_UnitID x) (units d) then Inl (Constraint ''occupant_count_history'')
        else Inr ((), d\<lparr>occupant_counts := occupant_counts d @ [x']\<rparr>))) (returnE x'))"

definition countOrder :: "OccupantCount \<Rightarrow> int \<times> int" where
  "countOrder x = (- ocn_EffectiveFrom x, - ocn_CreatedAt x)"

definition repoListOccupantCounts :: "uuid \<Rightarrow> OccupantCount list dbm" where
  "repoListOccupantCounts uid = query (\<lambda>d. Inr (sort_key countOrder (filter (\<lambda>x. ocn_UnitID x = uid) (occupant_counts d))))"

definition countAsOf :: "OccupantCount list \<Rightarrow> uuid \<Rightarrow> int \<Rightarrow> int" where
  "countAsOf rows uid ref = (case sort_key countOrder (filter (\<lambda>x. ocn_UnitID x = uid \<and> ocn_EffectiveFrom x \<le> ref) rows) of
     [] \<Rightarrow> 0 | x # _ \<Rightarrow> ocn_OccupantCount x)"

definition bldOccupantCountAsOf :: "uuid \<Rightarrow> int \<Rightarrow> int dbm" where
  "bldOccupantCountAsOf uid ref = query (\<lambda>d. Inr (countAsOf (occupant_counts d) uid ref))"

section \<open>Service: persons\<close>

text \<open>\<open>int(id[i] - '0')\<close> on bytes: the subtraction wraps around modulo 256.\<close>

definition byteDigit :: "char \<Rightarrow> int" where
  "byteDigit ch = (int (of_char ch) - 48) mod 256"

definition weightedSum :: "int list \<Rightarrow> int" where
  "weightedSum ds = sum_list (map (\<lambda>(i, dg). dg * (10 - int i)) (zip [0..<9] ds))"

text \<open>The loop adds the products until a byte is not a digit; then the id is rejected.\<close>

definition nationalIDValid :: "string \<Rightarrow> bool" where
  "nationalIDValid nid =
     (if length nid \<noteq> 10 then False
      else if list_all (\<lambda>r. r = (of_char (hd nid) :: nat)) (runesOf (tl nid)) then False
      else let ds = map byteDigit nid
      in if list_ex (\<lambda>dg. dg < 0 \<or> dg > 9) (take 9 ds) then False
      else let lst = ds ! 9
      in if lst < 0 \<or> lst > 9 then False
      else let r = weightedSum ds mod 11
      in r < 2 \<and> lst = r \<or> r \<ge> 2 \<and> lst = 11 - r)"

record PersonInput =
  pi_FullName :: string
  pi_Phone :: "string option"
  pi_NationalID :: "string option"

definition applyPersonInput :: "Person \<Rightarrow> PersonInput \<Rightarrow> Person result" where
  "applyPersonInput p inp =
     (let name = trimSpace (pi_FullName inp); nid = map_option trimSpace (pi_NationalID inp)
      in if name = '''' then Inl (invalidField ''the name is required'' ''full_name'' ''required'')
      else if badPhone (pi_Phone inp) then Inl (invalidField ''invalid mobile number'' ''phone'' ''mobile_format'')
      else if (case nid of None \<Rightarrow> False | Some s \<Rightarrow> s \<noteq> '''' \<and> \<not> nationalIDValid s)
        then Inl (invalidField ''invalid national id'' ''national_id'' ''checksum'')
      else Inr (p\<lparr>pe_FullName := name, pe_Phone := pi_Phone inp,
             pe_NationalID := (case nid of None \<Rightarrow> None | Some s \<Rightarrow> if s = '''' then None else Some s)\<rparr>))"

definition CreatePerson :: "User \<Rightarrow> uuid \<Rightarrow> PersonInput \<Rightarrow> Person dbm" where
  "CreatePerson manager bid inp =
     bindE (authorizedBuilding (Some manager) bid) (\<lambda>_.
     bindE newUUID (\<lambda>pid.
     bindE (liftE (applyPersonInput \<lparr>pe_ID = pid, pe_BuildingID = bid, pe_FullName = '''', pe_Phone = None, pe_NationalID = None,
        pe_CreatedAt = 0, pe_UpdatedAt = 0, pe_DeletedAt = None\<rparr> inp)) repoCreatePerson))"

definition authorizedPerson :: "User option \<Rightarrow> uuid \<Rightarrow> Person dbm" where
  "authorizedPerson manager pid =
     (case manager of None \<Rightarrow> throwE ErrNoManager
      | Some m \<Rightarrow>
        bindE (mapErr (\<lambda>e. if e = RecordNotFound then AppErr (NotFound ''person not found'') else e) (FindPerson pid)) (\<lambda>p.
        bindE (CanManagerAccess (usr_ID m) (pe_BuildingID p)) (\<lambda>ok.
        thenE (throwIf (\<not> ok) (AppErr (Forbidden msgForbidden))) (returnE p))))"

definition UpdatePerson :: "User \<Rightarrow> uuid \<Rightarrow> PersonInput \<Rightarrow> (Person \<times> Person) dbm" where
  "UpdatePerson manager pid inp =
     bindE (authorizedPerson (Some manager) pid) (\<lambda>before.
     bindE (liftE (applyPersonInput before inp)) (\<lambda>after0.
     bindE (repoUpdatePerson after0) (\<lambda>after. returnE (after, before))))"

definition ListPersons :: "(string \<Rightarrow> string \<Rightarrow> bool) \<Rightarrow> User \<Rightarrow> uuid \<Rightarrow> string \<Rightarrow> int \<Rightarrow> int \<Rightarrow> (Person list \<times> int) dbm" where
  "ListPersons ilike manager bid q page sz =
     bindE (authorizedBuilding (Some manager) bid) (\<lambda>_. repoListPersons ilike bid q page sz)"

definition DeletePerson :: "User \<Rightarrow> uuid \<Rightarrow> unit dbm" where
  "DeletePerson manager pid = bindE (authorizedPerson (Some manager) pid) (\<lambda>_. repoDeletePerson pid)"

section \<open>Service: occupancies\<close>

record OccupancyInput =
  oi_PersonID :: uuid
  oi_Relationship :: string
  oi_StartDate :: int
  oi_EndDate :: "int option"

definition AddOccupancy :: "User \<Rightarrow> uuid \<Rightarrow> OccupancyInput \<Rightarrow> Occupancy dbm" where
  "AddOccupancy manager uid inp =
     bindE (authorizedUnit (Some manager) uid) (\<lambda>u.
     thenE (throwIf (oi_Relationship inp \<notin> set relationships) (invalidField ''invalid relationship'' ''relationship'' ''invalid_enum''))
     (thenE (throwIf (oi_StartDate inp = zeroDate) (invalidField ''a date is required'' ''start_date'' ''required''))
     (thenE (throwIf (case oi_EndDate inp of None \<Rightarrow> False | Some e \<Rightarrow> e < oi_StartDate inp)
        (invalidField ''the end precedes the start'' ''end_date'' ''gte_start_date''))
     (bindE (authorizedPerson (Some manager) (oi_PersonID inp)) (\<lambda>p.
      thenE (throwIf (pe_BuildingID p \<noteq> un_BuildingID u) (invalidField ''invalid relationship'' ''person_id'' ''wrong_building''))
      (bindE newUUID (\<lambda>oid.
       mapErr (\<lambda>e. if e = ErrOccupancyConflict
           then AppErr (WithDetail (Conflict ''conflicting occupancy'') ''relationship'' ''one_active_per_unit'') else e)
         (repoCreateOccupancy \<lparr>oc_ID = oid, oc_UnitID = uid, oc_PersonID = oi_PersonID inp, oc_Relationship = oi_Relationship inp,
            oc_StartDate = oi_StartDate inp, oc_EndDate = oi_EndDate inp, oc_IsActive = True, oc_CreatedAt = 0\<rparr>))))))))"

definition ListOccupancies :: "User \<Rightarrow> uuid \<Rightarrow> (Occupancy \<times> Person option) list dbm" where
  "ListOccupancies manager uid = bindE (authorizedUnit (Some manager) uid) (\<lambda>_. repoListOccupancies uid)"

definition EndOccupancy :: "User \<Rightarrow> uuid \<Rightarrow> int \<Rightarrow> Occupancy dbm" where
  "EndOccupancy manager oid endDate =
     bindE (mapErr (\<lambda>e. if e = RecordNotFound then AppErr (NotFound ''occupancy not found'') else e) (FindOccupancy oid)) (\<lambda>x.
     bindE (authorizedUnit (Some manager) (oc_UnitID x)) (\<lambda>_.
     thenE (throwIf (oc_EndDate x \<noteq> None) (AppErr (WithDetail (Conflict ''the occupancy has ended'') ''end_date'' ''already_set'')))
     (thenE (throwIf (endDate = zeroDate) (invalidField ''a date is required'' ''end_date'' ''required''))
     (thenE (throwIf (endDate < oc_StartDate x) (invalidField ''the end precedes the start'' ''end_date'' ''gte_start_date''))
     (thenE (repoEndOccupancy oid endDate)
      (returnE (x\<lparr>oc_EndDate := Some endDate, oc_IsActive := False\<rparr>)))))))"

section \<open>Service: occupant counts\<close>

definition RecordOccupantCount :: "User \<Rightarrow> uuid \<Rightarrow> int \<Rightarrow> int \<Rightarrow> OccupantCount dbm" where
  "RecordOccupantCount manager uid n effectiveFrom =
     bindE (authorizedUnit (Some manager) uid) (\<lambda>_.
     thenE (throwIf (n < 0) (invalidField ''the count cannot be negative'' ''occupant_count'' ''min_0''))
     (thenE (throwIf (effectiveFrom = zeroDate) (invalidField ''a date is required'' ''effective_from'' ''required''))
     (bindE newUUID (\<lambda>cid.
      repoRecordOccupantCount \<lparr>ocn_ID = cid, ocn_UnitID = uid, ocn_OccupantCount = n, ocn_EffectiveFrom = effectiveFrom, ocn_CreatedAt = 0\<rparr>))))"

definition ListOccupantCounts :: "User \<Rightarrow> uuid \<Rightarrow> OccupantCount list dbm" where
  "ListOccupantCounts manager uid = bindE (authorizedUnit (Some manager) uid) (\<lambda>_. repoListOccupantCounts uid)"

definition OccupantCountAsOf :: "uuid \<Rightarrow> int \<Rightarrow> int dbm" where
  "OccupantCountAsOf uid ref = bldOccupantCountAsOf uid ref"

end
