(* ===== verification/Building_Machine.thy ===== *)
theory Building_Machine
  imports Occupancy_Service Triples Samples
begin

text \<open>
  The building layer as a state machine: its requests are the steps of \<open>bld_step\<close>. A building never loses its
  last manager, occupancies are a dated history, scopes are checked; the national id check.
\<close>

section \<open>What the building layer keeps\<close>

definition managed :: "db \<Rightarrow> uuid \<Rightarrow> bool" where
  "managed d bid \<longleftrightarrow> (\<exists>g\<in>set (user_buildings d). ub_BuildingID g = bid)"

definition occKept :: "Occupancy \<Rightarrow> Occupancy \<Rightarrow> bool" where
  "occKept x y \<longleftrightarrow> oc_ID y = oc_ID x \<and> oc_UnitID y = oc_UnitID x \<and> oc_PersonID y = oc_PersonID x \<and> oc_Relationship y = oc_Relationship x \<and>
     oc_StartDate y = oc_StartDate x \<and> (oc_EndDate x \<noteq> None \<longrightarrow> oc_EndDate y = oc_EndDate x)"

definition occ_wf :: "Occupancy list \<Rightarrow> bool" where
  "occ_wf rows \<longleftrightarrow> distinct (map oc_ID rows) \<and>
     (\<forall>x\<in>set rows. \<forall>y\<in>set rows. oc_EndDate x = None \<and> oc_EndDate y = None \<and> oc_UnitID x = oc_UnitID y \<and> oc_Relationship x = oc_Relationship y \<longrightarrow> x = y) \<and>
     (\<forall>x\<in>set rows. \<forall>e. oc_EndDate x = Some e \<longrightarrow> oc_StartDate x \<le> e)"

definition grants_wf :: "db \<Rightarrow> bool" where
  "grants_wf d \<longleftrightarrow> distinct (map (\<lambda>g. (ub_UserID g, ub_BuildingID g)) (user_buildings d))"

definition grants_kept :: "db \<Rightarrow> db \<Rightarrow> bool" where
  "grants_kept d d' \<longleftrightarrow> grants_wf d' \<and> (\<forall>bid. managed d bid \<longrightarrow> managed d' bid \<and> (bid \<in> bl_ID ` set (buildings d) \<longrightarrow> bid \<in> bl_ID ` set (buildings d')))"

definition occ_kept :: "db \<Rightarrow> db \<Rightarrow> bool" where
  "occ_kept d d' \<longleftrightarrow> occ_wf (occupancies d') \<and> all_kept occKept (occupancies d) (occupancies d')"

definition bld_rel :: "db \<Rightarrow> db \<Rightarrow> bool" where
  "bld_rel d d' \<longleftrightarrow> (grants_wf d \<longrightarrow> grants_kept d d') \<and> (occ_wf (occupancies d) \<longrightarrow> occ_kept d d')"

lemma occKept_refl [simp]: "occKept x x"
  by (simp add: occKept_def)

lemma occKept_trans: "occKept x y \<Longrightarrow> occKept y z \<Longrightarrow> occKept x z"
  by (auto simp: occKept_def)

lemmas occ_rows_kept [simp] = all_kept_refl [of occKept, OF occKept_refl] all_kept_append [of occKept, OF occKept_refl]

lemma bld_rel_refl [simp]: "bld_rel d d"
  by (simp add: bld_rel_def grants_kept_def occ_kept_def)

lemma occ_kept_trans: "occ_kept a b \<Longrightarrow> occ_kept b e \<Longrightarrow> occ_kept a e"
  unfolding occ_kept_def using occKept_trans by (blast intro: all_kept_trans)

lemma bld_rel_trans: "transp bld_rel"
proof (rule transpI)
  fix a b e assume h: "bld_rel a b" "bld_rel b e"
  have "grants_kept a e" if "grants_wf a"
    using h that by (simp add: bld_rel_def grants_kept_def)
  moreover have "occ_kept a e" if "occ_wf (occupancies a)"
  proof -
    have ab: "occ_kept a b" using h that by (simp add: bld_rel_def)
    hence "occ_wf (occupancies b)" by (simp add: occ_kept_def)
    hence "occ_kept b e" using h(2) by (simp add: bld_rel_def)
    with ab show ?thesis by (rule occ_kept_trans)
  qed
  ultimately show "bld_rel a e" by (simp add: bld_rel_def)
qed

lemma bld_rel_side:
  "user_buildings d' = user_buildings d \<Longrightarrow> bl_ID ` set (buildings d) \<subseteq> bl_ID ` set (buildings d') \<Longrightarrow> occupancies d' = occupancies d \<Longrightarrow> bld_rel d d'"
  by (auto simp: bld_rel_def managed_def grants_wf_def grants_kept_def occ_kept_def)

lemma bld_rel_grants:
  "occupancies d' = occupancies d \<Longrightarrow> (grants_wf d \<Longrightarrow> grants_kept d d') \<Longrightarrow> bld_rel d d'"
  by (simp add: bld_rel_def occ_kept_def)

lemma obeys_bld_env:
  "obeys bld_rel newUUID" "obeys bld_rel timeNow" "obeys bld_rel (query q)" "obeys bld_rel (returnE x)"
  "obeys bld_rel (throwE e)" "obeys bld_rel (throwIf b e)" "obeys bld_rel (liftE r)"
  by (rule obeys_reads, rule reads_rules)+

lemma obeys_repoCreateBuilding: "obeys bld_rel (repoCreateBuilding b)"
  unfolding repoCreateBuilding_def Let_def
  by (intro obeys_intros obeys_bld_env obeys_exec [OF bld_rel_trans] bld_rel_side) (auto split: if_splits)

lemma obeys_repoUpdateBuilding: "obeys bld_rel (repoUpdateBuilding b)"
  unfolding repoUpdateBuilding_def Let_def
proof (intro obeys_intros obeys_bld_env obeys_exec [OF bld_rel_trans])
  fix t and d d' :: db and u
  assume "(if \<not> buildingRowOk (b\<lparr>bl_UpdatedAt := t\<rparr>) then Inl (Constraint ''buildings'')
        else Inr ((), d\<lparr>buildings := saveRow bl_ID (b\<lparr>bl_UpdatedAt := t\<rparr>) (buildings d)\<rparr>)) = Inr (u, d')"
  thus "bld_rel d d'" using keys_saveRow [of bl_ID "buildings d" "b\<lparr>bl_UpdatedAt := t\<rparr>"] by (intro bld_rel_side) (auto split: if_splits)
qed

lemma obeys_repoDeleteBuilding: "obeys bld_rel (repoDeleteBuilding bid)"
  unfolding repoDeleteBuilding_def
proof (rule obeys_exec [OF bld_rel_trans])
  fix d d' :: db and u
  assume "(if list_ex (\<lambda>b. bl_ID b = bid) (buildings d) \<and> buildingReferenced d bid
     then Inl (Constraint ''23503'') else Inr ((), d\<lparr>buildings := filter (\<lambda>b. bl_ID b \<noteq> bid) (buildings d)\<rparr>)) = Inr (u, d')"
  hence d': "d' = d\<lparr>buildings := filter (\<lambda>b. bl_ID b \<noteq> bid) (buildings d)\<rparr>"
    and n: "bid \<in> bl_ID ` set (buildings d) \<Longrightarrow> \<not> managed d bid"
    by (auto simp: buildingReferenced_def managed_def list_ex_iff split: if_splits)
  have "bl_ID b \<in> bl_ID ` {x \<in> set (buildings d). bl_ID x \<noteq> bid}" if "b \<in> set (buildings d)" "managed d (bl_ID b)" for b
    using that n by (cases "bl_ID b = bid") auto
  hence k: "b \<in> bl_ID ` set (buildings d) \<Longrightarrow> managed d b \<Longrightarrow> b \<in> bl_ID ` set (filter (\<lambda>b. bl_ID b \<noteq> bid) (buildings d))" for b
    by auto
  have m: "managed (d\<lparr>buildings := bs\<rparr>) b = managed d b" "grants_wf (d\<lparr>buildings := bs\<rparr>) = grants_wf d" for bs b
    by (simp_all add: managed_def grants_wf_def)
  show "bld_rel d d'" unfolding d'
  proof (rule bld_rel_grants, simp)
    assume "grants_wf d"
    thus "grants_kept d (d\<lparr>buildings := filter (\<lambda>b. bl_ID b \<noteq> bid) (buildings d)\<rparr>)"
      unfolding grants_kept_def m using k by simp
  qed
qed

lemma grants_kept_insert:
  "grants_wf d \<Longrightarrow> \<not> list_ex (isGrant uid bid) (user_buildings d) \<Longrightarrow>
   grants_kept d (d\<lparr>user_buildings := user_buildings d @ [\<lparr>ub_UserID = uid, ub_BuildingID = bid, ub_GrantedAt = t\<rparr>]\<rparr>)"
  by (auto simp: grants_kept_def grants_wf_def managed_def list_ex_iff isGrant_def)

lemma obeys_InsertManagerGrant: "obeys bld_rel (InsertManagerGrant uid bid)"
  unfolding InsertManagerGrant_def
  by (intro obeys_intros obeys_bld_env obeys_exec [OF bld_rel_trans] bld_rel_grants) (auto intro: grants_kept_insert split: if_splits)

lemma obeys_Promote: "obeys bld_rel (PromoteResidentToManager uid)"
  unfolding PromoteResidentToManager_def
  by (intro obeys_intros obeys_bld_env obeys_exec [OF bld_rel_trans] bld_rel_side) auto

lemma obeys_GrantManager: "obeys bld_rel (GrantManager uid bid)"
  unfolding GrantManager_def
  by (intro obeys_if obeys_intros obeys_bld_env obeys_exec [OF bld_rel_trans] bld_rel_grants) (auto intro: grants_kept_insert split: if_splits)

text \<open>The guard of the \<open>DELETE\<close>: another grant of the building stays.\<close>

lemma revokable_other:
  assumes r: "revokable d uid bid" and "grants_wf d"
  shows "\<exists>g\<in>set (user_buildings d). ub_BuildingID g = bid \<and> ub_UserID g \<noteq> uid"
proof (rule ccontr)
  assume n: "\<not> ?thesis"
  let ?xs = "map (\<lambda>g. (ub_UserID g, ub_BuildingID g)) (filter (\<lambda>g. ub_BuildingID g = bid) (user_buildings d))"
  have "distinct ?xs" using assms(2) unfolding grants_wf_def by (rule distinct_map_filter)
  hence "length ?xs = card (set ?xs)" by (rule distinct_card [symmetric])
  also have "set ?xs \<subseteq> {(uid, bid)}" using n by auto
  hence "card (set ?xs) \<le> card {(uid, bid)}" by (rule card_mono [rotated]) simp
  finally show False using r by (simp add: revokable_def)
qed

lemma obeys_RevokeManagerGuarded: "obeys bld_rel (RevokeManagerGuarded uid bid)"
proof -
  have "grants_kept d (d\<lparr>user_buildings := filter (\<lambda>g. \<not> isGrant uid bid g) (user_buildings d)\<rparr>)" if r: "revokable d uid bid" and w: "grants_wf d" for d
  proof -
    obtain h where h: "h \<in> set (user_buildings d)" "ub_BuildingID h = bid" "ub_UserID h \<noteq> uid" using revokable_other [OF r w] by blast
    have "managed (d\<lparr>user_buildings := filter (\<lambda>g. \<not> isGrant uid bid g) (user_buildings d)\<rparr>) b" if "managed d b" for b
      using that h by (cases "b = bid") (auto simp: managed_def isGrant_def)
    moreover have "grants_wf (d\<lparr>user_buildings := filter (\<lambda>g. \<not> isGrant uid bid g) (user_buildings d)\<rparr>)"
      using w by (simp add: grants_wf_def distinct_map_filter)
    ultimately show ?thesis by (simp add: grants_kept_def)
  qed
  thus ?thesis unfolding RevokeManagerGuarded_def CanManagerAccess_def
    by (intro obeys_if obeys_intros obeys_bld_env obeys_exec [OF bld_rel_trans]) (auto intro: bld_rel_grants split: if_splits)
qed

section \<open>Occupancies\<close>

lemma reads_authorizedUnit: "reads (authorizedUnit m uid)"
  unfolding authorizedUnit_def FindUnit_def CanManagerAccess_def
  by (cases m) (auto intro!: reads_bindE reads_thenE reads_mapErr reads_rules)

lemma reads_authorizedBuilding: "reads (authorizedBuilding m bid)"
  unfolding authorizedBuilding_def FindBuilding_def CanManagerAccess_def
  by (cases m) (auto intro!: reads_bindE reads_thenE reads_mapErr reads_rules)

lemma reads_authorizedPerson: "reads (authorizedPerson m pid)"
  unfolding authorizedPerson_def FindPerson_def CanManagerAccess_def
  by (cases m) (auto intro!: reads_bindE reads_thenE reads_mapErr reads_rules)

lemma bld_rel_occ:
  "user_buildings d' = user_buildings d \<Longrightarrow> buildings d' = buildings d \<Longrightarrow> (occ_wf (occupancies d) \<Longrightarrow> occ_kept d d') \<Longrightarrow> bld_rel d d'"
  by (simp add: bld_rel_def grants_kept_def grants_wf_def managed_def)

lemma close_kept: "all_kept occKept rows (closeOccupancies x rows)"
  unfolding closeOccupancies_def by (rule all_kept_update) (auto simp: occKept_def)

lemma close_member:
  assumes "y \<in> set (closeOccupancies x rows)"
  shows "\<exists>z\<in>set rows. occKept z y \<and> (y = z \<or> oc_EndDate y = Some (max (oc_StartDate z) (oc_StartDate x - 1))) \<and>
     (oc_EndDate y = None \<longrightarrow> y = z \<and> \<not> (oc_UnitID y = oc_UnitID x \<and> oc_Relationship y = oc_Relationship x))"
  using assms by (auto simp: closeOccupancies_def set_updateWhere occKept_def split: if_splits)

lemma close_wf: assumes "occ_wf rows" shows "occ_wf (closeOccupancies x rows)"
proof -
  have "map oc_ID (closeOccupancies x rows) = map oc_ID rows" by (simp add: closeOccupancies_def)
  moreover have "y = z" if "y \<in> set (closeOccupancies x rows)" "z \<in> set (closeOccupancies x rows)"
    "oc_EndDate y = None" "oc_EndDate z = None" "oc_UnitID y = oc_UnitID z" "oc_Relationship y = oc_Relationship z" for y z
    using close_member [OF that(1)] close_member [OF that(2)] that(3-) assms unfolding occ_wf_def by blast
  moreover have "oc_StartDate y \<le> e" if y: "y \<in> set (closeOccupancies x rows)" and e: "oc_EndDate y = Some e" for y e
  proof -
    obtain z where z: "z \<in> set rows" "occKept z y" "y = z \<or> oc_EndDate y = Some (max (oc_StartDate z) (oc_StartDate x - 1))"
      using close_member [OF y] by blast
    show ?thesis using z(3)
    proof
      assume "y = z" thus ?thesis using assms z(1) e by (simp add: occ_wf_def)
    next
      assume "oc_EndDate y = Some (max (oc_StartDate z) (oc_StartDate x - 1))"
      thus ?thesis using e z(2) by (simp add: occKept_def)
    qed
  qed
  ultimately show ?thesis using assms unfolding occ_wf_def by metis
qed

lemma close_insert_wf:
  assumes w: "occ_wf rows" and new: "\<not> list_ex (\<lambda>y. oc_ID y = oc_ID x) (closeOccupancies x rows)"
    and x': "oc_ID x' = oc_ID x" "oc_UnitID x' = oc_UnitID x" "oc_Relationship x' = oc_Relationship x"
    and e: "case oc_EndDate x' of None \<Rightarrow> True | Some e \<Rightarrow> oc_StartDate x' \<le> e"
  shows "occ_wf (closeOccupancies x rows @ [x'])"
proof -
  have c: "occ_wf (closeOccupancies x rows)" by (rule close_wf [OF w])
  have no: "\<not> (oc_UnitID y = oc_UnitID x \<and> oc_Relationship y = oc_Relationship x)" if "y \<in> set (closeOccupancies x rows)" "oc_EndDate y = None" for y
    using close_member [OF that(1)] that(2) by blast
  have "distinct (map oc_ID (closeOccupancies x rows @ [x']))" using c new x'(1) by (auto simp: occ_wf_def list_ex_iff)
  moreover have "y = z" if "y \<in> set (closeOccupancies x rows @ [x'])" "z \<in> set (closeOccupancies x rows @ [x'])"
    "oc_EndDate y = None" "oc_EndDate z = None" "oc_UnitID y = oc_UnitID z" "oc_Relationship y = oc_Relationship z" for y z
    using that no [of y] no [of z] x' c by (auto simp: occ_wf_def)
  moreover have "oc_StartDate y \<le> e" if "y \<in> set (closeOccupancies x rows @ [x'])" "oc_EndDate y = Some e" for y e
    using that e c by (auto simp: occ_wf_def)
  ultimately show ?thesis unfolding occ_wf_def by metis
qed

lemma obeys_repoCreateOccupancy: "obeys bld_rel (repoCreateOccupancy x)"
proof (rule obeysI_tri [OF bld_rel_trans])
  fix d0 :: db
  let ?c = "closeOccupancies x (occupancies d0)"
  let ?Q = "\<lambda>d. d = d0\<lparr>occupancies := ?c\<rparr>"
  have ins: "tri ?Q (exec (\<lambda>d.
        if list_ex (\<lambda>y. oc_ID y = oc_ID (x\<lparr>oc_CreatedAt := t\<rparr>)) (occupancies d) \<or> tenantClash d (x\<lparr>oc_CreatedAt := t\<rparr>) then Inl uniqueViolation
        else if \<not> occupancyRowOk d (x\<lparr>oc_CreatedAt := t\<rparr>) then Inl (Constraint ''occupancies'')
        else Inr ((), d\<lparr>occupancies := occupancies d @ [x\<lparr>oc_CreatedAt := t\<rparr>]\<rparr>))) (\<lambda>_. bld_rel d0) (\<lambda>_. True)" for t
  proof (rule tri_exec)
    fix d d' :: db and u assume q: "?Q d" and s: "(if list_ex (\<lambda>y. oc_ID y = oc_ID (x\<lparr>oc_CreatedAt := t\<rparr>)) (occupancies d) \<or> tenantClash d (x\<lparr>oc_CreatedAt := t\<rparr>) then Inl uniqueViolation
        else if \<not> occupancyRowOk d (x\<lparr>oc_CreatedAt := t\<rparr>) then Inl (Constraint ''occupancies'')
        else Inr ((), d\<lparr>occupancies := occupancies d @ [x\<lparr>oc_CreatedAt := t\<rparr>]\<rparr>)) = Inr (u, d')"
    hence n: "\<not> list_ex (\<lambda>y. oc_ID y = oc_ID x) ?c" and ok: "occupancyRowOk d (x\<lparr>oc_CreatedAt := t\<rparr>)"
      and d': "d' = d0\<lparr>occupancies := ?c @ [x\<lparr>oc_CreatedAt := t\<rparr>]\<rparr>" by (auto split: if_splits)
    show "bld_rel d0 d'" unfolding d'
    proof (rule bld_rel_occ, simp, simp)
      assume w: "occ_wf (occupancies d0)"
      have "occ_wf (?c @ [x\<lparr>oc_CreatedAt := t\<rparr>])"
        by (rule close_insert_wf [OF w n]) (use ok in \<open>simp_all add: occupancyRowOk_def\<close>)
      moreover have "all_kept occKept (occupancies d0) (?c @ [x\<lparr>oc_CreatedAt := t\<rparr>])"
        using close_kept all_kept_append [of occKept, OF occKept_refl] occKept_trans by (blast intro: all_kept_trans)
      ultimately show "occ_kept d0 (d0\<lparr>occupancies := ?c @ [x\<lparr>oc_CreatedAt := t\<rparr>]\<rparr>)" by (simp add: occ_kept_def)
    qed
  qed simp
  show "tri (\<lambda>d. d = d0) (repoCreateOccupancy x) (\<lambda>_. bld_rel d0) (bld_rel d0)"
    unfolding repoCreateOccupancy_def Let_def
    by (rule tri_transaction, rule tri_then [where Q = ?Q], rule tri_exec, simp, simp,
        rule tri_bind [OF tri_keep [OF reads_rules(5)]], simp, rule tri_then [OF tri_mapErr [OF ins]], rule tri_return) simp_all
qed


lemma occ_wfD:
  "occ_wf rows \<Longrightarrow> x \<in> set rows \<Longrightarrow> y \<in> set rows \<Longrightarrow> oc_EndDate x = None \<Longrightarrow> oc_EndDate y = None \<Longrightarrow>
   oc_UnitID x = oc_UnitID y \<Longrightarrow> oc_Relationship x = oc_Relationship y \<Longrightarrow> x = y"
  unfolding occ_wf_def by blast

text \<open>Ending an occupancy: the row was open when it was read.\<close>

lemma obeys_EndOccupancy: "obeys bld_rel (EndOccupancy m oid endDate)"
proof (rule obeysI_tri [OF bld_rel_trans])
  fix d0 :: db
  let ?I = "\<lambda>x d. d = d0 \<and> x \<in> set (occupancies d0) \<and> oc_ID x = oid"
  have f: "tri (\<lambda>d. d = d0) (mapErr (\<lambda>e. if e = RecordNotFound then AppErr (NotFound ''occupancy not found'') else e) (FindOccupancy oid)) ?I (bld_rel d0)"
    unfolding FindOccupancy_def by (intro tri_mapErr tri_query) (auto dest: firstRow_Inr)
  have e: "tri (\<lambda>d. (?I x d \<and> \<not> oc_EndDate x \<noteq> None) \<and> \<not> endDate < oc_StartDate x) (repoEndOccupancy oid endDate) (\<lambda>_. bld_rel d0) (bld_rel d0)" for x
    unfolding repoEndOccupancy_def
  proof (rule tri_exec)
    fix d d' :: db and u assume p: "(?I x d \<and> \<not> oc_EndDate x \<noteq> None) \<and> \<not> endDate < oc_StartDate x"
      and s: "(let rows = updateWhere (\<lambda>x. oc_ID x = oid) (\<lambda>x. x\<lparr>oc_EndDate := Some endDate, oc_IsActive := False\<rparr>) (occupancies d)
     in if list_ex (\<lambda>x. oc_ID x = oid \<and> endDate < oc_StartDate x) (occupancies d) then Inl (Constraint ''occupancies'')
        else Inr ((), d\<lparr>occupancies := rows\<rparr>)) = Inr (u, d')"
    let ?rows = "updateWhere (\<lambda>x. oc_ID x = oid) (\<lambda>x. x\<lparr>oc_EndDate := Some endDate, oc_IsActive := False\<rparr>) (occupancies d0)"
    have d': "d' = d0\<lparr>occupancies := ?rows\<rparr>" using s p by (auto simp: Let_def split: if_splits)
    show "bld_rel d0 d'" unfolding d'
    proof (rule bld_rel_occ, simp, simp)
      assume w: "occ_wf (occupancies d0)"
      have same: "y = x" if "y \<in> set (occupancies d0)" "oc_ID y = oid" for y
        using that p w by (auto simp: occ_wf_def distinct_map dest: inj_onD)
      have rows: "\<exists>y\<in>set ?rows. occKept z y" if z: "z \<in> set (occupancies d0)" for z
        using same [OF z] p z by (intro bexI [of _ "if oc_ID z = oid then z\<lparr>oc_EndDate := Some endDate, oc_IsActive := False\<rparr> else z"])
          (auto simp: occKept_def set_updateWhere)
      have old: "y \<in> set (occupancies d0) \<or> y = x\<lparr>oc_EndDate := Some endDate, oc_IsActive := False\<rparr>" if "y \<in> set ?rows" for y
        using that same by (auto simp: set_updateWhere split: if_splits)
      have "map oc_ID ?rows = map oc_ID (occupancies d0)" by simp
      moreover have "y = z" if "y \<in> set ?rows" "z \<in> set ?rows" "oc_EndDate y = None" "oc_EndDate z = None"
        "oc_UnitID y = oc_UnitID z" "oc_Relationship y = oc_Relationship z" for y z
      proof (rule occ_wfD [OF w])
        show "y \<in> set (occupancies d0)" using old [OF that(1)] that(3) by auto
        show "z \<in> set (occupancies d0)" using old [OF that(2)] that(4) by auto
      qed (use that in simp_all)
      moreover have "oc_StartDate y \<le> f" if "y \<in> set ?rows" "oc_EndDate y = Some f" for y f
        using old [OF that(1)] that(2) w p by (auto simp: occ_wf_def)
      ultimately have "occ_wf ?rows" using w unfolding occ_wf_def by metis
      moreover have "all_kept occKept (occupancies d0) ?rows" using rows by (simp add: all_kept_def)
      ultimately show "occ_kept d0 (d0\<lparr>occupancies := ?rows\<rparr>)" by (simp add: occ_kept_def)
    qed
  qed auto
  show "tri (\<lambda>d. d = d0) (EndOccupancy m oid endDate) (\<lambda>_. bld_rel d0) (bld_rel d0)"
    unfolding EndOccupancy_def
    apply (rule tri_bind [OF f], rule tri_bind [OF tri_keep [OF reads_authorizedUnit]], simp)
    apply (rule tri_then [OF tri_throwIf], simp)
    apply (rule tri_then [OF tri_keep [OF reads_rules(7)]], simp)
    apply (rule tri_then [OF tri_throwIf], simp)
    apply (rule tri_then [OF e], rule tri_return, simp)
    done
qed


section \<open>Steps\<close>

lemma obeys_units:
  "obeys bld_rel (repoCreateUnit u)" "obeys bld_rel (repoUpdateUnit u)" "obeys bld_rel (repoDeleteUnit uid)"
  unfolding repoCreateUnit_def repoUpdateUnit_def repoDeleteUnit_def Let_def
  by (intro obeys_intros obeys_bld_env obeys_exec [OF bld_rel_trans] bld_rel_side; auto split: if_splits)+

lemma obeys_persons:
  "obeys bld_rel (repoCreatePerson p)" "obeys bld_rel (repoUpdatePerson p)" "obeys bld_rel (repoDeletePerson pid)"
  "obeys bld_rel (repoRecordOccupantCount c)"
  unfolding repoCreatePerson_def repoUpdatePerson_def repoDeletePerson_def repoRecordOccupantCount_def Let_def
  by (intro obeys_intros obeys_bld_env obeys_exec [OF bld_rel_trans] bld_rel_side; auto split: if_splits)+

lemmas obeys_scope = obeys_reads [OF reads_authorizedBuilding] obeys_reads [OF reads_authorizedUnit] obeys_reads [OF reads_authorizedPerson]

inductive bld_step :: "db world \<Rightarrow> db world \<Rightarrow> bool" where
  create_building: "CreateBuilding iter m bin w = (r, w') \<Longrightarrow> bld_step w w'"
| update_building: "UpdateBuilding iter m bid bin w = (r1, w') \<Longrightarrow> bld_step w w'"
| delete_building: "DeleteBuilding m bid w = (r2, w') \<Longrightarrow> bld_step w w'"
| grant_manager: "GrantManagerByPhone m bid phone w = (r3, w') \<Longrightarrow> bld_step w w'"
| revoke_manager: "RevokeManager m bid uid w = (r2, w') \<Longrightarrow> bld_step w w'"
| create_unit: "CreateUnit iter m bid uin w = (r4, w') \<Longrightarrow> bld_step w w'"
| update_unit: "UpdateUnit iter m uid uin w = (r5, w') \<Longrightarrow> bld_step w w'"
| delete_unit: "DeleteUnit m uid w = (r2, w') \<Longrightarrow> bld_step w w'"
| create_person: "CreatePerson m bid pin w = (r6, w') \<Longrightarrow> bld_step w w'"
| update_person: "UpdatePerson m pid pin w = (r7, w') \<Longrightarrow> bld_step w w'"
| delete_person: "DeletePerson m pid w = (r2, w') \<Longrightarrow> bld_step w w'"
| add_occupancy: "AddOccupancy m uid oin w = (r8, w') \<Longrightarrow> bld_step w w'"
| end_occupancy: "EndOccupancy m oid e w = (r8, w') \<Longrightarrow> bld_step w w'"
| record_count: "RecordOccupantCount m uid n e w = (r9, w') \<Longrightarrow> bld_step w w'"

lemma obeys_building_ops:
  "obeys bld_rel (CreateBuilding iter m bin)" "obeys bld_rel (UpdateBuilding iter m bid bin)" "obeys bld_rel (DeleteBuilding m bid)"
  unfolding CreateBuilding_def UpdateBuilding_def DeleteBuilding_def
  by (intro obeys_intros obeys_scope obeys_bld_env obeys_repoCreateBuilding obeys_repoUpdateBuilding obeys_repoDeleteBuilding obeys_GrantManager)+

lemma obeys_manager_ops:
  "obeys bld_rel (GrantManagerByPhone m bid phone)" "obeys bld_rel (RevokeManager m bid uid)"
  unfolding GrantManagerByPhone_def RevokeManager_def case_prod_beta FindActiveUserByPhone_def ManagerGrantRow_def CanManagerAccess_def CountBuildingManagers_def
  by (intro obeys_if obeys_when obeys_intros obeys_scope obeys_bld_env obeys_InsertManagerGrant obeys_Promote obeys_RevokeManagerGuarded)+

lemma obeys_unit_ops:
  "obeys bld_rel (CreateUnit iter m bid uin)" "obeys bld_rel (UpdateUnit iter m uid uin)" "obeys bld_rel (DeleteUnit m uid)"
  unfolding CreateUnit_def UpdateUnit_def DeleteUnit_def
  by (intro obeys_intros obeys_scope obeys_bld_env obeys_units)+

lemma obeys_person_ops:
  "obeys bld_rel (CreatePerson m bid pin)" "obeys bld_rel (UpdatePerson m pid pin)" "obeys bld_rel (DeletePerson m pid)"
  "obeys bld_rel (AddOccupancy m uid oin)" "obeys bld_rel (RecordOccupantCount m uid n e)"
  unfolding CreatePerson_def UpdatePerson_def DeletePerson_def AddOccupancy_def RecordOccupantCount_def
  by (intro obeys_intros obeys_scope obeys_bld_env obeys_persons obeys_repoCreateOccupancy)+

lemma bld_step_rel: "bld_step w w' \<Longrightarrow> bld_rel (db w) (db w')"
  by (erule bld_step.cases)
     (auto intro: obeys_building_ops [THEN obeys_run, OF bld_rel_refl] obeys_manager_ops [THEN obeys_run, OF bld_rel_refl]
        obeys_unit_ops [THEN obeys_run, OF bld_rel_refl] obeys_person_ops [THEN obeys_run, OF bld_rel_refl] obeys_run [OF obeys_EndOccupancy bld_rel_refl])

interpretation bld: request_machine bld_step bld_rel
  by unfold_locales (simp_all add: bld_step_rel bld_rel_trans)

section \<open>National ids\<close>

lemma minus48_mod: "0 \<le> n \<Longrightarrow> n < 256 \<Longrightarrow> (n - 48) mod 256 = (if n < 48 then n + 208 else n - 48)" for n :: int
proof (cases "n < 48")
  case True
  assume n: "0 \<le> n" "n < 256"
  have "(n - 48) mod 256 = (n - 48 + 256) mod 256" by (simp only: mod_add_self2)
  also have "n - 48 + 256 = n + 208" by simp
  also have "(n + 208) mod 256 = n + 208" using n True by (intro mod_pos_pos_trivial) simp_all
  finally show ?thesis using True by simp
qed (simp add: mod_pos_pos_trivial)

lemma byteDigit_char: "0 \<le> byteDigit a \<Longrightarrow> byteDigit a \<le> 9 \<Longrightarrow> int (of_char a) = byteDigit a + 48"
proof -
  assume h: "0 \<le> byteDigit a" "byteDigit a \<le> 9"
  have "of_char a < (256 :: nat)" by simp
  hence "0 \<le> int (of_char a)" "int (of_char a) < 256" by linarith+
  thus ?thesis using h minus48_mod [of "int (of_char a)"] unfolding byteDigit_def by (simp split: if_splits)
qed

lemma byteDigit_inj: "0 \<le> byteDigit a \<Longrightarrow> byteDigit a \<le> 9 \<Longrightarrow> byteDigit a = byteDigit b \<Longrightarrow> a = b"
  using byteDigit_char [of a] byteDigit_char [of b] by (metis of_char_eq_iff of_nat_eq_iff)

lemma validD:
  assumes "nationalIDValid s"
  shows "length s = 10" "\<forall>i<10. 0 \<le> byteDigit (s ! i) \<and> byteDigit (s ! i) \<le> 9"
    "let r = weightedSum (map byteDigit s) mod 11 in r < 2 \<and> byteDigit (s ! 9) = r \<or> r \<ge> 2 \<and> byteDigit (s ! 9) = 11 - r"
proof -
  show l: "length s = 10" using assms by (simp add: nationalIDValid_def split: if_splits)
  have c: "\<not> list_ex (\<lambda>dg. dg < 0 \<or> dg > 9) (take 9 (map byteDigit s))" "\<not> (byteDigit (s ! 9) < 0 \<or> byteDigit (s ! 9) > 9)"
    using assms l by (auto simp: nationalIDValid_def Let_def split: if_splits)
  have "0 \<le> byteDigit (s ! i) \<and> byteDigit (s ! i) \<le> 9" if i: "i < 10" for i
  proof (cases "i = 9")
    case False
    hence "take 9 (map byteDigit s) ! i \<in> set (take 9 (map byteDigit s))" using i l by (intro nth_mem) simp
    thus ?thesis using c(1) False i l by (auto simp: list_ex_iff not_less)
  qed (use c in auto)
  thus "\<forall>i<10. 0 \<le> byteDigit (s ! i) \<and> byteDigit (s ! i) \<le> 9" by blast
  show "let r = weightedSum (map byteDigit s) mod 11 in r < 2 \<and> byteDigit (s ! 9) = r \<or> r \<ge> 2 \<and> byteDigit (s ! 9) = 11 - r"
    using assms l by (auto simp: nationalIDValid_def Let_def split: if_splits)
qed

lemma weightedSum_update:
  assumes "length ds = 10" "i < 9"
  shows "weightedSum (ds[i := x]) = weightedSum ds + (x - ds ! i) * (10 - int i)"
proof -
  obtain a0 a1 a2 a3 a4 a5 a6 a7 a8 a9 where ds: "ds = [a0, a1, a2, a3, a4, a5, a6, a7, a8, a9]"
    using assms(1) by (auto simp: length_Suc_conv eval_nat_numeral)
  have "i \<in> {0, 1, 2, 3, 4, 5, 6, 7, 8}" using assms(2) by auto
  thus ?thesis unfolding ds by (elim insertE emptyE) (simp_all add: weightedSum_def upt_rec algebra_simps)
qed

lemma weightedSum_last:
  assumes "length ds = 10" shows "weightedSum (ds[9 := x]) = weightedSum ds"
proof -
  obtain a0 a1 a2 a3 a4 a5 a6 a7 a8 a9 where ds: "ds = [a0, a1, a2, a3, a4, a5, a6, a7, a8, a9]"
    using assms by (auto simp: length_Suc_conv eval_nat_numeral)
  show ?thesis unfolding ds by (simp add: weightedSum_def upt_rec)
qed

lemma check_digit_collision:
  fixes r r' l :: int
  assumes "r < 2 \<and> l = r \<or> r \<ge> 2 \<and> l = 11 - r" "r' < 2 \<and> l' = r' \<or> r' \<ge> 2 \<and> l' = 11 - r'"
  shows "l' = l \<Longrightarrow> 0 \<le> r \<Longrightarrow> 0 \<le> r' \<Longrightarrow> r < 11 \<Longrightarrow> r' < 11 \<Longrightarrow> r' \<noteq> r \<Longrightarrow> l = 1"
  using assms by auto

lemma cancel_mod11:
  fixes z :: int
  assumes "z * k mod 11 = 0" "k * v mod 11 = 1" "\<bar>z\<bar> < 11"
  shows "z = 0"
proof -
  have "11 dvd z * (k * v)" using assms(1) by (metis dvd_mult2 mod_0_imp_dvd mult.assoc)
  moreover have "z * (k * v) = z * (k * v div 11) * 11 + z"
    using mult_div_mod_eq [of 11 "k * v"] assms(2) by (metis add.commute mult.assoc mult.commute mult.right_neutral distrib_left)
  ultimately have "11 dvd z" by (metis dvd_add_right_iff dvd_triv_right)
  thus ?thesis using assms(3) dvd_imp_le_int [of z 11] by fastforce
qed

lemma weight_mod11:
  assumes "i < 9" "(x - y) * (10 - int i) mod 11 = 0" "0 \<le> x" "x \<le> 9" "0 \<le> y" "y \<le> 9"
  shows "x = y"
proof -
  have "i \<in> {0, 1, 2, 3, 4, 5, 6, 7, 8}" using assms(1) by auto
  hence "\<exists>v. (10 - int i) * v mod 11 = 1"
    by (elim insertE emptyE) (rule exI [of _ "if i = 0 then 10 else if i = 1 then 5 else if i = 2 then 7 else if i = 3 then 8 else
      if i = 4 then 2 else if i = 5 then 9 else if i = 6 then 3 else if i = 7 then 4 else 6"], simp)+
  then obtain v where "(10 - int i) * v mod 11 = 1" by blast
  with assms(2) have "x - y = 0" by (rule cancel_mod11) (use assms(3-) in arith)
  thus ?thesis by simp
qed

text \<open>C33. The national id check detects every single wrong character, except one in the first nine
  digits of an id whose check digit is 1: when an id and the id with one character replaced
  are both accepted, the check digit is 1 and was not the one replaced.\<close>

theorem nationalID_detects_wrong_digit:
  assumes v: "nationalIDValid s" and i: "i < 10" and n: "c \<noteq> s ! i" and v': "nationalIDValid (s[i := c])"
  shows "i < 9 \<and> s ! 9 = CHR ''1''"
proof -
  note d = validD [OF v] and d' = validD [OF v']
  have dig: "0 \<le> byteDigit (s ! i)" "byteDigit (s ! i) \<le> 9" "0 \<le> byteDigit c" "byteDigit c \<le> 9"
    using d(1,2) d'(2) i by auto
  have ne: "byteDigit c \<noteq> byteDigit (s ! i)" using byteDigit_inj [OF dig(1,2)] n by metis
  let ?S = "weightedSum (map byteDigit s)" and ?S' = "weightedSum (map byteDigit (s[i := c]))"
  have i9: "i < 9"
  proof (rule ccontr)
    assume "\<not> i < 9"
    hence i: "i = 9" using i by simp
    have "?S' = ?S" using weightedSum_last [of "map byteDigit s"] d(1) unfolding i by (simp add: map_update)
    thus False using d(3) d'(3) d(1) ne unfolding i by (auto simp: Let_def)
  qed
  have S: "?S' = ?S + (byteDigit c - byteDigit (s ! i)) * (10 - int i)"
    using weightedSum_update [of "map byteDigit s" i] d(1) i9 by (simp add: map_update)
  have "?S' mod 11 \<noteq> ?S mod 11"
  proof
    assume "?S' mod 11 = ?S mod 11"
    hence "(?S' - ?S) mod 11 = 0" by (simp add: mod_eq_dvd_iff mod_0_imp_dvd)
    thus False using weight_mod11 [OF i9, of "byteDigit c" "byteDigit (s ! i)"] dig ne S by simp
  qed
  moreover have "s[i := c] ! 9 = s ! 9" using i9 by simp
  ultimately have one: "byteDigit (s ! 9) = 1"
    using check_digit_collision [OF d(3) [unfolded Let_def] d'(3) [unfolded Let_def]] by simp
  hence "s ! 9 = CHR ''1''" using byteDigit_inj [of "s ! 9" "CHR ''1''"] by (simp add: byteDigit_def)
  thus ?thesis using i9 by simp
qed

section \<open>Managers and occupancies\<close>

text \<open>C14. A building never loses its last manager: along every sequence of requests to the building
  layer a building with a manager grant keeps at least one, the grants stay unique, and its
  row is not deleted.\<close>

theorem managers_never_lost:
  assumes "grants_wf (db w)" "bld_step\<^sup>*\<^sup>* w w'" "\<exists>g\<in>set (user_buildings (db w)). ub_BuildingID g = bid"
  shows "grants_wf (db w') \<and> (\<exists>g\<in>set (user_buildings (db w')). ub_BuildingID g = bid) \<and>
    (bid \<in> bl_ID ` set (buildings (db w)) \<longrightarrow> bid \<in> bl_ID ` set (buildings (db w')))"
  using bld.steps_rel [OF assms(2)] assms(1,3) by (simp add: bld_rel_def grants_kept_def managed_def)

text \<open>C15. Occupancies are a dated history: along every sequence of requests to the building layer no
  occupancy is removed, its unit, person, relationship and start never change and an end date
  once set stays, a unit has at most one open occupancy per relationship, and no occupancy
  ends before it starts. It assumes a table of occupancies that is well formed in this sense
  at the start. One open occupancy per relationship is what the code enforces; the
  specification asks for several owners and residents of a unit, which is recorded as a
  finding.\<close>

theorem occupancy_history:
  assumes "occ_wf (occupancies (db w))" "bld_step\<^sup>*\<^sup>* w w'"
  shows "(\<forall>x\<in>set (occupancies (db w)). \<exists>y\<in>set (occupancies (db w')). oc_ID y = oc_ID x \<and> oc_UnitID y = oc_UnitID x \<and>
       oc_PersonID y = oc_PersonID x \<and> oc_Relationship y = oc_Relationship x \<and> oc_StartDate y = oc_StartDate x \<and>
       (oc_EndDate x \<noteq> None \<longrightarrow> oc_EndDate y = oc_EndDate x)) \<and>
    (\<forall>x\<in>set (occupancies (db w')). \<forall>y\<in>set (occupancies (db w')). oc_EndDate x = None \<and> oc_EndDate y = None \<and>
       oc_UnitID x = oc_UnitID y \<and> oc_Relationship x = oc_Relationship y \<longrightarrow> x = y) \<and>
    (\<forall>x\<in>set (occupancies (db w')). \<forall>e. oc_EndDate x = Some e \<longrightarrow> oc_StartDate x \<le> e)"
  using bld.steps_rel [OF assms(2)] assms(1)
  by (simp add: bld_rel_def occ_kept_def all_kept_def occKept_def occ_wf_def)

definition tenancy :: "Occupancy result \<times> db world" where
  "tenancy = AddOccupancy sampleManager 11 \<lparr>oi_PersonID = 31, oi_Relationship = RelOwner, oi_StartDate = 100, oi_EndDate = None\<rparr> sampleWorld"

lemma tenancy_step: "bld_step\<^sup>*\<^sup>* sampleWorld (snd tenancy)"
  unfolding tenancy_def by (rule r_into_rtranclp, rule bld_step.add_occupancy) (rule prod.collapse [symmetric])

theorem managers_never_lost_witness: "\<exists>g\<in>set (user_buildings (db (snd tenancy))). ub_BuildingID g = 1"
proof -
  have "grants_wf (db sampleWorld)" "\<exists>g\<in>set (user_buildings (db sampleWorld)). ub_BuildingID g = 1"
    by (simp_all add: grants_wf_def sampleWorld_def sampleDb_def)
  thus ?thesis using managers_never_lost [OF _ tenancy_step] by blast
qed

theorem occupancy_history_witness:
  "\<not> isl (fst tenancy) \<and> (\<exists>y\<in>set (occupancies (db (snd tenancy))). oc_ID y = 41 \<and> oc_StartDate y = 0)"
proof -
  have ok: "\<not> isl (fst tenancy)" by code_simp
  have "occ_wf (occupancies (db sampleWorld))" and m: "occupancies (db sampleWorld) = [mkOccupancy 41 11 31]"
    by (simp_all add: occ_wf_def sampleWorld_def sampleDb_def mkOccupancy_def)
  with occupancy_history [OF _ tenancy_step] show ?thesis using ok by (auto simp: mkOccupancy_def)
qed

text \<open>A request for a building succeeds only for one of its managers.\<close>

lemma authorizedBuilding_ok:
  assumes "authorizedBuilding (Some m) bid w = (Inr b, w1)"
  shows "b \<in> set (buildings (db w))" "bl_ID b = bid" "\<exists>g\<in>set (user_buildings (db w)). isGrant (usr_ID m) bid g" "db w1 = db w"
proof -
  obtain v v' ok where f: "mapErr (\<lambda>e. if e = RecordNotFound then AppErr (NotFound ''building not found'') else e) (FindBuilding bid) w = (Inr b, v)"
    and c: "CanManagerAccess (usr_ID m) (bl_ID b) v = (Inr ok, v')" and ok: "ok" and w1: "w1 = v'"
  proof -
    have "\<exists>v v'. mapErr (\<lambda>e. if e = RecordNotFound then AppErr (NotFound ''building not found'') else e) (FindBuilding bid) w = (Inr b, v) \<and>
       CanManagerAccess (usr_ID m) (bl_ID b) v = (Inr True, v') \<and> w1 = v'"
      using assms unfolding authorizedBuilding_def option.case
      by (elim bindE_splitE thenE_splitE throwIf_splitE) (auto simp: returnE_def)
    thus thesis using that by blast
  qed
  have b: "b \<in> set (buildings (db w))" "bl_ID b = bid" "db v = db w"
    using f by (auto simp: mapErr_def FindBuilding_def query_def dest: firstRow_Inr split: prod.splits sum.splits if_splits)
  have "filter (isGrant (usr_ID m) bid) (user_buildings (db w)) \<noteq> []" "db v' = db v"
    using c ok b by (auto simp: CanManagerAccess_def query_def split: if_splits)
  thus "b \<in> set (buildings (db w))" "bl_ID b = bid" "\<exists>g\<in>set (user_buildings (db w)). isGrant (usr_ID m) bid g" "db w1 = db w"
    using b w1 by (auto simp: filter_empty_conv)
qed

text \<open>C34. Deleting a building never succeeds: whoever is allowed to delete it holds a grant that
  refers to the building row, which the delete then violates; the request always fails and
  changes nothing.\<close>

theorem DeleteBuilding_never_succeeds:
  "isl (fst (DeleteBuilding m bid w)) \<and> db (snd (DeleteBuilding m bid w)) = db w"
proof (cases "authorizedBuilding (Some m) bid w")
  case (Pair r w1)
  have d: "db w1 = db w" using reads_run [OF reads_authorizedBuilding Pair] .
  show ?thesis
  proof (cases r)
    case (Inl e)
    thus ?thesis using Pair d by (simp add: DeleteBuilding_def bindE_def)
  next
    case (Inr b)
    note a = authorizedBuilding_ok [OF Pair [unfolded Inr]]
    have "list_ex (\<lambda>b. bl_ID b = bid) (buildings (db w1))" "buildingReferenced (db w1) bid"
      using a by (auto simp: list_ex_iff buildingReferenced_def isGrant_def)
    thus ?thesis using Pair Inr d by (simp add: DeleteBuilding_def bindE_def repoDeleteBuilding_def exec_def)
  qed
qed

theorem nationalID_detects_wrong_digit_witness:
  "nationalIDValid ''0000010081'' \<and> ''0000010081'' ! 9 = CHR ''1''"
proof -
  have v: "nationalIDValid ''0000010081''" by code_simp
  have "nationalIDValid (''0000010081''[0 := CHR ''9''])" by code_simp
  thus ?thesis using nationalID_detects_wrong_digit [OF v, of 0 "CHR ''9''"] v by simp
qed

text \<open>Granting a manager.\<close>

definition promoted :: "uuid \<Rightarrow> int \<Rightarrow> User list \<Rightarrow> User list" where
  "promoted uid t = updateWhere (\<lambda>u. usr_ID u = uid \<and> usr_Role u = RoleResident) (\<lambda>u. u\<lparr>usr_Role := RoleManager, usr_UpdatedAt := t\<rparr>)"

lemma FindActiveUserByPhone_ok:
  assumes "FindActiveUserByPhone phone w = (Inr t, w1)"
  shows "db w1 = db w \<and> (\<exists>u\<in>set (users (db w)). usr_Phone u = phone \<and> usr_IsActive u \<and> usr_DeletedAt u = None \<and> usr_ID u = mt_ID t \<and> usr_Role u = mt_Role t)"
  using assms by (auto simp: FindActiveUserByPhone_def query_def find_Some_iff split: if_splits option.splits)

lemma InsertManagerGrant_ok:
  assumes "InsertManagerGrant uid bid w = (Inr u, w1)"
  shows "\<not> list_ex (isGrant uid bid) (user_buildings (db w)) \<and> (\<exists>t. db w1 = (db w)\<lparr>user_buildings := user_buildings (db w) @
     [\<lparr>ub_UserID = uid, ub_BuildingID = bid, ub_GrantedAt = t\<rparr>]\<rparr>)"
  using assms by (auto simp: InsertManagerGrant_def bindE_def timeNow_def exec_def split: if_splits)

lemma promote_ok:
  assumes "whenE b (PromoteResidentToManager uid) w = (Inr u, w1)"
  shows "\<exists>t. db w1 = (if b then (db w)\<lparr>users := promoted uid t (users (db w))\<rparr> else db w)"
  using assms by (auto simp: whenE_def PromoteResidentToManager_def promoted_def bindE_def timeNow_def exec_def returnE_def split: if_splits)

lemma ManagerGrantRow_ok:
  assumes "ManagerGrantRow uid bid w = (Inr row, w1)"
  shows "bm_UserID row = uid \<and> db w1 = db w"
proof -
  have "\<exists>xs. concat (map (managerView (db w)) (filter (isGrant uid bid) (user_buildings (db w)))) = row # xs" "db w1 = db w"
    using assms by (auto simp: ManagerGrantRow_def query_def split: if_splits list.splits)
  moreover have "row \<in> set (concat (map (managerView (db w)) (filter (isGrant uid bid) (user_buildings (db w)))))"
    using calculation by (metis list.set_intros(1))
  ultimately show ?thesis by (auto simp: managerView_def isGrant_def)
qed

text \<open>A successful grant was made by a manager of the building for an active account of that phone
  that is not the superadmin and had no grant; it adds exactly the one grant, raises a
  resident account to manager and changes nothing else.\<close>

theorem GrantManagerByPhone_ok:
  assumes run: "GrantManagerByPhone m bid phone w = (Inr row, w')"
  shows "\<exists>u t t'. u \<in> set (users (db w)) \<and> usr_Phone u = phone \<and> usr_IsActive u \<and> usr_DeletedAt u = None \<and> usr_Role u \<noteq> RoleSuperAdmin \<and>
    (\<exists>g\<in>set (user_buildings (db w)). isGrant (usr_ID m) bid g) \<and> \<not> (\<exists>g\<in>set (user_buildings (db w)). isGrant (usr_ID u) bid g) \<and>
    bm_UserID row = usr_ID u \<and>
    db w' = (db w)\<lparr>user_buildings := user_buildings (db w) @ [\<lparr>ub_UserID = usr_ID u, ub_BuildingID = bid, ub_GrantedAt = t\<rparr>],
      users := (if usr_Role u = RoleResident then promoted (usr_ID u) t' (users (db w)) else users (db w))\<rparr>"
proof -
  obtain b w1 w2 w3 w4 target x y where a: "authorizedBuilding (Some m) bid w = (Inr b, w1)"
    and f: "FindActiveUserByPhone phone w1 = (Inr target, w2)" and s: "mt_Role target \<noteq> RoleSuperAdmin"
    and i: "InsertManagerGrant (mt_ID target) bid w2 = (Inr x, w3)"
    and p: "whenE (mt_Role target = RoleResident) (PromoteResidentToManager (mt_ID target)) w3 = (Inr y, w4)"
    and r: "ManagerGrantRow (mt_ID target) bid w4 = (Inr row, w')"
  proof -
    have "\<exists>b w1 w2 w3 w4 target x y. authorizedBuilding (Some m) bid w = (Inr b, w1) \<and> FindActiveUserByPhone phone w1 = (Inr target, w2) \<and>
       mt_Role target \<noteq> RoleSuperAdmin \<and> InsertManagerGrant (mt_ID target) bid w2 = (Inr x, w3) \<and>
       whenE (mt_Role target = RoleResident) (PromoteResidentToManager (mt_ID target)) w3 = (Inr y, w4) \<and> ManagerGrantRow (mt_ID target) bid w4 = (Inr row, w')"
      using run unfolding GrantManagerByPhone_def
      by (elim bindE_splitE thenE_splitE throwIf_splitE) (auto simp: mapErr_def split: prod.splits sum.splits; blast)
    thus thesis using that by blast
  qed
  note m = ManagerGrantRow_ok [OF r]
  note da = authorizedBuilding_ok [OF a]
  obtain u where u: "u \<in> set (users (db w))" "usr_Phone u = phone" "usr_IsActive u" "usr_DeletedAt u = None" "usr_ID u = mt_ID target" "usr_Role u = mt_Role target"
    and d2: "db w2 = db w" using FindActiveUserByPhone_ok [OF f] da(4) by auto
  obtain t where n: "\<not> list_ex (isGrant (mt_ID target) bid) (user_buildings (db w))"
    and d3: "db w3 = (db w)\<lparr>user_buildings := user_buildings (db w) @ [\<lparr>ub_UserID = mt_ID target, ub_BuildingID = bid, ub_GrantedAt = t\<rparr>]\<rparr>"
    using InsertManagerGrant_ok [OF i] unfolding d2 by blast
  obtain t' where d4: "db w4 = (if mt_Role target = RoleResident then (db w3)\<lparr>users := promoted (mt_ID target) t' (users (db w3))\<rparr> else db w3)"
    using promote_ok [OF p] by blast
  have "db w' = (db w)\<lparr>user_buildings := user_buildings (db w) @ [\<lparr>ub_UserID = usr_ID u, ub_BuildingID = bid, ub_GrantedAt = t\<rparr>],
      users := (if usr_Role u = RoleResident then promoted (usr_ID u) t' (users (db w)) else users (db w))\<rparr>"
    using m d4 d3 u(5,6) by simp
  moreover have "\<not> (\<exists>g\<in>set (user_buildings (db w)). isGrant (usr_ID u) bid g)" using n u(5) by (simp add: list_ex_iff)
  moreover have "bm_UserID row = usr_ID u" "usr_Role u \<noteq> RoleSuperAdmin" using m u(5,6) s by simp_all
  ultimately show ?thesis using u(1-4) da(3) by blast
qed

theorem GrantManagerByPhone_ok_witness:
  "\<exists>row w'. GrantManagerByPhone sampleManager 1 ''09120000022'' sampleWorld = (Inr row, w') \<and> bm_UserID row = 22 \<and>
    (\<exists>u\<in>set (users (db w')). usr_Phone u = ''09120000022'' \<and> usr_Role u = RoleManager)"
proof -
  let ?run = "GrantManagerByPhone sampleManager 1 ''09120000022'' sampleWorld"
  have "\<not> isl (fst ?run)" by code_simp
  then obtain row where e: "?run = (Inr row, snd ?run)" by (rule run_Inr)
  obtain u t t' where u: "u \<in> set (users (db sampleWorld))" "usr_Phone u = ''09120000022''" "bm_UserID row = usr_ID u"
    and d: "db (snd ?run) = (db sampleWorld)\<lparr>user_buildings := user_buildings (db sampleWorld) @ [\<lparr>ub_UserID = usr_ID u, ub_BuildingID = 1, ub_GrantedAt = t\<rparr>],
      users := (if usr_Role u = RoleResident then promoted (usr_ID u) t' (users (db sampleWorld)) else users (db sampleWorld))\<rparr>"
    using GrantManagerByPhone_ok [OF e] by blast
  have uu: "u = sampleResident" using u(1,2) by (auto simp: sampleWorld_def sampleDb_def sampleManager_def sampleResident_def mkUser_def)
  have "\<exists>v\<in>set (users (db (snd ?run))). usr_Phone v = ''09120000022'' \<and> usr_Role v = RoleManager"
    unfolding d uu by (simp add: sampleResident_def mkUser_def promoted_def updateWhere_def sampleWorld_def sampleDb_def)
  moreover have "bm_UserID row = 22" using u(3) uu by (simp add: sampleResident_def mkUser_def)
  ultimately show ?thesis using e by blast
qed

end
