(* ===== verification/Scopes.thy ===== *)
theory Scopes
  imports Announcement_Facts Dashboard_Facts Maintenance_Machine Ledger_Machine Building_Machine
begin

text \<open>
  The scope checks of the services: without a grant for the building a manager's request is refused, and what it would
  have changed stays.
\<close>

lemma refused_auth: "refused (bindE (annAuth (Some m)) f) w \<longleftrightarrow> refused (f m) w"
  by (simp add: annAuth_def)

lemma authorizedBuilding_refused: "\<not> granted (db w) (usr_ID m) bid \<Longrightarrow> refused (authorizedBuilding (Some m) bid) w"
  unfolding authorizedBuilding_def option.case
proof (rule refused_after)
  fix b w'
  assume g: "\<not> granted (db w) (usr_ID m) bid" and f: "mapErr (\<lambda>e. if e = RecordNotFound then AppErr (NotFound ''building not found'') else e) (FindBuilding bid) w = (Inr b, w')"
    and k: "db w' = db w"
  have "bl_ID b = bid" using f by (auto simp: mapErr_def FindBuilding_def query_def dest!: firstRow_Inr split: prod.splits sum.splits if_splits)
  thus "refused (bindE (CanManagerAccess (usr_ID m) (bl_ID b)) (\<lambda>ok. thenE (throwIf (\<not> ok) (AppErr (Forbidden msgForbidden))) (returnE b))) w'"
    using g k by (intro manager_scope.denied_then) simp
qed (auto simp: FindBuilding_def intro: reads_mapErr reads_rules)

lemma scopes_refused:
  "\<not> granted (db w) (usr_ID m) bid \<Longrightarrow> refused (authorizeBuilding m bid) w"
  "\<not> granted (db w) (usr_ID m) bid \<Longrightarrow> refused (annScope m bid) w"
  "\<not> granted (db w) (usr_ID m) bid \<Longrightarrow> refused (expScope m bid) w"
  by (auto simp: authorizeBuilding_def annScope_def expScope_def intro: billing_scope.denied ann_scope.denied exp_scope.denied)

lemma loaded_refused:
  assumes "reads f" and "\<And>x w'. f w = (Inr x, w') \<Longrightarrow> \<not> granted (db w) (usr_ID m) (owner x)"
    and "\<And>b v. \<not> granted (db v) (usr_ID m) b \<Longrightarrow> refused (scope b) v"
  shows "refused (bindE f (\<lambda>x. thenE (scope (owner x)) (g x))) w"
  using assms by (intro refused_after [OF assms(1)] refused_then assms(3)) auto

lemma annForManager_refused:
  assumes "\<not> granted (db w) (usr_ID m) bid" and "\<forall>a\<in>set (announcements (db w)). an_ID a = aid \<longrightarrow> an_BuildingID a = bid"
  shows "refused (annForManager (Some m) aid) w"
  unfolding annForManager_def refused_auth
  by (rule loaded_refused [OF reads_annScope(3)])
    (use assms in \<open>auto simp: annLoad_def annGet_def mapErr_def query_def dest!: firstRow_Inr intro: scopes_refused split: prod.splits sum.splits if_splits\<close>)

lemma expGet_refused:
  assumes "\<not> granted (db w) (usr_ID m) bid" and "\<forall>e\<in>set (expenses (db w)). ex_ID e = eid \<longrightarrow> ex_BuildingID e = bid"
  shows "refused (expGet m eid) w"
  unfolding expGet_def GetExpense_def
  by (rule loaded_refused [OF reads_rules(3)])
    (use assms in \<open>auto simp: query_def dest!: firstRow_Inr intro: scopes_refused split: if_splits\<close>)

lemma maintForManager_refused:
  assumes "\<not> granted (db w) (usr_ID m) bid" and "\<forall>r\<in>set (maintenance_requests (db w)). mr_ID r = mid \<longrightarrow> mr_BuildingID r = bid"
  shows "refused (maintForManager m mid) w"
proof -
  have "reads (maintLoad mid)" unfolding maintLoad_def maintGet_def by (intro reads_mapErr reads_rules)
  thus ?thesis unfolding maintForManager_def
    by (rule refused_after, intro maint_scope.denied_then)
      (use assms in \<open>auto simp: maintLoad_def maintGet_def mapErr_def query_def dest!: firstRow_Inr split: prod.splits sum.splits if_splits\<close>)
qed

end
