(* ===== verification/Endpoints.thy ===== *)
theory Endpoints
  imports Auth_Handlers Triples Calc_Service Period_Service Payment_Service Building_Service Occupancy_Service
    Maintenance Announcement Expense Dashboard
begin

text \<open>
  The layer between the router and the services: requests as the handlers see them, answers, the audit middleware
  (\<open>internal/audit/audit.go\<close>), the guards that the handler files share and the routes that the \<open>Register\<close> functions
  mount. As in \<open>Http\<close>, \<open>httpx.WriteError(c, err)\<close> followed by a return is failing with \<open>err\<close>; a handler that succeeds
  gives its status, the body and what it stored in the gin context for the audit middleware.
\<close>

section \<open>Requests and answers\<close>

text \<open>\<open>rq_User\<close> is what \<open>auth.Authenticate\<close> stored; \<open>rq_Query\<close> the values of the query string. The
  other fields are what the JSON body decodes to as an input of each handler, \<open>None\<close> where it does not; \<open>rq_Start\<close> are the
  amount and return path that the optional body of a payment start leaves in its struct.\<close>

record request =
  rq_User :: "User option"
  rq_Param :: "string \<Rightarrow> string"
  rq_Query :: "string \<Rightarrow> string option"
  rq_Period :: "PeriodInput option"
  rq_CostItem :: "CostItemInput option"
  rq_Cancel :: "string option"
  rq_Adjustment :: "AdjustmentInput option"
  rq_Building :: "BuildingInput option"
  rq_Unit :: "UnitInput option"
  rq_Grant :: "string option"
  rq_Person :: "PersonInput option"
  rq_Occupancy :: "OccupancyInput option"
  rq_EndOccupancy :: "int option"
  rq_Count :: "(int \<times> int) option"
  rq_Manual :: "ManualPaymentInput option"
  rq_Start :: "string option \<times> string"
  rq_Submit :: "SubmitInput option"
  rq_Update :: "MaintUpdate option"
  rq_Expense :: "ExpenseInput option"
  rq_Announcement :: "AnnouncementInput option"

definition Query :: "request \<Rightarrow> string \<Rightarrow> string" where
  "Query q name = (case rq_Query q name of None \<Rightarrow> '''' | Some v \<Rightarrow> v)"

record auditCtx =
  ax_ObjectID :: "uuid option"
  ax_Before :: "snapshot option"
  ax_After :: "snapshot option"

text \<open>The JSON bodies: a row, a list under \<open>items\<close>, or a page with its number, size and the total.\<close>

datatype body =
    NoBody
  | PeriodBody BillingPeriod | PeriodsBody "BillingPeriod list"
  | CostItemBody CostItemRow | CostItemsBody "CostItemRow list"
  | PreviewBody Preview | IssuedBody "Invoice list" int
  | InvoiceBody Invoice | InvoiceDetailBody InvoiceDetail | InvoicePage "Invoice list" int int int
  | AdjustmentBody InvoiceAdjustment
  | BuildingBody Building | BuildingsBody "Building list"
  | UnitBody BuildingUnit | UnitPage "BuildingUnit list" int int int | HistoryBody "AuditLog list"
  | ManagerBody BuildingManager | ManagersBody "BuildingManager list"
  | PersonBody Person | PersonPage "Person list" int int int | DeletedAtBody int
  | OccupancyBody Occupancy | OccupanciesBody "(Occupancy \<times> Person option) list"
  | CountBody OccupantCount | CountsBody "OccupantCount list"
  | PaymentBody Payment | PaymentPage "Payment list" int int int | BalanceBody UnitBalance
  | StartBody uuid string string string | CallbackBody uuid string string string | RedirectBody string
  | RequestBody MaintenanceRequest | RequestPage "MaintenanceRequest list" int int int
  | ExpenseBody Expense | ExpensePage "Expense list" int int int | ReportBody FinancialReport | DeletedBody
  | AnnouncementBody Announcement | AnnouncementPage "Announcement list" int int int
  | ReadBody AnnouncementWithRead | ReadPage "AnnouncementWithRead list" int int int
  | NotificationPage "Notification list" int int int
  | HomeBody HomeSummary | DashboardBody BuildingDashboard

record answer =
  as_Status :: int
  as_Body :: body
  as_Audit :: auditCtx

definition noAudit :: auditCtx where
  "noAudit = \<lparr>ax_ObjectID = None, ax_Before = None, ax_After = None\<rparr>"

definition plain :: "int \<Rightarrow> body \<Rightarrow> answer dbm" where
  "plain status body = returnE \<lparr>as_Status = status, as_Body = body, as_Audit = noAudit\<rparr>"

definition withAudit :: "int \<Rightarrow> body \<Rightarrow> uuid \<Rightarrow> snapshot option \<Rightarrow> snapshot option \<Rightarrow> answer dbm" where
  "withAudit status body oid before after =
     returnE \<lparr>as_Status = status, as_Body = body, as_Audit = \<lparr>ax_ObjectID = Some oid, ax_Before = before, ax_After = after\<rparr>\<rparr>"

text \<open>What the handlers are given besides the request: \<open>uuid.Parse\<close> and \<open>String\<close>, whether the validator of the binding tags takes
  a required date to be set, \<open>ILIKE\<close>, the order in which Go ranges over a map, and the services that \<open>main.go\<close> wires.\<close>

record services =
  sv_Parse :: "string \<Rightarrow> uuid option"
  sv_Str :: "uuid \<Rightarrow> string"
  sv_DateSet :: "int \<Rightarrow> bool"
  sv_Like :: "string \<Rightarrow> string \<Rightarrow> bool"
  sv_Range :: mapRange
  sv_Balances :: balance_provider
  sv_Recomputer :: recomputer
  sv_Payments :: PaymentService

type_synonym endpoint = "services \<Rightarrow> request \<Rightarrow> answer dbm"

section \<open>Audit middleware\<close>

text \<open>\<open>Service.Middleware\<close>: the handlers of audited routes store a \<open>uuid.UUID\<close> as object id, or nothing.\<close>

definition auditMiddleware :: "string \<Rightarrow> string \<Rightarrow> User option \<Rightarrow> answer dbm \<Rightarrow> answer dbm" where
  "auditMiddleware action objType user h =
     bindE h (\<lambda>a.
     thenE (whenE (as_Status a < 400)
       (ignoreE (auditAppend (map_option usr_ID user) action objType
          (ax_ObjectID (as_Audit a)) (ax_Before (as_Audit a)) (ax_After (as_Audit a)))))
     (returnE a))"

definition auditEntry :: "string \<Rightarrow> string \<Rightarrow> User option \<Rightarrow> auditCtx \<Rightarrow> AuditLog" where
  "auditEntry action objType user ctx = \<lparr>au_UserID = map_option usr_ID user, au_Action = action, au_ObjectType = objType,
     au_ObjectID = ax_ObjectID ctx, au_Before = ax_Before ctx, au_After = ax_After ctx\<rparr>"

section \<open>Guards\<close>

text \<open>\<open>requireManager\<close>, \<open>currentUser\<close>, \<open>parseID\<close> and \<open>writeServiceErr\<close> are repeated in the handler files with the same text.\<close>

definition requireManager :: "request \<Rightarrow> User dbm" where
  "requireManager q = (case rq_User q of None \<Rightarrow> throwE (AppErr (Unauthorized ''msgAuthRequired''))
     | Some u \<Rightarrow> thenE (throwIf (usr_Role u \<noteq> RoleManager) (AppErr (Forbidden ''msgManagerOnly''))) (returnE u))"

definition currentUser :: "request \<Rightarrow> User dbm" where
  "currentUser q = (case rq_User q of None \<Rightarrow> throwE (AppErr (Unauthorized ''authentication required'')) | Some u \<Rightarrow> returnE u)"

definition parseID :: "services \<Rightarrow> request \<Rightarrow> string \<Rightarrow> uuid dbm" where
  "parseID sv q name = (case sv_Parse sv (rq_Param q name) of None \<Rightarrow> throwE (AppErr (NotFound ''msgIDInvalid'')) | Some i \<Rightarrow> returnE i)"

definition writeServiceErr :: "go_error \<Rightarrow> go_error" where
  "writeServiceErr e = (case e of AppErr a \<Rightarrow> AppErr a
     | _ \<Rightarrow> if e = RecordNotFound then AppErr (NotFound ''not found'') else AppErr ErrInternal)"

text \<open>\<open>atoiDefault\<close> of the packages other than billing.\<close>

definition atoiDefault :: "string \<Rightarrow> int \<Rightarrow> int" where
  "atoiDefault s d = (if s = '''' then d else case parseInt64 s of None \<Rightarrow> d | Some n \<Rightarrow> if n < 1 then d else n)"

section \<open>Routes\<close>

text \<open>A call of \<open>GET\<close>, \<open>POST\<close>, \<open>PUT\<close>, \<open>PATCH\<close> or \<open>DELETE\<close> in a \<open>Register\<close> function: the roles of \<open>RequireRole\<close> of its group, the arguments
  of the audit middleware, the handler.\<close>

record route =
  ro_Method :: string
  ro_Path :: string
  ro_Roles :: "string list option"
  ro_Audit :: "(string \<times> string) option"
  ro_Handler :: "request \<Rightarrow> answer dbm"

definition route :: "string \<Rightarrow> string \<Rightarrow> (request \<Rightarrow> answer dbm) \<Rightarrow> route" where
  "route m p h = \<lparr>ro_Method = m, ro_Path = p, ro_Roles = None, ro_Audit = None, ro_Handler = h\<rparr>"

definition audited :: "string \<Rightarrow> string \<Rightarrow> string \<Rightarrow> string \<Rightarrow> (request \<Rightarrow> answer dbm) \<Rightarrow> route" where
  "audited m p action objType h = \<lparr>ro_Method = m, ro_Path = p, ro_Roles = None, ro_Audit = Some (action, objType), ro_Handler = h\<rparr>"

definition group :: "string list \<Rightarrow> route list \<Rightarrow> route list" where
  "group roles = map (\<lambda>r. r\<lparr>ro_Roles := Some roles\<rparr>)"

definition runRoute :: "route \<Rightarrow> request \<Rightarrow> answer dbm" where
  "runRoute r q = thenE (case ro_Roles r of None \<Rightarrow> returnE () | Some roles \<Rightarrow> bindE (RequireRole roles (rq_User q)) (\<lambda>_. returnE ()))
     (case ro_Audit r of None \<Rightarrow> ro_Handler r q
      | Some (action, objType) \<Rightarrow> auditMiddleware action objType (rq_User q) (ro_Handler r q))"

text \<open>The requests of managers.\<close>

definition isManager :: "request \<Rightarrow> bool" where
  "isManager q \<longleftrightarrow> (\<exists>u. rq_User q = Some u \<and> usr_Role u = RoleManager)"

lemma isManager_code [code]: "isManager q \<longleftrightarrow> (case rq_User q of None \<Rightarrow> False | Some u \<Rightarrow> usr_Role u = RoleManager)"
  by (simp add: isManager_def split: option.splits)

end
