(* ===== verification/Billing_Endpoints.thy ===== *)
theory Billing_Endpoints
  imports Endpoints
begin

text \<open>
  \<open>internal/billing/handlers.go\<close>: the endpoints of periods, cost items, calculation and invoices, one definition per handler
  constructor, and the routes of \<open>Register\<close>.
\<close>

text \<open>The \<open>binding\<close> tags of the inputs: a required string is not empty and a required amount is not zero.\<close>

definition periodBound :: "(int \<Rightarrow> bool) \<Rightarrow> PeriodInput \<Rightarrow> bool" where
  "periodBound dateSet inp \<longleftrightarrow> pi_Title inp \<noteq> '''' \<and> dateSet (pi_StartDate inp) \<and> dateSet (pi_EndDate inp) \<and> dateSet (pi_DueDate inp)"

definition costItemBound :: "CostItemInput \<Rightarrow> bool" where
  "costItemBound inp \<longleftrightarrow> cii_Title inp \<noteq> '''' \<and> cii_Method inp \<noteq> ''''"

definition adjustmentBound :: "AdjustmentInput \<Rightarrow> bool" where
  "adjustmentBound inp \<longleftrightarrow> ai_Kind inp \<noteq> '''' \<and> ai_Amount inp \<noteq> 0 \<and> ai_Reason inp \<noteq> ''''"

text \<open>\<open>atoiDefault\<close>: the loop over the characters, with the wrap-around of \<open>int\<close>.\<close>

fun digitsLoop :: "int \<Rightarrow> string \<Rightarrow> int option" where
  "digitsLoop n [] = Some n"
| "digitsLoop n (r # rs) = (if isDigit r then digitsLoop (i64 (n * 10 + int (charDigit r))) rs else None)"

definition billingAtoiDefault :: "string \<Rightarrow> int \<Rightarrow> int" where
  "billingAtoiDefault s d = (if s = '''' then d else case digitsLoop 0 s of None \<Rightarrow> d | Some n \<Rightarrow> if n = 0 then d else n)"

section \<open>Periods\<close>

definition listPeriods :: endpoint where
  "listPeriods sv q =
     bindE (requireManager q) (\<lambda>mgr. bindE (parseID sv q ''id'') (\<lambda>buildingID.
     bindE (mapErr writeServiceErr (ListPeriods mgr buildingID)) (\<lambda>items. plain 200 (PeriodsBody items))))"

definition createPeriod :: endpoint where
  "createPeriod sv q =
     bindE (requireManager q) (\<lambda>mgr. bindE (parseID sv q ''id'') (\<lambda>buildingID.
     bindE (bindJSON (periodBound (sv_DateSet sv)) ''period title and dates are required'' (rq_Period q)) (\<lambda>inp.
     bindE (mapErr writeServiceErr (CreatePeriod mgr buildingID inp)) (\<lambda>p.
     withAudit 201 (PeriodBody p) (bp_ID p) None (Some (SnapPeriod p))))))"

definition getPeriod :: endpoint where
  "getPeriod sv q =
     bindE (requireManager q) (\<lambda>mgr. bindE (parseID sv q ''id'') (\<lambda>pid.
     bindE (mapErr writeServiceErr (GetPeriod mgr pid)) (\<lambda>p. plain 200 (PeriodBody p))))"

definition updatePeriod :: endpoint where
  "updatePeriod sv q =
     bindE (requireManager q) (\<lambda>mgr. bindE (parseID sv q ''id'') (\<lambda>pid.
     bindE (bindJSON (periodBound (sv_DateSet sv)) ''period title and dates are required'' (rq_Period q)) (\<lambda>inp.
     bindE (mapErr writeServiceErr (UpdatePeriod mgr pid inp)) (\<lambda>(p, before).
     withAudit 200 (PeriodBody p) pid (Some (SnapPeriod before)) (Some (SnapPeriod p))))))"

section \<open>Cost items\<close>

definition listCostItems :: endpoint where
  "listCostItems sv q =
     bindE (requireManager q) (\<lambda>mgr. bindE (parseID sv q ''id'') (\<lambda>pid.
     bindE (mapErr writeServiceErr (GetPeriod mgr pid)) (\<lambda>_.
     bindE (mapErr writeServiceErr (repoListCostItems pid)) (\<lambda>items. plain 200 (CostItemsBody items)))))"

definition addCostItem :: endpoint where
  "addCostItem sv q =
     bindE (requireManager q) (\<lambda>mgr. bindE (parseID sv q ''id'') (\<lambda>pid.
     bindE (bindJSON costItemBound ''title and method are required'' (rq_CostItem q)) (\<lambda>inp.
     bindE (mapErr writeServiceErr (AddCostItem mgr pid inp)) (\<lambda>ci.
     withAudit 201 (CostItemBody ci) (cir_ID ci) None (Some (SnapCostItem ci))))))"

definition updateCostItem :: endpoint where
  "updateCostItem sv q =
     bindE (requireManager q) (\<lambda>mgr. bindE (parseID sv q ''id'') (\<lambda>cid.
     bindE (bindJSON costItemBound ''title and method are required'' (rq_CostItem q)) (\<lambda>inp.
     bindE (mapErr writeServiceErr (UpdateCostItem mgr cid inp)) (\<lambda>(ci, before).
     withAudit 200 (CostItemBody ci) cid (Some (SnapCostItem before)) (Some (SnapCostItem ci))))))"

definition deleteCostItem :: endpoint where
  "deleteCostItem sv q =
     bindE (requireManager q) (\<lambda>mgr. bindE (parseID sv q ''id'') (\<lambda>cid.
     thenE (mapErr writeServiceErr (DeleteCostItem mgr cid)) (withAudit 204 NoBody cid None None)))"

section \<open>Calculation and the state machine\<close>

definition boolText :: "bool \<Rightarrow> string" where
  "boolText b = (if b then ''true'' else ''false'')"

definition calculate :: endpoint where
  "calculate sv q =
     bindE (requireManager q) (\<lambda>mgr. bindE (parseID sv q ''id'') (\<lambda>pid.
     bindE (mapErr writeServiceErr (CalcCalculate (sv_Str sv) (sv_Parse sv) (sv_Balances sv) mgr pid)) (\<lambda>pv.
     withAudit 200 (PreviewBody pv) pid None (Some (SnapFields [(''action'', ''calculate''), (''reconciled'', boolText (pv_Reconciled pv))])))))"

definition preview :: endpoint where
  "preview sv q =
     bindE (requireManager q) (\<lambda>mgr. bindE (parseID sv q ''id'') (\<lambda>pid.
     bindE (mapErr writeServiceErr (CalcPreview mgr pid)) (\<lambda>pv. plain 200 (PreviewBody pv))))"

definition reopen :: endpoint where
  "reopen sv q =
     bindE (requireManager q) (\<lambda>mgr. bindE (parseID sv q ''id'') (\<lambda>pid.
     bindE (mapErr writeServiceErr (Reopen mgr pid)) (\<lambda>p. plain 200 (PeriodBody p))))"

definition issue :: endpoint where
  "issue sv q =
     bindE (requireManager q) (\<lambda>mgr. bindE (parseID sv q ''id'') (\<lambda>pid.
     bindE (mapErr writeServiceErr (Issue (sv_Recomputer sv) mgr pid)) (\<lambda>issued.
     withAudit 200 (IssuedBody issued (int (length issued))) pid None
       (Some (SnapFields [(''issued_count'', showInt (int (length issued)))])))))"

definition close :: endpoint where
  "close sv q =
     bindE (requireManager q) (\<lambda>mgr. bindE (parseID sv q ''id'') (\<lambda>pid.
     bindE (mapErr writeServiceErr (Close mgr pid)) (\<lambda>p. plain 200 (PeriodBody p))))"

section \<open>Invoices\<close>

definition invoiceFilter :: "services \<Rightarrow> request \<Rightarrow> uuid \<Rightarrow> InvoiceFilter" where
  "invoiceFilter sv q buildingID = \<lparr>if_BuildingID = buildingID,
     if_PeriodID = (if Query q ''period_id'' \<noteq> '''' then sv_Parse sv (Query q ''period_id'') else None),
     if_UnitID = (if Query q ''unit_id'' \<noteq> '''' then sv_Parse sv (Query q ''unit_id'') else None),
     if_Status = Query q ''status'', if_Page = billingAtoiDefault (Query q ''page'') 1,
     if_PageSize = billingAtoiDefault (Query q ''page_size'') 20\<rparr>"

definition listBuildingInvoices :: endpoint where
  "listBuildingInvoices sv q =
     bindE (requireManager q) (\<lambda>mgr. bindE (parseID sv q ''id'') (\<lambda>buildingID.
     let f = invoiceFilter sv q buildingID
     in bindE (mapErr writeServiceErr (ListInvoices mgr f)) (\<lambda>(items, total).
        plain 200 (InvoicePage items (if_Page f) (if_PageSize f) total))))"

definition getInvoice :: endpoint where
  "getInvoice sv q =
     bindE (currentUser q) (\<lambda>u. bindE (parseID sv q ''id'') (\<lambda>iid.
     bindE (mapErr writeServiceErr (repoGetInvoice iid)) (\<lambda>iv.
     thenE (if usr_Role u = RoleManager then
              bindE (mapErr writeServiceErr (repoIsManagerOf (usr_ID u) (inv_BuildingID (id_Invoice iv)))) (\<lambda>ok.
              throwIf (\<not> ok) (AppErr (Forbidden msgNoBuildingAccess)))
            else
              bindE (mapErr writeServiceErr (ResidentUnitIDs (usr_Phone u))) (\<lambda>us.
              throwIf (inv_UnitID (id_Invoice iv) \<notin> set us) (AppErr (Forbidden ''no access to this invoice''))))
     (plain 200 (InvoiceDetailBody iv)))))"

definition cancelInvoice :: endpoint where
  "cancelInvoice sv q =
     bindE (requireManager q) (\<lambda>mgr. bindE (parseID sv q ''id'') (\<lambda>iid.
     bindE (bindJSON (\<lambda>reason. reason \<noteq> '''') ''reason is required'' (rq_Cancel q)) (\<lambda>reason.
     bindE (mapErr writeServiceErr (CancelInvoice (sv_Recomputer sv) mgr iid reason)) (\<lambda>iv.
     withAudit 200 (InvoiceBody iv) iid None None))))"

definition addAdjustment :: endpoint where
  "addAdjustment sv q =
     bindE (requireManager q) (\<lambda>mgr. bindE (parseID sv q ''id'') (\<lambda>iid.
     bindE (bindJSON adjustmentBound ''kind, amount and reason are required'' (rq_Adjustment q)) (\<lambda>inp.
     bindE (mapErr writeServiceErr (AddAdjustment (sv_Recomputer sv) mgr iid inp)) (\<lambda>adj.
     withAudit 201 (AdjustmentBody adj) iid None (Some (SnapAdjustment adj))))))"

section \<open>Resident scope\<close>

definition myInvoices :: endpoint where
  "myInvoices sv q =
     bindE (currentUser q) (\<lambda>u.
     bindE (mapErr writeServiceErr (ResidentUnitIDs (usr_Phone u))) (\<lambda>us.
     let page = billingAtoiDefault (Query q ''page'') 1; sz = billingAtoiDefault (Query q ''page_size'') 20
     in bindE (mapErr writeServiceErr (repoListInvoicesForUnits us page sz)) (\<lambda>(items, total).
        plain 200 (InvoicePage items page sz total))))"

definition myInvoice :: endpoint where
  "myInvoice sv q =
     bindE (currentUser q) (\<lambda>u. bindE (parseID sv q ''id'') (\<lambda>iid.
     bindE (mapErr writeServiceErr (repoGetInvoice iid)) (\<lambda>iv.
     bindE (mapErr writeServiceErr (ResidentUnitIDs (usr_Phone u))) (\<lambda>us.
     if inv_UnitID (id_Invoice iv) \<in> set us then plain 200 (InvoiceDetailBody iv)
     else throwE (AppErr (Forbidden ''no access to this invoice''))))))"

section \<open>Routes\<close>

definition billingRoutes :: "services \<Rightarrow> route list" where
  "billingRoutes sv =
    [route ''GET'' ''/buildings/:id/periods'' (listPeriods sv),
     audited ''POST'' ''/buildings/:id/periods'' ''period.create'' ''billing_period'' (createPeriod sv),
     route ''GET'' ''/buildings/:id/invoices'' (listBuildingInvoices sv),
     route ''GET'' ''/periods/:id'' (getPeriod sv),
     audited ''PATCH'' ''/periods/:id'' ''period.update'' ''billing_period'' (updatePeriod sv),
     route ''GET'' ''/periods/:id/cost-items'' (listCostItems sv),
     audited ''POST'' ''/periods/:id/cost-items'' ''cost_item.create'' ''cost_item'' (addCostItem sv),
     audited ''POST'' ''/periods/:id/calculate'' ''period.calculate'' ''billing_period'' (calculate sv),
     route ''GET'' ''/periods/:id/preview'' (preview sv),
     route ''POST'' ''/periods/:id/reopen'' (reopen sv),
     route ''POST'' ''/periods/:id/issue'' (issue sv),
     route ''POST'' ''/periods/:id/close'' (close sv),
     audited ''PUT'' ''/cost-items/:id'' ''cost_item.update'' ''cost_item'' (updateCostItem sv),
     audited ''DELETE'' ''/cost-items/:id'' ''cost_item.delete'' ''cost_item'' (deleteCostItem sv),
     route ''GET'' ''/invoices/:id'' (getInvoice sv),
     audited ''POST'' ''/invoices/:id/cancel'' ''invoice.cancel'' ''invoice'' (cancelInvoice sv),
     audited ''POST'' ''/invoices/:id/adjustments'' ''invoice.adjust'' ''invoice'' (addAdjustment sv),
     route ''GET'' ''/me/invoices'' (myInvoices sv),
     route ''GET'' ''/me/invoices/:id'' (myInvoice sv)]"

end
