(* ===== verification/Building_Endpoints.thy ===== *)
theory Building_Endpoints
  imports Endpoints
begin

text \<open>
  \<open>internal/building/handlers.go\<close> and \<open>occupancy_handlers.go\<close>: the endpoints of buildings, units, managers, people, occupancies
  and occupant counts, and the routes of \<open>Register\<close> and \<open>RegisterOccupancy\<close>.
\<close>

text \<open>\<open>writeServiceErr\<close> of this package: no mapping of a missing row, but one of \<open>ErrNoManager\<close>.\<close>

definition buildingServiceErr :: "go_error \<Rightarrow> go_error" where
  "buildingServiceErr e = (if e = ErrNoManager then AppErr (Unauthorized ''msgAuthRequired'')
     else case e of AppErr a \<Rightarrow> AppErr a | _ \<Rightarrow> AppErr ErrInternal)"

definition anyBody :: "'a \<Rightarrow> bool" where
  "anyBody _ = True"

section \<open>Buildings\<close>

definition listBuildings :: endpoint where
  "listBuildings sv q =
     bindE (requireManager q) (\<lambda>mgr.
     bindE (mapErr (\<lambda>_. AppErr (Internal ''listing buildings failed'')) (ListBuildings mgr)) (\<lambda>items. plain 200 (BuildingsBody items)))"

definition createBuilding :: endpoint where
  "createBuilding sv q =
     bindE (requireManager q) (\<lambda>mgr.
     bindE (bindJSON anyBody ''msgNameRequired'' (rq_Building q)) (\<lambda>inp.
     bindE (mapErr buildingServiceErr (CreateBuilding (sv_Range sv) mgr inp)) (\<lambda>b.
     withAudit 201 (BuildingBody b) (bl_ID b) None (Some (SnapBuilding b)))))"

definition getBuilding :: endpoint where
  "getBuilding sv q =
     bindE (requireManager q) (\<lambda>mgr. bindE (parseID sv q ''id'') (\<lambda>bid.
     bindE (mapErr buildingServiceErr (GetBuilding mgr bid)) (\<lambda>b. plain 200 (BuildingBody b))))"

definition updateBuilding :: endpoint where
  "updateBuilding sv q =
     bindE (requireManager q) (\<lambda>mgr. bindE (parseID sv q ''id'') (\<lambda>bid.
     bindE (bindJSON anyBody ''msgNameRequired'' (rq_Building q)) (\<lambda>inp.
     bindE (mapErr buildingServiceErr (UpdateBuilding (sv_Range sv) mgr bid inp)) (\<lambda>(b, before).
     withAudit 200 (BuildingBody b) bid (Some (SnapBuilding before)) (Some (SnapBuilding b))))))"

definition deleteBuilding :: endpoint where
  "deleteBuilding sv q =
     bindE (requireManager q) (\<lambda>mgr. bindE (parseID sv q ''id'') (\<lambda>bid.
     thenE (mapErr buildingServiceErr (DeleteBuilding mgr bid)) (withAudit 204 NoBody bid None None)))"

section \<open>Units\<close>

definition unitFilterFromQuery :: "request \<Rightarrow> UnitFilter option" where
  "unitFilterFromQuery q =
     (let f = \<lparr>uf_Q = Query q ''q'', uf_Block = Query q ''block'', uf_Floor = None, uf_Status = Query q ''status'',
               uf_Page = atoiDefault (Query q ''page'') 1, uf_Size = atoiDefault (Query q ''page_size'') 20\<rparr>
      in if Query q ''floor'' = '''' then Some f
         else case parseInt64 (Query q ''floor'') of None \<Rightarrow> None | Some v \<Rightarrow> Some (f\<lparr>uf_Floor := Some v\<rparr>))"

definition listUnits :: endpoint where
  "listUnits sv q =
     bindE (requireManager q) (\<lambda>mgr. bindE (parseID sv q ''id'') (\<lambda>bid.
     case unitFilterFromQuery q of None \<Rightarrow> throwE (AppErr (BadRequest ''msgQueryInvalid''))
     | Some f \<Rightarrow>
       bindE (mapErr (\<lambda>_. AppErr (Internal ''listing units failed'')) (ListUnits (sv_Like sv) mgr bid f)) (\<lambda>(items, total).
       plain 200 (UnitPage items (uf_Page f) (uf_Size f) total))))"

definition createUnit :: endpoint where
  "createUnit sv q =
     bindE (requireManager q) (\<lambda>mgr. bindE (parseID sv q ''id'') (\<lambda>bid.
     bindE (bindJSON anyBody ''msgNumberRequired'' (rq_Unit q)) (\<lambda>inp.
     bindE (mapErr buildingServiceErr (CreateUnit (sv_Range sv) mgr bid inp)) (\<lambda>u.
     withAudit 201 (UnitBody u) (un_ID u) None (Some (SnapUnit u))))))"

definition getUnit :: endpoint where
  "getUnit sv q =
     bindE (requireManager q) (\<lambda>mgr. bindE (parseID sv q ''id'') (\<lambda>uid.
     bindE (mapErr buildingServiceErr (GetUnit mgr uid)) (\<lambda>u. plain 200 (UnitBody u))))"

definition updateUnit :: endpoint where
  "updateUnit sv q =
     bindE (requireManager q) (\<lambda>mgr. bindE (parseID sv q ''id'') (\<lambda>uid.
     bindE (bindJSON anyBody ''msgNumberRequired'' (rq_Unit q)) (\<lambda>inp.
     bindE (mapErr buildingServiceErr (UpdateUnit (sv_Range sv) mgr uid inp)) (\<lambda>(u, before).
     withAudit 200 (UnitBody u) uid (Some (SnapUnit before)) (Some (SnapUnit u))))))"

definition deleteUnit :: endpoint where
  "deleteUnit sv q =
     bindE (requireManager q) (\<lambda>mgr. bindE (parseID sv q ''id'') (\<lambda>uid.
     thenE (mapErr buildingServiceErr (DeleteUnit mgr uid))
     (bindE timeNow (\<lambda>now. withAudit 204 NoBody uid None (Some (SnapFields [(''deleted_at'', showInt now)]))))))"

text \<open>The audit trail of a unit, newest first: the rows of \<open>audit_logs\<close> are in the order of their serial id and insertion time.\<close>

definition unitTrail :: "uuid \<Rightarrow> db \<Rightarrow> AuditLog list" where
  "unitTrail uid d = rev (filter (\<lambda>e. au_ObjectType e = ''unit'' \<and> au_ObjectID e = Some uid) (audit_logs d))"

definition unitHistory :: endpoint where
  "unitHistory sv q =
     bindE (requireManager q) (\<lambda>mgr. bindE (parseID sv q ''id'') (\<lambda>uid.
     bindE (mapErr buildingServiceErr (GetUnit mgr uid)) (\<lambda>_.
     bindE (mapErr (\<lambda>_. AppErr (Internal ''loading the history failed'')) (query (\<lambda>d. Inr (unitTrail uid d)))) (\<lambda>items.
     plain 200 (HistoryBody items)))))"

section \<open>Managers\<close>

definition listManagers :: endpoint where
  "listManagers sv q =
     bindE (requireManager q) (\<lambda>mgr. bindE (parseID sv q ''id'') (\<lambda>bid.
     bindE (mapErr buildingServiceErr (ListManagers mgr bid)) (\<lambda>items. plain 200 (ManagersBody items))))"

definition grantManager :: endpoint where
  "grantManager sv q =
     bindE (requireManager q) (\<lambda>mgr. bindE (parseID sv q ''id'') (\<lambda>bid.
     bindE (bindJSON (\<lambda>phone. phone \<noteq> '''') ''phone is required'' (rq_Grant q)) (\<lambda>phone.
     bindE (mapErr buildingServiceErr (GrantManagerByPhone mgr bid phone)) (\<lambda>m.
     withAudit 201 (ManagerBody m) bid None (Some (SnapFields [(''user_id'', sv_Str sv (bm_UserID m)), (''role'', bm_Role m)]))))))"

definition revokeManager :: endpoint where
  "revokeManager sv q =
     bindE (requireManager q) (\<lambda>mgr. bindE (parseID sv q ''id'') (\<lambda>bid. bindE (parseID sv q ''userId'') (\<lambda>uid.
     thenE (mapErr buildingServiceErr (RevokeManager mgr bid uid))
     (withAudit 204 NoBody bid (Some (SnapFields [(''user_id'', sv_Str sv uid)])) None))))"

section \<open>People\<close>

definition listPersons :: endpoint where
  "listPersons sv q =
     bindE (requireManager q) (\<lambda>mgr. bindE (parseID sv q ''id'') (\<lambda>bid.
     let page = atoiDefault (Query q ''page'') 1; sz = atoiDefault (Query q ''page_size'') 20
     in bindE (mapErr buildingServiceErr (ListPersons (sv_Like sv) mgr bid (Query q ''q'') page sz)) (\<lambda>(items, total).
        plain 200 (PersonPage items page sz total))))"

definition createPerson :: endpoint where
  "createPerson sv q =
     bindE (requireManager q) (\<lambda>mgr. bindE (parseID sv q ''id'') (\<lambda>bid.
     bindE (bindJSON anyBody ''msgPersonNameRequired'' (rq_Person q)) (\<lambda>inp.
     bindE (mapErr buildingServiceErr (CreatePerson mgr bid inp)) (\<lambda>p.
     withAudit 201 (PersonBody p) (pe_ID p) None (Some (SnapPerson p))))))"

definition updatePerson :: endpoint where
  "updatePerson sv q =
     bindE (requireManager q) (\<lambda>mgr. bindE (parseID sv q ''id'') (\<lambda>pid.
     bindE (bindJSON anyBody ''msgPersonNameRequired'' (rq_Person q)) (\<lambda>inp.
     bindE (mapErr buildingServiceErr (UpdatePerson mgr pid inp)) (\<lambda>(p, before).
     withAudit 200 (PersonBody p) pid (Some (SnapPerson before)) (Some (SnapPerson p))))))"

definition deletePerson :: endpoint where
  "deletePerson sv q =
     bindE (requireManager q) (\<lambda>mgr. bindE (parseID sv q ''id'') (\<lambda>pid.
     thenE (mapErr buildingServiceErr (DeletePerson mgr pid))
     (bindE timeNow (\<lambda>now. withAudit 200 (DeletedAtBody now) pid None None))))"

section \<open>Occupancies\<close>

definition listOccupancies :: endpoint where
  "listOccupancies sv q =
     bindE (requireManager q) (\<lambda>mgr. bindE (parseID sv q ''id'') (\<lambda>uid.
     bindE (mapErr buildingServiceErr (ListOccupancies mgr uid)) (\<lambda>items. plain 200 (OccupanciesBody items))))"

definition addOccupancy :: endpoint where
  "addOccupancy sv q =
     bindE (requireManager q) (\<lambda>mgr. bindE (parseID sv q ''id'') (\<lambda>uid.
     bindE (bindJSON anyBody ''msgRelInvalid'' (rq_Occupancy q)) (\<lambda>inp.
     bindE (mapErr buildingServiceErr (AddOccupancy mgr uid inp)) (\<lambda>x.
     withAudit 201 (OccupancyBody x) uid None (Some (SnapOccupancy x))))))"

definition endOccupancy :: endpoint where
  "endOccupancy sv q =
     bindE (requireManager q) (\<lambda>mgr. bindE (parseID sv q ''id'') (\<lambda>oid.
     bindE (bindJSON anyBody ''msgDateRequired'' (rq_EndOccupancy q)) (\<lambda>endDate.
     bindE (mapErr buildingServiceErr (EndOccupancy mgr oid endDate)) (\<lambda>x.
     withAudit 200 (OccupancyBody x) (oc_UnitID x) None (Some (SnapOccupancy x))))))"

definition listOccupantCounts :: endpoint where
  "listOccupantCounts sv q =
     bindE (requireManager q) (\<lambda>mgr. bindE (parseID sv q ''id'') (\<lambda>uid.
     bindE (mapErr buildingServiceErr (ListOccupantCounts mgr uid)) (\<lambda>items. plain 200 (CountsBody items))))"

definition recordOccupantCount :: endpoint where
  "recordOccupantCount sv q =
     bindE (requireManager q) (\<lambda>mgr. bindE (parseID sv q ''id'') (\<lambda>uid.
     bindE (bindJSON anyBody ''msgCountInvalid'' (rq_Count q)) (\<lambda>(n, from).
     bindE (mapErr buildingServiceErr (RecordOccupantCount mgr uid n from)) (\<lambda>oc. plain 201 (CountBody oc)))))"

section \<open>Routes\<close>

definition occupancyRoutes :: "services \<Rightarrow> route list" where
  "occupancyRoutes sv =
    [route ''GET'' ''/buildings/:id/persons'' (listPersons sv),
     audited ''POST'' ''/buildings/:id/persons'' ''person.create'' ''person'' (createPerson sv),
     audited ''PUT'' ''/persons/:id'' ''person.update'' ''person'' (updatePerson sv),
     audited ''DELETE'' ''/persons/:id'' ''person.delete'' ''person'' (deletePerson sv),
     route ''GET'' ''/units/:id/occupancies'' (listOccupancies sv),
     audited ''POST'' ''/units/:id/occupancies'' ''resident.changed'' ''occupancy'' (addOccupancy sv),
     route ''GET'' ''/units/:id/occupant-count'' (listOccupantCounts sv),
     route ''POST'' ''/units/:id/occupant-count'' (recordOccupantCount sv),
     audited ''PATCH'' ''/occupancies/:id'' ''resident.changed'' ''occupancy'' (endOccupancy sv)]"

definition buildingRoutes :: "services \<Rightarrow> route list" where
  "buildingRoutes sv =
    [route ''GET'' ''/buildings'' (listBuildings sv),
     audited ''POST'' ''/buildings'' ''building.create'' ''building'' (createBuilding sv),
     route ''GET'' ''/buildings/:id'' (getBuilding sv),
     audited ''PUT'' ''/buildings/:id'' ''building.update'' ''building'' (updateBuilding sv),
     audited ''DELETE'' ''/buildings/:id'' ''building.delete'' ''building'' (deleteBuilding sv),
     route ''GET'' ''/buildings/:id/units'' (listUnits sv),
     audited ''POST'' ''/buildings/:id/units'' ''unit.create'' ''unit'' (createUnit sv),
     route ''GET'' ''/buildings/:id/managers'' (listManagers sv),
     audited ''POST'' ''/buildings/:id/managers'' ''building.manager_granted'' ''building'' (grantManager sv),
     audited ''DELETE'' ''/buildings/:id/managers/:userId'' ''building.manager_revoked'' ''building'' (revokeManager sv),
     route ''GET'' ''/units/:id'' (getUnit sv),
     audited ''PUT'' ''/units/:id'' ''unit.update'' ''unit'' (updateUnit sv),
     audited ''DELETE'' ''/units/:id'' ''unit.delete'' ''unit'' (deleteUnit sv),
     route ''GET'' ''/units/:id/history'' (unitHistory sv)] @ occupancyRoutes sv"

end
