(* ===== verification/Payment_Endpoints.thy ===== *)
theory Payment_Endpoints
  imports Endpoints
begin

text \<open>
  \<open>internal/payment/handlers.go\<close>: manual payments, gateway start and callback, ledgers and balances, and the routes of
  \<open>Register\<close>; \<open>marshal.go\<close>: the amounts on the wire.
\<close>

section \<open>Payments\<close>

definition recordManual :: endpoint where
  "recordManual sv q =
     bindE (currentUser q) (\<lambda>u. bindE (parseID sv q ''id'') (\<lambda>iid.
     bindE (bindJSON (\<lambda>_. True) ''invalid payment data'' (rq_Manual q)) (\<lambda>inp.
     bindE (mapErr writeServiceErr (RecordManual u iid inp)) (\<lambda>p. plain 201 (PaymentBody p)))))"

definition startAmount :: "string option \<Rightarrow> money option dbm" where
  "startAmount raw = (case raw of None \<Rightarrow> returnE None
     | Some s \<Rightarrow> (case parseInt64 s of None \<Rightarrow> throwE (AppErr (BadRequest ''invalid amount'')) | Some v \<Rightarrow> returnE (Some v)))"

definition startGateway :: endpoint where
  "startGateway sv q =
     bindE (currentUser q) (\<lambda>u. bindE (parseID sv q ''id'') (\<lambda>iid.
     bindE (startAmount (fst (rq_Start q))) (\<lambda>amount.
     bindE (mapErr writeServiceErr (StartGateway (sv_Payments sv) u iid amount (snd (rq_Start q)))) (\<lambda>(p, payURL).
     plain 201 (StartBody (pay_ID p) payURL (showInt (pay_Amount p)) (pay_Status p))))))"

fun firstNonEmpty :: "string list \<Rightarrow> string" where
  "firstNonEmpty [] = ''''"
| "firstNonEmpty (v # vals) = (if v \<noteq> '''' then v else firstNonEmpty vals)"

definition gatewayCallback :: endpoint where
  "gatewayCallback sv q =
     bindE (mapErr writeServiceErr (HandleCallback (sv_Parse sv) (sv_Payments sv) (Query q ''payment_id'')
        (firstNonEmpty [Query q ''Authority'', Query q ''authority'']))) (\<lambda>p.
     let invoiceID = (case pay_InvoiceID p of None \<Rightarrow> '''' | Some iid \<Rightarrow> sv_Str sv iid);
         target = BrowserReturnURL (sv_Payments sv) (Query q ''return_path'') (sv_Str sv (pay_ID p)) (pay_Status p) invoiceID
     in if target \<noteq> '''' then plain 302 (RedirectBody target)
        else plain 200 (CallbackBody (pay_ID p) (pay_Status p) invoiceID (''hamsa://payments/'' @ sv_Str sv (pay_ID p))))"

section \<open>Ledgers\<close>

definition pageSizeFromQuery :: "request \<Rightarrow> int" where
  "pageSizeFromQuery q = (let v = Query q ''page_size'' in if v \<noteq> '''' then atoiDefault v 20 else atoiDefault (Query q ''size'') 20)"

definition writePaymentPage :: "Payment list \<Rightarrow> int \<Rightarrow> PaymentFilter \<Rightarrow> answer dbm" where
  "writePaymentPage rows n f =
     (let sz = (if pf_Size f < 1 then 20 else pf_Size f); page = (if pf_Page f < 1 then 1 else pf_Page f)
      in plain 200 (PaymentPage rows page sz n))"

text \<open>A date of the query as the instant of its midnight, \<open>None\<close> when absent or invalid.\<close>

definition queryDate :: "request \<Rightarrow> string \<Rightarrow> int option" where
  "queryDate q name = (let v = Query q name in if v = '''' then None else map_option (\<lambda>d. 86400 * d) (parseDate v))"

definition ledgerFilter :: "services \<Rightarrow> request \<Rightarrow> PaymentFilter" where
  "ledgerFilter sv q = \<lparr>pf_BuildingID = uuidNil,
     pf_UnitID = (if Query q ''unit_id'' = '''' then uuidNil
       else case sv_Parse sv (Query q ''unit_id'') of None \<Rightarrow> uuidNil | Some uid \<Rightarrow> uid),
     pf_UnitIDs = [], pf_From = queryDate q ''from'', pf_To = map_option (\<lambda>t. t + 24 * 3600) (queryDate q ''to''),
     pf_Method = Query q ''method'', pf_Page = atoiDefault (Query q ''page'') 1, pf_Size = pageSizeFromQuery q\<rparr>"

definition buildingLedger :: endpoint where
  "buildingLedger sv q =
     bindE (currentUser q) (\<lambda>u. bindE (parseID sv q ''id'') (\<lambda>bid.
     let f = ledgerFilter sv q
     in bindE (mapErr writeServiceErr (BuildingLedger u bid f)) (\<lambda>(rows, total). writePaymentPage rows total f)))"

definition myPayments :: endpoint where
  "myPayments sv q =
     bindE (currentUser q) (\<lambda>u.
     let f = \<lparr>pf_BuildingID = uuidNil, pf_UnitID = uuidNil, pf_UnitIDs = [], pf_From = None, pf_To = None,
          pf_Method = Query q ''method'', pf_Page = atoiDefault (Query q ''page'') 1, pf_Size = pageSizeFromQuery q\<rparr>
     in bindE (mapErr writeServiceErr (MyPayments u f)) (\<lambda>(rows, total). writePaymentPage rows total f))"

definition unitBalance :: endpoint where
  "unitBalance sv q =
     bindE (currentUser q) (\<lambda>u. bindE (parseID sv q ''id'') (\<lambda>uid.
     bindE (mapErr writeServiceErr (UnitBalanceFor u uid)) (\<lambda>b. plain 200 (BalanceBody b))))"

section \<open>Amounts on the wire\<close>

text \<open>The fields that \<open>MarshalJSON\<close> replaces by quoted decimal strings; all others keep their values.\<close>

definition marshalBalance :: "UnitBalance \<Rightarrow> (string \<times> string) list" where
  "marshalBalance b =
     [(''prior_debt'', showInt (bal_PriorDebt b)), (''current_invoice_amount'', showInt (bal_CurrentInvoiceAmount b)),
      (''late_fee_total'', showInt (bal_LateFeeTotal b)), (''credit'', showInt (bal_Credit b)),
      (''paid_total'', showInt (bal_PaidTotal b)), (''credit_asset'', showInt (bal_CreditAsset b)), (''balance'', showInt (bal_Balance b))]"

definition marshalPayment :: "Payment \<Rightarrow> (string \<times> string) list" where
  "marshalPayment p = [(''amount'', showInt (pay_Amount p))]"

section \<open>Routes\<close>

definition paymentRoutes :: "services \<Rightarrow> route list" where
  "paymentRoutes sv =
    [audited ''POST'' ''/invoices/:id/payments'' ''payment.record'' ''payment'' (recordManual sv),
     route ''POST'' ''/invoices/:id/pay'' (startGateway sv),
     route ''GET'' ''/buildings/:id/payments'' (buildingLedger sv),
     route ''GET'' ''/me/payments'' (myPayments sv),
     route ''GET'' ''/units/:id/balance'' (unitBalance sv)]"

definition publicRoutes :: "services \<Rightarrow> route list" where
  "publicRoutes sv = [route ''GET'' ''/payments/callback'' (gatewayCallback sv)]"

end
