(* ===== verification/Service_Endpoints.thy ===== *)
theory Service_Endpoints
  imports Endpoints
begin

text \<open>
  The endpoints of the packages around the ledger: \<open>maintenance/handlers.go\<close>, \<open>expense/handlers.go\<close>, \<open>announcement/handlers.go\<close>,
  \<open>notification/handlers.go\<close> and \<open>dashboard/handlers.go\<close>, with the routes of their \<open>Register\<close> functions.
\<close>

section \<open>Maintenance\<close>

definition managerOnly :: "User \<Rightarrow> unit dbm" where
  "managerOnly u = throwIf (usr_Role u \<noteq> RoleManager) (AppErr (Forbidden ''msgManagerOnly''))"

definition submitResident :: endpoint where
  "submitResident sv q =
     bindE (currentUser q) (\<lambda>u.
     bindE (bindJSON (\<lambda>_. True) ''invalid maintenance request'' (rq_Submit q)) (\<lambda>inp.
     bindE (mapErr writeServiceErr (Submit u inp)) (\<lambda>m. withAudit 201 (RequestBody m) (mr_ID m) None (Some (SnapRequest m)))))"

definition listResident :: endpoint where
  "listResident sv q =
     bindE (currentUser q) (\<lambda>u.
     let page = atoiDefault (Query q ''page'') 1; sz = atoiDefault (Query q ''page_size'') 20
     in bindE (mapErr writeServiceErr (maintListForResident u page sz)) (\<lambda>(items, total). plain 200 (RequestPage items page sz total)))"

definition getResident :: endpoint where
  "getResident sv q =
     bindE (currentUser q) (\<lambda>u. bindE (parseID sv q ''id'') (\<lambda>mid.
     bindE (mapErr writeServiceErr (maintGetForResident u mid)) (\<lambda>m. plain 200 (RequestBody m))))"

definition maintFilter :: "request \<Rightarrow> MaintFilter" where
  "maintFilter q = \<lparr>mf_Status = Query q ''status'', mf_Priority = Query q ''priority'', mf_Category = Query q ''category'',
     mf_Page = atoiDefault (Query q ''page'') 1, mf_Size = atoiDefault (Query q ''page_size'') 20\<rparr>"

definition maintListEndpoint :: endpoint where
  "maintListEndpoint sv q =
     bindE (currentUser q) (\<lambda>mgr. thenE (managerOnly mgr) (bindE (parseID sv q ''id'') (\<lambda>bid.
     let f = maintFilter q
     in bindE (mapErr writeServiceErr (maintListForManager mgr bid f)) (\<lambda>(items, total).
        plain 200 (RequestPage items (mf_Page f) (mf_Size f) total)))))"

definition patchForManager :: endpoint where
  "patchForManager sv q =
     bindE (currentUser q) (\<lambda>mgr. thenE (managerOnly mgr) (bindE (parseID sv q ''id'') (\<lambda>mid.
     bindE (bindJSON (\<lambda>_. True) ''invalid update'' (rq_Update q)) (\<lambda>inp0.
     let inp = (if mu_Status inp0 = Some '''' then inp0\<lparr>mu_Status := None\<rparr> else inp0)
     in bindE (mapErr writeServiceErr (maintUpdate mgr mid inp)) (\<lambda>(m, before).
        withAudit 200 (RequestBody m) (mr_ID m) (Some (SnapRequest before)) (Some (SnapRequest m)))))))"

definition maintGetEndpoint :: endpoint where
  "maintGetEndpoint sv q =
     bindE (currentUser q) (\<lambda>mgr. thenE (managerOnly mgr) (bindE (parseID sv q ''id'') (\<lambda>mid.
     bindE (mapErr writeServiceErr (maintForManager mgr mid)) (\<lambda>m. plain 200 (RequestBody m)))))"

definition maintenanceRoutes :: "services \<Rightarrow> route list" where
  "maintenanceRoutes sv =
    [route ''POST'' ''/me/maintenance-requests'' (submitResident sv),
     route ''GET'' ''/me/maintenance-requests'' (listResident sv),
     route ''GET'' ''/me/maintenance-requests/:id'' (getResident sv),
     route ''GET'' ''/buildings/:id/maintenance-requests'' (maintListEndpoint sv),
     route ''PATCH'' ''/maintenance-requests/:id'' (patchForManager sv),
     route ''GET'' ''/maintenance-requests/:id'' (maintGetEndpoint sv)]"

section \<open>Expenses\<close>

definition createExpense :: endpoint where
  "createExpense sv q =
     bindE (currentUser q) (\<lambda>u. bindE (parseID sv q ''id'') (\<lambda>bid.
     bindE (bindJSON (\<lambda>_. True) ''invalid expense'' (rq_Expense q)) (\<lambda>inp.
     bindE (mapErr writeServiceErr (expCreate (sv_Parse sv) u bid inp)) (\<lambda>e.
     withAudit 201 (ExpenseBody e) (ex_ID e) None (Some (SnapExpense e))))))"

definition getExpense :: endpoint where
  "getExpense sv q =
     bindE (currentUser q) (\<lambda>u. bindE (parseID sv q ''id'') (\<lambda>eid.
     bindE (mapErr writeServiceErr (expGet u eid)) (\<lambda>e. plain 200 (ExpenseBody e))))"

definition requiredDate :: "request \<Rightarrow> string \<Rightarrow> int option dbm" where
  "requiredDate q name = (let raw = Query q name in if raw = '''' then returnE None
     else case parseDate raw of None \<Rightarrow> throwE (AppErr (BadRequest ''invalid date'')) | Some d \<Rightarrow> returnE (Some d))"

definition listExpenses :: endpoint where
  "listExpenses sv q =
     bindE (currentUser q) (\<lambda>u. bindE (parseID sv q ''id'') (\<lambda>bid.
     bindE (requiredDate q ''from'') (\<lambda>from. bindE (requiredDate q ''to'') (\<lambda>until.
     let f = \<lparr>ef_Category = Query q ''category'', ef_Approval = Query q ''approval'', ef_From = from, ef_To = until,
              ef_Page = atoiDefault (Query q ''page'') 1, ef_Size = atoiDefault (Query q ''page_size'') 20\<rparr>
     in bindE (mapErr writeServiceErr (expList u bid f)) (\<lambda>(items, total).
        plain 200 (ExpensePage items (ef_Page f) (ef_Size f) total))))))"

definition updateExpense :: endpoint where
  "updateExpense sv q =
     bindE (currentUser q) (\<lambda>u. bindE (parseID sv q ''id'') (\<lambda>eid.
     bindE (bindJSON (\<lambda>_. True) ''invalid expense'' (rq_Expense q)) (\<lambda>inp.
     bindE (mapErr writeServiceErr (expGet u eid)) (\<lambda>before.
     bindE (mapErr writeServiceErr (expUpdate (sv_Parse sv) u eid inp)) (\<lambda>e.
     withAudit 200 (ExpenseBody e) (ex_ID e) (Some (SnapExpense before)) (Some (SnapExpense e)))))))"

definition deleteExpense :: endpoint where
  "deleteExpense sv q =
     bindE (currentUser q) (\<lambda>u. bindE (parseID sv q ''id'') (\<lambda>eid.
     bindE (mapErr writeServiceErr (expGet u eid)) (\<lambda>before.
     thenE (mapErr writeServiceErr (expDelete u eid)) (withAudit 200 DeletedBody eid (Some (SnapExpense before)) None))))"

definition financialReport :: endpoint where
  "financialReport sv q =
     bindE (currentUser q) (\<lambda>u. bindE (parseID sv q ''id'') (\<lambda>bid.
     bindE (mapErr writeServiceErr (expReport u bid (Query q ''month''))) (\<lambda>rep. plain 200 (ReportBody rep))))"

definition expenseRoutes :: "services \<Rightarrow> route list" where
  "expenseRoutes sv = group [RoleManager]
    [audited ''POST'' ''/buildings/:id/expenses'' ''expense.record'' ''expense'' (createExpense sv),
     route ''GET'' ''/buildings/:id/expenses'' (listExpenses sv),
     route ''GET'' ''/buildings/:id/financial-report'' (financialReport sv),
     route ''GET'' ''/expenses/:id'' (getExpense sv),
     audited ''PUT'' ''/expenses/:id'' ''expense.update'' ''expense'' (updateExpense sv),
     audited ''DELETE'' ''/expenses/:id'' ''expense.delete'' ''expense'' (deleteExpense sv)]"

section \<open>Announcements\<close>

text \<open>\<open>atoiDefault\<close> of this package has no case for the empty string, which \<open>Atoi\<close> rejects.\<close>

definition annAtoiDefault :: "string \<Rightarrow> int \<Rightarrow> int" where
  "annAtoiDefault s d = (case parseInt64 s of None \<Rightarrow> d | Some n \<Rightarrow> if n < 1 then d else n)"

definition createForManager :: endpoint where
  "createForManager sv q =
     bindE (currentUser q) (\<lambda>mgr. bindE (parseID sv q ''id'') (\<lambda>bid.
     bindE (bindJSON (\<lambda>_. True) ''invalid data'' (rq_Announcement q)) (\<lambda>inp.
     bindE (annCreateFor (sv_Parse sv) (Some mgr) bid inp) (\<lambda>a. plain 201 (AnnouncementBody a)))))"

definition annListEndpoint :: endpoint where
  "annListEndpoint sv q =
     bindE (currentUser q) (\<lambda>mgr. bindE (parseID sv q ''id'') (\<lambda>bid.
     let page = annAtoiDefault (Query q ''page'') 1; sz = annAtoiDefault (Query q ''page_size'') 20
     in bindE (annListForManager (Some mgr) bid page sz) (\<lambda>(items, total). plain 200 (AnnouncementPage items page sz total))))"

definition annGetEndpoint :: endpoint where
  "annGetEndpoint sv q =
     bindE (currentUser q) (\<lambda>mgr. bindE (parseID sv q ''id'') (\<lambda>aid.
     bindE (mapErr (orNotFound ''announcement not found'') (annForManager (Some mgr) aid)) (\<lambda>a. plain 200 (AnnouncementBody a))))"

definition updateForManager :: endpoint where
  "updateForManager sv q =
     bindE (currentUser q) (\<lambda>mgr. bindE (parseID sv q ''id'') (\<lambda>aid.
     bindE (bindJSON (\<lambda>_. True) ''invalid data'' (rq_Announcement q)) (\<lambda>inp.
     bindE (annUpdate (sv_Parse sv) (Some mgr) aid inp) (\<lambda>a. plain 200 (AnnouncementBody a)))))"

definition deleteForManager :: endpoint where
  "deleteForManager sv q =
     bindE (currentUser q) (\<lambda>mgr. bindE (parseID sv q ''id'') (\<lambda>aid.
     thenE (annDeleteFor (Some mgr) aid) (plain 204 NoBody)))"

definition listForResident :: endpoint where
  "listForResident sv q =
     bindE (currentUser q) (\<lambda>u.
     let page = annAtoiDefault (Query q ''page'') 1; sz = annAtoiDefault (Query q ''page_size'') 20
     in bindE (annListForResident (sv_Parse sv) (Some u) page sz) (\<lambda>(items, total). plain 200 (ReadPage items page sz total)))"

definition getForResident :: endpoint where
  "getForResident sv q =
     bindE (currentUser q) (\<lambda>u. bindE (parseID sv q ''id'') (\<lambda>aid.
     bindE (annGetForResident (sv_Parse sv) (Some u) aid) (\<lambda>a. plain 200 (ReadBody a))))"

definition markRead :: endpoint where
  "markRead sv q =
     bindE (currentUser q) (\<lambda>u. bindE (parseID sv q ''id'') (\<lambda>aid.
     thenE (annMarkRead (sv_Parse sv) (Some u) aid) (plain 204 NoBody)))"

definition announcementRoutes :: "services \<Rightarrow> route list" where
  "announcementRoutes sv = group [RoleManager]
    [route ''POST'' ''/buildings/:id/announcements'' (createForManager sv),
     route ''GET'' ''/buildings/:id/announcements'' (annListEndpoint sv),
     route ''GET'' ''/announcements/:id'' (annGetEndpoint sv),
     route ''PUT'' ''/announcements/:id'' (updateForManager sv),
     route ''DELETE'' ''/announcements/:id'' (deleteForManager sv)] @
    [route ''GET'' ''/me/announcements'' (listForResident sv),
     route ''GET'' ''/me/announcements/:id'' (getForResident sv),
     route ''POST'' ''/announcements/:id/read'' (markRead sv),
     route ''POST'' ''/me/announcements/:id/read'' (markRead sv)]"

section \<open>Notifications\<close>

text \<open>The value of \<open>strconv.Atoi\<close> when its error is discarded: zero for a syntax error, the nearest bound out of range.\<close>

definition atoiValue :: "string \<Rightarrow> int" where
  "atoiValue s = (case parseInt64 s of Some n \<Rightarrow> n
     | None \<Rightarrow> let neg = (s \<noteq> [] \<and> hd s = CHR ''-''); digits = (if s \<noteq> [] \<and> (hd s = CHR ''-'' \<or> hd s = CHR ''+'') then tl s else s)
               in if parseDigits digits = None then 0 else if neg then - (2 ^ 63) else 2 ^ 63 - 1)"

definition DefaultQuery :: "request \<Rightarrow> string \<Rightarrow> string \<Rightarrow> string" where
  "DefaultQuery q name d = (case rq_Query q name of None \<Rightarrow> d | Some v \<Rightarrow> v)"

definition notificationList :: endpoint where
  "notificationList sv q =
     bindE (currentUser q) (\<lambda>u.
     let unreadOnly = (Query q ''unreadOnly'' = ''true''); page = atoiValue (DefaultQuery q ''page'' ''1'');
         pageSize = atoiValue (DefaultQuery q ''page_size'' ''20'')
     in bindE (mapErr (\<lambda>_. AppErr (Internal ''loading notifications failed'')) (notifList (usr_ID u) unreadOnly page pageSize)) (\<lambda>(items, total).
        plain 200 (NotificationPage items page pageSize total)))"

definition notificationMarkRead :: endpoint where
  "notificationMarkRead sv q =
     bindE (currentUser q) (\<lambda>u.
     case sv_Parse sv (rq_Param q ''id'') of None \<Rightarrow> throwE (AppErr (BadRequest ''invalid notification id''))
     | Some nid \<Rightarrow> thenE (mapErr (\<lambda>_. AppErr (Internal ''marking the notification failed'')) (notifMarkRead (usr_ID u) nid)) (plain 204 NoBody))"

definition readAll :: endpoint where
  "readAll sv q =
     bindE (currentUser q) (\<lambda>u.
     thenE (mapErr (\<lambda>_. AppErr (Internal ''marking the notifications failed'')) (notifMarkAllRead (usr_ID u))) (plain 204 NoBody))"

definition notificationRoutes :: "services \<Rightarrow> route list" where
  "notificationRoutes sv =
    [route ''GET'' ''/me/notifications'' (notificationList sv),
     route ''POST'' ''/me/notifications/read-all'' (readAll sv),
     route ''POST'' ''/me/notifications/:id/read'' (notificationMarkRead sv)]"

section \<open>Dashboards\<close>

definition home :: endpoint where
  "home sv q = bindE (currentUser q) (\<lambda>u. bindE (Home (sv_Parse sv) (Some u)) (\<lambda>out. plain 200 (HomeBody out)))"

definition buildingDashboard :: endpoint where
  "buildingDashboard sv q =
     bindE (currentUser q) (\<lambda>mgr. bindE (parseID sv q ''id'') (\<lambda>bid.
     bindE (BuildingDashboardFor (sv_Str sv) (Some mgr) bid) (\<lambda>out. plain 200 (DashboardBody out))))"

definition dashboardRoutes :: "services \<Rightarrow> route list" where
  "dashboardRoutes sv = [route ''GET'' ''/me/home'' (home sv)] @
     group [RoleManager] [route ''GET'' ''/buildings/:id/dashboard'' (buildingDashboard sv)]"

end
