(* ===== verification/Config.thy ===== *)
theory Config
  imports Gateway
begin

text \<open>
  \<open>internal/platform/config/config.go\<close>: defaults, the file, overrides from the environment, validation. Reading the file and the
  YAML decoder, which sets the fields the file names, are parameters. Durations are in seconds.
\<close>

record AppConfig =
  ac_Env :: string
  ac_Addr :: string
  ac_BaseURL :: string
  ac_WebReturnURL :: string

record PaymentConfig =
  pc_Provider :: string
  pc_Zarinpal :: Zarinpal

record AuthConfig =
  tc_JWTSecret :: string
  tc_AccessTTL :: int
  tc_RefreshTTL :: int

record Config =
  cf_App :: AppConfig
  cf_DSN :: string
  cf_AutoMigrate :: bool
  cf_Auth :: AuthConfig
  cf_Payment :: PaymentConfig
  cf_StoragePath :: string
  cf_FCMCredentialsFile :: string
  cf_AllowedOrigins :: "string list"

definition IsDev :: "AppConfig \<Rightarrow> bool" where
  "IsDev a \<longleftrightarrow> ac_Env a = ''dev''"

definition defaultConfig :: Config where
  "defaultConfig = \<lparr>cf_App = \<lparr>ac_Env = ''dev'', ac_Addr = '':8080'', ac_BaseURL = ''http://localhost:8080'', ac_WebReturnURL = ''''\<rparr>,
     cf_DSN = '''', cf_AutoMigrate = True, cf_Auth = \<lparr>tc_JWTSecret = '''', tc_AccessTTL = 15 * 60, tc_RefreshTTL = 30 * 24 * 3600\<rparr>,
     cf_Payment = \<lparr>pc_Provider = ''mock'', pc_Zarinpal = \<lparr>z_MerchantID = '''', z_Sandbox = False\<rparr>\<rparr>,
     cf_StoragePath = ''./data/files'', cf_FCMCredentialsFile = '''',
     cf_AllowedOrigins = [''http://localhost:5173'', ''http://127.0.0.1:5173'']\<rparr>"

text \<open>\<open>os.Getenv\<close> is empty for a variable that is not set.\<close>

definition override :: "(string \<Rightarrow> string) \<Rightarrow> string \<Rightarrow> string \<Rightarrow> string" where
  "override getenv name old = (if getenv name \<noteq> '''' then getenv name else old)"

definition applyEnvOverrides :: "(string \<Rightarrow> string) \<Rightarrow> Config \<Rightarrow> Config" where
  "applyEnvOverrides getenv cfg = cfg\<lparr>
     cf_App := (cf_App cfg)\<lparr>ac_Env := override getenv ''HAMSA_APP_ENV'' (ac_Env (cf_App cfg)),
                 ac_WebReturnURL := override getenv ''HAMSA_WEB_RETURN_URL'' (ac_WebReturnURL (cf_App cfg))\<rparr>,
     cf_DSN := override getenv ''HAMSA_DB_DSN'' (cf_DSN cfg),
     cf_Auth := (cf_Auth cfg)\<lparr>tc_JWTSecret := override getenv ''HAMSA_JWT_SECRET'' (tc_JWTSecret (cf_Auth cfg))\<rparr>,
     cf_Payment := (cf_Payment cfg)\<lparr>pc_Provider := override getenv ''HAMSA_PAYMENT_PROVIDER'' (pc_Provider (cf_Payment cfg))\<rparr>\<rparr>"

definition validate :: "Config \<Rightarrow> unit result" where
  "validate c =
     (if ac_Env (cf_App c) \<noteq> ''dev'' \<and> ac_Env (cf_App c) \<noteq> ''production'' then Inl (Sentinel ''app.env must be dev or production'')
      else if ac_Addr (cf_App c) = '''' then Inl (Sentinel ''app.addr must not be empty'')
      else if cf_DSN c = '''' then Inl (Sentinel ''db.dsn must not be empty'')
      else if tc_JWTSecret (cf_Auth c) = '''' then Inl (Sentinel ''auth.jwt_secret must not be empty'')
      else if tc_AccessTTL (cf_Auth c) \<le> 0 \<or> tc_RefreshTTL (cf_Auth c) \<le> 0 then Inl (Sentinel ''auth token TTLs must be positive'')
      else if cf_StoragePath c = '''' then Inl (Sentinel ''storage.path must not be empty'')
      else Inr ())"

definition Load :: "(string \<Rightarrow> string) \<Rightarrow> (string \<Rightarrow> string result) \<Rightarrow> (string \<Rightarrow> Config \<Rightarrow> Config result) \<Rightarrow> Config result" where
  "Load getenv readFile unmarshal =
     (let path = override getenv ''HAMSA_CONFIG'' ''config.yaml''
      in bindR (readFile path) (\<lambda>raw.
         bindR (unmarshal raw defaultConfig) (\<lambda>cfg0.
         let cfg = applyEnvOverrides getenv cfg0
         in bindR (validate cfg) (\<lambda>_. Inr cfg))))"

lemma Load_valid:
  assumes "Load getenv readFile unmarshal = Inr cfg"
  shows "validate cfg = Inr () \<and> (\<exists>raw cfg0. readFile (override getenv ''HAMSA_CONFIG'' ''config.yaml'') = Inr raw \<and>
     unmarshal raw defaultConfig = Inr cfg0 \<and> cfg = applyEnvOverrides getenv cfg0)"
  using assms by (auto simp: Load_def Let_def bindR_Inr_iff)

end
