(* ===== verification/App.thy ===== *)
theory App
  imports Billing_Endpoints Building_Endpoints Payment_Endpoints Service_Endpoints Payment_Ledger Config
begin

text \<open>
  \<open>cmd/server/main.go\<close>: the services as they are wired from the configuration, the routes mounted behind
  \<open>auth.Authenticate\<close> and the public one. The routes under \<open>/auth\<close> are the handlers of \<open>Auth_Handlers\<close>, those under \<open>/files\<close>
  the handlers of \<open>Storage\<close>; they are not rows of \<open>appRoutes\<close>.
\<close>

definition newGateway :: "http_post \<Rightarrow> (int \<Rightarrow> string) \<Rightarrow> PaymentConfig \<Rightarrow> PaymentGateway" where
  "newGateway post fmtTime p = (if pc_Provider p = ''zarinpal'' then zarinpalGateway post (pc_Zarinpal p)
     else mockGateway fmtTime \<lparr>mock_FailNext = False, mock_MismatchNext = False\<rparr>)"

definition newPayments :: "http_post \<Rightarrow> (int \<Rightarrow> string) \<Rightarrow> Config \<Rightarrow> PaymentService" where
  "newPayments post fmtTime cfg = NewPaymentService (newGateway post fmtTime (cf_Payment cfg))
     (ac_BaseURL (cf_App cfg) @ ''/api/v1/payments/callback'') (ac_WebReturnURL (cf_App cfg))"

text \<open>The balance service of the payment package feeds the calculation and recomputes the balances.\<close>

definition wire :: "http_post \<Rightarrow> (int \<Rightarrow> string) \<Rightarrow> services \<Rightarrow> Config \<Rightarrow> services" where
  "wire post fmtTime lib cfg = lib\<lparr>sv_Balances := BalanceSnapshot, sv_Recomputer := Some RecomputeInvoice,
     sv_Payments := newPayments post fmtTime cfg\<rparr>"

definition newHandler :: "Config \<Rightarrow> Handler" where
  "newHandler cfg = \<lparr>hd_Tokens = \<lparr>ts_accessTTL = tc_AccessTTL (cf_Auth cfg), ts_refreshTTL = tc_RefreshTTL (cf_Auth cfg)\<rparr>,
     hd_Secure = (\<not> IsDev (cf_App cfg))\<rparr>"

definition appRoutes :: "services \<Rightarrow> route list" where
  "appRoutes sv = notificationRoutes sv @ group [RoleManager] (buildingRoutes sv) @ billingRoutes sv @ paymentRoutes sv @
     expenseRoutes sv @ maintenanceRoutes sv @ announcementRoutes sv @ dashboardRoutes sv"

text \<open>A request with the bearer token \<open>header\<close> to a route behind \<open>authMW\<close>.\<close>

definition serveAuthed :: "crypto \<Rightarrow> string \<Rightarrow> route \<Rightarrow> request \<Rightarrow> answer dbm" where
  "serveAuthed c header r q = bindE (Authenticate c header) (\<lambda>u. runRoute r (q\<lparr>rq_User := Some u\<rparr>))"

text \<open>Both gateways keep the contract of the payment service.\<close>

lemma newGateway_contract: "payment_gateway (newGateway post fmt p)"
  by (simp add: newGateway_def zarinpal.payment_gateway_axioms mock.payment_gateway_axioms)

lemma newPayments_contract: "payment_gateway (svc_gw (newPayments post fmt cfg))"
  by (simp add: newPayments_def NewPaymentService_def newGateway_contract)

end
