(* ===== verification/Endpoint_Laws.thy ===== *)
theory Endpoint_Laws
  imports App Scopes
begin

text \<open>
  What the routes promise whoever calls them: which endpoints only read, and which refuse a caller who is not a manager. The
  laws are proved per handler and collected over the route tables of the packages.
\<close>

section \<open>Reading code\<close>

lemma reads_prod [atom, intro]: "(\<And>x y. reads (f x y)) \<Longrightarrow> reads (case p of (x, y) \<Rightarrow> f x y)"
  by (cases p) simp

lemma reads_option [atom, intro]: "reads f \<Longrightarrow> (\<And>x. reads (g x)) \<Longrightarrow> reads (case a of None \<Rightarrow> f | Some x \<Rightarrow> g x)"
  by (cases a) simp_all

lemma reads_if [atom, intro]: "reads f \<Longrightarrow> reads g \<Longrightarrow> reads (if b then f else g)"
  by simp

lemma reads_transaction: "reads f \<Longrightarrow> reads (transaction f)"
  unfolding reads_def transaction_def by (auto split: prod.splits sum.splits) (metis snd_conv world_simps(1))

lemma reads_answers [atom]: "reads (plain st b)" "reads (withAudit st b oid x y)"
  by (auto simp: plain_def withAudit_def)

lemma reads_guards [atom]: "reads (requireManager q)" "reads (currentUser q)" "reads (parseID sv q n)" "reads (RequireRole roles u)" "reads (managerOnly m)"
  "reads (requiredDate q n)" "reads (bindJSON ok msg body)" "reads (startAmount a)"
  unfolding requireManager_def currentUser_def parseID_def RequireRole_def managerOnly_def requiredDate_def bindJSON_def startAmount_def Let_def
  by (intro atom)+

lemma reads_billing_lists [atom]:
  "reads (ListPeriods m bid)" "reads (GetPeriod m pid)" "reads (repoListInvoices f)" "reads (ListInvoices m f)" "reads (repoListInvoicesForUnits us p s)" "reads (ResidentUnitIDs ph)"
  unfolding ListPeriods_def GetPeriod_def ListInvoices_def repoListInvoices_def repoListInvoicesForUnits_def ResidentUnitIDs_def Let_def
  by (intro atom reads_repo reads_authorizeBuilding reads_getAuthorizedPeriod)+

lemma reads_billing_gets:
  "reads (listPeriods sv q)" "reads (getPeriod sv q)" "reads (listCostItems sv q)" "reads (preview sv q)" "reads (listBuildingInvoices sv q)" 
  "reads (getInvoice sv q)" "reads (myInvoices sv q)" "reads (myInvoice sv q)"
  unfolding listPeriods_def getPeriod_def listCostItems_def preview_def listBuildingInvoices_def getInvoice_def myInvoices_def myInvoice_def Let_def
  by (intro atom reads_repo reads_CalcPreview reads_repoGetInvoice)+

lemma reads_building_lists:
  "reads (ListBuildings m)" "reads (GetBuilding m bid)" "reads (ListUnits lk m bid f)" "reads (GetUnit m uid)" "reads (ListManagers m bid)"
  "reads (ListPersons lk m bid s p z)" "reads (ListOccupancies m uid)" "reads (ListOccupantCounts m uid)"
  unfolding ListBuildings_def GetBuilding_def ListUnits_def GetUnit_def ListManagers_def ListPersons_def ListOccupancies_def ListOccupantCounts_def
    ListBuildingsForManager_def repoListUnits_def ListBuildingManagers_def repoListPersons_def repoListOccupancies_def repoListOccupantCounts_def Let_def
  by (intro atom reads_authorizedBuilding reads_authorizedUnit)+

lemma reads_building_gets:
  "reads (listBuildings sv q)" "reads (getBuilding sv q)" "reads (listUnits sv q)" "reads (getUnit sv q)" "reads (unitHistory sv q)" "reads (listManagers sv q)"
  "reads (listPersons sv q)" "reads (listOccupancies sv q)" "reads (listOccupantCounts sv q)"
  unfolding listBuildings_def getBuilding_def listUnits_def getUnit_def unitHistory_def listManagers_def listPersons_def listOccupancies_def listOccupantCounts_def Let_def
  by (intro atom reads_building_lists)+

lemma reads_ledger_lists: "reads (MyPayments u f)" "reads (BuildingLedger u bid f)" "reads (writePaymentPage rows n f)"
  unfolding MyPayments_def BuildingLedger_def writePaymentPage_def Let_def by (intro atom reads_payment)+

lemma reads_payment_gets: "reads (buildingLedger sv q)" "reads (myPayments sv q)"
  unfolding buildingLedger_def myPayments_def Let_def by (intro atom reads_ledger_lists)+

lemma reads_service_lists:
  "reads (maintListForResident u p s)" "reads (maintGetForResident u mid)" "reads (maintListForManager u bid f)" "reads (expGet u eid)" "reads (expList u bid g)"
  "reads (expReport u bid mo)" "reads (annListForManager a bid p s)" "reads (notifList uid b p s)"
  unfolding maintListForResident_def maintGetForResident_def maintListForManager_def expGet_def expList_def expReport_def annListForManager_def notifList_def
    ListForUser_def ListForBuilding_def newestPage_def maintLoad_def maintGet_def GetExpense_def ListExpenses_def expRepoReport_def annListForBuilding_def sumQuery_def 
    maintIsManagerOf_def Let_def
  by (intro atom reads_transaction reads_expScope reads_annScope manager_scope.check_reads)+

lemma reads_resident_lists:
  "reads (annListForResident parse a p s)" "reads (annGetForResident parse a aid)" "reads (Home parse a)" "reads (BuildingDashboardFor str a bid)"
  unfolding annListForResident_def annGetForResident_def Home_def BuildingDashboardFor_def repoListForResident_def VisibleAnnouncements_def visibleAnnouncements_def
     payableAndLatestInvoice_def openRequestSummary_def announcementSummary_def countQuery_def sumQuery_def LatestForUser_def CountOpenForUser_def
     ResidentUnits_def UnreadCountForResident_def ListAllVisibleIDs_def Let_def
  by (intro atom reads_annScope reads_expScope)+

lemma reads_service_gets:
  "reads (listResident sv q)" "reads (getResident sv q)" "reads (maintListEndpoint sv q)" "reads (maintGetEndpoint sv q)" "reads (getExpense sv q)"
  "reads (listExpenses sv q)" "reads (financialReport sv q)" "reads (annListEndpoint sv q)" "reads (annGetEndpoint sv q)" "reads (listForResident sv q)"
  "reads (getForResident sv q)" "reads (notificationList sv q)" "reads (home sv q)" "reads (buildingDashboard sv q)"
  unfolding listResident_def getResident_def maintListEndpoint_def maintGetEndpoint_def getExpense_def listExpenses_def financialReport_def annListEndpoint_def
    annGetEndpoint_def listForResident_def getForResident_def notificationList_def home_def buildingDashboard_def Let_def
  by (intro atom reads_service_lists reads_resident_lists reads_update reads_annScope)+

section \<open>Guards of routes\<close>

definition guarded :: "route \<Rightarrow> bool" where
  "guarded r \<longleftrightarrow> (\<forall>q w. \<not> isManager q \<longrightarrow> refused (runRoute r q) w)"

definition readonly :: "route \<Rightarrow> bool" where
  "readonly r \<longleftrightarrow> (\<forall>q. reads (runRoute r q))"

text \<open>The same of a handler.\<close>

definition guards :: "(request \<Rightarrow> answer dbm) \<Rightarrow> bool" where
  "guards h \<longleftrightarrow> (\<forall>q w. \<not> isManager q \<longrightarrow> refused (h q) w)"

lemma refused_throw: "refused (throwE e) w"
  by (simp add: refused_def throwE_def)

lemma mapErr_throw: "mapErr h (throwE e) = throwE (h e)"
  by (rule ext) (simp add: mapErr_def throwE_def)

lemma requireManager_refuses: "\<not> isManager q \<Longrightarrow> refused (bindE (requireManager q) f) w"
  by (rule refused_bind) (auto simp: requireManager_def isManager_def refused_throw split: option.splits)

lemma guarded_group: "r \<in> set (group [RoleManager] rs) \<Longrightarrow> guarded r"
  unfolding guarded_def group_def runRoute_def thenE_def
  by (auto simp: RequireRole_def isManager_def thenE_def refused_throw intro!: refused_bind split: option.splits)

lemma guarded_route: "guards h \<Longrightarrow> guarded (route m p h)"
  by (simp add: guarded_def guards_def route_def runRoute_def)

lemma guarded_audited: "guards h \<Longrightarrow> guarded (audited m p a t h)"
  by (simp add: guarded_def guards_def audited_def runRoute_def auditMiddleware_def refused_bind)

lemma readonly_route: "(\<And>q. reads (h q)) \<Longrightarrow> readonly (route m p h)"
  by (simp add: readonly_def route_def runRoute_def)

lemma guards_manager: "(\<And>q. h q = bindE (requireManager q) (g q)) \<Longrightarrow> guards h"
  by (simp add: guards_def requireManager_refuses)

lemma billing_guards:
  "guards (createPeriod sv)" "guards (updatePeriod sv)" "guards (addCostItem sv)" "guards (updateCostItem sv)" "guards (deleteCostItem sv)"
  "guards (calculate sv)" "guards (reopen sv)" "guards (issue sv)" "guards (close sv)" "guards (cancelInvoice sv)" "guards (addAdjustment sv)"
  by (rule guards_manager, rule createPeriod_def updatePeriod_def addCostItem_def updateCostItem_def deleteCostItem_def calculate_def reopen_def issue_def
      close_def cancelInvoice_def addAdjustment_def)+

lemma currentUser_role: "currentUser q w = (Inr u, w') \<Longrightarrow> rq_User q = Some u \<and> w' = w"
  by (auto simp: currentUser_def throwE_def returnE_def split: option.splits)

lemma role_guards_refused:
  assumes "\<not> isManager q"
  shows "refused (recordManual sv q) w" "refused (patchForManager sv q) w"
proof -
  have role: "usr_Role u \<noteq> RoleManager" if "currentUser q v = (Inr u, v')" for u v v' using currentUser_role [OF that] assms by (auto simp: isManager_def)
  show "refused (patchForManager sv q) w" unfolding patchForManager_def
    by (rule refused_after [OF reads_guards(2)]) (auto simp: managerOnly_def refused_throw dest: role)
  have k: "refused (bindE (mapErr writeServiceErr (RecordManual u iid inp)) f) v" if "usr_Role u \<noteq> RoleManager" for u iid inp v f
    using that by (intro refused_bind) (simp add: RecordManual_def mapErr_throw refused_throw)
  show "refused (recordManual sv q) w" unfolding recordManual_def
    by (intro refused_after [OF reads_guards(2)] refused_after [OF reads_guards(3)] refused_after [OF reads_guards(7)] k role)
qed

lemma role_guards: "guards (recordManual sv)" "guards (patchForManager sv)"
  by (simp_all add: guards_def role_guards_refused)

definition residentWrites :: "(string \<times> string) list" where
  "residentWrites = [(''POST'', ''/me/notifications/read-all''), (''POST'', ''/me/notifications/:id/read''), (''POST'', ''/invoices/:id/pay''),
     (''GET'', ''/units/:id/balance''), (''POST'', ''/me/maintenance-requests''), (''POST'', ''/announcements/:id/read''),
     (''POST'', ''/me/announcements/:id/read'')]"

definition lawful :: "(string \<times> string) list \<Rightarrow> route \<Rightarrow> bool" where
  "lawful exempt r \<longleftrightarrow> (ro_Method r, ro_Path r) \<in> set exempt \<or> guarded r \<or> ro_Method r = ''GET'' \<and> readonly r"

lemma lawful_routes:
  "guards h \<Longrightarrow> lawful ex (route m p h)" "guards h \<Longrightarrow> lawful ex (audited m p a t h)" "(m, p) \<in> set ex \<Longrightarrow> lawful ex (route m p h)"
  by (simp_all add: lawful_def guarded_route guarded_audited) (simp add: route_def)

lemma lawful_get: "(\<And>q. reads (h q)) \<Longrightarrow> lawful ex (route ''GET'' p h)"
  by (simp add: lawful_def readonly_route) (simp add: route_def)

lemma lawful_group: "list_all (lawful ex) (group [RoleManager] rs)"
  by (auto simp: list_all_iff lawful_def intro: guarded_group)

lemma lawful_billing: "list_all (lawful ex) (billingRoutes sv)"
  by (simp add: billingRoutes_def billing_guards lawful_routes(1,2) lawful_get reads_billing_gets)

lemma lawful_payment: "list_all (lawful residentWrites) (paymentRoutes sv)"
  by (simp add: paymentRoutes_def role_guards lawful_routes lawful_get reads_payment_gets residentWrites_def)

lemma lawful_maintenance: "list_all (lawful residentWrites) (maintenanceRoutes sv)"
  by (simp add: maintenanceRoutes_def role_guards lawful_routes lawful_get reads_service_gets residentWrites_def)

lemma lawful_services:
  "list_all (lawful residentWrites) (announcementRoutes sv)" "list_all (lawful residentWrites) (dashboardRoutes sv)" "list_all (lawful residentWrites) (notificationRoutes sv)"
  "list_all (lawful residentWrites) (expenseRoutes sv)"
  by (simp_all add: announcementRoutes_def dashboardRoutes_def notificationRoutes_def expenseRoutes_def lawful_group lawful_routes lawful_get reads_service_gets residentWrites_def)

lemma lawful_app: "list_all (lawful residentWrites) (appRoutes sv)"
  by (simp add: appRoutes_def lawful_billing lawful_payment lawful_maintenance lawful_services lawful_group)

section \<open>The interface of a route table\<close>

text \<open>A table of routes of which those outside \<open>exempt\<close> are for managers or only read.\<close>

locale guarded_api =
  fixes routes :: "route list"
    and exempt :: "(string \<times> string) list"
  assumes laws: "list_all (lawful exempt) routes"
begin

lemma outsider:
  assumes "r \<in> set routes" and "(ro_Method r, ro_Path r) \<notin> set exempt" and "\<not> isManager q"
  shows "db (snd (runRoute r q w)) = db w \<and> (ro_Method r = ''GET'' \<or> isl (fst (runRoute r q w)))"
  using laws assms by (auto simp: list_all_iff lawful_def guarded_def readonly_def refused_def reads_def)

text \<open>A sequence of requests, whatever they are answered.\<close>

lemma outsiders:
  assumes "list_all (\<lambda>(r, q). r \<in> set routes \<and> (ro_Method r, ro_Path r) \<notin> set exempt \<and> \<not> isManager q) calls"
  shows "db (snd (forE calls (\<lambda>(r, q). ignoreE (runRoute r q)) w)) = db w"
  using assms
proof (induction calls arbitrary: w)
  case Nil
  show ?case by (simp add: returnE_def)
next
  case (Cons x calls)
  obtain r q where x: "x = (r, q)" by (cases x)
  have "db (snd (runRoute r q w)) = db w" using Cons.prems x outsider [of r q w] by simp
  thus ?case using Cons.IH [of "snd (runRoute r q w)"] Cons.prems x
    by (cases "runRoute r q w") (simp add: thenE_def bindE_def ignoreE_def)
qed

end

interpretation billing_api: guarded_api "billingRoutes sv" "[]"
  by unfold_locales (rule lawful_billing)

interpretation building_api: guarded_api "group [RoleManager] (buildingRoutes sv)" "[]"
  by unfold_locales (rule lawful_group)

interpretation app_api: guarded_api "appRoutes sv" residentWrites
  by unfold_locales (rule lawful_app)

end
