(* ===== verification/Endpoint_Atomic.thy ===== *)
theory Endpoint_Atomic
  imports Endpoint_Laws
begin

text \<open>
  Errors without traces: code that always succeeds, services that change nothing when they fail, and the endpoints built from
  them.
\<close>

section \<open>Code that always succeeds\<close>

definition succeeds :: "('d, 'a) m \<Rightarrow> bool" where
  "succeeds g \<longleftrightarrow> (\<forall>w. \<not> isl (fst (g w)))"

lemma succeeds_rules:
  "succeeds (returnE x)" "succeeds (ignoreE f)" "succeeds (tryE f')" "succeeds newUUID" "succeeds timeNow" "succeeds (plain st b)" "succeeds (withAudit st b oid s s')"
  by (auto simp: succeeds_def returnE_def ignoreE_def tryE_def newUUID_def timeNow_def plain_def withAudit_def split: prod.splits)

lemma succeeds_bind: "succeeds f \<Longrightarrow> (\<And>x. succeeds (g x)) \<Longrightarrow> succeeds (bindE f g)"
  unfolding succeeds_def bindE_def by (auto split: prod.splits sum.splits) (metis fst_conv isl_def)

lemma succeeds_then: "succeeds f \<Longrightarrow> succeeds g \<Longrightarrow> succeeds (thenE f g)"
  unfolding thenE_def by (rule succeeds_bind)

lemma succeeds_when: "succeeds f \<Longrightarrow> succeeds (whenE b f)"
  by (cases b) (simp_all add: succeeds_rules)

lemma succeeds_for: "(\<And>x. succeeds (f x)) \<Longrightarrow> succeeds (forE xs f)"
  by (induction xs) (simp_all add: succeeds_rules succeeds_then)

lemma succeeds_sum: "(\<And>e. succeeds (f e)) \<Longrightarrow> (\<And>x. succeeds (g x)) \<Longrightarrow> succeeds (case r of Inl e \<Rightarrow> f e | Inr x \<Rightarrow> g x)"
  by (cases r) simp_all

lemma succeeds_prod: "(\<And>x y. succeeds (f x y)) \<Longrightarrow> succeeds (case p of (x, y) \<Rightarrow> f x y)"
  by (cases p) simp

lemma succeeds_option: "succeeds f \<Longrightarrow> (\<And>x. succeeds (g x)) \<Longrightarrow> succeeds (case a of None \<Rightarrow> f | Some x \<Rightarrow> g x)"
  by (cases a) simp_all

lemmas succeeds_intros = succeeds_rules succeeds_bind succeeds_then succeeds_when succeeds_for succeeds_sum succeeds_prod succeeds_option

section \<open>All or nothing\<close>

lemma atomicE_tail: "atomicE f \<Longrightarrow> (\<And>x. succeeds (g x)) \<Longrightarrow> atomicE (bindE f g)"
  by (rule atomicE_total_tail) (auto simp: succeeds_def, metis isl_def prod.collapse sum.collapse(2))

lemma atomicE_then_tail: "atomicE f \<Longrightarrow> succeeds g \<Longrightarrow> atomicE (thenE f g)"
  unfolding thenE_def by (rule atomicE_tail)

lemma atomicE_mapErr: "atomicE f \<Longrightarrow> atomicE (mapErr h f)"
  by (auto simp: atomicE_def mapErr_def split: prod.splits sum.splits)

lemma atomicE_prod: "(\<And>x y. atomicE (f x y)) \<Longrightarrow> atomicE (case p of (x, y) \<Rightarrow> f x y)"
  by (cases p) simp

lemma atomicE_option: "atomicE f \<Longrightarrow> (\<And>x. atomicE (g x)) \<Longrightarrow> atomicE (case a of None \<Rightarrow> f | Some x \<Rightarrow> g x)"
  by (cases a) simp_all

lemma atomicE_sum: "(\<And>e. atomicE (f e)) \<Longrightarrow> (\<And>x. atomicE (g x)) \<Longrightarrow> atomicE (case r of Inl e \<Rightarrow> f e | Inr x \<Rightarrow> g x)"
  by (cases r) simp_all

lemma atomicE_if: "atomicE f \<Longrightarrow> atomicE g \<Longrightarrow> atomicE (if b then f else g)"
  by simp

text \<open>One statement, then code that cannot fail.\<close>

lemma atomicE_statement:
  "(\<And>x. succeeds (g x)) \<Longrightarrow> atomicE (bindE (exec f) g)" "succeeds k \<Longrightarrow> atomicE (thenE (exec f') k)"
  "succeeds k \<Longrightarrow> atomicE (thenE (mapErr h (exec f')) k)"
  by (simp_all add: atomicE_tail atomicE_then_tail atomicE_mapErr atomicE_exec)

lemmas atomicE_pure = atomicE_bindE [OF reads_rules(4)] atomicE_bindE [OF reads_rules(5)] atomicE_bindE [OF reads_rules(6)] atomicE_bindE [OF reads_rules(3)]
  atomicE_thenE [OF reads_rules(7)] atomicE_thenE [OF reads_rules(6)]

lemma atomicE_billing_rows:
  "atomicE (repoCreatePeriod p)" "atomicE (repoSavePeriod p)" "atomicE (repoCreateCostItem c)" "atomicE (repoSaveCostItem c)" "atomicE (repoDeleteCostItem cid)"
  "atomicE (repoSetInvoiceStatus iid st)" "atomicE (repoCreateAdjustment adj item)" "atomicE (repoIssueInvoices pid y now)"
  unfolding repoCreatePeriod_def repoSavePeriod_def repoCreateCostItem_def repoSaveCostItem_def repoDeleteCostItem_def repoSetInvoiceStatus_def
    repoCreateAdjustment_def repoIssueInvoices_def Let_def
  by (intro atomicE_pure atomicE_statement succeeds_intros atomicE_exec atomicE_transaction)+

lemma atomicE_building_rows:
  "atomicE (repoUpdateBuilding b)" "atomicE (repoDeleteBuilding bid)" "atomicE (repoCreateUnit u)" "atomicE (repoUpdateUnit u)" "atomicE (repoDeleteUnit uid)"
  "atomicE (repoCreatePerson p)" "atomicE (repoUpdatePerson p)" "atomicE (repoDeletePerson pid)" "atomicE (repoCreateOccupancy x)" "atomicE (repoEndOccupancy oid e)"
  "atomicE (repoRecordOccupantCount c)"
  unfolding repoUpdateBuilding_def repoDeleteBuilding_def repoCreateUnit_def repoUpdateUnit_def repoDeleteUnit_def repoCreatePerson_def repoUpdatePerson_def
    repoDeletePerson_def repoCreateOccupancy_def repoEndOccupancy_def repoRecordOccupantCount_def Let_def
  by (intro atomicE_transaction atomicE_pure atomicE_statement succeeds_intros atomicE_exec)+

lemma atomicE_service_rows:
  "atomicE (recomputeBalance uid)" "atomicE (repoCreatePayment pay)" "atomicE (repoSavePayment pay)" "atomicE (CreateExpense e)" "atomicE (SaveExpense e)" "atomicE (SoftDeleteExpense eid)"
  "atomicE (maintCreate mr)" "atomicE (maintSave mr)" "atomicE (annCreate a)" "atomicE (annSave a)" "atomicE (annDelete aid)" "atomicE (repoMarkRead aid uid)"
  "atomicE (notifMarkRead uid nid)" "atomicE (notifMarkAllRead uid)"
  unfolding recomputeBalance_def repoCreatePayment_def repoSavePayment_def CreateExpense_def SaveExpense_def SoftDeleteExpense_def maintCreate_def maintSave_def
    annCreate_def annSave_def annDelete_def repoMarkRead_def notifMarkRead_def notifMarkAllRead_def Let_def
  by (intro atomicE_pure atomicE_statement succeeds_intros atomicE_exec)+

lemma reads_service_inputs:
  "reads (expApplyInput parse cr inp e)" "reads (PhotoPath fid)" "reads (ResolveResidentUnit ph)" "reads (CanManagerAccess uid bid)" "reads (CountBuildingManagers bid)"
  "reads (FindOccupancy oid)" "reads (ReceiptPath fid)"
  unfolding expApplyInput_def applyReceipt_def ReceiptPath_def PhotoPath_def ResolveResidentUnit_def CanManagerAccess_def CountBuildingManagers_def FindOccupancy_def
  by (intro atom | simp)+

lemmas atomicE_first = reads_authorizeBuilding [THEN atomicE_thenE] reads_getAuthorizedPeriod [THEN atomicE_bindE] reads_authorizedCostItem [THEN atomicE_bindE]
  reads_validateCostItem [THEN atomicE_bindE] reads_authorizedInvoice [THEN atomicE_bindE] reads_authorizedBuilding [THEN atomicE_bindE]
  reads_authorizedUnit [THEN atomicE_bindE] reads_authorizedPerson [THEN atomicE_bindE] reads_payAuthorizedInvoice [THEN atomicE_bindE]
  reads_service_inputs [THEN atomicE_bindE] reads_service_inputs [THEN reads_mapErr, THEN atomicE_bindE] reads_update [THEN atomicE_bindE]
  reads_annInput [THEN atomicE_bindE] reads_annScope [THEN atomicE_bindE] reads_annScope(2) [THEN atomicE_thenE] reads_expScope(1) [THEN atomicE_thenE]
  reads_service_lists(4) [THEN atomicE_bindE]

lemma succeeds_channels:
  "succeeds (recomputeBalances bal ids)" "succeeds (notifyIssued p iv)" "succeeds (auditIssued m iv)" "succeeds (announceStatus m b x)" "succeeds (notifyTargets parse a)" "succeeds (notifyRecorded pay)"
  unfolding recomputeBalances_def notifyIssued_def auditIssued_def announceStatus_def notifyTargets_def notifyRecorded_def
  by (intro succeeds_intros)+

lemma atomicE_billing:
  "atomicE (CreatePeriod m bid pin)" "atomicE (UpdatePeriod m pid pin)" "atomicE (AddCostItem m pid cin)" "atomicE (UpdateCostItem m cid cin)"
  "atomicE (DeleteCostItem m cid)" "atomicE (Issue bal m pid)" "atomicE (Close m pid)" "atomicE (CancelInvoice bal m iid rs)" "atomicE (AddAdjustment bal m iid ain)"
  unfolding CreatePeriod_def UpdatePeriod_def AddCostItem_def UpdateCostItem_def DeleteCostItem_def Issue_def Close_def CancelInvoice_def AddAdjustment_def Let_def
  by (intro atomicE_first atomicE_pure atomicE_prod atomicE_billing_rows atomicE_billing_rows [THEN atomicE_tail] atomicE_billing_rows(5,6) [THEN atomicE_then_tail] atomicE_billing_rows [THEN atomicE_mapErr, THEN atomicE_tail]
      succeeds_intros succeeds_channels)+

lemma atomicE_RevokeManager: "atomicE (RevokeManager m bid uid)"
proof -
  have "atomicE (bindE (RevokeManagerGuarded uid bid) (\<lambda>(deleted, stillGranted). if deleted then returnE ()
       else if stillGranted then throwE (AppErr (Conflict ''one manager must remain'')) else throwE (AppErr (NotFound ''no grant''))))"
    by (auto simp: atomicE_def RevokeManagerGuarded_def bindE_def exec_def CanManagerAccess_def query_def returnE_def throwE_def split: if_splits)
  thus ?thesis unfolding RevokeManager_def by (intro atomicE_first atomicE_pure)
qed

lemma atomicE_building:
  "atomicE (UpdateBuilding it m bid bin)" "atomicE (DeleteBuilding m bid)" "atomicE (CreateUnit it m bid uin)" "atomicE (UpdateUnit it m uid uin)" "atomicE (DeleteUnit m uid)"
  "atomicE (CreatePerson m bid pin)" "atomicE (UpdatePerson m pid pin)" "atomicE (DeletePerson m pid)" "atomicE (AddOccupancy m uid oin)" "atomicE (EndOccupancy m oid ed)"
  "atomicE (RecordOccupantCount m uid n fr)"
  unfolding UpdateBuilding_def DeleteBuilding_def CreateUnit_def UpdateUnit_def DeleteUnit_def CreatePerson_def UpdatePerson_def DeletePerson_def AddOccupancy_def
    EndOccupancy_def RecordOccupantCount_def Let_def
  by (intro atomicE_first atomicE_pure atomicE_prod atomicE_building_rows atomicE_building_rows [THEN atomicE_tail] atomicE_building_rows(2,5,8,10) [THEN atomicE_then_tail]
      atomicE_building_rows [THEN atomicE_mapErr, THEN atomicE_tail] atomicE_building_rows [THEN atomicE_mapErr] succeeds_intros succeeds_channels)+

lemma atomicE_services:
  "atomicE (expCreate parse u bid ein)" "atomicE (expUpdate parse u eid ein)" "atomicE (expDelete u eid)" "atomicE (maintUpdate u mid mui)"
  "atomicE (annCreateFor parse a bid ani)" "atomicE (annUpdate parse a aid ani)" "atomicE (annDeleteFor a aid)" "atomicE (annMarkRead parse a aid)"
  unfolding expCreate_def expUpdate_def expDelete_def maintUpdate_def annCreateFor_def annUpdate_def annDeleteFor_def annMarkRead_def Let_def
  by (intro atomicE_first atomicE_pure atomicE_prod atomicE_service_rows atomicE_service_rows [THEN atomicE_tail] atomicE_service_rows(6,7,11,12,13,14) [THEN atomicE_then_tail]
      succeeds_intros succeeds_channels)+

lemma atomicE_Submit: "atomicE (Submit u inp)"
proof -
  have photo: "reads (case f of None \<Rightarrow> returnE None | Some fid \<Rightarrow> bindE (mapErr h (PhotoPath fid)) (\<lambda>p. returnE (Some p)))" for f h
    by (intro atom reads_service_inputs)
  show ?thesis unfolding Submit_def Let_def
    by (intro atomicE_pure photo [THEN atomicE_bindE] atomicE_first atomicE_option atomicE_prod atomicE_reads [OF reads_rules(2)] atomicE_service_rows(7) [THEN atomicE_then_tail] succeeds_intros)
qed

lemma atomicE_UnitBalanceFor: "atomicE (UnitBalanceFor u uid)"
  unfolding UnitBalanceFor_def RecomputeUnit_def
  by (intro reads_canAccessUnit [THEN reads_mapErr, THEN atomicE_bindE] atomicE_pure atomicE_service_rows)

lemma atomicE_settleGateway: "atomicE (settleGateway p)"
  unfolding settleGateway_def by (rule atomicE_transaction)

context payment_gateway
begin

lemma atomicE_StartGateway:
  assumes "svc_gw s = gw"
  shows "atomicE (StartGateway s u iid amount path)"
  unfolding StartGateway_def Let_def assms
  by (intro atomicE_first atomicE_pure start_reads [THEN reads_mapErr, THEN atomicE_bindE] atomicE_service_rows(2) [THEN atomicE_tail] succeeds_intros)

lemma atomicE_HandleCallback:
  assumes "svc_gw s = gw"
  shows "atomicE (HandleCallback parse s pid auth)"
  unfolding HandleCallback_def finishCallback_def assms
  by (intro reads_findCallbackPayment [THEN atomicE_bindE] atomicE_option atomicE_if atomicE_reads [OF reads_rules(1)] verify_reads [THEN reads_tryE, THEN atomicE_bindE]
     atomicE_sum atomicE_service_rows atomicE_settleGateway [THEN atomicE_tail] succeeds_intros succeeds_channels)

end

section \<open>Atomic endpoints\<close>

definition atomic :: "(request \<Rightarrow> answer dbm) \<Rightarrow> bool" where
  "atomic h \<longleftrightarrow> (\<forall>q. atomicE (h q))"

lemma atomicE_call: "atomicE f \<Longrightarrow> (\<And>x. succeeds (g x)) \<Longrightarrow> atomicE (bindE (mapErr h f) g)"
  by (intro atomicE_tail atomicE_mapErr)

lemma atomicE_call_unit: "atomicE f \<Longrightarrow> succeeds g \<Longrightarrow> atomicE (thenE (mapErr h f) g)"
  by (intro atomicE_then_tail atomicE_mapErr)

lemmas atomicE_guards = reads_guards [THEN atomicE_bindE] reads_guards(5) [THEN atomicE_thenE]

lemma atomic_billing:
  "atomic (createPeriod sv)" "atomic (updatePeriod sv)" "atomic (addCostItem sv)" "atomic (updateCostItem sv)" "atomic (deleteCostItem sv)" "atomic (issue sv)" "atomic (close sv)"
  "atomic (cancelInvoice sv)" "atomic (addAdjustment sv)"
  unfolding atomic_def createPeriod_def updatePeriod_def addCostItem_def updateCostItem_def deleteCostItem_def issue_def close_def cancelInvoice_def addAdjustment_def
  by (intro allI atomicE_guards atomicE_call atomicE_call_unit atomicE_billing succeeds_intros)+

lemma atomic_building:
  "atomic (updateBuilding sv)" "atomic (deleteBuilding sv)" "atomic (createUnit sv)" "atomic (updateUnit sv)" "atomic (deleteUnit sv)" "atomic (revokeManager sv)"
  "atomic (createPerson sv)" "atomic (updatePerson sv)" "atomic (deletePerson sv)" "atomic (addOccupancy sv)" "atomic (endOccupancy sv)" "atomic (recordOccupantCount sv)"
  unfolding atomic_def updateBuilding_def deleteBuilding_def createUnit_def updateUnit_def deleteUnit_def revokeManager_def createPerson_def updatePerson_def deletePerson_def
    addOccupancy_def endOccupancy_def recordOccupantCount_def
  by (intro allI atomicE_guards atomicE_prod atomicE_call atomicE_call_unit atomicE_building atomicE_RevokeManager succeeds_intros)+

lemma atomic_services:
  "atomic (recordManual sv)" "atomic (unitBalance sv)" "atomic (submitResident sv)" "atomic (patchForManager sv)" "atomic (createExpense sv)" "atomic (updateExpense sv)" "atomic (deleteExpense sv)"
  "atomic (createForManager sv)" "atomic (updateForManager sv)" "atomic (deleteForManager sv)" "atomic (markRead sv)" "atomic (readAll sv)" "atomic (notificationMarkRead sv)"
  unfolding atomic_def recordManual_def unitBalance_def submitResident_def patchForManager_def createExpense_def updateExpense_def deleteExpense_def createForManager_def
    updateForManager_def deleteForManager_def markRead_def readAll_def notificationMarkRead_def Let_def
  by (intro allI atomicE_guards atomicE_option atomicE_reads [OF reads_rules(2)] reads_service_lists(4) [THEN reads_mapErr, THEN atomicE_bindE] atomicE_call atomicE_call_unit 
      atomicE_services(5-8) [THEN atomicE_tail] atomicE_services(7,8) [THEN atomicE_then_tail]
      atomicE_services atomicE_service_rows atomicE_RecordManual atomicE_UnitBalanceFor atomicE_Submit succeeds_intros)+

lemma atomic_gateway:
  assumes "payment_gateway (svc_gw (sv_Payments sv))"
  shows "atomic (startGateway sv)" "atomic (gatewayCallback sv)"
proof -
  note g = payment_gateway.atomicE_StartGateway [OF assms refl] payment_gateway.atomicE_HandleCallback [OF assms refl]
  have "succeeds (if b then plain x y else plain x' y')" for b x y x' y' by (simp add: succeeds_rules)
  thus "atomic (startGateway sv)" "atomic (gatewayCallback sv)"
    unfolding atomic_def startGateway_def gatewayCallback_def Let_def
    by (intro allI atomicE_guards g atomicE_call succeeds_intros | assumption)+
qed

definition partialWrites :: "(string \<times> string) list" where
  "partialWrites = [(''POST'', ''/buildings''), (''POST'', ''/buildings/:id/managers''), (''POST'', ''/periods/:id/calculate''), (''POST'', ''/periods/:id/reopen'')]"

definition wholeOrNothing :: "route \<Rightarrow> bool" where
  "wholeOrNothing r \<longleftrightarrow> (ro_Method r, ro_Path r) \<in> set partialWrites \<or> atomic (ro_Handler r)"

lemma atomicE_role: "atomicE f \<Longrightarrow> atomicE (thenE (case rs of None \<Rightarrow> returnE () | Some roles \<Rightarrow> bindE (RequireRole roles u) (\<lambda>_. returnE ())) f)"
  by (intro atomicE_thenE) (auto intro!: atom)

lemma atomicE_audited: "atomicE h \<Longrightarrow> atomicE (auditMiddleware a t u h)"
  unfolding auditMiddleware_def by (intro atomicE_tail succeeds_intros)

lemma runRoute_atomic: "atomic (ro_Handler r) \<Longrightarrow> atomicE (runRoute r q)"
  unfolding runRoute_def by (rule atomicE_role) (auto simp: atomic_def atomicE_audited split: option.splits)

lemma whole_routes:
  "atomic h \<Longrightarrow> wholeOrNothing (route m p h)" "atomic h \<Longrightarrow> wholeOrNothing (audited m p a t h)" "(\<And>q. reads (h q)) \<Longrightarrow> wholeOrNothing (route m p h)"
  "(m, p) \<in> set partialWrites \<Longrightarrow> wholeOrNothing (route m p h)" "(m, p) \<in> set partialWrites \<Longrightarrow> wholeOrNothing (audited m p a t h)"
  by (auto simp: wholeOrNothing_def atomic_def atomicE_reads route_def audited_def)

lemma whole_group: "list_all wholeOrNothing (group roles rs) = list_all wholeOrNothing rs"
  by (simp add: wholeOrNothing_def group_def list_all_iff)

lemma whole_billing: "list_all wholeOrNothing (billingRoutes sv)"
  by (simp add: billingRoutes_def whole_routes(1-3) atomic_billing reads_billing_gets whole_routes(4,5) [unfolded partialWrites_def])

lemma whole_building: "list_all wholeOrNothing (group roles (buildingRoutes sv))"
  by (simp add: whole_group buildingRoutes_def occupancyRoutes_def whole_routes(1-3) atomic_building reads_building_gets whole_routes(4,5) [unfolded partialWrites_def])

lemma whole_payment: "payment_gateway (svc_gw (sv_Payments sv)) \<Longrightarrow> list_all wholeOrNothing (paymentRoutes sv @ publicRoutes sv)"
  by (simp add: paymentRoutes_def publicRoutes_def whole_routes(1-3) atomic_services atomic_gateway reads_payment_gets)

lemma whole_services:
  "list_all wholeOrNothing (maintenanceRoutes sv)" "list_all wholeOrNothing (announcementRoutes sv)" "list_all wholeOrNothing (dashboardRoutes sv)"
  "list_all wholeOrNothing (notificationRoutes sv)" "list_all wholeOrNothing (expenseRoutes sv)"
  by (simp_all add: maintenanceRoutes_def announcementRoutes_def dashboardRoutes_def notificationRoutes_def expenseRoutes_def whole_group whole_routes(1-3) atomic_services
      reads_service_gets)

lemma whole_app: "payment_gateway (svc_gw (sv_Payments sv)) \<Longrightarrow> list_all wholeOrNothing (appRoutes sv @ publicRoutes sv)"
  using whole_payment [of sv] by (simp add: appRoutes_def whole_billing whole_building whole_services)

end
