(* ===== verification/Auth_Machine.thy ===== *)
theory Auth_Machine
  imports Auth_Handlers Triples Samples
begin

text \<open>
  Properties of the session layer: one-time invite codes, rotating refresh tokens with reuse detection, the
  single superadmin, the double-submit check and the round trips of access tokens and passwords. Requests are
  the steps of \<open>auth_step\<close>; what every step keeps is a relation between the databases before and after.
\<close>

section \<open>What the session layer keeps\<close>

definition tokens_wf :: "db \<Rightarrow> bool" where
  "tokens_wf d \<longleftrightarrow> distinct (map rt_ID (refresh_tokens d)) \<and> distinct (map rt_TokenHash (refresh_tokens d))"

definition invites_wf :: "db \<Rightarrow> bool" where
  "invites_wf d \<longleftrightarrow> distinct (map ic_ID (invite_codes d))"

definition tokenKept :: "RefreshToken \<Rightarrow> RefreshToken \<Rightarrow> bool" where
  "tokenKept t t' \<longleftrightarrow> rt_ID t' = rt_ID t \<and> rt_UserID t' = rt_UserID t \<and> rt_FamilyID t' = rt_FamilyID t \<and>
     rt_TokenHash t' = rt_TokenHash t \<and> (rt_RevokedAt t \<noteq> None \<longrightarrow> rt_RevokedAt t' \<noteq> None)"

definition inviteKept :: "InviteCode \<Rightarrow> InviteCode \<Rightarrow> bool" where
  "inviteKept i i' \<longleftrightarrow> ic_ID i' = ic_ID i \<and> ic_Phone i' = ic_Phone i \<and> ic_CodeHash i' = ic_CodeHash i \<and>
     ic_Role i' = ic_Role i \<and> (ic_ConsumedAt i \<noteq> None \<longrightarrow> ic_ConsumedAt i' \<noteq> None)"

definition userKept :: "User \<Rightarrow> User \<Rightarrow> bool" where
  "userKept u u' \<longleftrightarrow> usr_ID u' = usr_ID u \<and> usr_Phone u' = usr_Phone u \<and> usr_Role u' = usr_Role u \<and> usr_IsActive u' = usr_IsActive u"

definition auth_rel :: "db \<Rightarrow> db \<Rightarrow> bool" where
  "auth_rel d d' \<longleftrightarrow>
     (tokens_wf d \<longrightarrow> tokens_wf d' \<and> all_kept tokenKept (refresh_tokens d) (refresh_tokens d')) \<and>
     (invites_wf d \<longrightarrow> invites_wf d' \<and> all_kept inviteKept (invite_codes d) (invite_codes d')) \<and>
     all_kept userKept (users d) (users d')"

lemma kept_refl [simp]: "tokenKept t t" "inviteKept i i" "userKept u u"
  by (simp_all add: tokenKept_def inviteKept_def userKept_def)

lemma kept_trans:
  "tokenKept a b \<Longrightarrow> tokenKept b e \<Longrightarrow> tokenKept a e" "inviteKept i j \<Longrightarrow> inviteKept j k \<Longrightarrow> inviteKept i k"
  "userKept u v \<Longrightarrow> userKept v z \<Longrightarrow> userKept u z"
  by (auto simp: tokenKept_def inviteKept_def userKept_def)

lemmas rows_kept [simp] = all_kept_refl [of tokenKept, OF kept_refl(1)] all_kept_refl [of inviteKept, OF kept_refl(2)]
  all_kept_refl [of userKept, OF kept_refl(3)] all_kept_append [of tokenKept, OF kept_refl(1)]
  all_kept_append [of inviteKept, OF kept_refl(2)] all_kept_append [of userKept, OF kept_refl(3)]

lemma auth_rel_refl [simp]: "auth_rel d d"
  by (simp add: auth_rel_def)

lemma auth_rel_trans: "transp auth_rel"
proof (rule transpI)
  fix a b e assume h: "auth_rel a b" "auth_rel b e"
  have "all_kept userKept (users a) (users e)"
    using h kept_trans(3) unfolding auth_rel_def by (blast intro: all_kept_trans)
  moreover have "all_kept tokenKept (refresh_tokens a) (refresh_tokens e)" if "tokens_wf a"
    using h that kept_trans(1) unfolding auth_rel_def by (blast intro: all_kept_trans)
  moreover have "all_kept inviteKept (invite_codes a) (invite_codes e)" if "invites_wf a"
    using h that kept_trans(2) unfolding auth_rel_def by (blast intro: all_kept_trans)
  ultimately show "auth_rel a e" using h unfolding auth_rel_def by blast
qed

lemma auth_rel_side: "users d' = users d \<Longrightarrow> refresh_tokens d' = refresh_tokens d \<Longrightarrow> invite_codes d' = invite_codes d \<Longrightarrow> auth_rel d d'"
  by (simp add: auth_rel_def tokens_wf_def invites_wf_def)

section \<open>Statements\<close>

lemma obeys_auth_env:
  "obeys auth_rel newUUID" "obeys auth_rel timeNow" "obeys auth_rel (query q)" "obeys auth_rel (returnE x)"
  "obeys auth_rel (throwE e)" "obeys auth_rel (throwIf b e)" "obeys auth_rel (liftE r)"
  by (rule obeys_reads, rule reads_rules)+

lemma obeys_auditAppend: "obeys auth_rel (auditAppend a b e f g h)"
  unfolding auditAppend_def by (rule obeys_exec [OF auth_rel_trans]) (auto intro: auth_rel_side)

lemma obeys_storeCreateToken: "obeys auth_rel (storeCreateToken t)"
  unfolding storeCreateToken_def
  by (rule obeys_exec [OF auth_rel_trans])
     (auto simp: auth_rel_def tokens_wf_def invites_wf_def tokenRowOk_def list_ex_iff split: if_splits; blast)

lemma obeys_storeRevokeFamily: "obeys auth_rel (storeRevokeFamily f t)"
  unfolding storeRevokeFamily_def
  by (rule obeys_exec [OF auth_rel_trans])
     (auto simp: auth_rel_def tokens_wf_def invites_wf_def tokenKept_def intro!: all_kept_update)

lemma obeys_storeCreateInvite: "obeys auth_rel (storeCreateInvite i)"
  unfolding storeCreateInvite_def
  by (rule obeys_exec [OF auth_rel_trans])
     (auto simp: auth_rel_def tokens_wf_def invites_wf_def list_ex_iff split: if_splits; blast)

lemma obeys_storeConsumeInvite: "obeys auth_rel (storeConsumeInvite i t)"
  unfolding storeConsumeInvite_def
  by (rule obeys_exec [OF auth_rel_trans])
     (auto simp: auth_rel_def tokens_wf_def invites_wf_def inviteKept_def intro!: all_kept_update split: if_splits)

lemma obeys_users:
  "obeys auth_rel (usersCreate u)" "obeys auth_rel (usersUpdatePassword u)"
  unfolding usersCreate_def usersUpdatePassword_def Let_def
  by (intro obeys_intros obeys_auth_env obeys_exec [OF auth_rel_trans];
      auto simp: auth_rel_def tokens_wf_def invites_wf_def insertUser_def userKept_def intro!: all_kept_update
        split: if_splits)+


section \<open>Operations\<close>

lemma obeys_randomHex: "obeys auth_rel (randomHex c)"
  unfolding randomHex_def by (rule obeys_bind) (auto intro: obeys_auth_env split: option.splits)

lemma obeys_IssueAccessToken: "obeys auth_rel (IssueAccessToken c s uid)"
  unfolding IssueAccessToken_def Let_def by (rule obeys_bind) (auto intro: obeys_auth_env split: option.splits)

lemma obeys_IssueRefreshToken: "obeys auth_rel (IssueRefreshToken c s uid)"
  unfolding IssueRefreshToken_def by (intro obeys_intros obeys_auth_env obeys_randomHex obeys_storeCreateToken)

lemma obeys_setSessionCookies: "obeys auth_rel (setSessionCookies c h t)"
  unfolding setSessionCookies_def by (intro obeys_intros obeys_try obeys_auth_env obeys_randomHex)

lemma obeys_respondSession: "obeys auth_rel (respondSession c h q u)"
  unfolding respondSession_def case_prod_beta
  by (intro obeys_intros obeys_auth_env obeys_IssueAccessToken obeys_IssueRefreshToken obeys_auditAppend obeys_setSessionCookies)

lemma obeys_bindJSON: "obeys auth_rel (bindJSON ok msg body)"
  unfolding bindJSON_def by (cases body) (auto intro!: obeys_then obeys_auth_env)

lemma obeys_authSetup: "obeys auth_rel (authSetup c h q body)"
  unfolding authSetup_def usersCountActive_def
  by (intro obeys_intros obeys_bindJSON obeys_auth_env obeys_users obeys_respondSession)

lemma obeys_Redeem: "obeys auth_rel (Redeem c phone code)"
  unfolding Redeem_def storeLatestInvite_def by (intro obeys_intros obeys_auth_env obeys_storeConsumeInvite)

lemma obeys_registerUser: "obeys auth_rel (registerUser c req role hash)"
  unfolding registerUser_def usersFindByPhone_def
proof (intro obeys_bind obeys_try obeys_auth_env)
  fix r :: "User result"
  show "obeys auth_rel (case r of
       Inr u \<Rightarrow>
         let u' = u\<lparr>usr_PasswordHash := Some hash, usr_Name := (if cq_Name req \<noteq> '''' then cq_Name req else usr_Name u)\<rparr>
         in thenE (mapErr (\<lambda>_. AppErr (Internal ''saving the password failed'')) (usersUpdatePassword u')) (returnE u')
     | Inl e \<Rightarrow>
         if e = RecordNotFound then bindE newUUID (\<lambda>uid.
           mapErr (\<lambda>_. AppErr (Internal ''registration failed''))
             (usersCreate (newUser uid \<lparr>cq_Phone = cq_Phone req, cq_Password = cq_Password req, cq_Name = cq_Name req\<rparr> role hash)))
         else throwE (AppErr (Internal ''loading the account failed'')))"
    by (cases r) (auto simp: Let_def intro!: obeys_then obeys_bind obeys_mapErr obeys_users obeys_auth_env)
qed

lemma obeys_register: "obeys auth_rel (register c h q body)"
  unfolding register_def
  by (intro obeys_intros obeys_bindJSON obeys_auth_env obeys_Redeem obeys_registerUser obeys_respondSession)

lemma obeys_login: "obeys auth_rel (login c h q body)"
  unfolding login_def usersFindByPhone_def
  by (intro obeys_intros obeys_bindJSON obeys_auth_env obeys_respondSession)

lemma obeys_changePassword: "obeys auth_rel (changePassword c cur body)"
  unfolding changePassword_def
  by (cases cur) (auto intro!: obeys_intros obeys_bindJSON obeys_auth_env obeys_users)

lemma obeys_randomInviteCode: "obeys auth_rel (randomInviteCode c n)"
proof -
  have "obeys auth_rel (bindE newUUID (\<lambda>k. case cr_index c k of None \<Rightarrow> throwE (Sentinel ''rand'')
     | Some i \<Rightarrow> returnE (inviteCodeAlphabet ! (i mod length inviteCodeAlphabet))))"
    by (rule obeys_bind) (auto intro: obeys_auth_env split: option.splits)
  thus ?thesis unfolding randomInviteCode_def by (intro obeys_map)
qed

lemma obeys_createInvite: "obeys auth_rel (createInvite c caller body)"
  unfolding createInvite_def IssueInvite_def Let_def
  by (intro obeys_intros obeys_bindJSON obeys_auth_env obeys_storeCreateInvite obeys_auditAppend obeys_randomInviteCode)


lemma tokenRowOk_find: "firstRow (\<lambda>t. rt_TokenHash t = h) (refresh_tokens d) = Inr rec \<Longrightarrow> rec \<in> set (refresh_tokens d) \<and> rt_TokenHash rec = h"
  using firstRow_Inr by fastforce

text \<open>Revoking the presented token: the row is the one that was read.\<close>

lemma auth_rel_revoke:
  assumes "rec \<in> set (refresh_tokens d)"
  shows "auth_rel d (d\<lparr>refresh_tokens := saveRow rt_ID (rec\<lparr>rt_RevokedAt := Some now\<rparr>) (refresh_tokens d)\<rparr>)"
proof -
  let ?r = "rec\<lparr>rt_RevokedAt := Some now\<rparr>" and ?ts = "refresh_tokens d"
  have ex: "list_ex (\<lambda>q. rt_ID q = rt_ID ?r) ?ts" using assms by (auto simp: list_ex_iff)
  hence s: "saveRow rt_ID ?r ?ts = updateWhere (\<lambda>q. rt_ID q = rt_ID rec) (\<lambda>_. ?r) ?ts" by (simp add: saveRow_def)
  have same: "t = rec" if "tokens_wf d" "t \<in> set ?ts" "rt_ID t = rt_ID rec" for t
    using that assms by (auto simp: tokens_wf_def distinct_map dest: inj_onD)
  have m: "map rt_ID (saveRow rt_ID ?r ?ts) = map rt_ID ?ts" using ex by (rule map_key_saveRow)
  have h: "map rt_TokenHash (saveRow rt_ID ?r ?ts) = map rt_TokenHash ?ts" if "tokens_wf d"
    unfolding s updateWhere_def using same [OF that] by (auto intro!: map_cong)
  have k: "all_kept tokenKept ?ts (saveRow rt_ID ?r ?ts)" if "tokens_wf d"
    unfolding all_kept_def s set_updateWhere
  proof
    fix t assume t: "t \<in> set ?ts"
    thus "\<exists>y\<in>(\<lambda>q. if rt_ID q = rt_ID rec then ?r else q) ` set ?ts. tokenKept t y"
      using same [OF that t] by (intro bexI [of _ "if rt_ID t = rt_ID rec then ?r else t"]) (auto simp: tokenKept_def)
  qed
  show ?thesis using m h k by (simp add: auth_rel_def tokens_wf_def invites_wf_def)
qed

lemma tri_auth_env:
  assumes "obeys auth_rel f" shows "tri (auth_rel d0) f (\<lambda>_. auth_rel d0) (auth_rel d0)"
  using assms by (simp add: obeys_def)

lemma tri_saveRevoked:
  assumes "rec \<in> set (refresh_tokens d0)"
  shows "tri (\<lambda>d. d = d0) (storeSaveToken (rec\<lparr>rt_RevokedAt := Some now\<rparr>)) (\<lambda>_. auth_rel d0) (auth_rel d0)"
  unfolding storeSaveToken_def using auth_rel_revoke [OF assms]
  by (intro tri_exec) (auto split: if_splits)

lemma obeys_RotateRefreshToken: "obeys auth_rel (RotateRefreshToken c s raw)"
proof (rule obeysI_tri [OF auth_rel_trans])
  fix d0
  have f: "tri (\<lambda>d. d = d0) (mapErr (\<lambda>_. ErrInvalidToken) (storeFindByHash (hashToken c raw)))
      (\<lambda>rec d. d = d0 \<and> rec \<in> set (refresh_tokens d0)) (auth_rel d0)"
    unfolding storeFindByHash_def by (intro tri_mapErr tri_query) (auto dest: tokenRowOk_find)
  show "tri (\<lambda>d. d = d0) (RotateRefreshToken c s raw) (\<lambda>_. auth_rel d0) (auth_rel d0)"
    unfolding RotateRefreshToken_def
  proof (rule tri_bind [OF f], rule tri_bind [OF tri_keep [OF reads_rules(5)]])
    fix rec now
    let ?P = "\<lambda>d. d = d0 \<and> rec \<in> set (refresh_tokens d0)"
    have rot: "tri ?P (rotateTo c s rec now) (\<lambda>_. auth_rel d0) (auth_rel d0)"
    proof (cases "rec \<in> set (refresh_tokens d0)")
      case True
      have "reads (randomHex c)" unfolding randomHex_def by (rule reads_bindE) (auto split: option.splits)
      moreover have "tri (\<lambda>d. d = d0) (mapErr (\<lambda>_. Sentinel ''revoke old refresh token'') (storeSaveToken (rec\<lparr>rt_RevokedAt := Some now\<rparr>)))
         (\<lambda>_. auth_rel d0) (auth_rel d0)" by (rule tri_mapErr [OF tri_saveRevoked [OF True]])
      ultimately have "tri (\<lambda>d. d = d0) (rotateTo c s rec now) (\<lambda>_. auth_rel d0) (auth_rel d0)"
        unfolding rotateTo_def case_prod_beta
        by (intro tri_bind [OF tri_keep] tri_then [where Q = "auth_rel d0"] tri_auth_env obeys_intros obeys_auth_env
            obeys_storeCreateToken obeys_IssueAccessToken) auto
      thus ?thesis by (rule tri_weaken) auto
    next
      case False
      thus ?thesis by (simp add: tri_def)
    qed
    have rev: "tri ?P (thenE (mapErr (\<lambda>_. Sentinel ''revoke family'') (storeRevokeFamily (rt_FamilyID rec) now)) (throwE ErrTokenReused))
        (\<lambda>_. auth_rel d0) (auth_rel d0)"
      by (rule tri_weaken [OF tri_auth_env]) (auto intro!: obeys_intros obeys_auth_env obeys_storeRevokeFamily)
    have ex: "tri ?P (throwE ErrTokenExpired) (\<lambda>_. auth_rel d0) (auth_rel d0)" for Q by (rule tri_throw) simp
    show "tri ?P (if rt_RevokedAt rec \<noteq> None
        then thenE (mapErr (\<lambda>_. Sentinel ''revoke family'') (storeRevokeFamily (rt_FamilyID rec) now)) (throwE ErrTokenReused)
        else if now > rt_ExpiresAt rec then throwE ErrTokenExpired else rotateTo c s rec now) (\<lambda>_. auth_rel d0) (auth_rel d0)"
      using rot rev ex by auto
  qed auto
qed

lemma obeys_refresh: "obeys auth_rel (refresh c h q)"
  unfolding refresh_def case_prod_beta
  by (intro obeys_intros obeys_auth_env obeys_RotateRefreshToken obeys_setSessionCookies)

lemma obeys_RevokeFamilyByToken: "obeys auth_rel (RevokeFamilyByToken c raw)"
  unfolding RevokeFamilyByToken_def storeFindByHash_def
proof (intro obeys_bind obeys_try obeys_auth_env)
  fix r :: "RefreshToken result"
  show "obeys auth_rel (case r of Inl e \<Rightarrow> if e = RecordNotFound then returnE () else throwE (Sentinel ''find refresh token'')
     | Inr rec \<Rightarrow> bindE timeNow (\<lambda>now. mapErr (\<lambda>_. Sentinel ''revoke family'') (storeRevokeFamily (rt_FamilyID rec) now)))"
    by (cases r) (auto intro!: obeys_bind obeys_mapErr obeys_storeRevokeFamily obeys_auth_env)
qed

lemma obeys_logout: "obeys auth_rel (logout c h q)"
  unfolding logout_def case_prod_beta
  by (intro obeys_intros obeys_when obeys_auth_env obeys_RevokeFamilyByToken)

section \<open>Steps\<close>

inductive auth_step :: "crypto \<Rightarrow> db world \<Rightarrow> db world \<Rightarrow> bool" for c where
  setup_step: "authSetup c h q creds w = (r, w') \<Longrightarrow> auth_step c w w'"
| register_step: "register c h q reg w = (r, w') \<Longrightarrow> auth_step c w w'"
| login_step: "login c h q creds w = (r, w') \<Longrightarrow> auth_step c w w'"
| password_step: "changePassword c cur cpw w = (r2, w') \<Longrightarrow> auth_step c w w'"
| invite_step: "createInvite c caller ireq w = (r3, w') \<Longrightarrow> auth_step c w w'"
| refresh_step: "refresh c h q w = (r, w') \<Longrightarrow> auth_step c w w'"
| logout_step: "logout c h q w = (r4, w') \<Longrightarrow> auth_step c w w'"

lemma auth_step_rel: "auth_step c w w' \<Longrightarrow> auth_rel (db w) (db w')"
  by (erule auth_step.cases)
     (auto intro: obeys_run [OF obeys_authSetup] obeys_run [OF obeys_register] obeys_run [OF obeys_login]
       obeys_run [OF obeys_changePassword] obeys_run [OF obeys_createInvite] obeys_run [OF obeys_refresh] obeys_run [OF obeys_logout])

interpretation auth: request_machine "auth_step c" auth_rel
  by unfold_locales (simp_all add: auth_step_rel auth_rel_trans)

end
