(* ===== verification/Api_Frames.thy ===== *)
theory Api_Frames
  imports Endpoint_Atomic Ledger_Machine Building_Machine Maintenance_Machine Auth_Machine "HOL-Library.Sublist"
begin

text \<open>
  Which tables the services of a package can change, whatever they are called with and whatever fails: the ledger, the registry of buildings
  and people, maintenance, notices and expenses, sessions. All of them only add to the end of the audit trail.
\<close>

section \<open>Requests that leave tables alone\<close>

text \<open>\<open>leaves e\<close>: the tables that \<open>e\<close> does not blank out stay as they are, and the audit trail only grows at its end.\<close>

definition leaves :: "(db \<Rightarrow> db) \<Rightarrow> db \<Rightarrow> db \<Rightarrow> bool" where
  "leaves e d d' \<longleftrightarrow> e d' = e d \<and> prefix (audit_logs d) (audit_logs d')"

definition ledgerTables :: "db \<Rightarrow> db" where
  "ledgerTables d = d\<lparr>billing_periods := [], cost_items := [], cost_item_shares := [], invoices := [], invoice_items := [], invoice_adjustments := [],
     payments := [], unit_balances := [], notifications := [], audit_logs := []\<rparr>"

definition registryTables :: "db \<Rightarrow> db" where
  "registryTables d = d\<lparr>users := [], buildings := [], units := [], user_buildings := [], persons := [], occupancies := [], occupant_counts := [], audit_logs := []\<rparr>"

definition maintenanceTables :: "db \<Rightarrow> db" where
  "maintenanceTables d = d\<lparr>maintenance_requests := [], notifications := [], audit_logs := []\<rparr>"

definition boardTables :: "db \<Rightarrow> db" where
  "boardTables d = d\<lparr>expenses := [], announcements := [], announcement_reads := [], notifications := [], audit_logs := []\<rparr>"

definition sessionTables :: "db \<Rightarrow> db" where
  "sessionTables d = d\<lparr>users := [], refresh_tokens := [], invite_codes := [], audit_logs := []\<rparr>"

lemma leaves_refl [simp]: "leaves e d d"
  by (simp add: leaves_def)

lemma leaves_trans: "transp (leaves e)"
  by (rule transpI) (auto simp: leaves_def intro: prefix_order.trans)

lemma leaves_exec: "(\<And>d x d'. s d = Inr (x, d') \<Longrightarrow> e d' = e d \<and> audit_logs d' = audit_logs d) \<Longrightarrow> obeys (leaves e) (exec s)"
  by (rule obeys_exec [OF leaves_trans]) (simp add: leaves_def)

lemmas leaves_env = obeys_reads [OF reads_rules(1)] obeys_reads [OF reads_rules(2)] obeys_reads [OF reads_rules(3)] obeys_reads [OF reads_rules(4)]
  obeys_reads [OF reads_rules(5)] obeys_reads [OF reads_rules(6)] obeys_reads [OF reads_rules(7)]

lemma leaves_audit:
  assumes "\<And>d l. e (d\<lparr>audit_logs := l\<rparr>) = e d"
  shows "obeys (leaves e) (auditAppend a b c f g h)"
  unfolding auditAppend_def
  by (intro obeys_intros leaves_env obeys_exec [OF leaves_trans]) (auto simp: leaves_def assms)

lemma leaves_notify:
  assumes "\<And>d l. e (d\<lparr>notifications := l\<rparr>) = e d"
  shows "obeys (leaves e) (notifCreate a b c f g h)"
  unfolding notifCreate_def Let_def
  by (intro obeys_intros leaves_env leaves_exec) (auto simp: assms insertNotification_def split: if_splits)

lemmas leaves_intros = obeys_intros obeys_try obeys_when obeys_if leaves_env

lemma obeys_prod: "(\<And>x y. obeys R (f x y)) \<Longrightarrow> obeys R (case p of (x, y) \<Rightarrow> f x y)"
  by (cases p) simp

lemma obeys_option: "obeys R f \<Longrightarrow> (\<And>x. obeys R (g x)) \<Longrightarrow> obeys R (case a of None \<Rightarrow> f | Some x \<Rightarrow> g x)"
  by (cases a) simp_all

lemma obeys_sum: "(\<And>e. obeys R (f e)) \<Longrightarrow> (\<And>x. obeys R (g x)) \<Longrightarrow> obeys R (case r of Inl e \<Rightarrow> f e | Inr x \<Rightarrow> g x)"
  by (cases r) simp_all

lemmas leaves_cases = obeys_prod obeys_option obeys_sum

section \<open>The registry of buildings and people\<close>

lemma registry_audit: "obeys (leaves registryTables) (auditAppend a b c f g h)"
  by (rule leaves_audit) (simp add: registryTables_def)

lemma registry_rows:
  "obeys (leaves registryTables) (repoCreateBuilding bl)" "obeys (leaves registryTables) (repoUpdateBuilding bl)" "obeys (leaves registryTables) (repoDeleteBuilding bid)"
  "obeys (leaves registryTables) (InsertManagerGrant uid bid)" "obeys (leaves registryTables) (PromoteResidentToManager uid)" "obeys (leaves registryTables) (GrantManager uid bid)"
  "obeys (leaves registryTables) (RevokeManagerGuarded uid bid)"
  "obeys (leaves registryTables) (repoCreateUnit un)" "obeys (leaves registryTables) (repoUpdateUnit un)" "obeys (leaves registryTables) (repoDeleteUnit uid)"
  "obeys (leaves registryTables) (repoCreatePerson pe)" "obeys (leaves registryTables) (repoUpdatePerson pe)" "obeys (leaves registryTables) (repoDeletePerson pid)"
  "obeys (leaves registryTables) (repoCreateOccupancy oc)" "obeys (leaves registryTables) (repoEndOccupancy oid ed)" "obeys (leaves registryTables) (repoRecordOccupantCount cn)"
  unfolding repoCreateBuilding_def repoUpdateBuilding_def repoDeleteBuilding_def InsertManagerGrant_def PromoteResidentToManager_def GrantManager_def RevokeManagerGuarded_def
    repoCreateUnit_def repoUpdateUnit_def repoDeleteUnit_def repoCreatePerson_def repoUpdatePerson_def
    repoDeletePerson_def repoCreateOccupancy_def repoEndOccupancy_def repoRecordOccupantCount_def Let_def CanManagerAccess_def
  by ((intro leaves_intros leaves_cases leaves_exec)+; auto simp: registryTables_def split: if_splits)+

lemmas registry_reads = obeys_reads [OF reads_authorizedBuilding] obeys_reads [OF reads_authorizedUnit] obeys_reads [OF reads_authorizedPerson]
  reads_service_inputs [THEN obeys_reads]

lemma registry_ops:
  "obeys (leaves registryTables) (CreateBuilding it m bin)" "obeys (leaves registryTables) (UpdateBuilding it m bid bin)" "obeys (leaves registryTables) (DeleteBuilding m bid)"
  "obeys (leaves registryTables) (GrantManagerByPhone m bid phone)" "obeys (leaves registryTables) (RevokeManager m bid uid)"
  "obeys (leaves registryTables) (CreateUnit it m bid uin)" "obeys (leaves registryTables) (UpdateUnit it m uid uin)" "obeys (leaves registryTables) (DeleteUnit m uid)"
  "obeys (leaves registryTables) (CreatePerson m bid pin)" "obeys (leaves registryTables) (UpdatePerson m pid pin)" "obeys (leaves registryTables) (DeletePerson m pid)"
  "obeys (leaves registryTables) (AddOccupancy m uid oin)" "obeys (leaves registryTables) (EndOccupancy m oid ed)" "obeys (leaves registryTables) (RecordOccupantCount m uid n fr)"
  unfolding CreateBuilding_def UpdateBuilding_def DeleteBuilding_def GrantManagerByPhone_def RevokeManager_def CreateUnit_def UpdateUnit_def DeleteUnit_def CreatePerson_def
    UpdatePerson_def DeletePerson_def AddOccupancy_def EndOccupancy_def RecordOccupantCount_def FindActiveUserByPhone_def ManagerGrantRow_def Let_def
  by (intro leaves_intros leaves_cases registry_reads registry_rows)+


section \<open>The ledger\<close>

lemma ledger_channels: "obeys (leaves ledgerTables) (auditAppend a b c f g h)" "obeys (leaves ledgerTables) (notifCreate uid ty ti bo rt ri)"
  by (rule leaves_audit leaves_notify, simp add: ledgerTables_def)+

lemma ledger_rows:
  "obeys (leaves ledgerTables) (repoCreatePeriod p)" "obeys (leaves ledgerTables) (repoSavePeriod p)" "obeys (leaves ledgerTables) (repoCreateCostItem c)"
  "obeys (leaves ledgerTables) (repoSaveCostItem c)" "obeys (leaves ledgerTables) (repoDeleteCostItem cid)" "obeys (leaves ledgerTables) (repoSetInvoiceStatus iid st)"
  "obeys (leaves ledgerTables) (repoCreateAdjustment adj item)" "obeys (leaves ledgerTables) (repoIssueInvoices pid y now)"
  "obeys (leaves ledgerTables) (repoDiscardCalculation pid)" "obeys (leaves ledgerTables) (repoReplaceCalculation pid shares invs)"
  "obeys (leaves ledgerTables) (recomputeBalance uid)" "obeys (leaves ledgerTables) (repoCreatePayment pay)" "obeys (leaves ledgerTables) (repoSavePayment pay)"
  "obeys (leaves ledgerTables) (repoApplyInvoicePaid iid paid st)"
  unfolding repoCreatePeriod_def repoSavePeriod_def repoCreateCostItem_def repoSaveCostItem_def repoDeleteCostItem_def repoSetInvoiceStatus_def
    repoCreateAdjustment_def repoIssueInvoices_def numberDrafts_def repoDiscardCalculation_def repoReplaceCalculation_def recomputeBalance_def repoCreatePayment_def
    repoSavePayment_def repoApplyInvoicePaid_def createShare_def createItem_def createInvoice_def createInvoiceWithItems_def issueOne_def Let_def
  by ((intro leaves_intros leaves_cases leaves_exec obeys_reads [OF reads_repo(1)])+; auto simp: ledgerTables_def insertPeriod_def storePeriod_def insertCostItem_def storeCostItem_def deleteCostItems_def
      insertShare_def insertItem_def insertInvoice_def deleteSharesOf_def deleteInvoicesOf_def updateInvoices_def markIssued_def insertAdjustment_def upsertBalance_def
      insertPayment_def storePayment_def Let_def split: if_splits option.splits)+

lemma ledger_tails:
  "obeys (leaves ledgerTables) (RecomputeInvoice iid)" "obeys (leaves ledgerTables) (notifyIssued p iv)" "obeys (leaves ledgerTables) (auditIssued m iv)"
  "obeys (leaves ledgerTables) (notifyRecorded pay)" "obeys (leaves ledgerTables) (settleManual pay l iid amount)" "obeys (leaves ledgerTables) (settleGateway pay)"
  unfolding RecomputeInvoice_def notifyIssued_def auditIssued_def notifyRecorded_def settleManual_def settleGateway_def repoOccupantUserIDs_def
    payOccupantUserIDs_def repoInvoiceForUpdate_def Let_def
  by (intro leaves_intros leaves_cases ledger_channels ledger_rows)+

lemma ledger_balances: "obeys (leaves ledgerTables) (recomputeBalances (Some RecomputeInvoice) ids)"
  unfolding recomputeBalances_def option.case by (intro leaves_intros ledger_tails)

lemmas ledger_reads = obeys_reads [OF reads_authorizeBuilding] obeys_reads [OF reads_getAuthorizedPeriod] obeys_reads [OF reads_authorizedPeriod]
  obeys_reads [OF reads_authorizedCostItem] obeys_reads [OF reads_validateCostItem] obeys_reads [OF reads_authorizedInvoice] obeys_reads [OF reads_CalcPreview]
  obeys_reads [OF app.reads_computePeriod] obeys_reads [OF reads_payAuthorizedInvoice] obeys_reads [OF reads_paidAtOf] obeys_reads [OF reads_canAccessUnit]

lemma ledger_ops:
  "obeys (leaves ledgerTables) (CreatePeriod m bid pin)" "obeys (leaves ledgerTables) (UpdatePeriod m pid pin)" "obeys (leaves ledgerTables) (AddCostItem m pid cin)"
  "obeys (leaves ledgerTables) (UpdateCostItem m cid cin)" "obeys (leaves ledgerTables) (DeleteCostItem m cid)" "obeys (leaves ledgerTables) (Issue (Some RecomputeInvoice) m pid)"
  "obeys (leaves ledgerTables) (Close m pid)" "obeys (leaves ledgerTables) (Reopen m pid)" "obeys (leaves ledgerTables) (CancelInvoice (Some RecomputeInvoice) m iid rs)"
  "obeys (leaves ledgerTables) (AddAdjustment (Some RecomputeInvoice) m iid ain)" "obeys (leaves ledgerTables) (CalcCalculate str parse BalanceSnapshot m pid)"
  "obeys (leaves ledgerTables) (RecordManual u iid mpin)" "obeys (leaves ledgerTables) (UnitBalanceFor u uid)"
  unfolding CreatePeriod_def UpdatePeriod_def AddCostItem_def UpdateCostItem_def DeleteCostItem_def Issue_def Close_def Reopen_def CancelInvoice_def AddAdjustment_def
    CalcCalculate_def RecordManual_def UnitBalanceFor_def RecomputeUnit_def Let_def
  by (intro leaves_intros leaves_cases ledger_reads ledger_rows ledger_tails ledger_balances ledger_channels)+

context payment_gateway
begin

lemma ledger_gateway:
  assumes "svc_gw s = gw"
  shows "obeys (leaves ledgerTables) (StartGateway s u iid amount path)" "obeys (leaves ledgerTables) (HandleCallback parse s pid auth)"
  unfolding StartGateway_def HandleCallback_def finishCallback_def Let_def assms
  by (intro leaves_intros leaves_cases ledger_reads ledger_rows ledger_tails obeys_reads [OF start_reads] obeys_reads [OF verify_reads] obeys_reads [OF reads_findCallbackPayment])+

end

section \<open>Maintenance, notices and expenses\<close>

lemma maintenance_audit: "obeys (leaves maintenanceTables) (auditAppend a b c f g h)"
  by (rule leaves_audit) (simp add: maintenanceTables_def)

lemma board_audit: "obeys (leaves boardTables) (auditAppend a b c f g h)"
  by (rule leaves_audit) (simp add: boardTables_def)

lemma maintenance_ops:
  "obeys (leaves maintenanceTables) (Submit u inp)" "obeys (leaves maintenanceTables) (maintUpdate u mid upd)"
proof -
  have ch: "obeys (leaves maintenanceTables) (auditAppend a b c f g h)" "obeys (leaves maintenanceTables) (notifCreate uid ty ti bo rt ri)" for a b c f g h uid ty ti bo rt ri
    by (rule leaves_audit leaves_notify, simp add: maintenanceTables_def)+
  have row: "obeys (leaves maintenanceTables) (maintCreate m)" "obeys (leaves maintenanceTables) (maintSave m)" for m
    unfolding maintCreate_def maintSave_def Let_def
    by ((intro leaves_intros leaves_cases leaves_exec)+; auto simp: maintenanceTables_def split: if_splits)+
  show "obeys (leaves maintenanceTables) (Submit u inp)" "obeys (leaves maintenanceTables) (maintUpdate u mid upd)"
    unfolding Submit_def maintUpdate_def announceStatus_def Let_def
    by (intro leaves_intros leaves_cases ch row obeys_reads [OF reads_update(1)] obeys_reads [OF reads_update(2)] obeys_reads [OF reads_update(3)] reads_service_inputs [THEN obeys_reads])+
qed

lemma board_ops:
  "obeys (leaves boardTables) (expCreate parse u bid ein)" "obeys (leaves boardTables) (expUpdate parse u eid ein)" "obeys (leaves boardTables) (expDelete u eid)"
  "obeys (leaves boardTables) (annCreateFor parse a bid ani)" "obeys (leaves boardTables) (annUpdate parse a aid ani)" "obeys (leaves boardTables) (annDeleteFor a aid)"
  "obeys (leaves boardTables) (annMarkRead parse a aid)" "obeys (leaves boardTables) (notifMarkRead uid nid)" "obeys (leaves boardTables) (notifMarkAllRead uid)"
proof -
  have ch: "obeys (leaves boardTables) (auditAppend a b c f g h)" "obeys (leaves boardTables) (notifCreate uid ty ti bo rt ri)" for a b c f g h uid ty ti bo rt ri
    by (rule leaves_audit leaves_notify, simp add: boardTables_def)+
  have row: "obeys (leaves boardTables) (CreateExpense e)" "obeys (leaves boardTables) (SaveExpense e)" "obeys (leaves boardTables) (SoftDeleteExpense eid)"
    "obeys (leaves boardTables) (annCreate x)" "obeys (leaves boardTables) (annSave x)" "obeys (leaves boardTables) (annDelete aid)" "obeys (leaves boardTables) (repoMarkRead aid uid)"
    "obeys (leaves boardTables) (notifMarkRead uid nid)" "obeys (leaves boardTables) (notifMarkAllRead uid)" for e eid x aid uid nid
    unfolding CreateExpense_def SaveExpense_def SoftDeleteExpense_def annCreate_def annSave_def annDelete_def repoMarkRead_def notifMarkRead_def notifMarkAllRead_def Let_def
    by ((intro leaves_intros leaves_cases leaves_exec)+; auto simp: boardTables_def split: if_splits)+
  show "obeys (leaves boardTables) (expCreate parse u bid ein)" "obeys (leaves boardTables) (expUpdate parse u eid ein)" "obeys (leaves boardTables) (expDelete u eid)"
    "obeys (leaves boardTables) (annCreateFor parse a bid ani)" "obeys (leaves boardTables) (annUpdate parse a aid ani)" "obeys (leaves boardTables) (annDeleteFor a aid)"
    "obeys (leaves boardTables) (annMarkRead parse a aid)" "obeys (leaves boardTables) (notifMarkRead uid nid)" "obeys (leaves boardTables) (notifMarkAllRead uid)"
    unfolding expCreate_def expUpdate_def expDelete_def annCreateFor_def annUpdate_def annDeleteFor_def annMarkRead_def notifyTargets_def Let_def
    by (intro leaves_intros leaves_cases ch row reads_annScope [THEN obeys_reads] reads_annInput [THEN obeys_reads] reads_expScope [THEN obeys_reads]
        reads_service_inputs [THEN obeys_reads] reads_service_lists(4) [THEN obeys_reads])+
qed


section \<open>The session layer\<close>

lemma session_rows:
  "obeys (leaves sessionTables) (auditAppend a b c f g h)" "obeys (leaves sessionTables) (usersCreate u)" "obeys (leaves sessionTables) (usersUpdatePassword u)"
  "obeys (leaves sessionTables) (storeCreateToken t)" "obeys (leaves sessionTables) (storeSaveToken t)" "obeys (leaves sessionTables) (storeRevokeFamily fam tm)"
  "obeys (leaves sessionTables) (storeCreateInvite i)" "obeys (leaves sessionTables) (storeConsumeInvite iid tm)"
  unfolding usersCreate_def usersUpdatePassword_def storeCreateToken_def storeSaveToken_def storeRevokeFamily_def storeCreateInvite_def storeConsumeInvite_def Let_def
  by ((rule leaves_audit, simp add: sessionTables_def) | (intro leaves_intros leaves_exec)+; auto simp: sessionTables_def insertUser_def split: if_splits)+

lemma session_parts:
  "obeys (leaves sessionTables) (randomHex cr)" "obeys (leaves sessionTables) (randomInviteCode cr n)" "obeys (leaves sessionTables) (bindJSON ok msg body)"
  "obeys (leaves sessionTables) (IssueAccessToken cr s uid)"
  unfolding randomHex_def randomInviteCode_def bindJSON_def IssueAccessToken_def Let_def
  by (intro leaves_intros leaves_cases)+

lemma session_tokens:
  "obeys (leaves sessionTables) (IssueRefreshToken cr s uid)" "obeys (leaves sessionTables) (setSessionCookies cr hh t)" "obeys (leaves sessionTables) (RotateRefreshToken cr s raw)"
  "obeys (leaves sessionTables) (RevokeFamilyByToken cr raw)" "obeys (leaves sessionTables) (Redeem cr phone code)" "obeys (leaves sessionTables) (registerUser cr req rl hash)"
  unfolding IssueRefreshToken_def setSessionCookies_def RotateRefreshToken_def rotateTo_def RevokeFamilyByToken_def Redeem_def registerUser_def storeLatestInvite_def
    storeFindByHash_def usersFindByPhone_def Let_def
  by (intro leaves_intros leaves_cases session_rows session_parts)+

lemma session_respond: "obeys (leaves sessionTables) (respondSession cr hh q u)"
  unfolding respondSession_def by (intro leaves_intros leaves_cases session_rows session_parts session_tokens)

lemma session_handlers:
  "obeys (leaves sessionTables) (authSetup cr hh q cb)" "obeys (leaves sessionTables) (register cr hh q rb)" "obeys (leaves sessionTables) (login cr hh q cb)"
  "obeys (leaves sessionTables) (changePassword cr cur pb)" "obeys (leaves sessionTables) (createInvite cr caller ib)" "obeys (leaves sessionTables) (refresh cr hh q)"
  "obeys (leaves sessionTables) (logout cr hh q)"
  unfolding authSetup_def register_def login_def changePassword_def createInvite_def IssueInvite_def refresh_def logout_def usersCountActive_def usersFindByPhone_def Let_def
  by (intro leaves_intros leaves_cases session_rows session_parts session_tokens session_respond)+

lemma session_step: "auth_step cr w w' \<Longrightarrow> leaves sessionTables (db w) (db w')"
  by (erule auth_step.cases) (auto intro: session_handlers [THEN obeys_run])

end
