(* ===== verification/Auth_Facts.thy ===== *)
theory Auth_Facts
  imports Auth_Machine
begin

text \<open>
  The session layer: a used refresh token is dead, invite codes are redeemed once, there is one superadmin,
  cookies need the double-submit header, sessions and passwords work as issued. The sample libraries at the
  end of the first section satisfy \<open>crypto_ok\<close>.
\<close>

section \<open>Refresh tokens\<close>

lemma tokens_wf_unique:
  "tokens_wf d \<Longrightarrow> t \<in> set (refresh_tokens d) \<Longrightarrow> firstRow (\<lambda>q. rt_TokenHash q = rt_TokenHash t) (refresh_tokens d) = Inr t"
  by (rule firstRow_key) (auto simp: tokens_wf_def)

lemma rotate_reused:
  assumes "tokens_wf (db w)" "t \<in> set (refresh_tokens (db w))" "rt_TokenHash t = hashToken c raw" "rt_RevokedAt t \<noteq> None"
    and run: "RotateRefreshToken c s raw w = (r, w')"
  shows "isl r \<and> (no_faults w \<longrightarrow> r = Inl ErrTokenReused \<and>
     (\<forall>q\<in>set (refresh_tokens (db w')). rt_FamilyID q = rt_FamilyID t \<longrightarrow> rt_RevokedAt q \<noteq> None))"
proof -
  have f: "firstRow (\<lambda>q. rt_TokenHash q = hashToken c raw) (refresh_tokens (db w)) = Inr t"
    using tokens_wf_unique [OF assms(1,2)] assms(3) by simp
  show ?thesis using run f assms(4)
    by (auto simp: RotateRefreshToken_def storeFindByHash_def bindE_def mapErr_def query_def timeNow_def thenE_def storeRevokeFamily_def
        exec_def throwE_def set_updateWhere no_faults_def split: if_splits prod.splits sum.splits)
qed

lemma rotate_guard:
  assumes "RotateRefreshToken c s raw w = (Inr rot, w')"
  shows "\<exists>rec. firstRow (\<lambda>q. rt_TokenHash q = hashToken c raw) (refresh_tokens (db w)) = Inr rec \<and> rt_RevokedAt rec = None \<and>
     clock w (cnext w) \<le> rt_ExpiresAt rec \<and>
     rotateTo c s rec (clock w (cnext w)) ((tick w)\<lparr>cnext := Suc (cnext w)\<rparr>) = (Inr rot, w')"
  using assms
  by (auto simp: RotateRefreshToken_def bindE_def mapErr_def storeFindByHash_def query_def timeNow_def thenE_def throwE_def
      split: if_splits prod.splits sum.splits)

lemma reads_randomHex: "reads (randomHex c)"
  unfolding randomHex_def by (rule reads_bindE) (auto split: option.splits)

text \<open>After the old token has been saved as revoked, the rest only adds rows.\<close>

lemma rotateTo_result:
  assumes "rotateTo c s rec now w = (Inr rot, w')"
  shows "ro_UserID rot = rt_UserID rec \<and> (\<exists>d. d = (db w)\<lparr>refresh_tokens := saveRow rt_ID (rec\<lparr>rt_RevokedAt := Some now\<rparr>) (refresh_tokens (db w))\<rparr> \<and> auth_rel d (db w'))"
proof -
  let ?rev = "rec\<lparr>rt_RevokedAt := Some now\<rparr>"
  let ?rest = "\<lambda>nr. bindE newUUID (\<lambda>tid.
      thenE (mapErr (\<lambda>_. Sentinel ''store new refresh token'') (storeCreateToken
        \<lparr>rt_ID = tid, rt_UserID = rt_UserID rec, rt_FamilyID = rt_FamilyID rec, rt_TokenHash = hashToken c nr,
         rt_ExpiresAt = now + ts_refreshTTL s, rt_RevokedAt = None, rt_CreatedAt = now\<rparr>))
      (bindE (IssueAccessToken c s (rt_UserID rec)) (\<lambda>(access, exp).
       bindE timeNow (\<lambda>later. returnE \<lparr>ro_UserID = rt_UserID rec, ro_AccessToken = access, ro_RefreshToken = nr,
                ro_ExpiresIn = exp - later\<rparr>))))"
  obtain nr v1 v2 u where v1: "randomHex c w = (Inr nr, v1)"
    and sv: "mapErr (\<lambda>_. Sentinel ''revoke old refresh token'') (storeSaveToken ?rev) v1 = (Inr u, v2)" and rest: "?rest nr v2 = (Inr rot, w')"
  proof -
    obtain nr v1 where v1: "randomHex c w = (Inr nr, v1)"
      and k: "thenE (mapErr (\<lambda>_. Sentinel ''revoke old refresh token'') (storeSaveToken ?rev)) (?rest nr) v1 = (Inr rot, w')"
      using assms unfolding rotateTo_def by (rule bindE_splitE)
    from k obtain u v2 where "mapErr (\<lambda>_. Sentinel ''revoke old refresh token'') (storeSaveToken ?rev) v1 = (Inr u, v2)" "?rest nr v2 = (Inr rot, w')"
      by (rule thenE_splitE)
    thus thesis using that v1 by blast
  qed
  have "obeys auth_rel (?rest nr)" unfolding case_prod_beta
    by (intro obeys_intros obeys_auth_env obeys_storeCreateToken obeys_IssueAccessToken)
  hence "auth_rel (db v2) (db w')" using auth_rel_refl rest by (rule obeys_run)
  moreover have "ro_UserID rot = rt_UserID rec" using rest
    by (auto elim!: bindE_splitE thenE_splitE simp: returnE_def)
  moreover have "db v2 = (db w)\<lparr>refresh_tokens := saveRow rt_ID ?rev (refresh_tokens (db w))\<rparr>"
    using sv reads_run [OF reads_randomHex v1] by (auto simp: mapErr_def storeSaveToken_def exec_def split: if_splits)
  ultimately show ?thesis by simp
qed

lemma rotate_result:
  assumes run: "RotateRefreshToken c s raw w = (Inr rot, w')" and wf: "tokens_wf (db w)"
  shows "\<exists>t\<in>set (refresh_tokens (db w)). rt_TokenHash t = hashToken c raw \<and> rt_RevokedAt t = None \<and> ro_UserID rot = rt_UserID t \<and>
     (\<exists>t'\<in>set (refresh_tokens (db w')). tokenKept t t' \<and> rt_RevokedAt t' \<noteq> None)"
proof -
  obtain rec now w1 where 1: "firstRow (\<lambda>q. rt_TokenHash q = hashToken c raw) (refresh_tokens (db w)) = Inr rec" "db w1 = db w"
    "rt_RevokedAt rec = None" and 2: "rotateTo c s rec now w1 = (Inr rot, w')"
  proof -
    obtain rec where "firstRow (\<lambda>q. rt_TokenHash q = hashToken c raw) (refresh_tokens (db w)) = Inr rec" "rt_RevokedAt rec = None"
      "rotateTo c s rec (clock w (cnext w)) ((tick w)\<lparr>cnext := Suc (cnext w)\<rparr>) = (Inr rot, w')"
      using rotate_guard [OF run] by blast
    thus thesis using that [of rec "(tick w)\<lparr>cnext := Suc (cnext w)\<rparr>"] by simp
  qed
  have rec: "rec \<in> set (refresh_tokens (db w))" "rt_TokenHash rec = hashToken c raw" using tokenRowOk_find [OF 1(1)] by auto
  let ?rev = "rec\<lparr>rt_RevokedAt := Some now\<rparr>"
  let ?d = "(db w)\<lparr>refresh_tokens := saveRow rt_ID ?rev (refresh_tokens (db w))\<rparr>"
  have d2: "auth_rel ?d (db w')" "ro_UserID rot = rt_UserID rec" using rotateTo_result [OF 2] 1(2) by auto
  have wf2: "tokens_wf ?d" using wf auth_rel_revoke [OF rec(1)] by (simp add: auth_rel_def)
  have "?rev \<in> set (refresh_tokens ?d)" using rec(1) by (auto simp: saveRow_def list_ex_iff set_updateWhere)
  then obtain t' where t': "t' \<in> set (refresh_tokens (db w'))" "tokenKept ?rev t'"
    using d2(1) wf2 unfolding auth_rel_def by (blast dest: all_keptD)
  hence "tokenKept rec t' \<and> rt_RevokedAt t' \<noteq> None" by (simp add: tokenKept_def)
  thus ?thesis using rec 1(3) d2(2) t' by blast
qed

text \<open>C11. Refresh tokens are single use: after a token has been rotated, and after any number of
  further requests of the session layer, presenting it again always fails, and when the
  database answers it is reported as reused and every token of its family is revoked.\<close>

theorem rotated_token_dead:
  assumes wf: "tokens_wf (db w)" and first: "RotateRefreshToken c s raw w = (Inr rot, w1)"
    and steps: "(auth_step c)\<^sup>*\<^sup>* w1 w2" and again: "RotateRefreshToken c s' raw w2 = (r, w3)"
  shows "isl r \<and> (no_faults w2 \<longrightarrow> r = Inl ErrTokenReused \<and>
     (\<exists>t\<in>set (refresh_tokens (db w)). rt_TokenHash t = hashToken c raw \<and> ro_UserID rot = rt_UserID t \<and>
        (\<forall>q\<in>set (refresh_tokens (db w3)). rt_FamilyID q = rt_FamilyID t \<longrightarrow> rt_RevokedAt q \<noteq> None)))"
proof -
  obtain t t' where t: "t \<in> set (refresh_tokens (db w))" "rt_TokenHash t = hashToken c raw" "ro_UserID rot = rt_UserID t"
    and t': "t' \<in> set (refresh_tokens (db w1))" "tokenKept t t'" "rt_RevokedAt t' \<noteq> None"
    using rotate_result [OF first wf] by blast
  have wf1: "tokens_wf (db w1)" using obeys_run [OF obeys_RotateRefreshToken auth_rel_refl first] wf by (simp add: auth_rel_def)
  have rel: "auth_rel (db w1) (db w2)" using auth.steps_rel [OF steps] .
  obtain t2 where t2: "t2 \<in> set (refresh_tokens (db w2))" "tokenKept t' t2"
    using rel wf1 t'(1) unfolding auth_rel_def by (blast dest: all_keptD)
  have wf2: "tokens_wf (db w2)" using rel wf1 by (simp add: auth_rel_def)
  have "rt_TokenHash t2 = hashToken c raw" "rt_RevokedAt t2 \<noteq> None" "rt_FamilyID t2 = rt_FamilyID t"
    using t t' t2 by (auto simp: tokenKept_def)
  thus ?thesis using rotate_reused [OF wf2 t2(1) _ _ again] t by auto
qed

text \<open>Sample libraries: injective stand-ins that satisfy \<open>crypto_ok\<close>.\<close>

definition sampleCrypto :: crypto where
  "sampleCrypto = \<lparr>cr_sha = (\<lambda>s. CHR ''#'' # s), cr_hex = (\<lambda>n. Some (showNat n)), cr_index = (\<lambda>_. Some 0),
     cr_sign = (\<lambda>cl. if list_all visible (jc_Subject cl) then Some (jc_Subject cl) else None), cr_jwt = (\<lambda>t now. Some t), cr_bcrypt = (\<lambda>p. Some p), cr_bcheck = (\<lambda>h p. h = p),
     cr_uuidString = showNat, cr_uuidParse = parseDigits, cr_letter = (\<lambda>r. 65 \<le> r \<and> r \<le> 122), cr_number = (\<lambda>r. 48 \<le> r \<and> r \<le> 57)\<rparr>"

lemma sampleCrypto_ok: "crypto_ok sampleCrypto"
  by (auto simp: crypto_ok_def sampleCrypto_def parseDigits_showNat split: if_splits)

definition sampleTokens :: TokenService where "sampleTokens = \<lparr>ts_accessTTL = 900, ts_refreshTTL = 2592000\<rparr>"

definition sampleHandler :: Handler where "sampleHandler = \<lparr>hd_Tokens = sampleTokens, hd_Secure = True\<rparr>"

definition plainReq :: httpReq where
  "plainReq = \<lparr>hq_Cookie = (\<lambda>_. None), hq_Header = (\<lambda>_. ''''), hq_RefreshBody = None\<rparr>"

definition tokenWorld :: "db world" where
  "tokenWorld = exampleWorld (sampleDb\<lparr>refresh_tokens := [\<lparr>rt_ID = 91, rt_UserID = 22, rt_FamilyID = 92, rt_TokenHash = ''#T'',
     rt_ExpiresAt = 5000, rt_RevokedAt = None, rt_CreatedAt = 0\<rparr>]\<rparr>)"

definition rotatedWorld :: "db world" where
  "rotatedWorld = snd (RotateRefreshToken sampleCrypto sampleTokens ''T'' tokenWorld)"

definition laterWorld :: "db world" where
  "laterWorld = snd (login sampleCrypto sampleHandler plainReq (Some \<lparr>cq_Phone = ''09120000022'', cq_Password = ''hash'', cq_Name = ''''\<rparr>) rotatedWorld)"

lemma no_faults_code: "faults w = (\<lambda>_. False) \<Longrightarrow> no_faults w"
  by (simp add: no_faults_def)

theorem rotated_token_dead_witness:
  "\<exists>w3. RotateRefreshToken sampleCrypto sampleTokens ''T'' laterWorld = (Inl ErrTokenReused, w3) \<and>
     (\<forall>q\<in>set (refresh_tokens (db w3)). rt_FamilyID q = 92 \<longrightarrow> rt_RevokedAt q \<noteq> None)"
proof -
  let ?run = "RotateRefreshToken sampleCrypto sampleTokens ''T'' tokenWorld"
  have "\<not> isl (fst ?run)" by code_simp
  then obtain rot where first: "?run = (Inr rot, rotatedWorld)" unfolding rotatedWorld_def by (cases ?run; cases "fst ?run") auto
  have steps: "(auth_step sampleCrypto)\<^sup>*\<^sup>* rotatedWorld laterWorld"
    unfolding laterWorld_def by (rule r_into_rtranclp, rule auth_step.login_step) (rule prod.collapse [symmetric])
  have wf: "tokens_wf (db tokenWorld)" and d: "refresh_tokens (db tokenWorld) = [\<lparr>rt_ID = 91, rt_UserID = 22, rt_FamilyID = 92, rt_TokenHash = ''#T'',
     rt_ExpiresAt = 5000, rt_RevokedAt = None, rt_CreatedAt = 0\<rparr>]"
    by (simp_all add: tokens_wf_def tokenWorld_def)
  obtain r w3 where again: "RotateRefreshToken sampleCrypto sampleTokens ''T'' laterWorld = (r, w3)" by (cases "RotateRefreshToken sampleCrypto sampleTokens ''T'' laterWorld")
  have nf: "no_faults laterWorld" unfolding no_faults_def by (rule allI) code_simp
  show ?thesis using rotated_token_dead [OF wf first steps again] again nf d by auto
qed

section \<open>Invite codes\<close>

lemma latestInvite_head:
  "latestInvite rows phone = Some i \<Longrightarrow> \<exists>ys. sort_key (\<lambda>i. (- ic_CreatedAt i, ic_ID i)) (filter (\<lambda>i. ic_Phone i = phone) rows) = i # ys"
  by (simp add: latestInvite_def split: list.splits)

lemma latestInvite_member:
  assumes "latestInvite rows phone = Some i" shows "i \<in> set rows \<and> ic_Phone i = phone"
proof -
  obtain ys where c: "sort_key (\<lambda>i. (- ic_CreatedAt i, ic_ID i)) (filter (\<lambda>i. ic_Phone i = phone) rows) = i # ys"
    using latestInvite_head [OF assms] by blast
  have "i \<in> set (i # ys)" by simp
  hence "i \<in> set (filter (\<lambda>i. ic_Phone i = phone) rows)" unfolding c [symmetric] set_sort .
  thus ?thesis by simp
qed

lemma latestInvite_newest:
  assumes "latestInvite rows phone = Some i" "j \<in> set rows" "ic_Phone j = phone"
  shows "ic_CreatedAt j \<le> ic_CreatedAt i"
proof -
  let ?xs = "sort_key (\<lambda>i. (- ic_CreatedAt i, ic_ID i)) (filter (\<lambda>i. ic_Phone i = phone) rows)"
  obtain ys where c: "?xs = i # ys" using latestInvite_head [OF assms(1)] by blast
  have "sorted (map (\<lambda>i. (- ic_CreatedAt i, ic_ID i)) ?xs)" by (rule sorted_sort_key)
  moreover have "j \<in> set ?xs" using assms(2,3) by simp
  ultimately show ?thesis unfolding c by auto
qed

lemma Redeem_result:
  assumes "Redeem c phone code w = (Inr role, w')"
  shows "\<exists>i. latestInvite (invite_codes (db w)) phone = Some i \<and> ic_CodeHash i = hashCode c code \<and> clock w (cnext w) \<le> ic_ExpiresAt i \<and>
     (\<exists>j\<in>set (invite_codes (db w)). ic_ID j = ic_ID i \<and> ic_ConsumedAt j = None) \<and> role = (if ic_Role i = '''' then RoleResident else ic_Role i) \<and>
     iranianMobile phone \<and>
     db w' = (db w)\<lparr>invite_codes := updateWhere (\<lambda>j. ic_ID j = ic_ID i \<and> ic_ConsumedAt j = None)
        (\<lambda>j. j\<lparr>ic_ConsumedAt := Some (clock w (cnext w))\<rparr>) (invite_codes (db w))\<rparr>"
  using assms unfolding Redeem_def
proof (elim thenE_splitE bindE_splitE throwIf_splitE)
  fix i now w1 w2 w3 u x1 x2 x3 x4 x5 x6
  assume ph: "\<not> \<not> iranianMobile phone"
    and l: "mapErr (\<lambda>e. if e = RecordNotFound then ErrInviteInvalid else Sentinel ''load invite'') (storeLatestInvite phone) x1 = (Inr i, w1)"
    and t: "timeNow w1 = (Inr now, w2)" and e: "\<not> now > ic_ExpiresAt i" and h: "\<not> ic_CodeHash i \<noteq> hashCode c code"
    and s: "storeConsumeInvite (ic_ID i) now x4 = (Inr u, w3)"
    and r: "returnE (if ic_Role i = '''' then RoleResident else ic_Role i) w3 = (Inr role, w')"
    and eq: "x1 = w" "x3 = w2" "x4 = x3"
  show ?thesis using ph l t e h s r eq
    by (intro exI [of _ i]) (auto simp: mapErr_def storeLatestInvite_def query_def timeNow_def storeConsumeInvite_def exec_def returnE_def list_ex_iff
        split: if_splits option.splits)
qed

text \<open>C12. Invite codes are redeemed once: a successful redemption uses the newest invite of the phone,
  which matches the code and was not consumed, and a later successful redemption for the
  phone, after any requests of the session layer, uses another invite.\<close>

theorem invite_single_use:
  assumes wf: "invites_wf (db w)" and first: "Redeem c phone code w = (Inr role, w1)"
    and steps: "(auth_step c)\<^sup>*\<^sup>* w1 w2" and again: "Redeem c phone code' w2 = (Inr role', w3)"
  shows "\<exists>i j. latestInvite (invite_codes (db w)) phone = Some i \<and> latestInvite (invite_codes (db w2)) phone = Some j \<and>
     ic_CodeHash i = hashCode c code \<and> ic_CodeHash j = hashCode c code' \<and> ic_ConsumedAt i = None \<and> ic_ConsumedAt j = None \<and>
     ic_ID i \<noteq> ic_ID j \<and> role = (if ic_Role i = '''' then RoleResident else ic_Role i)"
proof -
  have only: "q = p" if "invites_wf d" "q \<in> set (invite_codes d)" "p \<in> set (invite_codes d)" "ic_ID q = ic_ID p" for d p q
    using that by (auto simp: invites_wf_def distinct_map dest: inj_onD)
  obtain i k where i: "latestInvite (invite_codes (db w)) phone = Some i" "ic_CodeHash i = hashCode c code"
      "k \<in> set (invite_codes (db w))" "ic_ID k = ic_ID i" "ic_ConsumedAt k = None" "role = (if ic_Role i = '''' then RoleResident else ic_Role i)"
    and d: "db w1 = (db w)\<lparr>invite_codes := updateWhere (\<lambda>j. ic_ID j = ic_ID i \<and> ic_ConsumedAt j = None)
        (\<lambda>j. j\<lparr>ic_ConsumedAt := Some (clock w (cnext w))\<rparr>) (invite_codes (db w))\<rparr>"
    using Redeem_result [OF first] by blast
  obtain j l where j: "latestInvite (invite_codes (db w2)) phone = Some j" "ic_CodeHash j = hashCode c code'"
      "l \<in> set (invite_codes (db w2))" "ic_ID l = ic_ID j" "ic_ConsumedAt l = None"
    using Redeem_result [OF again] by blast
  have im: "i \<in> set (invite_codes (db w))" and jm: "j \<in> set (invite_codes (db w2))" using latestInvite_member i(1) j(1) by blast+
  have wf1: "invites_wf (db w1)" using wf d by (simp add: invites_wf_def)
  have rel: "auth_rel (db w1) (db w2)" by (rule auth.steps_rel [OF steps])
  hence wf2: "invites_wf (db w2)" using wf1 by (simp add: auth_rel_def)
  have ki: "k = i" by (rule only [OF wf i(3) im i(4)])
  have lj: "l = j" by (rule only [OF wf2 j(3) jm j(4)])
  have "i\<lparr>ic_ConsumedAt := Some (clock w (cnext w))\<rparr> \<in> set (invite_codes (db w1))"
    using im i(5) unfolding ki d by (auto simp: set_updateWhere)
  then obtain i2 where i2: "i2 \<in> set (invite_codes (db w2))" "inviteKept (i\<lparr>ic_ConsumedAt := Some (clock w (cnext w))\<rparr>) i2"
    using rel wf1 unfolding auth_rel_def by (blast dest: all_keptD)
  have "ic_ID i \<noteq> ic_ID j"
    using only [OF wf2 i2(1) jm] i2(2) j(5) unfolding lj by (auto simp: inviteKept_def)
  thus ?thesis using i j ki lj by blast
qed

section \<open>The superadmin\<close>

definition super_ok :: "db \<Rightarrow> bool" where
  "super_ok d \<longleftrightarrow> count_list (map usr_Role (users d)) RoleSuperAdmin \<le> 1 \<and> (\<forall>i\<in>set (invite_codes d). ic_Role i \<noteq> RoleSuperAdmin)"

lemma super_same [simp]: "super_ok (d\<lparr>refresh_tokens := ts\<rparr>) = super_ok d" "super_ok (d\<lparr>audit_logs := as\<rparr>) = super_ok d"
  by (simp_all add: super_ok_def)

lemma super_statements [pres]:
  "preserves super_ok (auditAppend a b e f g h)" "preserves super_ok (storeCreateToken t)" "preserves super_ok (storeSaveToken t)"
  "preserves super_ok (storeRevokeFamily f' at')" "preserves super_ok (storeConsumeInvite i at')"
  unfolding auditAppend_def storeCreateToken_def storeSaveToken_def storeRevokeFamily_def storeConsumeInvite_def
  by (rule preserves_exec, force simp: super_ok_def set_updateWhere split: if_splits)+

lemma super_createInvite: "ic_Role i \<noteq> RoleSuperAdmin \<Longrightarrow> preserves super_ok (storeCreateInvite i)"
  unfolding storeCreateInvite_def by (rule preserves_exec) (auto simp: super_ok_def split: if_splits)

lemma super_updatePassword [pres]: "preserves super_ok (usersUpdatePassword u)"
  unfolding usersUpdatePassword_def
  by (intro preserves_bindE preserves_exec pres) (auto simp: super_ok_def)

lemma super_usersCreate: "usr_Role u \<noteq> RoleSuperAdmin \<Longrightarrow> preserves super_ok (usersCreate u)"
  unfolding usersCreate_def Let_def
  by (intro preserves_bindE preserves_thenE preserves_exec pres) (auto simp: super_ok_def insertUser_def split: if_splits)

lemma reads_IssueAccessToken [pres]: "reads (IssueAccessToken c s uid)"
  unfolding IssueAccessToken_def Let_def by (rule reads_bindE) (auto split: option.splits)

lemma reads_setSessionCookies [pres]: "reads (setSessionCookies c h t)"
  unfolding setSessionCookies_def by (intro reads_bindE reads_tryE reads_randomHex reads_rules)

lemma super_respond [pres]: "preserves super_ok (respondSession c h q u)"
  unfolding respondSession_def IssueRefreshToken_def case_prod_beta
  by (intro preserves_bindE preserves_thenE preserves_mapErr preserves_ignoreE super_statements preserves_reads reads_randomHex
      reads_IssueAccessToken reads_setSessionCookies reads_rules)

lemma super_rotate [pres]: "preserves super_ok (RotateRefreshToken c s raw)"
  unfolding RotateRefreshToken_def rotateTo_def case_prod_beta storeFindByHash_def
  by (intro preserves_if preserves_bindE preserves_thenE preserves_mapErr super_statements preserves_reads reads_randomHex
      reads_IssueAccessToken reads_rules)

lemma super_revoke [pres]: "preserves super_ok (RevokeFamilyByToken c raw)"
  unfolding RevokeFamilyByToken_def storeFindByHash_def
  by (rule preserves_bindE [OF preserves_tryE [OF preserves_reads [OF reads_rules(3)]]])
     (auto intro!: preserves_bindE preserves_mapErr super_statements preserves_env split: sum.splits)

lemma reads_bindJSON [pres]: "reads (bindJSON ok msg body)"
  unfolding bindJSON_def by (cases body) auto

lemma super_registerUser: "role \<noteq> RoleSuperAdmin \<Longrightarrow> preserves super_ok (registerUser c req role hash)"
  unfolding registerUser_def usersFindByPhone_def
  by (rule preserves_bindE [OF preserves_tryE [OF preserves_reads [OF reads_rules(3)]]])
     (auto simp: Let_def newUser_def intro!: preserves_bindE preserves_thenE preserves_mapErr super_updatePassword super_usersCreate preserves_env
       split: sum.splits)

lemma super_Redeem: "tri super_ok (Redeem c phone code) (\<lambda>role d. super_ok d \<and> role \<noteq> RoleSuperAdmin) super_ok"
proof (rule triI)
  fix w role w' assume ok: "super_ok (db w)" and run: "Redeem c phone code w = (Inr role, w')"
  have "preserves super_ok (Redeem c phone code)" unfolding Redeem_def storeLatestInvite_def
    by (intro preserves_bindE preserves_thenE preserves_mapErr super_statements preserves_reads reads_rules)
  hence "super_ok (db w')" using ok run by (rule preserves_run)
  moreover obtain i where "i \<in> set (invite_codes (db w))" "role = (if ic_Role i = '''' then RoleResident else ic_Role i)"
    using Redeem_result [OF run] latestInvite_member by blast
  ultimately show "super_ok (db w') \<and> role \<noteq> RoleSuperAdmin" using ok by (auto simp: super_ok_def split: if_splits)
next
  fix w e w' assume ok: "super_ok (db w)" and run: "Redeem c phone code w = (Inl e, w')"
  have "preserves super_ok (Redeem c phone code)" unfolding Redeem_def storeLatestInvite_def
    by (intro preserves_bindE preserves_thenE preserves_mapErr super_statements preserves_reads reads_rules)
  thus "super_ok (db w')" using ok run by (rule preserves_run)
qed

lemma super_register: "preserves super_ok (register c h q body)"
proof -
  have k: "tri super_ok f (\<lambda>_. super_ok) super_ok" if "reads f" for f :: "'x dbm" using that by (rule tri_reads)
  have g: "tri (\<lambda>d. super_ok d \<and> role \<noteq> RoleSuperAdmin)
     (bindE (mapErr (\<lambda>_. AppErr ErrInternal) (liftE (HashPassword c (cq_Password req)))) (\<lambda>hash.
      bindE (registerUser c req role hash) (respondSession c h q))) (\<lambda>_. super_ok) super_ok" for role and req :: registerReq
  proof (cases "role = RoleSuperAdmin")
    case False
    hence "preserves super_ok (bindE (mapErr (\<lambda>_. AppErr ErrInternal) (liftE (HashPassword c (cq_Password req)))) (\<lambda>hash.
      bindE (registerUser c req role hash) (respondSession c h q)))"
      by (intro preserves_bindE super_registerUser super_respond preserves_reads reads_mapErr reads_rules)
    thus ?thesis unfolding preserves_tri by (rule tri_weaken) auto
  qed (simp add: tri_def)
  show ?thesis unfolding register_def preserves_tri
    by (intro tri_bind [OF tri_reads [OF reads_bindJSON]] tri_then [OF tri_reads] reads_rules tri_bind [OF super_Redeem] g)
qed

lemma super_setup: "preserves super_ok (authSetup c h q body)"
proof -
  have cnt: "tri super_ok (mapErr (\<lambda>_. AppErr (Internal ''counting accounts failed'')) usersCountActive)
      (\<lambda>n d. super_ok d \<and> n = int (length (users d))) super_ok"
    unfolding usersCountActive_def by (intro tri_mapErr tri_query) auto
  have new: "tri (\<lambda>d. (super_ok d \<and> n = int (length (users d))) \<and> \<not> n > 0) (usersCreate u) (\<lambda>_. super_ok) super_ok" for n :: int and u
    unfolding usersCreate_def Let_def
    by (rule tri_bind [OF tri_keep [OF reads_rules(5)]], simp, rule tri_then [where Q = super_ok], rule tri_exec)
       (auto simp: super_ok_def insertUser_def split: if_splits intro!: tri_return)
  show ?thesis unfolding authSetup_def preserves_tri
    apply (rule tri_bind [OF tri_reads [OF reads_bindJSON]] tri_then [OF tri_reads] reads_rules tri_bind [OF cnt])+
    apply (rule tri_then [OF tri_throwIf], simp)
    apply (rule tri_bind [OF tri_keep [OF reads_mapErr [OF reads_rules(6)]]], simp)
    apply (rule tri_bind [OF tri_keep [OF reads_rules(4)]], simp)
    apply (rule tri_bind [OF tri_mapErr [OF new]])
    apply (rule super_respond [unfolded preserves_tri])
    done
qed

lemma super_createInvite_op: "preserves super_ok (createInvite c caller body)"
proof -
  have "reads (randomInviteCode c n)" for n unfolding randomInviteCode_def
    by (rule reads_mapE, rule reads_bindE) (auto split: option.splits)
  hence i: "preserves super_ok (IssueInvite c phone role cb)" if "role \<noteq> RoleSuperAdmin" for phone role cb
    unfolding IssueInvite_def using that
    by (intro preserves_bindE preserves_thenE preserves_mapErr super_createInvite preserves_reads reads_rules) simp_all
  have g: "preserves super_ok (thenE (throwIf (role \<noteq> RoleResident \<and> role \<noteq> RoleManager) e)
     (bindE (IssueInvite c phone role cb) (\<lambda>code. thenE (ignoreE (auditAppend a b e' f g h)) (returnE (code, role)))))" for role e phone cb a b e' f g h
  proof (cases "role \<noteq> RoleResident \<and> role \<noteq> RoleManager")
    case False
    hence "role \<noteq> RoleSuperAdmin" by auto
    thus ?thesis by (intro preserves_bindE preserves_thenE preserves_ignoreE i super_statements preserves_reads reads_rules)
  qed (simp add: preserves_reads reads_rules)
  show ?thesis unfolding createInvite_def Let_def
    by (rule preserves_bindE [OF preserves_reads [OF reads_bindJSON]]) (rule g)
qed

lemma authSetup_refused:
  assumes "users (db w) \<noteq> []"
  shows "isl (fst (authSetup c h q body w))" "users (db (snd (authSetup c h q body w))) = users (db w)"
proof -
  let ?Q = "\<lambda>d. users d = users (db w)"
  have "tri ?Q (authSetup c h q body) (\<lambda>_ _. False) ?Q"
    unfolding authSetup_def
    apply (rule tri_bind [OF tri_reads [OF reads_bindJSON]] tri_then [OF tri_reads] reads_rules)+
    apply (rule tri_bind [where Q = "\<lambda>n d. n > 0 \<and> ?Q d"])
     apply (unfold usersCountActive_def, rule tri_mapErr, rule tri_query) using assms apply (auto)[2]
    apply (rule tri_then [where Q = "\<lambda>_. False"])
     apply (rule triI) apply (auto simp: throwIf_def throwE_def returnE_def tri_def split: if_splits)
    done
  note t = triD [OF this refl]
  obtain r w' where e: "authSetup c h q body w = (r, w')" by (rule prod.exhaust)
  have "isl r \<and> ?Q (db w')"
  proof (cases r)
    case (Inl x)
    thus ?thesis using t(2) e by simp
  next
    case (Inr x)
    thus ?thesis using t(1) e by simp
  qed
  thus "isl (fst (authSetup c h q body w))" "users (db (snd (authSetup c h q body w))) = users (db w)" using e by simp_all
qed

lemma super_login: "preserves super_ok (login c h q body)"
  unfolding login_def usersFindByPhone_def
  by (intro preserves_bindE preserves_thenE preserves_mapErr super_respond preserves_reads reads_bindJSON reads_rules)

lemma super_changePassword: "preserves super_ok (changePassword c cur body)"
  unfolding changePassword_def
  by (cases cur) (auto intro!: preserves_bindE preserves_thenE preserves_mapErr super_updatePassword preserves_env preserves_reads [OF reads_bindJSON])

lemma super_refresh: "preserves super_ok (refresh c h q)"
  unfolding refresh_def case_prod_beta
  by (intro preserves_bindE preserves_thenE super_rotate preserves_env preserves_reads [OF reads_setSessionCookies])

lemma super_logout: "preserves super_ok (logout c h q)"
  unfolding logout_def case_prod_beta
  by (intro preserves_whenE preserves_thenE preserves_mapErr super_revoke preserves_env)

lemma super_step: "auth_step c w w' \<Longrightarrow> super_ok (db w) \<Longrightarrow> super_ok (db w')"
  by (erule auth_step.cases)
     (auto intro: preserves_run [OF super_setup] preserves_run [OF super_register] preserves_run [OF super_login]
       preserves_run [OF super_changePassword] preserves_run [OF super_createInvite_op] preserves_run [OF super_refresh] preserves_run [OF super_logout])

text \<open>C13. There is at most one superadmin: no sequence of requests of the session layer creates a
  second one or an invite for one, accounts keep their id, phone and role, and once an account
  exists the setup request fails and creates none.\<close>

theorem superadmin_unique:
  assumes "super_ok (db w)" "(auth_step c)\<^sup>*\<^sup>* w w'"
  shows "super_ok (db w') \<and> (\<forall>u\<in>set (users (db w)). \<exists>u'\<in>set (users (db w')). usr_ID u' = usr_ID u \<and> usr_Phone u' = usr_Phone u \<and> usr_Role u' = usr_Role u) \<and>
     (users (db w) \<noteq> [] \<longrightarrow> (\<forall>h q body. isl (fst (authSetup c h q body w')) \<and> users (db (snd (authSetup c h q body w'))) = users (db w')))"
proof (intro conjI impI allI)
  show "super_ok (db w')" using assms(2,1) by (induction rule: rtranclp_induct) (auto intro: super_step)
  have k: "all_kept userKept (users (db w)) (users (db w'))" using auth.steps_rel [OF assms(2)] by (simp add: auth_rel_def)
  thus "\<forall>u\<in>set (users (db w)). \<exists>u'\<in>set (users (db w')). usr_ID u' = usr_ID u \<and> usr_Phone u' = usr_Phone u \<and> usr_Role u' = usr_Role u"
    unfolding all_kept_def userKept_def by blast
  assume "users (db w) \<noteq> []"
  hence ne: "users (db w') \<noteq> []" using k by (cases "users (db w)") (auto simp: all_kept_def)
  fix h q body
  show "isl (fst (authSetup c h q body w'))" by (rule authSetup_refused [OF ne])
  show "users (db (snd (authSetup c h q body w'))) = users (db w')" by (rule authSetup_refused [OF ne])
qed

section \<open>Cookies\<close>

definition cookiesSafe :: "Handler \<Rightarrow> string \<Rightarrow> cookie list \<Rightarrow> bool" where
  "cookiesSafe h secret cks \<longleftrightarrow> (\<forall>k\<in>set cks. ck_Secure k = hd_Secure h \<and> (ck_Name k = CSRFCookieName \<and> \<not> ck_HttpOnly k \<or>
     ck_Name k = RefreshCookieName \<and> ck_HttpOnly k \<and> ck_Path k = refreshCookiePath \<and> ck_Value k = secret))"

text \<open>Double submit: a refresh or logout that is carried by the session cookie and lacks a
  nonempty CSRF header equal to the CSRF cookie is refused with 403 and changes nothing.\<close>

theorem csrf_required:
  assumes "hq_RefreshBody q \<in> {None, Some ''''}" "hq_Cookie q RefreshCookieName = Some raw" "raw \<noteq> ''''"
    and "\<not> (hq_Header q CSRFHeaderName \<noteq> '''' \<and> hq_Cookie q CSRFCookieName = Some (hq_Header q CSRFHeaderName))"
  shows "refresh c h q w = (Inl (AppErr (Forbidden ''invalid CSRF token'')), w) \<and>
    logout c h q w = (Inl (AppErr (Forbidden ''invalid CSRF token'')), w)"
proof -
  have f: "refreshTokenFrom q = (raw, True)" using assms(1-3) by (auto simp: refreshTokenFrom_def)
  have v: "\<not> validCSRF q" using assms(4) by (auto simp: validCSRF_def Let_def split: option.splits if_splits)
  show ?thesis using f v assms(3) by (simp add: refresh_def logout_def throwE_def)
qed

text \<open>Where the refresh token goes: the reply to a browser client never carries it in the body,
  and the cookies of a session are the HTTP-only refresh cookie, restricted to the auth path
  and holding the same token, and the readable CSRF cookie, both with the configured Secure
  flag.\<close>

theorem session_reply_secrets:
  assumes "refresh c h q w = (Inr sb, w1) \<or> login c h q creds w = (Inr sb, w1) \<or> register c h q reg w = (Inr sb, w1)"
  shows "(browserClient q \<longrightarrow> sb_RefreshToken sb = None) \<and>
    (\<exists>secret. (sb_RefreshToken sb = None \<or> sb_RefreshToken sb = Some secret) \<and> cookiesSafe h secret (sb_Cookies sb))"
proof -
  have ck: "cookiesSafe h t cks"
    if "setSessionCookies c h t v = (Inr cks, v')" for t v cks v'
    using that unfolding setSessionCookies_def cookiesSafe_def
    by (auto elim!: bindE_splitE simp: returnE_def split: sum.splits)
  have resp: ?thesis if "respondSession c h q u v = (Inr sb, v')" for u v v'
    using that unfolding respondSession_def case_prod_beta
    by (elim bindE_splitE thenE_splitE) (drule ck, auto simp: returnE_def)
  have ref: ?thesis if "refresh c h q w = (Inr sb, w1)"
    using that unfolding refresh_def case_prod_beta
    by (elim bindE_splitE thenE_splitE) (drule ck, auto simp: returnE_def)
  from assms show ?thesis
  proof (elim disjE)
    assume "login c h q creds w = (Inr sb, w1)"
    thus ?thesis unfolding login_def by (elim bindE_splitE thenE_splitE) (rule resp)
  next
    assume "register c h q reg w = (Inr sb, w1)"
    thus ?thesis unfolding register_def by (elim bindE_splitE thenE_splitE) (rule resp)
  qed (rule ref)
qed

section \<open>Access tokens and passwords\<close>

definition jwt_compact :: "crypto \<Rightarrow> bool" where
  "jwt_compact c \<longleftrightarrow> (\<forall>cl t. cr_sign c cl = Some t \<longrightarrow> list_all visible t)"

lemma IssueAccessToken_result:
  "IssueAccessToken c s uid w = (Inr (t, e), w') \<Longrightarrow>
    cr_sign c \<lparr>jc_Subject = cr_uuidString c uid, jc_IssuedAt = clock w (cnext w), jc_ExpiresAt = clock w (cnext w) + ts_accessTTL s\<rparr> = Some t"
  unfolding IssueAccessToken_def by (auto elim!: bindE_splitE simp: Let_def timeNow_def returnE_def throwE_def split: option.splits)

lemma login_result:
  assumes "login c h q (Some req) w = (Inr sb, w')"
  shows "\<exists>u e w1 w2. u \<in> set (users (db w)) \<and> usr_Phone u = cq_Phone req \<and>
     (\<exists>hash. usr_PasswordHash u = Some hash \<and> cr_bcheck c hash (cq_Password req)) \<and>
     clock w1 = clock w \<and> cnext w1 = cnext w \<and> IssueAccessToken c (hd_Tokens h) (usr_ID u) w1 = (Inr (sb_AccessToken sb, e), w2)"
proof -
  obtain u w2 where f: "usersFindByPhone (cq_Phone req) w = (Inr u, w2)"
    and p: "\<not> (case usr_PasswordHash u of None \<Rightarrow> True | Some hash \<Rightarrow> \<not> CheckPassword c hash (cq_Password req))"
    and r: "respondSession c h q u w2 = (Inr sb, w')"
  proof -
    have "\<exists>u w2. usersFindByPhone (cq_Phone req) w = (Inr u, w2) \<and>
       \<not> (case usr_PasswordHash u of None \<Rightarrow> True | Some hash \<Rightarrow> \<not> CheckPassword c hash (cq_Password req)) \<and>
       respondSession c h q u w2 = (Inr sb, w')"
      using assms unfolding login_def bindJSON_def
      by (elim bindE_splitE thenE_splitE throwIf_splitE)
         (auto elim!: thenE_splitE throwIf_splitE simp: returnE_def mapErr_def split: prod.splits sum.splits)
    thus thesis using that by blast
  qed
  have u: "u \<in> set (users (db w))" "usr_Phone u = cq_Phone req" "clock w2 = clock w" "cnext w2 = cnext w"
    using f by (auto simp: usersFindByPhone_def query_def dest: firstRow_Inr split: if_splits)
  have "\<exists>e v'. IssueAccessToken c (hd_Tokens h) (usr_ID u) w2 = (Inr (sb_AccessToken sb, e), v')"
    using r unfolding respondSession_def case_prod_beta
    by (elim bindE_splitE thenE_splitE) (auto simp: returnE_def mapErr_def split: prod.splits sum.splits)
  thus ?thesis using u p by (auto simp: CheckPassword_def split: option.splits)
qed

text \<open>C31. An access token authenticates the account it was issued to: after a login whose password
  matched, and after any further requests of the session layer, the token in the Authorization
  header is accepted until it expires, as the active account of that id, phone and role. It
  relies on the JWT and UUID libraries: a signed token is accepted before its expiry and
  contains no white space, a printed id is parsed back.\<close>

theorem login_session_authenticates:
  assumes "crypto_ok c" "jwt_compact c" and run: "login c h q (Some req) w = (Inr sb, w1)"
    and steps: "(auth_step c)\<^sup>*\<^sup>* w1 w2" and "no_faults w2" "distinct (map usr_ID (users (db w2)))"
    and "clock w (cnext w) \<le> clock w2 (cnext w2)" "clock w2 (cnext w2) < clock w (cnext w) + ts_accessTTL (hd_Tokens h)"
  shows "\<exists>u\<in>set (users (db w)). usr_Phone u = cq_Phone req \<and> (\<exists>hash. usr_PasswordHash u = Some hash \<and> cr_bcheck c hash (cq_Password req)) \<and>
    (usr_IsActive u \<longrightarrow> (\<exists>u' w3. Authenticate c (''Bearer '' @ sb_AccessToken sb) w2 = (Inr u', w3) \<and>
       usr_ID u' = usr_ID u \<and> usr_Phone u' = usr_Phone u \<and> usr_Role u' = usr_Role u \<and> db w3 = db w2))"
proof -
  obtain u e v v' where u: "u \<in> set (users (db w))" "usr_Phone u = cq_Phone req" "\<exists>hash. usr_PasswordHash u = Some hash \<and> cr_bcheck c hash (cq_Password req)"
    and v: "clock v = clock w" "cnext v = cnext w" and i: "IssueAccessToken c (hd_Tokens h) (usr_ID u) v = (Inr (sb_AccessToken sb, e), v')"
    using login_result [OF run] by blast
  note sign = IssueAccessToken_result [OF i, unfolded v]
  have jwt: "cr_jwt c (sb_AccessToken sb) (clock w2 (cnext w2)) = Some (cr_uuidString c (usr_ID u))"
    using assms(1,7,8) sign unfolding crypto_ok_def by fastforce
  have trim: "trimSpace (sb_AccessToken sb) = sb_AccessToken sb"
    using assms(2) sign by (auto simp: jwt_compact_def intro: trimSpace_visible)
  have rel: "auth_rel (db w) (db w2)"
    using transpD [OF auth_rel_trans obeys_run [OF obeys_login auth_rel_refl run] auth.steps_rel [OF steps]] .
  then obtain u' where u': "u' \<in> set (users (db w2))" "userKept u u'"
    using u(1) unfolding auth_rel_def by (blast dest: all_keptD)
  have f: "firstRow (\<lambda>x. usr_ID x = usr_ID u) (users (db w2)) = Inr u'"
    using firstRow_key [OF assms(6) u'(1)] u'(2) by (simp add: userKept_def)
  have p: "cr_uuidParse c (cr_uuidString c (usr_ID u)) = Some (usr_ID u)" using assms(1) by (simp add: crypto_ok_def)
  have "Authenticate c (''Bearer '' @ sb_AccessToken sb) w2 = (if usr_IsActive u' then Inr u' else Inl (AppErr (Unauthorized ''invalid account'')),
      tick (w2\<lparr>cnext := Suc (cnext w2)\<rparr>))"
    using jwt trim f p assms(5)
    by (simp add: Authenticate_def ParseAccessToken_def usersFindByID_def hasPrefix_def mapErr_def bindE_def timeNow_def query_def
        returnE_def throwE_def thenE_def throwIf_def)
  thus ?thesis using u u'(2) by (intro bexI [of _ u]) (auto simp: userKept_def)
qed

lemma find_updateWhere_keep:
  "(\<And>r. P (f r) = P r) \<Longrightarrow> find P (updateWhere Q f rows) = map_option (\<lambda>r. if Q r then f r else r) (find P rows)"
  by (induction rows) (auto simp: updateWhere_def)

lemma find_append_new: "(\<forall>x\<in>set xs. \<not> P x) \<Longrightarrow> find P (xs @ ys) = find P ys"
  by (induction xs) auto

text \<open>After \<open>registerUser\<close> the account of the number carries the new hash.\<close>

definition accountHash :: "db \<Rightarrow> string \<Rightarrow> string \<Rightarrow> uuid \<Rightarrow> bool" where
  "accountHash d phone hash uid \<longleftrightarrow> (\<exists>u. firstRow (\<lambda>v. usr_Phone v = phone) (users d) = Inr u \<and> usr_PasswordHash u = Some hash \<and> usr_ID u = uid)"

lemma registerUser_account:
  assumes "registerUser c req role hash w = (Inr u, w')"
  shows "accountHash (db w') (cq_Phone req) hash (usr_ID u)"
proof -
  obtain r w1 where f: "tryE (usersFindByPhone (cq_Phone req)) w = (Inr r, w1)"
    and k: "(case r of
       Inr u \<Rightarrow>
         let u' = u\<lparr>usr_PasswordHash := Some hash, usr_Name := (if cq_Name req \<noteq> '''' then cq_Name req else usr_Name u)\<rparr>
         in thenE (mapErr (\<lambda>_. AppErr (Internal ''saving the password failed'')) (usersUpdatePassword u')) (returnE u')
     | Inl e \<Rightarrow>
         if e = RecordNotFound then bindE newUUID (\<lambda>uid.
           mapErr (\<lambda>_. AppErr (Internal ''registration failed''))
             (usersCreate (newUser uid \<lparr>cq_Phone = cq_Phone req, cq_Password = cq_Password req, cq_Name = cq_Name req\<rparr> role hash)))
         else throwE (AppErr (Internal ''loading the account failed''))) w1 = (Inr u, w')"
    using assms unfolding registerUser_def by (rule bindE_splitE)
  have d: "db w1 = db w" using f by (auto simp: tryE_def usersFindByPhone_def query_def split: prod.splits if_splits)
  show ?thesis
  proof (cases r)
    case (Inr v)
    hence v: "find (\<lambda>x. usr_Phone x = cq_Phone req) (users (db w)) = Some v"
      using f by (auto simp: tryE_def usersFindByPhone_def query_def firstRow_def split: if_splits option.splits)
    from k [unfolded Inr Let_def sum.case] show ?thesis using v d
      by (elim thenE_splitE) (auto simp: accountHash_def firstRow_def find_updateWhere_keep usersUpdatePassword_def mapErr_def bindE_def timeNow_def exec_def returnE_def
          split: if_splits)
  next
    case (Inl e)
    hence n: "e = RecordNotFound" using k by (auto simp: throwE_def split: if_splits)
    from k [unfolded Inl sum.case n if_True refl [THEN eqTrueI]] show ?thesis using d
      by (elim bindE_splitE)
        (auto simp: accountHash_def firstRow_def newUUID_def usersCreate_def Let_def mapErr_def bindE_def thenE_def timeNow_def exec_def returnE_def insertUser_def newUser_def
          find_append_new list_ex_iff split: if_splits prod.splits sum.splits option.splits)
  qed
qed

lemma respond_users: "preserves (\<lambda>d. users d = us) (respondSession c h q u)"
  unfolding respondSession_def IssueRefreshToken_def case_prod_beta storeCreateToken_def auditAppend_def
  by (intro preserves_bindE preserves_thenE preserves_mapErr preserves_ignoreE preserves_env preserves_reads [OF reads_randomHex]
      preserves_reads [OF reads_IssueAccessToken] preserves_reads [OF reads_setSessionCookies] preserves_exec)
     (auto split: if_splits)

text \<open>C32. Register and log in: after a successful registration the account of the phone, new or
  invited before, accepts a login with the registered password, which opens a session for the
  account the registration reported. It relies on a password matching its own bcrypt hash.\<close>

theorem register_then_login:
  assumes ok: "crypto_ok c" and run: "register c h q (Some req) w = (Inr sb, w1)" and "no_faults w1"
  shows "\<exists>u uid name role. sb_User sb = Some (uid, name, role) \<and> usr_ID u = uid \<and> u \<in> set (users (db w1)) \<and> usr_Phone u = cq_Phone req \<and>
     login c h' q' (Some \<lparr>cq_Phone = cq_Phone req, cq_Password = cq_Password req, cq_Name = n\<rparr>) w1 = respondSession c h' q' u (tick w1)"
proof -
  obtain hash role u v v' w2 where b: "cq_Phone req \<noteq> ''''" "cq_Password req \<noteq> ''''" "iranianMobile (cq_Phone req)"
    and hash: "HashPassword c (cq_Password req) = Inr hash" and r: "registerUser c req role hash v = (Inr u, w2)"
    and resp: "respondSession c h q u w2 = (Inr sb, w1)"
  proof -
    have "\<exists>hash role u v w2. cq_Phone req \<noteq> '''' \<and> cq_Password req \<noteq> '''' \<and> iranianMobile (cq_Phone req) \<and>
       HashPassword c (cq_Password req) = Inr hash \<and> registerUser c req role hash v = (Inr u, w2) \<and> respondSession c h q u w2 = (Inr sb, w1)"
      using run unfolding register_def bindJSON_def
      by (elim bindE_splitE thenE_splitE throwIf_splitE)
         (auto elim!: thenE_splitE throwIf_splitE simp: returnE_def liftE_def mapErr_def split: prod.splits sum.splits; blast)
    thus thesis using that by blast
  qed
  have "users (db w1) = users (db w2)" by (rule preserves_run [OF respond_users refl resp])
  then obtain a where a: "firstRow (\<lambda>v. usr_Phone v = cq_Phone req) (users (db w1)) = Inr a" "usr_PasswordHash a = Some hash" "usr_ID a = usr_ID u"
    using registerUser_account [OF r] by (auto simp: accountHash_def)
  have "cr_bcheck c hash (cq_Password req)" using hash ok by (auto simp: HashPassword_def crypto_ok_def split: option.splits)
  hence "login c h' q' (Some \<lparr>cq_Phone = cq_Phone req, cq_Password = cq_Password req, cq_Name = n\<rparr>) w1 = respondSession c h' q' a (tick w1)"
    using a b assms(3)
    by (simp add: login_def bindJSON_def credentialsBound_def usersFindByPhone_def query_def CheckPassword_def mapErr_def bindE_def)
  moreover have "\<exists>name role. sb_User sb = Some (usr_ID u, name, role)"
    using resp unfolding respondSession_def case_prod_beta by (elim bindE_splitE thenE_splitE) (auto simp: returnE_def)
  ultimately show ?thesis using a firstRow_Inr [OF a(1)] by blast
qed

definition inviteWorld :: "db world" where
  "inviteWorld = exampleWorld (sampleDb\<lparr>invite_codes := [\<lparr>ic_ID = 81, ic_Phone = ''09123456789'', ic_CodeHash = ''#ABC'', ic_Role = RoleManager,
     ic_CreatedBy = None, ic_ExpiresAt = 90000, ic_ConsumedAt = None, ic_CreatedAt = 0\<rparr>]\<rparr>)"

definition redeemedWorld :: "db world" where
  "redeemedWorld = snd (Redeem sampleCrypto ''09123456789'' ''ABC'' inviteWorld)"

definition reinvitedWorld :: "db world" where
  "reinvitedWorld = snd (createInvite sampleCrypto sampleManager (Some \<lparr>iq_Phone = ''09123456789'', iq_Role = ''''\<rparr>) redeemedWorld)"

lemma redeemed_sample:
  "invite_codes (db redeemedWorld) = [\<lparr>ic_ID = 81, ic_Phone = ''09123456789'', ic_CodeHash = ''#ABC'', ic_Role = RoleManager,
     ic_CreatedBy = None, ic_ExpiresAt = 90000, ic_ConsumedAt = Some 1000, ic_CreatedAt = 0\<rparr>]"
  "users (db redeemedWorld) = users sampleDb" "no_faults redeemedWorld" "uuids redeemedWorld = (\<lambda>n. 1000 + n)" "unext redeemedWorld = 0" "clock redeemedWorld = (\<lambda>_. 1000)"
  by (simp_all add: redeemedWorld_def Redeem_def inviteWorld_def bindE_def thenE_def mapErr_def timeNow_def storeLatestInvite_def query_def latestInvite_def
      storeConsumeInvite_def exec_def returnE_def sampleCrypto_def iranianMobile_def hasPrefix_def isDigit_def hashCode_def updateWhere_def exampleWorld_def no_faults_def)

lemma IssueInvite_sample:
  "invite_codes (db redeemedWorld) = [i] \<Longrightarrow> ic_ID i = 81 \<Longrightarrow> users (db redeemedWorld) = users sampleDb \<Longrightarrow> no_faults redeemedWorld \<Longrightarrow> uuids redeemedWorld = (\<lambda>n. 1000 + n) \<Longrightarrow>
   unext redeemedWorld = 0 \<Longrightarrow> clock redeemedWorld = (\<lambda>_. 1000) \<Longrightarrow>
   invite_codes (db reinvitedWorld) = [i, \<lparr>ic_ID = 1008, ic_Phone = ''09123456789'', ic_CodeHash = ''#AAAAAAAA'', ic_Role = RoleResident,
     ic_CreatedBy = Some 21, ic_ExpiresAt = 605800, ic_ConsumedAt = None, ic_CreatedAt = 1000\<rparr>] \<and> clock reinvitedWorld = (\<lambda>_. 1000) \<and> no_faults reinvitedWorld"
  by (simp add: reinvitedWorld_def createInvite_def bindJSON_def IssueInvite_def bindE_def thenE_def mapErr_def timeNow_def newUUID_def
    storeCreateInvite_def exec_def randomInviteCode_def returnE_def sampleCrypto_def inviteCodeLength_def upt_rec
    iranianMobile_def hasPrefix_def isDigit_def sampleDb_def auditAppend_def ignoreE_def sampleManager_def mkUser_def inviteValidity_def inviteCodeAlphabet_def hashCode_def Let_def)

theorem invite_single_use_witness:
  "\<exists>i j. latestInvite (invite_codes (db inviteWorld)) ''09123456789'' = Some i \<and> latestInvite (invite_codes (db reinvitedWorld)) ''09123456789'' = Some j \<and>
     ic_ID i \<noteq> ic_ID j"
proof -
  have "\<not> isl (fst (Redeem sampleCrypto ''09123456789'' ''ABC'' inviteWorld))" by code_simp
  then obtain r1 where first: "Redeem sampleCrypto ''09123456789'' ''ABC'' inviteWorld = (Inr r1, redeemedWorld)"
    unfolding redeemedWorld_def by (rule run_Inr)
  have "\<not> isl (fst (Redeem sampleCrypto ''09123456789'' ''AAAAAAAA'' reinvitedWorld))"
    using IssueInvite_sample [OF redeemed_sample(1) _ redeemed_sample(2-6)]
    by (simp add: Redeem_def bindE_def thenE_def mapErr_def timeNow_def storeLatestInvite_def query_def latestInvite_def
      storeConsumeInvite_def exec_def returnE_def sampleCrypto_def iranianMobile_def hasPrefix_def isDigit_def hashCode_def)
  then obtain r2 where again: "Redeem sampleCrypto ''09123456789'' ''AAAAAAAA'' reinvitedWorld = (Inr r2, snd (Redeem sampleCrypto ''09123456789'' ''AAAAAAAA'' reinvitedWorld))"
    by (rule run_Inr)
  have steps: "(auth_step sampleCrypto)\<^sup>*\<^sup>* redeemedWorld reinvitedWorld"
    unfolding reinvitedWorld_def by (rule r_into_rtranclp, rule auth_step.invite_step) (rule prod.collapse [symmetric])
  have "invites_wf (db inviteWorld)" by (simp add: invites_wf_def inviteWorld_def)
  from invite_single_use [OF this first steps again] show ?thesis by blast
qed

theorem superadmin_unique_witness:
  "isl (fst (authSetup sampleCrypto sampleHandler plainReq (Some \<lparr>cq_Phone = ''09121111111'', cq_Password = ''abcd1234'', cq_Name = ''''\<rparr>) reinvitedWorld)) \<and>
   super_ok (db reinvitedWorld)"
proof -
  have ok: "super_ok (db redeemedWorld)" "users (db redeemedWorld) \<noteq> []" by code_simp+
  have steps: "(auth_step sampleCrypto)\<^sup>*\<^sup>* redeemedWorld reinvitedWorld"
    unfolding reinvitedWorld_def by (rule r_into_rtranclp, rule auth_step.invite_step) (rule prod.collapse [symmetric])
  show ?thesis using superadmin_unique [OF ok(1) steps] ok(2) by blast
qed

definition cookieReq :: httpReq where
  "cookieReq = \<lparr>hq_Cookie = (\<lambda>n. if n = RefreshCookieName then Some ''T'' else if n = CSRFCookieName then Some ''X'' else None),
     hq_Header = (\<lambda>_. ''''), hq_RefreshBody = None\<rparr>"

theorem csrf_required_witness:
  "logout sampleCrypto sampleHandler cookieReq tokenWorld = (Inl (AppErr (Forbidden ''invalid CSRF token'')), tokenWorld)"
  using csrf_required [of cookieReq "''T''" sampleCrypto sampleHandler tokenWorld] by (simp add: cookieReq_def)

definition residentLogin :: "sessionBody result \<times> db world" where
  "residentLogin = login sampleCrypto sampleHandler plainReq (Some \<lparr>cq_Phone = ''09120000022'', cq_Password = ''hash'', cq_Name = ''''\<rparr>) tokenWorld"

lemma residentLogin_ok: "\<not> isl (fst residentLogin)" 
  by code_simp

theorem session_reply_secrets_witness:
  "\<exists>sb secret. fst residentLogin = Inr sb \<and> sb_RefreshToken sb \<in> {None, Some secret} \<and> cookiesSafe sampleHandler secret (sb_Cookies sb)"
proof -
  obtain sb where e: "residentLogin = (Inr sb, snd residentLogin)" using residentLogin_ok by (rule run_Inr)
  thus ?thesis using session_reply_secrets [OF disjI2, OF disjI1, OF e [unfolded residentLogin_def]]
    by (metis e fst_conv insertCI)
qed

theorem login_session_authenticates_witness:
  "\<exists>sb u w3. fst residentLogin = Inr sb \<and> Authenticate sampleCrypto (''Bearer '' @ sb_AccessToken sb) (snd residentLogin) = (Inr u, w3) \<and> usr_Phone u = ''09120000022''"
proof -
  obtain sb where e: "residentLogin = (Inr sb, snd residentLogin)" using residentLogin_ok by (rule run_Inr)
  have nf: "no_faults (snd residentLogin)" unfolding no_faults_def by (rule allI) code_simp
  have cl: "clock (snd residentLogin) n = 1000" for n by code_simp
  have di: "distinct (map usr_ID (users (db (snd residentLogin))))" by code_simp
  have ac: "\<forall>u\<in>set (users (db tokenWorld)). usr_IsActive u" by code_simp
  have jc: "jwt_compact sampleCrypto" by (auto simp: jwt_compact_def sampleCrypto_def split: if_splits)
  have t: "clock tokenWorld n = 1000" for n by (simp add: tokenWorld_def)
  have ttl: "ts_accessTTL (hd_Tokens sampleHandler) = 900" by code_simp
  let ?q = "\<lparr>cq_Phone = ''09120000022'', cq_Password = ''hash'', cq_Name = ''''\<rparr> :: credentialsReq"
  have run: "login sampleCrypto sampleHandler plainReq (Some ?q) tokenWorld = (Inr sb, snd residentLogin)"
    using e unfolding residentLogin_def .
  have "\<exists>u\<in>set (users (db tokenWorld)). usr_Phone u = cq_Phone ?q \<and> (\<exists>hash. usr_PasswordHash u = Some hash \<and> cr_bcheck sampleCrypto hash (cq_Password ?q)) \<and>
    (usr_IsActive u \<longrightarrow> (\<exists>u' w3. Authenticate sampleCrypto (''Bearer '' @ sb_AccessToken sb) (snd residentLogin) = (Inr u', w3) \<and>
       usr_ID u' = usr_ID u \<and> usr_Phone u' = usr_Phone u \<and> usr_Role u' = usr_Role u \<and> db w3 = db (snd residentLogin)))"
    by (rule login_session_authenticates [OF sampleCrypto_ok jc run rtranclp.rtrancl_refl nf di]) (simp_all add: cl t ttl)
  thus ?thesis using ac e by (metis fst_conv credentialsReq.select_convs(1))
qed

definition registered :: "sessionBody result \<times> db world" where
  "registered = register sampleCrypto sampleHandler plainReq
     (Some \<lparr>cq_Phone = ''09123456789'', cq_Password = ''abcd1234'', cq_Name = ''new'', rq_Code = ''ABC''\<rparr>) inviteWorld"

theorem register_then_login_witness:
  "\<exists>u. u \<in> set (users (db (snd registered))) \<and> usr_Phone u = ''09123456789'' \<and>
     login sampleCrypto sampleHandler plainReq (Some \<lparr>cq_Phone = ''09123456789'', cq_Password = ''abcd1234'', cq_Name = ''''\<rparr>) (snd registered) =
     respondSession sampleCrypto sampleHandler plainReq u (tick (snd registered))"
proof -
  have "\<not> isl (fst registered)" by code_simp
  then obtain sb where e: "registered = (Inr sb, snd registered)" by (rule run_Inr)
  have nf: "no_faults (snd registered)" unfolding no_faults_def by (rule allI) code_simp
  show ?thesis using register_then_login [OF sampleCrypto_ok e [unfolded registered_def] nf [unfolded registered_def], of sampleHandler plainReq "''''"]
    unfolding registered_def by auto
qed

lemma singleton_conv_hd: "(length xs = 1 \<and> hd xs = x) = (xs = [x])"
  by (cases xs) auto

text \<open>CORS: credentials are allowed exactly for a request with an origin on the configured
  allowlist and never with the wildcard, and an origin is echoed only together with them.\<close>

theorem CORS_credentials_safe:
  "(co_AllowCredentials (CORS allowed httpMethod origin) \<longleftrightarrow> allowed \<noteq> [''*''] \<and> origin \<noteq> '''' \<and>
      (\<exists>o'\<in>set allowed. o' \<notin> {'''', ''*''} \<and> normalizeOrigin o' = normalizeOrigin origin)) \<and>
   co_AllowOrigin (CORS allowed httpMethod origin) =
     (if allowed = [''*''] then Some ''*'' else if co_AllowCredentials (CORS allowed httpMethod origin) then Some origin else None)"
proof -
  have "normalizeOrigin origin \<in> set (map normalizeOrigin (filter (\<lambda>o'. o' \<noteq> '''' \<and> o' \<noteq> ''*'') allowed)) \<longleftrightarrow>
      (\<exists>o'\<in>set allowed. o' \<notin> {'''', ''*''} \<and> normalizeOrigin o' = normalizeOrigin origin)"
    unfolding set_map set_filter image_iff Bex_def mem_Collect_eq insert_iff empty_iff by metis
  thus ?thesis by (simp add: CORS_def Let_def singleton_conv_hd del: set_map set_filter One_nat_def)
qed
end
