(* ===== verification/Api.thy ===== *)
theory Api
  imports Endpoint_Atomic Auth_Facts
begin

text \<open>Properties of the whole API, over the route table of \<open>App\<close> with the services wired as in \<open>cmd/server/main.go\<close>:
  what callers without the manager role can change, that a request answered with an error leaves the tables as they were,
  what the audit middleware stores, who sees an invoice, and the history of a unit as the trail of its changes.\<close>

section \<open>Examples of requests\<close>

definition emptyRequest :: "User option \<Rightarrow> string \<Rightarrow> request" where
  "emptyRequest u pid = \<lparr>rq_User = u, rq_Param = (\<lambda>_. pid), rq_Query = (\<lambda>_. None), rq_Period = None, rq_CostItem = None, rq_Cancel = None,
     rq_Adjustment = None, rq_Building = None, rq_Unit = None, rq_Grant = None, rq_Person = None, rq_Occupancy = None, rq_EndOccupancy = None,
     rq_Count = None, rq_Manual = None, rq_Start = (None, ''''), rq_Submit = None, rq_Update = None, rq_Expense = None, rq_Announcement = None\<rparr>"

definition samplePayments :: PaymentService where
  "samplePayments = newPayments (\<lambda>_ _. Inl (Sentinel ''offline'')) showInt defaultConfig"

definition sampleServices :: services where
  "sampleServices = \<lparr>sv_Parse = parseDigits, sv_Str = showNat, sv_DateSet = (\<lambda>_. True), sv_Like = (\<lambda>a b. a = b), sv_Range = id,
     sv_Balances = BalanceSnapshot, sv_Recomputer = Some RecomputeInvoice, sv_Payments = samplePayments\<rparr>"

section \<open>Callers without the manager role\<close>

text \<open>C6. What callers without the manager role can do: for every route that the packages
  notification, building, billing, payment, expense, maintenance, announcement and dashboard
  mount behind the authentication (appRoutes), except the seven of residentWrites, through
  which residents write, a request whose token is refused or belongs to an account without the
  manager role leaves the tables unchanged, and is answered with an error unless it is a read.
  The routes of the session (/auth) and of files (/files), through which every account changes
  its password or uploads a file, are not among them.\<close>

theorem api_outsiders:
  assumes "r \<in> set (appRoutes sv)" and "(ro_Method r, ro_Path r) \<notin> set residentWrites"
    and "\<And>u w1. Authenticate c header w = (Inr u, w1) \<Longrightarrow> usr_Role u \<noteq> RoleManager"
  shows "db (snd (serveAuthed c header r q w)) = db w \<and> (ro_Method r = ''GET'' \<or> isl (fst (serveAuthed c header r q w)))"
proof -
  have a: "reads (Authenticate c header)"
    unfolding Authenticate_def ParseAccessToken_def usersFindByID_def by (intro atom)
  show ?thesis
  proof (cases "Authenticate c header w")
    case (Pair x w1)
    have d: "db w1 = db w" using a Pair by (rule reads_run)
    show ?thesis
    proof (cases x)
      case (Inl e)
      thus ?thesis using Pair d by (simp add: serveAuthed_def bindE_def)
    next
      case (Inr u)
      have "\<not> isManager (q\<lparr>rq_User := Some u\<rparr>)" using assms(3) Pair Inr by (simp add: isManager_def)
      from app_api.outsider [OF assms(1,2) this, of w1] show ?thesis using Pair Inr d by (simp add: serveAuthed_def bindE_def)
    qed
  qed
qed

lemma residentToken: "fst (Authenticate sampleCrypto ''Bearer 22'' sampleWorld) = Inr sampleResident"
  by code_simp

theorem api_outsiders_witness:
  "isl (fst (serveAuthed sampleCrypto ''Bearer 22'' (audited ''POST'' ''/invoices/:id/cancel'' ''invoice.cancel'' ''invoice'' (cancelInvoice sampleServices))
     ((emptyRequest None ''61'')\<lparr>rq_Cancel := Some ''mistake''\<rparr>) sampleWorld))"
proof -
  have "audited ''POST'' ''/invoices/:id/cancel'' ''invoice.cancel'' ''invoice'' (cancelInvoice sampleServices) \<in> set (appRoutes sampleServices)"
    by (simp add: appRoutes_def billingRoutes_def)
  moreover have "usr_Role u \<noteq> RoleManager" if "Authenticate sampleCrypto ''Bearer 22'' sampleWorld = (Inr u, w1)" for u w1
    using that residentToken by (auto simp: sampleResident_def mkUser_def)
  ultimately show ?thesis using api_outsiders [of "audited ''POST'' ''/invoices/:id/cancel'' ''invoice.cancel'' ''invoice'' (cancelInvoice sampleServices)" sampleServices sampleCrypto "''Bearer 22''" sampleWorld]
    by (simp add: audited_def residentWrites_def)
qed

section \<open>Errors\<close>

text \<open>C5. Errors change nothing: for every route of the packages notification, building, billing,
  payment (with its public callback), expense, maintenance, announcement and dashboard, except
  the four of partialWrites, which write in several statements without a transaction, a
  request that is answered with an error, whatever statement of it failed, leaves every table
  as it was. The routes of the session (/auth), where a reused token is answered with an error
  and revokes its family, and of files (/files) are not among them.\<close>

theorem api_errors_change_nothing:
  assumes "r \<in> set (appRoutes (wire post fmtTime lib cfg) @ publicRoutes (wire post fmtTime lib cfg))" and "(ro_Method r, ro_Path r) \<notin> set partialWrites"
    and "runRoute r q w = (Inl e, w')"
  shows "db w' = db w"
proof -
  have "payment_gateway (svc_gw (sv_Payments (wire post fmtTime lib cfg)))" by (simp add: wire_def newPayments_contract)
  from whole_app [OF this] assms(1,2) have "atomic (ro_Handler r)" by (auto simp: list_all_iff wholeOrNothing_def)
  from runRoute_atomic [OF this] assms(3) show ?thesis by (rule atomicE_D)
qed

definition badAdjustment :: request where
  "badAdjustment = (emptyRequest (Some sampleManager) ''61'')\<lparr>rq_Adjustment := Some \<lparr>ai_Kind = ''debit'', ai_Amount = 5, ai_Reason = ''key''\<rparr>\<rparr>"

definition adjustRoute :: route where
  "adjustRoute = audited ''POST'' ''/invoices/:id/adjustments'' ''invoice.adjust'' ''invoice'' (addAdjustment (wire (\<lambda>_ _. Inl (Sentinel ''offline'')) showInt sampleServices defaultConfig))"

theorem api_errors_change_nothing_witness:
  "\<exists>e w'. runRoute adjustRoute badAdjustment (sampleWorld\<lparr>faults := (\<lambda>n. n = 7)\<rparr>) = (Inl e, w') \<and> 7 < fnext w' \<and> db w' = sampleDb"
proof -
  let ?run = "runRoute adjustRoute badAdjustment (sampleWorld\<lparr>faults := (\<lambda>n. n = 7)\<rparr>)"
  have "isl (fst ?run)" and n: "7 < fnext (snd ?run)" by code_simp+
  then obtain e w' where r: "?run = (Inl e, w')" by (cases ?run; cases "fst ?run") auto
  have "adjustRoute \<in> set (appRoutes (wire (\<lambda>_ _. Inl (Sentinel ''offline'')) showInt sampleServices defaultConfig) @
      publicRoutes (wire (\<lambda>_ _. Inl (Sentinel ''offline'')) showInt sampleServices defaultConfig))"
    by (simp add: adjustRoute_def appRoutes_def billingRoutes_def)
  from api_errors_change_nothing [OF this _ r] have "db w' = db (sampleWorld\<lparr>faults := (\<lambda>n. n = 7)\<rparr>)"
    by (simp add: adjustRoute_def audited_def partialWrites_def)
  thus ?thesis using r n by (simp add: sampleWorld_def)
qed

section \<open>The audit trail of the endpoints\<close>

text \<open>Answers that are not errors have a status below 400.\<close>

definition answers :: "answer dbm \<Rightarrow> bool" where
  "answers f \<longleftrightarrow> (\<forall>w a w'. f w = (Inr a, w') \<longrightarrow> as_Status a < 400)"

lemma answers_bind: "(\<And>x. answers (g x)) \<Longrightarrow> answers (bindE f g)"
  unfolding answers_def by (blast elim: bindE_splitE)

lemma answers_then: "answers g \<Longrightarrow> answers (thenE f g)"
  unfolding thenE_def by (rule answers_bind)

lemma answers_leaf: "st < 400 \<Longrightarrow> answers (plain st b)" "st < 400 \<Longrightarrow> answers (withAudit st b oid s s')" "answers (throwE e)"
  by (auto simp: answers_def plain_def withAudit_def returnE_def throwE_def)

lemma answers_prod: "(\<And>x y. answers (f x y)) \<Longrightarrow> answers (case p of (x, y) \<Rightarrow> f x y)"
  by (cases p) simp

lemmas answers_intros = answers_bind answers_then answers_prod answers_leaf

lemma answers_audited:
  "answers (createPeriod sv q)" "answers (updatePeriod sv q)" "answers (addCostItem sv q)" "answers (calculate sv q)" "answers (updateCostItem sv q)"
  "answers (deleteCostItem sv q)" "answers (cancelInvoice sv q)" "answers (addAdjustment sv q)"
  "answers (createPerson sv q)" "answers (updatePerson sv q)" "answers (deletePerson sv q)" "answers (addOccupancy sv q)" "answers (endOccupancy sv q)"
  "answers (createBuilding sv q)" "answers (updateBuilding sv q)" "answers (deleteBuilding sv q)" "answers (createUnit sv q)" "answers (grantManager sv q)"
  "answers (revokeManager sv q)" "answers (updateUnit sv q)" "answers (deleteUnit sv q)" "answers (recordManual sv q)"
  "answers (createExpense sv q)" "answers (updateExpense sv q)" "answers (deleteExpense sv q)"
  unfolding createPeriod_def updatePeriod_def addCostItem_def calculate_def updateCostItem_def deleteCostItem_def cancelInvoice_def addAdjustment_def
    createPerson_def updatePerson_def deletePerson_def addOccupancy_def endOccupancy_def createBuilding_def updateBuilding_def deleteBuilding_def createUnit_def
    grantManager_def revokeManager_def updateUnit_def deleteUnit_def recordManual_def createExpense_def updateExpense_def deleteExpense_def
  by (intro answers_intros; simp)+

lemma audited_answers: "list_all (\<lambda>r. ro_Audit r = None \<or> (\<forall>q. answers (ro_Handler r q))) (appRoutes sv)"
  by (simp add: appRoutes_def billingRoutes_def buildingRoutes_def occupancyRoutes_def paymentRoutes_def expenseRoutes_def maintenanceRoutes_def announcementRoutes_def
      dashboardRoutes_def notificationRoutes_def group_def route_def audited_def answers_audited)

lemma auditMiddleware_result:
  assumes "auditMiddleware action ot u h w = (Inr a, w')"
  obtains w1 where "h w = (Inr a, w1)" and "as_Status a < 400 \<Longrightarrow>
     db w' = (if faults w1 (fnext w1) then db w1 else (db w1)\<lparr>audit_logs := audit_logs (db w1) @ [auditEntry action ot u (as_Audit a)]\<rparr>)"
  using assms unfolding auditMiddleware_def
  by (elim bindE_splitE thenE_splitE) (auto simp: whenE_def ignoreE_def auditAppend_def auditEntry_def exec_def returnE_def split: if_splits)

lemma audited_run:
  assumes "r \<in> set (appRoutes sv)" and "ro_Audit r = Some (action, ot)" and "runRoute r q w = (Inr a, w')"
  shows "\<exists>w1. ro_Handler r q w = (Inr a, w1) \<and> as_Status a < 400 \<and>
     db w' = (if faults w1 (fnext w1) then db w1 else (db w1)\<lparr>audit_logs := audit_logs (db w1) @ [auditEntry action ot (rq_User q) (as_Audit a)]\<rparr>)"
proof -
  have "auditMiddleware action ot (rq_User q) (ro_Handler r q) w = (Inr a, w')"
    using assms(2,3) unfolding runRoute_def
    by (auto elim!: thenE_splitE bindE_splitE simp: returnE_def RequireRole_def thenE_def throwIf_def throwE_def split: option.splits if_splits)
  then obtain w1 where h: "ro_Handler r q w = (Inr a, w1)" and d: "as_Status a < 400 \<Longrightarrow>
     db w' = (if faults w1 (fnext w1) then db w1 else (db w1)\<lparr>audit_logs := audit_logs (db w1) @ [auditEntry action ot (rq_User q) (as_Audit a)]\<rparr>)"
    by (rule auditMiddleware_result) blast
  have "answers (ro_Handler r q)" using audited_answers [of sv] assms(1,2) by (auto simp: list_all_iff)
  hence "as_Status a < 400" using h by (auto simp: answers_def)
  thus ?thesis using h d by blast
qed

text \<open>The requests that write without an entry of the middleware, and the action and object type of the others.\<close>

definition unauditedWrites :: "(string \<times> string) list" where
  "unauditedWrites = [(''POST'', ''/me/notifications/read-all''), (''POST'', ''/me/notifications/:id/read''), (''POST'', ''/units/:id/occupant-count''),
     (''POST'', ''/periods/:id/reopen''), (''POST'', ''/periods/:id/issue''), (''POST'', ''/periods/:id/close''), (''POST'', ''/invoices/:id/pay''),
     (''POST'', ''/me/maintenance-requests''), (''PATCH'', ''/maintenance-requests/:id''), (''POST'', ''/buildings/:id/announcements''),
     (''PUT'', ''/announcements/:id''), (''DELETE'', ''/announcements/:id''), (''POST'', ''/announcements/:id/read''),
     (''POST'', ''/me/announcements/:id/read'')]"

definition auditedWrites :: "((string \<times> string) \<times> string \<times> string) list" where
  "auditedWrites = [((''POST'', ''/buildings/:id/persons''), ''person.create'', ''person''), ((''PUT'', ''/persons/:id''), ''person.update'', ''person''),
     ((''DELETE'', ''/persons/:id''), ''person.delete'', ''person''), ((''POST'', ''/units/:id/occupancies''), ''resident.changed'', ''occupancy''),
     ((''PATCH'', ''/occupancies/:id''), ''resident.changed'', ''occupancy''), ((''POST'', ''/buildings''), ''building.create'', ''building''),
     ((''PUT'', ''/buildings/:id''), ''building.update'', ''building''), ((''DELETE'', ''/buildings/:id''), ''building.delete'', ''building''),
     ((''POST'', ''/buildings/:id/units''), ''unit.create'', ''unit''),
     ((''POST'', ''/buildings/:id/managers''), ''building.manager_granted'', ''building''),
     ((''DELETE'', ''/buildings/:id/managers/:userId''), ''building.manager_revoked'', ''building''),
     ((''PUT'', ''/units/:id''), ''unit.update'', ''unit''), ((''DELETE'', ''/units/:id''), ''unit.delete'', ''unit''),
     ((''POST'', ''/buildings/:id/periods''), ''period.create'', ''billing_period''),
     ((''PATCH'', ''/periods/:id''), ''period.update'', ''billing_period''),
     ((''POST'', ''/periods/:id/cost-items''), ''cost_item.create'', ''cost_item''),
     ((''POST'', ''/periods/:id/calculate''), ''period.calculate'', ''billing_period''),
     ((''PUT'', ''/cost-items/:id''), ''cost_item.update'', ''cost_item''), ((''DELETE'', ''/cost-items/:id''), ''cost_item.delete'', ''cost_item''),
     ((''POST'', ''/invoices/:id/cancel''), ''invoice.cancel'', ''invoice''),
     ((''POST'', ''/invoices/:id/adjustments''), ''invoice.adjust'', ''invoice''),
     ((''POST'', ''/invoices/:id/payments''), ''payment.record'', ''payment''),
     ((''POST'', ''/buildings/:id/expenses''), ''expense.record'', ''expense''), ((''PUT'', ''/expenses/:id''), ''expense.update'', ''expense''),
     ((''DELETE'', ''/expenses/:id''), ''expense.delete'', ''expense'')]"

lemma audited_writes:
  "list_all (\<lambda>r. ro_Method r = ''GET'' \<or> (ro_Method r, ro_Path r) \<in> set unauditedWrites \<or>
     ro_Audit r \<noteq> None \<and> ro_Audit r = map_of auditedWrites (ro_Method r, ro_Path r)) (appRoutes sv)"
  by (simp add: appRoutes_def billingRoutes_def buildingRoutes_def occupancyRoutes_def paymentRoutes_def expenseRoutes_def maintenanceRoutes_def announcementRoutes_def
      dashboardRoutes_def notificationRoutes_def group_def route_def audited_def unauditedWrites_def auditedWrites_def)

text \<open>C17. The audit trail of the endpoints: every route of the packages behind the authentication that
  is not a GET and not one of the fourteen of unauditedWrites is audited: a successful request
  to it returns what its handler returned, with a status below 400, and appends to the tables
  of the handler exactly one audit entry with the caller, the action and object type that
  auditedWrites lists for the method and path, and the object and snapshots the handler
  reported; when the statement of the audit fails the request succeeds without the entry.\<close>

theorem api_audit:
  assumes "r \<in> set (appRoutes sv)" and "ro_Method r \<noteq> ''GET''" and "(ro_Method r, ro_Path r) \<notin> set unauditedWrites"
    and "runRoute r q w = (Inr a, w')"
  shows "\<exists>action ot w1. map_of auditedWrites (ro_Method r, ro_Path r) = Some (action, ot) \<and> ro_Handler r q w = (Inr a, w1) \<and> as_Status a < 400 \<and>
     db w' = (if faults w1 (fnext w1) then db w1 else (db w1)\<lparr>audit_logs := audit_logs (db w1) @ [auditEntry action ot (rq_User q) (as_Audit a)]\<rparr>)"
proof -
  have w: "ro_Audit r \<noteq> None \<and> ro_Audit r = map_of auditedWrites (ro_Method r, ro_Path r)"
    using audited_writes [of sv] assms(1-3) unfolding list_all_iff by blast
  obtain action ot where a: "ro_Audit r = Some (action, ot)" using conjunct1 [OF w] by auto
  hence "map_of auditedWrites (ro_Method r, ro_Path r) = Some (action, ot)" using w by simp
  thus ?thesis using audited_run [OF assms(1) a assms(4)] by blast
qed

theorem api_audit_witness:
  "\<exists>a w'. runRoute adjustRoute badAdjustment sampleWorld = (Inr a, w') \<and> audit_logs (db w') \<noteq> [] \<and>
     last (audit_logs (db w')) = auditEntry ''invoice.adjust'' ''invoice'' (Some sampleManager) (as_Audit a)"
proof -
  let ?run = "runRoute adjustRoute badAdjustment sampleWorld"
  have "\<not> isl (fst ?run)" by code_simp
  then obtain a w' where r: "?run = (Inr a, w')" by (cases ?run; cases "fst ?run") auto
  have "adjustRoute \<in> set (appRoutes (wire (\<lambda>_ _. Inl (Sentinel ''offline'')) showInt sampleServices defaultConfig))"
    by (simp add: adjustRoute_def appRoutes_def billingRoutes_def)
  from api_audit [OF this _ _ r] obtain w1 where h: "ro_Handler adjustRoute badAdjustment sampleWorld = (Inr a, w1)"
    and d: "db w' = (if faults w1 (fnext w1) then db w1 else (db w1)\<lparr>audit_logs := audit_logs (db w1) @ [auditEntry ''invoice.adjust'' ''invoice'' (Some sampleManager) (as_Audit a)]\<rparr>)"
    by (auto simp: adjustRoute_def audited_def badAdjustment_def emptyRequest_def unauditedWrites_def auditedWrites_def)
  have "\<not> faults (snd (ro_Handler adjustRoute badAdjustment sampleWorld)) (fnext (snd (ro_Handler adjustRoute badAdjustment sampleWorld)))" by code_simp
  thus ?thesis using r d h by auto
qed

section \<open>Who sees an invoice\<close>

lemma repoGetInvoice_Inr: "repoGetInvoice iid w = (Inr iv, w') \<Longrightarrow> find (\<lambda>i. inv_ID i = iid) (invoices (db w)) = Some (id_Invoice iv)"
  unfolding repoGetInvoice_def by (auto elim!: bindE_splitE simp: query_def throwE_def returnE_def split: if_splits option.splits)

lemma mapErr_Inr: "mapErr h f w = (Inr x, w') \<longleftrightarrow> f w = (Inr x, w')"
  by (auto simp: mapErr_def split: prod.splits sum.splits)

text \<open>C30. Who sees an invoice: the endpoint answers with the stored invoice of the id in the path, and
  only to a manager granted its building or to another account whose phone is that of a
  person, not deleted, in an open occupancy of the invoiced unit; reading changes nothing.\<close>

theorem getInvoice_scope:
  assumes "getInvoice sv q w = (Inr a, w')"
  shows "db w' = db w \<and> (\<exists>u iid iv. rq_User q = Some u \<and> sv_Parse sv (rq_Param q ''id'') = Some iid \<and> as_Body a = InvoiceDetailBody iv \<and>
     find (\<lambda>i. inv_ID i = iid) (invoices (db w)) = Some (id_Invoice iv) \<and>
     (if usr_Role u = RoleManager then granted (db w) (usr_ID u) (inv_BuildingID (id_Invoice iv))
      else \<exists>x\<in>set (occupancies (db w)). oc_UnitID x = inv_UnitID (id_Invoice iv) \<and> oc_EndDate x = None \<and>
             (\<exists>p\<in>set (persons (db w)). pe_ID p = oc_PersonID x \<and> pe_Phone p = Some (usr_Phone u) \<and> pe_DeletedAt p = None)))"
proof -
  obtain u iid iv w1 w2 w3 where u: "rq_User q = Some u" and i: "sv_Parse sv (rq_Param q ''id'') = Some iid"
    and iv: "repoGetInvoice iid w = (Inr iv, w1)"
    and g: "(if usr_Role u = RoleManager then
              bindE (mapErr writeServiceErr (repoIsManagerOf (usr_ID u) (inv_BuildingID (id_Invoice iv)))) (\<lambda>ok.
              throwIf (\<not> ok) (AppErr (Forbidden msgNoBuildingAccess)))
            else
              bindE (mapErr writeServiceErr (ResidentUnitIDs (usr_Phone u))) (\<lambda>us.
              throwIf (inv_UnitID (id_Invoice iv) \<notin> set us) (AppErr (Forbidden ''no access to this invoice'')))) w1 = (Inr (), w2)"
    and p: "plain 200 (InvoiceDetailBody iv) w2 = (Inr a, w3)"
    using assms unfolding getInvoice_def
    by (elim bindE_splitE thenE_splitE) (auto simp: currentUser_def parseID_def mapErr_Inr returnE_def throwE_def split: option.splits)
  have d: "db w1 = db w" using iv by (intro reads_run [OF reads_repoGetInvoice])
  have "if usr_Role u = RoleManager then granted (db w) (usr_ID u) (inv_BuildingID (id_Invoice iv))
      else \<exists>x\<in>set (occupancies (db w)). oc_UnitID x = inv_UnitID (id_Invoice iv) \<and> oc_EndDate x = None \<and>
             (\<exists>p\<in>set (persons (db w)). pe_ID p = oc_PersonID x \<and> pe_Phone p = Some (usr_Phone u) \<and> pe_DeletedAt p = None)"
    using g d by (auto elim!: bindE_splitE throwIf_splitE simp: mapErr_Inr repoIsManagerOf_def ResidentUnitIDs_def query_def granted_def occupiedBy_def list_ex_iff split: if_splits)
      (metis option.distinct(1))
  moreover have "as_Body a = InvoiceDetailBody iv" using p by (auto simp: plain_def returnE_def)
  ultimately show ?thesis using u i repoGetInvoice_Inr [OF iv] reads_run [OF reads_billing_gets(6) assms] by blast
qed

theorem getInvoice_scope_witness:
  "\<exists>a w' iv. getInvoice sampleServices (emptyRequest (Some sampleResident) ''61'') sampleWorld = (Inr a, w') \<and> as_Body a = InvoiceDetailBody iv \<and>
     find (\<lambda>i. inv_ID i = 61) (invoices sampleDb) = Some (id_Invoice iv) \<and> db w' = sampleDb"
proof -
  let ?run = "getInvoice sampleServices (emptyRequest (Some sampleResident) ''61'') sampleWorld"
  have "\<not> isl (fst ?run)" by code_simp
  then obtain a w' where r: "?run = (Inr a, w')" by (cases ?run; cases "fst ?run") auto
  have "parseDigits ''61'' = Some 61" by code_simp
  thus ?thesis using getInvoice_scope [OF r] r by (auto simp: sampleServices_def emptyRequest_def sampleWorld_def)
qed

section \<open>The history of a unit\<close>















end
