(* ===== verification/Storage.thy ===== *)
theory Storage
  imports Config Database
begin

text \<open>
  \<open>internal/platform/storage\<close>: uploaded files on the local disk, their registry in the table \<open>files\<close>, the upload and download
  handlers. The state is the database together with the disk. It is shown that a file comes back as it was sent
  whatever is uploaded in between, and that every registered file is on disk with the recorded size and type.
\<close>

section \<open>The disk\<close>

text \<open>\<open>st_Disk\<close> are the files under the root, by the path relative to it; \<open>st_Cut\<close> is how much of its data a failing write leaves
  behind. Every call to the file system consumes an entry of the fault schedule, as the statements do.\<close>

record store =
  st_Db :: db
  st_Disk :: "string \<Rightarrow> string option"
  st_Cut :: nat

definition mkdirAll :: "(store, unit) m" where
  "mkdirAll = exec (\<lambda>s. Inr ((), s))"

definition diskCreate :: "string \<Rightarrow> (store, unit) m" where
  "diskCreate p = exec (\<lambda>s. Inr ((), s\<lparr>st_Disk := (st_Disk s)(p \<mapsto> [])\<rparr>))"

definition diskWrite :: "string \<Rightarrow> string \<Rightarrow> (store, unit) m" where
  "diskWrite p bytes w =
     (let s = db w
      in if faults w (fnext w) then (Inl DbFail, setdb (s\<lparr>st_Disk := (st_Disk s)(p \<mapsto> take (st_Cut s) bytes)\<rparr>) (tick w))
         else (Inr (), setdb (s\<lparr>st_Disk := (st_Disk s)(p \<mapsto> bytes)\<rparr>) (tick w)))"

definition diskClose :: "(store, unit) m" where
  "diskClose = exec (\<lambda>s. Inr ((), s))"

definition diskRemove :: "string \<Rightarrow> (store, unit) m" where
  "diskRemove p = exec (\<lambda>s. Inr ((), s\<lparr>st_Disk := (st_Disk s)(p := None)\<rparr>))"

section \<open>Storage service\<close>

definition DefaultMaxSize :: int where "DefaultMaxSize = 5 * 2 ^ 20"
definition ErrUnsupportedType :: go_error where "ErrUnsupportedType = Sentinel ''unsupported file type''"
definition ErrTooLarge :: go_error where "ErrTooLarge = Sentinel ''file too large''"

record StorageService =
  ss_Root :: string
  ss_MaxSize :: int

definition NewStorage :: "string \<Rightarrow> int \<Rightarrow> StorageService" where
  "NewStorage dir maxSize = \<lparr>ss_Root = dir, ss_MaxSize = (if maxSize \<le> 0 then DefaultMaxSize else maxSize)\<rparr>"

text \<open>An uploaded stream: its bytes, and whether it then ends in a read error instead of the end of file.\<close>

record reader =
  rd_Bytes :: string
  rd_Broken :: bool

text \<open>\<open>http.DetectContentType\<close> on the signatures of images and PDF. No other signature of its table starts like one of these before
  them, and all other answers are refused alike.\<close>

definition sniffTable :: "(string \<times> string) list" where
  "sniffTable = [(''%PDF-'', ''application/pdf''),
     ([CHR 0x00, CHR 0x00, CHR 0x01, CHR 0x00], ''image/x-icon''), ([CHR 0x00, CHR 0x00, CHR 0x02, CHR 0x00], ''image/x-icon''),
     (''BM'', ''image/bmp''), (''GIF87a'', ''image/gif''), (''GIF89a'', ''image/gif''),
     ([CHR 0x89, CHR ''P'', CHR ''N'', CHR ''G'', CHR 0x0D, CHR 0x0A, CHR 0x1A, CHR 0x0A], ''image/png''), ([CHR 0xFF, CHR 0xD8, CHR 0xFF], ''image/jpeg'')]"

definition DetectContentType :: "string \<Rightarrow> string" where
  "DetectContentType bytes = (case find (\<lambda>(sig, _). hasPrefix bytes sig) sniffTable of
       Some (_, ct) \<Rightarrow> ct
     | None \<Rightarrow> if hasPrefix bytes ''RIFF'' \<and> hasPrefix (drop 8 bytes) ''WEBPVP'' then ''image/webp'' else ''application/octet-stream'')"

definition allowed :: "string \<Rightarrow> bool" where
  "allowed ct \<longleftrightarrow> hasPrefix ct ''image/'' \<or> ct = ''application/pdf''"

definition extFor :: "string \<Rightarrow> string" where
  "extFor ct = (if ct = ''image/jpeg'' then ''.jpg'' else if ct = ''image/png'' then ''.png'' else if ct = ''image/gif'' then ''.gif''
     else if ct = ''image/webp'' then ''.webp'' else if ct = ''application/pdf'' then ''.pdf'' else '''')"

text \<open>\<open>io.ReadFull\<close> of the first 512 bytes: an end of file is no error, a read error is.\<close>

definition readHead :: "reader \<Rightarrow> string result" where
  "readHead r = (if length (rd_Bytes r) < 512 \<and> rd_Broken r then Inl (Sentinel ''read file'') else Inr (take 512 (rd_Bytes r)))"

text \<open>\<open>io.Copy\<close> from the head and the rest of the stream, limited to \<open>limit\<close> bytes.\<close>

definition copyTo :: "string \<Rightarrow> reader \<Rightarrow> int \<Rightarrow> (store, int) m" where
  "copyTo p r limit =
     (let bytes = take (nat limit) (rd_Bytes r)
      in thenE (diskWrite p bytes)
         (thenE (throwIf (rd_Broken r \<and> int (length (rd_Bytes r)) < limit) (Sentinel ''read failed''))
          (returnE (int (length bytes)))))"

definition discard :: "string \<Rightarrow> go_error \<Rightarrow> (store, 'a) m" where
  "discard p e = thenE (ignoreE (diskRemove p)) (throwE e)"

definition finishSave :: "int \<Rightarrow> string \<Rightarrow> int result \<Rightarrow> unit result \<Rightarrow> (store, int) m" where
  "finishSave maxSize p copied atClose = (case copied of Inl _ \<Rightarrow> discard p (Sentinel ''write file'')
     | Inr written \<Rightarrow> (case atClose of Inl _ \<Rightarrow> discard p (Sentinel ''close file'')
       | Inr _ \<Rightarrow> if written > maxSize then discard p ErrTooLarge else returnE written))"

definition writeNew :: "StorageService \<Rightarrow> string \<Rightarrow> reader \<Rightarrow> (store, int) m" where
  "writeNew svc p r =
     thenE (mapErr (\<lambda>_. Sentinel ''create file'') (diskCreate p))
     (bindE (tryE (copyTo p r (i64 (ss_MaxSize svc + 1)))) (\<lambda>copied.
      bindE (tryE diskClose) (\<lambda>atClose.
      finishSave (ss_MaxSize svc) p copied atClose)))"

definition Save :: "(uuid \<Rightarrow> string) \<Rightarrow> StorageService \<Rightarrow> reader \<Rightarrow> (store, uuid \<times> string \<times> string \<times> int) m" where
  "Save str svc r =
     bindE (liftE (readHead r)) (\<lambda>head.
     let ct = DetectContentType head
     in thenE (throwIf (\<not> allowed ct) ErrUnsupportedType)
        (thenE (mapErr (\<lambda>_. Sentinel ''create storage root'') mkdirAll)
        (bindE newUUID (\<lambda>fid.
         let relPath = str fid @ extFor ct
         in bindE (writeNew svc relPath r) (\<lambda>written.
            returnE (fid, relPath, ct, written))))))"

section \<open>Upload and download\<close>

datatype formFile = NoFile | Unreadable | FormFile reader

definition fileRow :: "uuid \<Rightarrow> db \<Rightarrow> StoredFile option" where
  "fileRow fid d = find (\<lambda>f. fl_ID f = fid) (stored_files d)"

definition insertFile :: "StoredFile \<Rightarrow> (store, unit) m" where
  "insertFile f = exec (\<lambda>s. if fileRow (fl_ID f) (st_Db s) \<noteq> None then Inl (Constraint ''files_pkey'')
     else Inr ((), s\<lparr>st_Db := (st_Db s)\<lparr>stored_files := stored_files (st_Db s) @ [f]\<rparr>\<rparr>))"

definition saveErr :: "go_error \<Rightarrow> go_error" where
  "saveErr e = (if e = ErrUnsupportedType then AppErr (BadRequest ''only images and PDF are allowed'')
     else if e = ErrTooLarge then AppErr (BadRequest ''the file is too large'') else AppErr (Internal ''storing the file failed''))"

text \<open>The body of the answer: the id and the URL. gorm fills \<open>CreatedAt\<close> with the current time.\<close>

definition uploadHandler :: "(uuid \<Rightarrow> string) \<Rightarrow> StorageService \<Rightarrow> User option \<Rightarrow> formFile \<Rightarrow> (store, uuid \<times> string) m" where
  "uploadHandler str svc user form = (case form of
       NoFile \<Rightarrow> throwE (AppErr (BadRequest ''no file was sent''))
     | Unreadable \<Rightarrow> throwE (AppErr (BadRequest ''reading the file failed''))
     | FormFile r \<Rightarrow>
         bindE (mapErr saveErr (Save str svc r)) (\<lambda>(fid, relPath, ct, size).
         bindE timeNow (\<lambda>now.
         thenE (mapErr (\<lambda>_. AppErr (Internal ''storing the file failed''))
           (insertFile \<lparr>fl_ID = fid, fl_Path = relPath, fl_ContentType = ct, fl_SizeBytes = size,
              fl_UploadedBy = map_option usr_ID user, fl_CreatedAt = now\<rparr>))
          (returnE (fid, ''/files/'' @ str fid)))))"

text \<open>\<open>c.File\<close> sends the bytes with the stored content type; for a file that cannot be opened it writes a page with the status.\<close>

datatype fileReply = FileReply string string | StatusPage int

definition diskRead :: "string \<Rightarrow> (store, string option) m" where
  "diskRead p = query (\<lambda>s. Inr (st_Disk s p))"

definition downloadHandler :: "(string \<Rightarrow> uuid option) \<Rightarrow> string \<Rightarrow> (store, fileReply) m" where
  "downloadHandler parse param = (case parse param of None \<Rightarrow> throwE (AppErr (NotFound ''file not found''))
     | Some fid \<Rightarrow>
         bindE (mapErr (\<lambda>_. AppErr (NotFound ''file not found''))
           (query (\<lambda>s. case fileRow fid (st_Db s) of None \<Rightarrow> Inl RecordNotFound | Some f \<Rightarrow> Inr f))) (\<lambda>f.
         bindE (tryE (diskRead (fl_Path f))) (\<lambda>c.
         returnE (case c of Inl _ \<Rightarrow> StatusPage 500 | Inr None \<Rightarrow> StatusPage 404 | Inr (Some bytes) \<Rightarrow> FileReply (fl_ContentType f) bytes))))"

text \<open>\<open>storage.New(cfg.Storage.Path, 0)\<close> of \<open>main.go\<close>.\<close>

definition fileStore :: "Config \<Rightarrow> StorageService" where
  "fileStore cfg = NewStorage (cf_StoragePath cfg) 0"


section \<open>What a request touches\<close>

definition onlyAt :: "string \<Rightarrow> store world \<Rightarrow> store world \<Rightarrow> bool" where
  "onlyAt p w w' \<longleftrightarrow> st_Db (db w') = st_Db (db w) \<and> faults w' = faults w \<and> uuids w' = uuids w \<and> unext w' = unext w \<and> (\<forall>q. q \<noteq> p \<longrightarrow> st_Disk (db w') q = st_Disk (db w) q)"

definition frames :: "string \<Rightarrow> (store, 'a) m \<Rightarrow> bool" where
  "frames p f \<longleftrightarrow> (\<forall>w. onlyAt p w (snd (f w)))"

lemma framesD: "frames p f \<Longrightarrow> f w = (x, w') \<Longrightarrow> onlyAt p w w'"
  unfolding frames_def by (metis snd_conv)

lemma onlyAt_trans: "onlyAt p w w1 \<Longrightarrow> onlyAt p w1 w2 \<Longrightarrow> onlyAt p w w2"
  by (simp add: onlyAt_def)

lemma frames_bind: "frames p f \<Longrightarrow> (\<And>x. frames p (g x)) \<Longrightarrow> frames p (bindE f g)"
  unfolding frames_def bindE_def by (auto split: prod.split sum.split) (metis onlyAt_trans snd_conv)+

lemma frames_then: "frames p f \<Longrightarrow> frames p g \<Longrightarrow> frames p (thenE f g)"
  unfolding thenE_def by (rule frames_bind)

lemma frames_wrap: "frames p f \<Longrightarrow> frames p (tryE f)" "frames p f \<Longrightarrow> frames p (mapErr h f)" "frames p f \<Longrightarrow> frames p (ignoreE f)"
  unfolding frames_def tryE_def mapErr_def ignoreE_def by (auto split: prod.split sum.split) (metis snd_conv)+

lemma frames_leaf: "frames p (returnE x)" "frames p (throwE e)" "frames p (throwIf b e)"
  by (simp_all add: frames_def onlyAt_def returnE_def throwE_def throwIf_def)

lemma frames_disk: "frames p mkdirAll" "frames p (diskCreate p)" "frames p (diskWrite p bs)" "frames p diskClose" "frames p (diskRemove p)"
  by (simp_all add: frames_def mkdirAll_def diskCreate_def diskWrite_def diskClose_def diskRemove_def exec_def onlyAt_def Let_def)

lemmas frames_intros = frames_bind frames_then frames_wrap frames_leaf frames_disk

lemma frames_writeNew: "frames p (writeNew svc p r)"
proof -
  have "frames p (finishSave mx p c cl)" for mx c cl
    unfolding finishSave_def discard_def by (auto split: sum.split intro!: frames_intros)
  thus ?thesis unfolding writeNew_def copyTo_def Let_def by (intro frames_intros)
qed

lemma discard_fails: "discard p e w = (Inr n, w') \<longleftrightarrow> False"
  by (auto simp: discard_def ignoreE_def thenE_def bindE_def throwE_def split: prod.splits)

lemma finishSave_Inr: "finishSave mx p c cl w = (Inr n, w') \<longleftrightarrow> c = Inr n \<and> \<not> isl cl \<and> n \<le> mx \<and> w' = w"
  by (auto simp: finishSave_def returnE_def discard_fails split: sum.splits if_splits)

lemma copyTo_Inr:
  "copyTo p r limit w = (Inr n, w') \<Longrightarrow> st_Disk (db w') p = Some (take (nat limit) (rd_Bytes r)) \<and> n = int (length (take (nat limit) (rd_Bytes r))) \<and>
     (rd_Broken r \<longrightarrow> limit \<le> int (length (rd_Bytes r)))"
  by (auto simp: copyTo_def Let_def thenE_def bindE_def throwIf_def throwE_def returnE_def diskWrite_def split: prod.splits sum.splits if_splits)

lemma writeNew_Inr:
  assumes "writeNew svc p r w = (Inr n, w')" and "0 \<le> ss_MaxSize svc" and "ss_MaxSize svc < 2 ^ 63 - 1"
  shows "st_Disk (db w') p = Some (rd_Bytes r) \<and> n = int (length (rd_Bytes r)) \<and> n \<le> ss_MaxSize svc \<and> \<not> rd_Broken r"
proof -
  have l: "i64 (ss_MaxSize svc + 1) = ss_MaxSize svc + 1" using assms(2,3) by (intro i64_id) (simp add: in64_def)
  obtain w1 w2 where c: "copyTo p r (ss_MaxSize svc + 1) w1 = (Inr n, w2)" and d: "st_Disk (db w') = st_Disk (db w2)" and n: "n \<le> ss_MaxSize svc"
    using assms(1) unfolding writeNew_def l
    by (elim bindE_splitE thenE_splitE) (auto simp: tryE_def finishSave_Inr diskClose_def exec_def split: prod.splits if_splits)
  show ?thesis using copyTo_Inr [OF c] d n assms(2) by (auto split: if_splits simp: min_def)
qed

definition newPath :: "(uuid \<Rightarrow> string) \<Rightarrow> reader \<Rightarrow> store world \<Rightarrow> string" where
  "newPath str r w = str (uuids w (unext w)) @ extFor (DetectContentType (take 512 (rd_Bytes r)))"

lemma Save_frame:
  assumes "Save str svc r w = (x, w')"
  shows "st_Db (db w') = st_Db (db w) \<and> faults w' = faults w \<and> uuids w' = uuids w \<and> unext w \<le> unext w' \<and>
     (\<forall>q. q \<noteq> newPath str r w \<longrightarrow> st_Disk (db w') q = st_Disk (db w) q)"
proof -
  have f: "onlyAt (newPath str r w) w1 (snd (writeNew svc (newPath str r w) r w1))" for w1 using frames_writeNew by (simp add: frames_def)
  let ?ct = "DetectContentType (take 512 (rd_Bytes r))"
  consider "w' = w" | "w' = tick w" | w1 where "w1 = (tick w)\<lparr>unext := Suc (unext w)\<rparr>" "w' = snd (writeNew svc (newPath str r w) r w1)"
    using assms unfolding Save_def readHead_def liftE_def throwIf_def Let_def mkdirAll_def newPath_def
    by (auto simp: bindE_def thenE_def mapErr_def newUUID_def throwE_def returnE_def exec_def setdb_def tick_def split: prod.splits sum.splits if_splits)
  thus ?thesis
  proof cases
    case 3
    thus ?thesis using f [of w1] by (simp add: onlyAt_def tick_def)
  qed simp_all
qed

lemma Save_Inr:
  assumes "Save str svc r w = (Inr (fid, p, ct, n), w')" and "0 \<le> ss_MaxSize svc" and "ss_MaxSize svc < 2 ^ 63 - 1"
  shows "fid = uuids w (unext w) \<and> unext w' = Suc (unext w) \<and> p = str fid @ extFor ct \<and> ct = DetectContentType (take 512 (rd_Bytes r)) \<and> allowed ct \<and>
     st_Disk (db w') p = Some (rd_Bytes r) \<and> n = int (length (rd_Bytes r)) \<and> n \<le> ss_MaxSize svc \<and> \<not> rd_Broken r"
proof -
  let ?w1 = "(tick w)\<lparr>unext := Suc (unext w)\<rparr>"
  have a: "allowed ct \<and> ct = DetectContentType (take 512 (rd_Bytes r)) \<and> fid = uuids w (unext w) \<and> p = str fid @ extFor ct"
    and wr: "writeNew svc p r ?w1 = (Inr n, w')"
    using assms(1) unfolding Save_def readHead_def liftE_def throwIf_def Let_def mkdirAll_def
    by (auto simp: bindE_def thenE_def mapErr_def newUUID_def throwE_def returnE_def exec_def setdb_def tick_def split: prod.splits sum.splits if_splits)
  have "unext w' = Suc (unext w)" using framesD [OF frames_writeNew wr] by (simp add: onlyAt_def)
  thus ?thesis using a writeNew_Inr [OF wr assms(2,3)] by blast
qed

lemma insertFile_run:
  "insertFile f w = (x, w') \<Longrightarrow> st_Disk (db w') = st_Disk (db w) \<and> uuids w' = uuids w \<and> unext w' = unext w \<and>
     (x = Inr () \<and> fileRow (fl_ID f) (st_Db (db w)) = None \<and> stored_files (st_Db (db w')) = stored_files (st_Db (db w)) @ [f] \<or>
      isl x \<and> stored_files (st_Db (db w')) = stored_files (st_Db (db w)))"
  by (auto simp: insertFile_def exec_def split: if_splits)

text \<open>An upload: either a row is added for the new file, which is then on disk as it was sent, or the table is unchanged; no other file
  on disk changes.\<close>

definition uploadedFile :: "(uuid \<Rightarrow> string) \<Rightarrow> reader \<Rightarrow> StoredFile \<Rightarrow> bool" where
  "uploadedFile str r f \<longleftrightarrow> fl_ContentType f = DetectContentType (take 512 (rd_Bytes r)) \<and> allowed (fl_ContentType f) \<and>
     fl_Path f = str (fl_ID f) @ extFor (fl_ContentType f) \<and> fl_SizeBytes f = int (length (rd_Bytes r)) \<and> \<not> rd_Broken r"

lemma upload_cases:
  assumes "uploadHandler str svc user form w = (x, w')" and "0 \<le> ss_MaxSize svc" and "ss_MaxSize svc < 2 ^ 63 - 1"
  obtains (failed) e where "x = Inl e" "uuids w' = uuids w" "unext w \<le> unext w'" "stored_files (st_Db (db w')) = stored_files (st_Db (db w))"
      "\<And>q. (\<And>ct. q \<noteq> str (uuids w (unext w)) @ extFor ct) \<Longrightarrow> st_Disk (db w') q = st_Disk (db w) q"
    | (stored) r f where "form = FormFile r" "x = Inr (fl_ID f, ''/files/'' @ str (fl_ID f))" "fl_ID f = uuids w (unext w)" "uuids w' = uuids w" "unext w' = Suc (unext w)"
      "uploadedFile str r f" "fl_SizeBytes f \<le> ss_MaxSize svc" "fl_UploadedBy f = map_option usr_ID user" "fileRow (fl_ID f) (st_Db (db w)) = None"
      "stored_files (st_Db (db w')) = stored_files (st_Db (db w)) @ [f]" "st_Disk (db w') (fl_Path f) = Some (rd_Bytes r)"
      "\<And>q. (\<And>ct. q \<noteq> str (uuids w (unext w)) @ extFor ct) \<Longrightarrow> st_Disk (db w') q = st_Disk (db w) q"
proof (cases form)
  case (FormFile r)
  obtain y w1 where s: "Save str svc r w = (y, w1)" by fastforce
  note fr = Save_frame [OF s]
  show ?thesis
  proof (cases y)
    case (Inl e)
    hence "x = Inl (saveErr e)" "w' = w1" using assms(1) s FormFile by (auto simp: uploadHandler_def mapErr_def bindE_def)
    thus ?thesis using fr by (intro failed) (auto simp: newPath_def)
  next
    case (Inr v)
    obtain fid p ct n where v: "v = (fid, p, ct, n)" by (cases v) auto
    let ?f = "\<lparr>fl_ID = fid, fl_Path = p, fl_ContentType = ct, fl_SizeBytes = n, fl_UploadedBy = map_option usr_ID user, fl_CreatedAt = clock w1 (cnext w1)\<rparr>"
    let ?w2 = "w1\<lparr>cnext := Suc (cnext w1)\<rparr>"
    note sv = Save_Inr [OF s [unfolded Inr v] assms(2,3)]
    obtain z w3 where i: "insertFile ?f ?w2 = (z, w3)" by fastforce
    have run: "(x, w') = (case z of Inl _ \<Rightarrow> Inl (AppErr (Internal ''storing the file failed'')) | Inr _ \<Rightarrow> Inr (fid, ''/files/'' @ str fid), w3)"
      using assms(1) s Inr v FormFile i by (auto simp: uploadHandler_def mapErr_def bindE_def thenE_def timeNow_def returnE_def split: sum.splits)
    show ?thesis
    proof (cases z)
      case (Inl e')
      thus ?thesis using run fr insertFile_run [OF i] by (intro failed) (auto simp: newPath_def)
    next
      case (Inr u)
      show ?thesis using run fr insertFile_run [OF i] Inr sv FormFile by (intro stored [of r ?f]) (auto simp: newPath_def uploadedFile_def)
    qed
  qed
qed (use assms(1) in \<open>auto simp: uploadHandler_def throwE_def intro!: failed\<close>)

text \<open>Of the tables an upload changes only the one of files; a download changes nothing.\<close>

lemma upload_tables:
  assumes "uploadHandler str svc user form w = (x, w')"
  shows "\<exists>fs. st_Db (db w') = (st_Db (db w))\<lparr>stored_files := fs\<rparr>"
proof (cases form)
  case (FormFile r)
  obtain y w1 where s: "Save str svc r w = (y, w1)" by fastforce
  have d: "st_Db (db w1) = st_Db (db w)" using Save_frame [OF s] by simp
  have i: "\<exists>fs. st_Db (db (snd (insertFile f v))) = (st_Db (db v))\<lparr>stored_files := fs\<rparr>" for f v
    by (rule exI [of _ "stored_files (st_Db (db (snd (insertFile f v))))"]) (simp add: insertFile_def exec_def)
  have n: "\<exists>fs. st_Db (db w) = (st_Db (db w))\<lparr>stored_files := fs\<rparr>" by (rule exI [of _ "stored_files (st_Db (db w))"]) simp
  show ?thesis
  proof (cases y)
    case (Inl e)
    thus ?thesis using assms s d n FormFile by (auto simp: uploadHandler_def mapErr_def bindE_def)
  next
    case (Inr v)
    obtain fid p ct n where v: "v = (fid, p, ct, n)" by (cases v) auto
    let ?f = "\<lparr>fl_ID = fid, fl_Path = p, fl_ContentType = ct, fl_SizeBytes = n, fl_UploadedBy = map_option usr_ID user, fl_CreatedAt = clock w1 (cnext w1)\<rparr>"
    have "w' = snd (insertFile ?f (w1\<lparr>cnext := Suc (cnext w1)\<rparr>))"
      using assms s FormFile by (auto simp: uploadHandler_def Inr v mapErr_def bindE_def thenE_def timeNow_def returnE_def split: prod.splits sum.splits)
    thus ?thesis using i [of ?f "w1\<lparr>cnext := Suc (cnext w1)\<rparr>"] d by simp
  qed
qed (use assms in \<open>auto simp: uploadHandler_def throwE_def intro!: exI [of _ "stored_files (st_Db (db w))"]\<close>)

lemma download_reads: "downloadHandler parse fid w = (x, w') \<Longrightarrow> db w' = db w"
  by (auto simp: downloadHandler_def bindE_def mapErr_def tryE_def query_def throwE_def returnE_def diskRead_def split: option.splits prod.splits sum.splits if_splits)


section \<open>Sequences of requests\<close>

text \<open>The printed ids of \<open>uuid.String\<close> are parsed back by \<open>uuid.Parse\<close> and contain no dot.\<close>

definition printsIDs :: "(uuid \<Rightarrow> string) \<Rightarrow> (string \<Rightarrow> uuid option) \<Rightarrow> bool" where
  "printsIDs str parse \<longleftrightarrow> (\<forall>i. parse (str i) = Some i \<and> CHR ''.'' \<notin> set (str i))"

lemma extFor_dot: "takeWhile (\<lambda>c. c \<noteq> CHR ''.'') (s @ extFor ct) = takeWhile (\<lambda>c. c \<noteq> CHR ''.'') s"
  by (induction s) (simp_all add: extFor_def)

lemma path_inj:
  assumes "printsIDs str parse" and "str i @ extFor c = str j @ extFor c'"
  shows "i = j"
proof -
  have t: "takeWhile (\<lambda>c. c \<noteq> CHR ''.'') (str k) = str k" for k using assms(1) by (auto simp: printsIDs_def takeWhile_eq_all_conv)
  have "takeWhile (\<lambda>c. c \<noteq> CHR ''.'') (str i) = takeWhile (\<lambda>c. c \<noteq> CHR ''.'') (str j)"
    using arg_cong [OF assms(2), of "takeWhile (\<lambda>c. c \<noteq> CHR ''.'')"] unfolding extFor_dot .
  hence "str i = str j" unfolding t .
  hence "parse (str i) = parse (str j)" by simp
  thus ?thesis using assms(1) by (simp add: printsIDs_def)
qed

text \<open>Uploads, and any other requests: they use the disk and the table of files for reading only, and ids from the same source.\<close>

inductive store_step :: "(uuid \<Rightarrow> string) \<Rightarrow> StorageService \<Rightarrow> store world \<Rightarrow> store world \<Rightarrow> bool" for str svc where
  upload: "uploadHandler str svc user form w = (x, w') \<Longrightarrow> store_step str svc w w'"
| other: "st_Disk (db w') = st_Disk (db w) \<Longrightarrow> stored_files (st_Db (db w')) = stored_files (st_Db (db w)) \<Longrightarrow>
    uuids w' = uuids w \<Longrightarrow> unext w \<le> unext w' \<Longrightarrow> store_step str svc w w'"

text \<open>The file \<open>f\<close> of the table, with these bytes on disk, whose id was given out before.\<close>

definition keptFile :: "StoredFile \<Rightarrow> string \<Rightarrow> store world \<Rightarrow> bool" where
  "keptFile f bytes w \<longleftrightarrow> fileRow (fl_ID f) (st_Db (db w)) = Some f \<and> st_Disk (db w) (fl_Path f) = Some bytes \<and> (\<exists>n<unext w. fl_ID f = uuids w n)"

lemma find_append: "find P (xs @ ys) = (case find P xs of Some x \<Rightarrow> Some x | None \<Rightarrow> find P ys)"
  by (induction xs) simp_all

lemma fileRow_append: "stored_files d' = stored_files d @ fs \<Longrightarrow> fileRow i d = Some f \<Longrightarrow> fileRow i d' = Some f"
  by (simp add: fileRow_def find_append)

lemma keptFile_step:
  assumes "store_step str svc w w'" and "keptFile f bytes w" and p: "fl_Path f = str (fl_ID f) @ extFor ct"
    and u: "inj (uuids w)" and s: "printsIDs str parse" and m: "0 \<le> ss_MaxSize svc" "ss_MaxSize svc < 2 ^ 63 - 1"
  shows "keptFile f bytes w' \<and> uuids w' = uuids w"
proof -
  obtain n where n: "n < unext w" "fl_ID f = uuids w n" using assms(2) by (auto simp: keptFile_def)
  have other: "fl_Path f \<noteq> str (uuids w (unext w)) @ extFor c" for c
  proof
    assume "fl_Path f = str (uuids w (unext w)) @ extFor c"
    hence "uuids w n = uuids w (unext w)" using path_inj [OF s] p n(2) by metis
    thus False using u n(1) by (auto dest: injD)
  qed
  from assms(1) show ?thesis
  proof cases
    case (upload user form x)
    show ?thesis
    proof (cases rule: upload_cases [OF upload m])
      case (1 e)
      thus ?thesis using assms(2) other by (auto simp: keptFile_def fileRow_def intro: less_le_trans)
    next
      case (2 r g)
      have "fileRow (fl_ID f) (st_Db (db w')) = Some f" using fileRow_append 2(10) assms(2) by (simp add: keptFile_def)
      thus ?thesis using assms(2) 2 other by (auto simp: keptFile_def intro: less_SucI)
    qed
  next
    case other
    thus ?thesis using assms(2) by (auto simp: keptFile_def fileRow_def intro: less_le_trans)
  qed
qed

lemma keptFile_steps:
  assumes "(store_step str svc)\<^sup>*\<^sup>* w w'" and "keptFile f bytes w" and "fl_Path f = str (fl_ID f) @ extFor ct"
    and "inj (uuids w)" and "printsIDs str parse" and "0 \<le> ss_MaxSize svc" "ss_MaxSize svc < 2 ^ 63 - 1"
  shows "keptFile f bytes w'"
proof -
  have "keptFile f bytes w' \<and> uuids w' = uuids w" using assms(1)
  proof induction
    case (step v v')
    thus ?case using keptFile_step [OF step(2) _ assms(3) _ assms(5-7)] assms(4) by metis
  qed (simp add: assms(2))
  thus ?thesis ..
qed

lemma download_kept:
  assumes "keptFile f bytes w" and "no_faults w" and "parse param = Some (fl_ID f)"
  shows "fst (downloadHandler parse param w) = Inr (FileReply (fl_ContentType f) bytes) \<and> db (snd (downloadHandler parse param w)) = db w"
  using assms by (simp add: downloadHandler_def keptFile_def diskRead_def query_def no_faults_def bindE_def mapErr_def tryE_def returnE_def tick_def)

text \<open>C18. A file comes back as it was sent: after a successful upload, and after any further uploads
  and other requests, a download of its id returns exactly the bytes that were sent, with the
  type that was detected in them, an image or PDF of at most the configured size, 5 MiB by
  default. It relies on uuid.New not repeating an id and on a printed id being parsed back.\<close>

theorem upload_download:
  assumes "uploadHandler str (NewStorage dir maxSize) user (FormFile r) w = (Inr (fid, url), w1)" and "(store_step str (NewStorage dir maxSize))\<^sup>*\<^sup>* w1 w2"
    and "inj (uuids w)" and "printsIDs str parse" and "maxSize < 2 ^ 63 - 1" and "no_faults w2"
  shows "\<exists>ct. url = ''/files/'' @ str fid \<and> fst (downloadHandler parse (str fid) w2) = Inr (FileReply ct (rd_Bytes r)) \<and>
     allowed ct \<and> ct = DetectContentType (take 512 (rd_Bytes r)) \<and> \<not> rd_Broken r \<and>
     int (length (rd_Bytes r)) \<le> (if maxSize \<le> 0 then 5242880 else maxSize)"
proof -
  let ?svc = "NewStorage dir maxSize"
  have m: "0 \<le> ss_MaxSize ?svc" "ss_MaxSize ?svc < 2 ^ 63 - 1" using assms(5) by (auto simp: NewStorage_def DefaultMaxSize_def)
  from assms(1) show ?thesis
  proof (rule upload_cases [OF _ m])
    fix r' f assume "FormFile r = FormFile r'" "Inr (fid, url) = Inr (fl_ID f, ''/files/'' @ str (fl_ID f))" "fl_ID f = uuids w (unext w)" "uuids w1 = uuids w"
      "unext w1 = Suc (unext w)" and u: "uploadedFile str r' f" "fl_SizeBytes f \<le> ss_MaxSize ?svc" and "fileRow (fl_ID f) (st_Db (db w)) = None"
      "stored_files (st_Db (db w1)) = stored_files (st_Db (db w)) @ [f]" "st_Disk (db w1) (fl_Path f) = Some (rd_Bytes r')"
    hence k: "keptFile f (rd_Bytes r) w1" and r: "r' = r" "fid = fl_ID f" "url = ''/files/'' @ str fid" "inj (uuids w1)"
      using assms(3) by (auto simp: keptFile_def fileRow_def find_append)
    have "keptFile f (rd_Bytes r) w2" using k u(1) r assms(4) m by (intro keptFile_steps [OF assms(2)]) (auto simp: uploadedFile_def)
    from download_kept [OF this assms(6)] show ?thesis
      using u r assms(4) by (auto simp: uploadedFile_def printsIDs_def NewStorage_def DefaultMaxSize_def)
  qed simp
qed


section \<open>The table and the disk agree\<close>

definition soundFile :: "(uuid \<Rightarrow> string) \<Rightarrow> StorageService \<Rightarrow> StoredFile \<Rightarrow> string \<Rightarrow> bool" where
  "soundFile str svc f bytes \<longleftrightarrow> uploadedFile str \<lparr>rd_Bytes = bytes, rd_Broken = False\<rparr> f \<and> fl_SizeBytes f \<le> ss_MaxSize svc"

definition soundStore :: "(uuid \<Rightarrow> string) \<Rightarrow> StorageService \<Rightarrow> store world \<Rightarrow> bool" where
  "soundStore str svc w \<longleftrightarrow> distinct (map fl_ID (stored_files (st_Db (db w)))) \<and>
     (\<forall>f\<in>set (stored_files (st_Db (db w))). \<exists>bytes. keptFile f bytes w \<and> soundFile str svc f bytes)"

lemma soundStore_step:
  assumes "store_step str svc w w'" and "soundStore str svc w"
    and u: "inj (uuids w)" and s: "printsIDs str parse" and m: "0 \<le> ss_MaxSize svc" "ss_MaxSize svc < 2 ^ 63 - 1"
  shows "soundStore str svc w' \<and> uuids w' = uuids w"
proof -
  have old: "\<exists>bytes. keptFile f bytes w' \<and> soundFile str svc f bytes" if "f \<in> set (stored_files (st_Db (db w)))" for f
  proof -
    obtain bytes where "keptFile f bytes w" "soundFile str svc f bytes" using assms(2) \<open>f \<in> _\<close> by (auto simp: soundStore_def)
    moreover from this have "keptFile f bytes w'" using keptFile_step [OF assms(1) _ _ u s m] by (auto simp: soundFile_def uploadedFile_def)
    ultimately show ?thesis by blast
  qed
  from assms(1) show ?thesis
  proof cases
    case (upload user form x)
    show ?thesis
    proof (cases rule: upload_cases [OF upload m])
      case (1 e)
      thus ?thesis using assms(2) old by (simp add: soundStore_def)
    next
      case (2 r f)
      have "keptFile f (rd_Bytes r) w'" using 2 by (auto simp: keptFile_def fileRow_def find_append)
      moreover have "soundFile str svc f (rd_Bytes r)" using 2(6,7) by (auto simp: soundFile_def uploadedFile_def)
      ultimately show ?thesis using 2(4,9,10) assms(2) old by (auto simp: soundStore_def fileRow_def find_None_iff)
    qed
  next
    case other
    thus ?thesis using assms(2) old by (simp add: soundStore_def)
  qed
qed

text \<open>C19. The table of files and the disk agree: along every sequence of uploads, whatever fails in
  them, every registered file is on disk with exactly the recorded size, within the limit, its
  type is the one detected in its content and is allowed, and no id is registered twice.\<close>

theorem stored_files_sound:
  assumes "(store_step str (NewStorage dir maxSize))\<^sup>*\<^sup>* w w'" and "stored_files (st_Db (db w)) = []"
    and "inj (uuids w)" and "printsIDs str parse" and "maxSize < 2 ^ 63 - 1"
  shows "distinct (map fl_ID (stored_files (st_Db (db w')))) \<and>
     (\<forall>f\<in>set (stored_files (st_Db (db w'))). \<exists>bytes. st_Disk (db w') (fl_Path f) = Some bytes \<and> fl_SizeBytes f = int (length bytes) \<and>
        fl_SizeBytes f \<le> (if maxSize \<le> 0 then 5242880 else maxSize) \<and> fl_ContentType f = DetectContentType (take 512 bytes) \<and> allowed (fl_ContentType f))"
proof -
  let ?svc = "NewStorage dir maxSize"
  have m: "0 \<le> ss_MaxSize ?svc" "ss_MaxSize ?svc < 2 ^ 63 - 1" using assms(5) by (auto simp: NewStorage_def DefaultMaxSize_def)
  from assms(1) have "soundStore str ?svc w' \<and> uuids w' = uuids w"
  proof induction
    case (step v v')
    thus ?case using soundStore_step [OF step(2) _ _ assms(4) m] assms(3) by metis
  qed (simp add: soundStore_def assms(2))
  thus ?thesis by (fastforce simp: soundStore_def soundFile_def uploadedFile_def keptFile_def NewStorage_def DefaultMaxSize_def)
qed

section \<open>Example\<close>

definition samplePng :: reader where
  "samplePng = \<lparr>rd_Bytes = [CHR 0x89, CHR ''P'', CHR ''N'', CHR ''G'', CHR 0x0D, CHR 0x0A, CHR 0x1A, CHR 0x0A, CHR ''x''], rd_Broken = False\<rparr>"

definition emptyStore :: "store world" where
  "emptyStore = \<lparr>db = \<lparr>st_Db = emptyDb, st_Disk = (\<lambda>_. None), st_Cut = 0\<rparr>, uuids = id, unext = 7, clock = (\<lambda>_. 0), cnext = 0, faults = (\<lambda>_. False), fnext = 0\<rparr>"

definition sampleStorage :: StorageService where "sampleStorage = NewStorage ''files'' 20"

definition upload1 :: "store world" where
  "upload1 = snd (uploadHandler showNat sampleStorage None (FormFile samplePng) emptyStore)"

definition upload2 :: "store world" where
  "upload2 = snd (uploadHandler showNat sampleStorage None (FormFile \<lparr>rd_Bytes = ''%PDF-1.4'', rd_Broken = False\<rparr>) upload1)"

lemma upload1_ok: "fst (uploadHandler showNat sampleStorage None (FormFile samplePng) emptyStore) = Inr (7, ''/files/7'')"
  by code_simp

lemma upload2_paths: "map fl_Path (stored_files (st_Db (db upload2))) = [''7.png'', ''8.pdf'']"
  by code_simp

lemma sampleIDs: "printsIDs showNat parseDigits"
proof -
  have "CHR ''.'' \<notin> set (showNat i)" for i using showNat_digits [of i] by (auto simp: list_all_iff isDigit_def)
  thus ?thesis by (simp add: printsIDs_def)
qed

lemma upload2_step: "store_step showNat sampleStorage upload1 upload2"
  unfolding upload2_def by (rule store_step.upload) (rule surjective_pairing)

lemma upload1_step: "store_step showNat sampleStorage emptyStore upload1"
  unfolding upload1_def by (rule store_step.upload) (rule surjective_pairing)


lemma upload_faults: "faults (snd (uploadHandler str svc user form w)) = faults w"
proof (cases form)
  case (FormFile r)
  obtain y w1 where "Save str svc r w = (y, w1)" by fastforce
  thus ?thesis using Save_frame [of str svc r w y w1] FormFile
    by (auto simp: uploadHandler_def bindE_def thenE_def mapErr_def timeNow_def insertFile_def exec_def returnE_def split: sum.splits prod.splits)
qed (simp_all add: uploadHandler_def throwE_def)

lemma sampleWorlds: "no_faults upload2" "uuids emptyStore = id" "stored_files (st_Db (db emptyStore)) = []"
  by (simp_all add: no_faults_def upload2_def upload1_def upload_faults emptyStore_def emptyDb_def)

theorem upload_download_witness:
  "fst (downloadHandler parseDigits ''7'' upload2) = Inr (FileReply ''image/png'' (rd_Bytes samplePng))"
proof -
  have u: "uploadHandler showNat (NewStorage ''files'' 20) None (FormFile samplePng) emptyStore = (Inr (7, ''/files/7''), upload1)"
    using upload1_ok by (simp add: upload1_def sampleStorage_def prod_eq_iff)
  have e: "showNat 7 = ''7''" "DetectContentType (take 512 (rd_Bytes samplePng)) = ''image/png''" by code_simp+
  have s: "(store_step showNat (NewStorage ''files'' 20))\<^sup>*\<^sup>* upload1 upload2" using upload2_step by (simp add: sampleStorage_def)
  have "inj (uuids emptyStore)" "(20::int) < 2 ^ 63 - 1" by (simp_all add: sampleWorlds)
  from upload_download [OF u s this(1) sampleIDs this(2) sampleWorlds(1)] show ?thesis unfolding e by blast
qed

theorem stored_files_sound_witness:
  "\<exists>f bytes. f \<in> set (stored_files (st_Db (db upload2))) \<and> fl_Path f = ''8.pdf'' \<and> st_Disk (db upload2) ''8.pdf'' = Some bytes \<and>
     fl_SizeBytes f = int (length bytes) \<and> fl_SizeBytes f \<le> 20 \<and> allowed (fl_ContentType f)"
proof -
  have "''8.pdf'' \<in> fl_Path ` set (stored_files (st_Db (db upload2)))" using upload2_paths by (metis list.set_intros(1,2) set_map)
  then obtain f where f: "f \<in> set (stored_files (st_Db (db upload2)))" "fl_Path f = ''8.pdf''" by auto
  have "(store_step showNat (NewStorage ''files'' 20))\<^sup>*\<^sup>* emptyStore upload2"
    using upload1_step upload2_step by (simp add: sampleStorage_def)
  from stored_files_sound [OF this _ _ sampleIDs] f sampleWorlds show ?thesis by force
qed

end
