(* ===== verification/Api_Machine.thy ===== *)
theory Api_Machine
  imports Api_Frames Api Storage
begin

text \<open>
  The server as one machine: every request to every route, whoever makes it, and to the session layer is a step of \<open>api_step\<close>. Which
  relations between the databases before and after a route keeps is reduced to its services by a locale per package; the invariants of
  the ledger, the registry and maintenance and the append-only audit trail then hold along all sequences of requests.
\<close>

section \<open>Relations that the routes keep\<close>

text \<open>A relation between the databases before and after is kept by every route of a package when the services of the package and
  the audit trail keep it.\<close>

definition obedient :: "(db \<Rightarrow> db \<Rightarrow> bool) \<Rightarrow> route \<Rightarrow> bool" where
  "obedient R r \<longleftrightarrow> (\<forall>q. obeys R (ro_Handler r q))"

lemma obedient_routes:
  "obedient R (route m p h) \<longleftrightarrow> (\<forall>q. obeys R (h q))" "obedient R (audited m p a t h) \<longleftrightarrow> (\<forall>q. obeys R (h q))"
  "list_all (obedient R) (group roles rs) \<longleftrightarrow> list_all (obedient R) rs"
  by (simp_all add: obedient_def route_def audited_def group_def list_all_iff)

lemmas obeys_handler = leaves_intros leaves_cases reads_guards [THEN obeys_reads] reads_answers [THEN obeys_reads]

locale audited_relation =
  fixes R :: "db \<Rightarrow> db \<Rightarrow> bool"
  assumes audit_obeys: "obeys R (auditAppend actor action ot oid before after)"
begin

lemma obedient_run: "obedient R r \<Longrightarrow> obeys R (runRoute r q)"
  unfolding obedient_def runRoute_def auditMiddleware_def by (intro obeys_handler audit_obeys | simp)+

end

locale registry_relation = audited_relation +
  assumes registry_obeys:
    "obeys R (CreateBuilding it m bin)" "obeys R (UpdateBuilding it m bid bin)" "obeys R (DeleteBuilding m bid)"
    "obeys R (GrantManagerByPhone m bid phone)" "obeys R (RevokeManager m bid uid)"
    "obeys R (CreateUnit it m bid uin)" "obeys R (UpdateUnit it m uid uin)" "obeys R (DeleteUnit m uid)"
    "obeys R (CreatePerson m bid pin)" "obeys R (UpdatePerson m pid pin)" "obeys R (DeletePerson m pid)"
    "obeys R (AddOccupancy m uid oin)" "obeys R (EndOccupancy m oid ed)" "obeys R (RecordOccupantCount m uid n fr)"
begin

lemma registry_handlers:
  "\<forall>q. obeys R (createBuilding sv q)" "\<forall>q. obeys R (updateBuilding sv q)" "\<forall>q. obeys R (deleteBuilding sv q)" "\<forall>q. obeys R (grantManager sv q)"
  "\<forall>q. obeys R (revokeManager sv q)" "\<forall>q. obeys R (createUnit sv q)" "\<forall>q. obeys R (updateUnit sv q)" "\<forall>q. obeys R (deleteUnit sv q)"
  "\<forall>q. obeys R (createPerson sv q)" "\<forall>q. obeys R (updatePerson sv q)" "\<forall>q. obeys R (deletePerson sv q)" "\<forall>q. obeys R (addOccupancy sv q)"
  "\<forall>q. obeys R (endOccupancy sv q)" "\<forall>q. obeys R (recordOccupantCount sv q)"
  unfolding createBuilding_def updateBuilding_def deleteBuilding_def grantManager_def revokeManager_def createUnit_def updateUnit_def deleteUnit_def createPerson_def
    updatePerson_def deletePerson_def addOccupancy_def endOccupancy_def recordOccupantCount_def
  by (intro allI obeys_handler registry_obeys)+

lemma registry_routes: "list_all (obedient R) (buildingRoutes sv)"
  by (simp add: buildingRoutes_def occupancyRoutes_def obedient_routes registry_handlers reads_building_gets obeys_reads)

end

locale ledger_relation = audited_relation +
  fixes sv :: services
  assumes ledger_obeys:
    "obeys R (CreatePeriod m bid pin)" "obeys R (UpdatePeriod m pid pin)" "obeys R (AddCostItem m pid cin)" "obeys R (UpdateCostItem m cid cin)"
    "obeys R (DeleteCostItem m cid)" "obeys R (Issue (sv_Recomputer sv) m pid)" "obeys R (Close m pid)" "obeys R (Reopen m pid)"
    "obeys R (CancelInvoice (sv_Recomputer sv) m iid rs)" "obeys R (AddAdjustment (sv_Recomputer sv) m iid ain)"
    "obeys R (CalcCalculate str parse (sv_Balances sv) m pid)" "obeys R (RecordManual u iid mpin)" "obeys R (UnitBalanceFor u uid)"
    "obeys R (StartGateway (sv_Payments sv) u iid amount path)" "obeys R (HandleCallback parse (sv_Payments sv) paymentID auth)"
begin

lemma ledger_handlers:
  "\<forall>q. obeys R (createPeriod sv q)" "\<forall>q. obeys R (updatePeriod sv q)" "\<forall>q. obeys R (addCostItem sv q)" "\<forall>q. obeys R (updateCostItem sv q)"
  "\<forall>q. obeys R (deleteCostItem sv q)" "\<forall>q. obeys R (calculate sv q)" "\<forall>q. obeys R (reopen sv q)" "\<forall>q. obeys R (issue sv q)" "\<forall>q. obeys R (close sv q)"
  "\<forall>q. obeys R (cancelInvoice sv q)" "\<forall>q. obeys R (addAdjustment sv q)" "\<forall>q. obeys R (recordManual sv q)" "\<forall>q. obeys R (startGateway sv q)"
  "\<forall>q. obeys R (unitBalance sv q)" "\<forall>q. obeys R (gatewayCallback sv q)"
  unfolding createPeriod_def updatePeriod_def addCostItem_def updateCostItem_def deleteCostItem_def calculate_def reopen_def issue_def close_def cancelInvoice_def
    addAdjustment_def recordManual_def startGateway_def unitBalance_def gatewayCallback_def Let_def
  by (intro allI obeys_handler ledger_obeys)+

lemma ledger_routes: "list_all (obedient R) (billingRoutes sv @ paymentRoutes sv @ publicRoutes sv)"
  by (simp add: billingRoutes_def paymentRoutes_def publicRoutes_def obedient_routes ledger_handlers reads_billing_gets obeys_reads
      reads_payment_gets obeys_reads)

end

locale maintenance_relation = audited_relation +
  assumes maintenance_obeys: "obeys R (Submit u inp)" "obeys R (maintUpdate u mid upd)"
begin

lemma maintenance_handlers: "\<forall>q. obeys R (submitResident sv q)" "\<forall>q. obeys R (patchForManager sv q)"
  unfolding submitResident_def patchForManager_def Let_def by (intro allI obeys_handler maintenance_obeys)+

lemma maintenance_routes: "list_all (obedient R) (maintenanceRoutes sv)"
  by (simp add: maintenanceRoutes_def obedient_routes maintenance_handlers reads_service_gets obeys_reads)

end

locale board_relation = audited_relation +
  assumes board_obeys:
    "obeys R (expCreate parse u bid ein)" "obeys R (expUpdate parse u eid ein)" "obeys R (expDelete u eid)" "obeys R (annCreateFor parse a bid ani)"
    "obeys R (annUpdate parse a aid ani)" "obeys R (annDeleteFor a aid)" "obeys R (annMarkRead parse a aid)" "obeys R (notifMarkRead uid nid)" "obeys R (notifMarkAllRead uid)"
begin

lemma board_handlers:
  "\<forall>q. obeys R (createExpense sv q)" "\<forall>q. obeys R (updateExpense sv q)" "\<forall>q. obeys R (deleteExpense sv q)" "\<forall>q. obeys R (createForManager sv q)"
  "\<forall>q. obeys R (updateForManager sv q)" "\<forall>q. obeys R (deleteForManager sv q)" "\<forall>q. obeys R (markRead sv q)" "\<forall>q. obeys R (notificationMarkRead sv q)"
  "\<forall>q. obeys R (readAll sv q)"
  unfolding createExpense_def updateExpense_def deleteExpense_def createForManager_def updateForManager_def deleteForManager_def markRead_def notificationMarkRead_def readAll_def
  by (intro allI obeys_handler board_obeys reads_service_lists(4) [THEN obeys_reads])+

lemma board_routes: "list_all (obedient R) (notificationRoutes sv @ expenseRoutes sv @ announcementRoutes sv @ dashboardRoutes sv)"
  by (simp add: notificationRoutes_def expenseRoutes_def announcementRoutes_def dashboardRoutes_def obedient_routes board_handlers reads_service_gets obeys_reads)

end


section \<open>The whole API\<close>

lemma obeys_mono: "obeys S f \<Longrightarrow> (\<And>d. S d d) \<Longrightarrow> (\<And>d d'. S d d' \<Longrightarrow> R d d') \<Longrightarrow> transp R \<Longrightarrow> obeys R f"
  unfolding obeys_def tri_def by (fastforce split: prod.splits sum.splits dest: transpD)

lemma obeys_conj: "obeys R f \<Longrightarrow> obeys S f \<Longrightarrow> obeys (\<lambda>d d'. R d d' \<and> S d d') f"
  unfolding obeys_def tri_def by (fastforce split: prod.splits sum.splits)

lemma leaves_others:
  "leaves ledgerTables d d' \<Longrightarrow> bld_rel d d' \<and> maint_rel d d'"
  "leaves registryTables d d' \<Longrightarrow> billing_rel d d' \<and> maint_rel d d'"
  "leaves maintenanceTables d d' \<Longrightarrow> billing_rel d d' \<and> bld_rel d d'"
  "leaves boardTables d d' \<Longrightarrow> billing_rel d d' \<and> bld_rel d d' \<and> maint_rel d d'"
  "leaves sessionTables d d' \<Longrightarrow> billing_rel d d' \<and> bld_rel d d' \<and> maint_rel d d'"
  by (cases d; cases d';
      auto simp: leaves_def ledgerTables_def registryTables_def maintenanceTables_def boardTables_def sessionTables_def intro!: billing_rel_same bld_rel_side maint_rel_side)+

lemma bld_audit: "obeys bld_rel (auditAppend actor action ot oid before after)"
  unfolding auditAppend_def by (intro obeys_intros obeys_bld_env obeys_exec [OF bld_rel_trans] bld_rel_side) auto

interpretation registry_frame: registry_relation "leaves registryTables"
  by unfold_locales (rule registry_audit registry_ops)+

interpretation registry_machine: registry_relation bld_rel
  by unfold_locales (rule bld_audit obeys_building_ops obeys_manager_ops obeys_unit_ops obeys_person_ops obeys_EndOccupancy)+

interpretation ledger_frame: ledger_relation "leaves ledgerTables" "wire post fmtTime lib cfg"
  by unfold_locales (simp_all add: wire_def ledger_channels ledger_ops payment_gateway.ledger_gateway [OF newPayments_contract refl])

interpretation ledger_machine: ledger_relation billing_rel "wire post fmtTime lib cfg"
  by unfold_locales (simp_all add: wire_def obeys_side_channels obeys_CreatePeriod obeys_UpdatePeriod obeys_cost_items app.obeys_Issue obeys_Close obeys_Reopen
      app.obeys_corrections app.obeys_CalcCalculate obeys_RecordManual obeys_UnitBalanceFor payment_gateway.obeys_StartGateway [OF newPayments_contract refl]
      payment_gateway.obeys_HandleCallback [OF newPayments_contract refl])

interpretation maintenance_frame: maintenance_relation "leaves maintenanceTables"
  by unfold_locales (rule maintenance_audit maintenance_ops)+

interpretation maintenance_machine: maintenance_relation maint_rel
  by unfold_locales (rule obeys_maint_channels obeys_Submit obeys_maintUpdate)+

interpretation board_frame: board_relation "leaves boardTables"
  by unfold_locales (rule board_audit board_ops)+


text \<open>What all requests keep: the relations of the ledger, of the registry and of maintenance, and the audit trail.\<close>

definition api_rel :: "db \<Rightarrow> db \<Rightarrow> bool" where
  "api_rel d d' \<longleftrightarrow> billing_rel d d' \<and> bld_rel d d' \<and> maint_rel d d' \<and> prefix (audit_logs d) (audit_logs d')"

lemma api_rel_refl [simp]: "api_rel d d"
  by (simp add: api_rel_def)

lemma api_rel_trans: "transp api_rel"
  using transpD [OF billing_rel_trans] transpD [OF bld_rel_trans] transpD [OF maint_rel_trans]
  by (intro transpI) (unfold api_rel_def, blast intro: prefix_order.trans)

lemma api_rel_own:
  assumes "obeys S f" and "obeys R f" and "\<And>d. S d d" and "\<And>d d'. S d d' \<Longrightarrow> R d d' \<Longrightarrow> api_rel d d'" and "\<And>d. R d d"
  shows "obeys api_rel f"
proof (rule obeys_mono)
  show "obeys (\<lambda>d d'. S d d' \<and> R d d') f" using assms(1,2) by (rule obeys_conj)
qed (use assms(3-5) api_rel_trans in auto)

lemma obedient_own:
  assumes "list_all (obedient S) rs" and "list_all (obedient R) rs" and "\<And>d. S d d" and "\<And>d d'. S d d' \<Longrightarrow> R d d' \<Longrightarrow> api_rel d d'" and "\<And>d. R d d"
  shows "list_all (obedient api_rel) rs"
proof -
  have "obeys api_rel f" if "obeys S f" "obeys R f" for f :: "answer dbm" using that assms(3-5) by (rule api_rel_own)
  thus ?thesis using assms(1,2) by (simp add: list_all_iff obedient_def)
qed

lemma api_rel_audit: "obeys api_rel (auditAppend actor action ot oid before after)"
proof (rule obeys_mono [OF board_audit leaves_refl _ api_rel_trans])
  fix d d' assume l: "leaves boardTables d d'"
  show "api_rel d d'" using leaves_others(4) [OF l] l by (simp add: api_rel_def leaves_def)
qed

interpretation api: audited_relation api_rel
  by unfold_locales (rule api_rel_audit)

lemma app_obedient: "list_all (obedient api_rel) (appRoutes (wire post fmtTime lib cfg) @ publicRoutes (wire post fmtTime lib cfg))"
proof -
  let ?sv = "wire post fmtTime lib cfg"
  have p: "prefix (audit_logs d) (audit_logs d')" if "leaves e d d'" for e d d' using that by (simp add: leaves_def)
  have "list_all (obedient api_rel) (billingRoutes ?sv @ paymentRoutes ?sv @ publicRoutes ?sv)"
    by (rule obedient_own [OF ledger_frame.ledger_routes ledger_machine.ledger_routes]) (auto simp: api_rel_def p dest: leaves_others)
  moreover have "list_all (obedient api_rel) (buildingRoutes ?sv)"
    by (rule obedient_own [OF registry_frame.registry_routes registry_machine.registry_routes]) (auto simp: api_rel_def p dest: leaves_others)
  moreover have "list_all (obedient api_rel) (maintenanceRoutes ?sv)"
    by (rule obedient_own [OF maintenance_frame.maintenance_routes maintenance_machine.maintenance_routes]) (auto simp: api_rel_def p dest: leaves_others)
  moreover have "list_all (obedient api_rel) (notificationRoutes ?sv @ expenseRoutes ?sv @ announcementRoutes ?sv @ dashboardRoutes ?sv)"
    by (rule obedient_own [OF board_frame.board_routes board_frame.board_routes]) (auto simp: api_rel_def p dest: leaves_others)
  ultimately show ?thesis by (simp add: appRoutes_def obedient_routes)
qed

text \<open>The requests to the server: with a bearer token to a route behind the authentication, to the public route, to the session layer, and
  uploads and downloads, which work on the tables together with the disk and are behind the authentication too.\<close>

inductive api_step :: "http_post \<Rightarrow> (int \<Rightarrow> string) \<Rightarrow> services \<Rightarrow> Config \<Rightarrow> crypto \<Rightarrow> db world \<Rightarrow> db world \<Rightarrow> bool" for post fmtTime lib cfg c where
  authed: "r \<in> set (appRoutes (wire post fmtTime lib cfg)) \<Longrightarrow> serveAuthed c header r q w = (x, w') \<Longrightarrow> api_step post fmtTime lib cfg c w w'"
| public: "r \<in> set (publicRoutes (wire post fmtTime lib cfg)) \<Longrightarrow> runRoute r q w = (x, w') \<Longrightarrow> api_step post fmtTime lib cfg c w w'"
| session: "auth_step c w w' \<Longrightarrow> api_step post fmtTime lib cfg c w w'"
| upload: "uploadHandler (sv_Str lib) (fileStore cfg) user form v = (y, v') \<Longrightarrow> st_Db (db v) = db w \<Longrightarrow> st_Db (db v') = db w' \<Longrightarrow> api_step post fmtTime lib cfg c w w'"
| download: "downloadHandler (sv_Parse lib) fid v = (z, v') \<Longrightarrow> st_Db (db v) = db w \<Longrightarrow> st_Db (db v') = db w' \<Longrightarrow> api_step post fmtTime lib cfg c w w'"

lemma reads_Authenticate: "reads (Authenticate c header)"
  unfolding Authenticate_def ParseAccessToken_def usersFindByID_def by (intro atom)

lemma api_step_rel: "api_step post fmtTime lib cfg c w w' \<Longrightarrow> api_rel (db w) (db w')"
proof (induction rule: api_step.induct)
  case (authed r header q w x w')
  have "obedient api_rel r" using app_obedient [of post fmtTime lib cfg] authed(1) by (auto simp: list_all_iff)
  hence "obeys api_rel (serveAuthed c header r q)"
    unfolding serveAuthed_def by (intro obeys_bind obeys_reads [OF reads_Authenticate] api.obedient_run)
  from obeys_run [OF this _ authed(2)] show ?case by simp
next
  case (public r q w x w')
  have "obedient api_rel r" using app_obedient [of post fmtTime lib cfg] public(1) by (auto simp: list_all_iff)
  from obeys_run [OF api.obedient_run [OF this] _ public(2)] show ?case by simp
next
  case (session w w')
  from session_step [OF this] leaves_others(5) show ?case by (auto simp: api_rel_def leaves_def)
next
  case (upload user form v y v' w w')
  have "api_rel d (d\<lparr>stored_files := fs\<rparr>)" for d fs by (simp add: api_rel_def billing_rel_same bld_rel_side maint_rel_side)
  with upload_tables [OF upload(1)] upload(2,3) show ?case by metis
next
  case (download fid v z v' w w')
  with download_reads [OF download(1)] show ?case by simp
qed

interpretation api_machine: request_machine "api_step post fmtTime lib cfg c" api_rel
  by unfold_locales (simp_all add: api_step_rel api_rel_trans)


section \<open>Properties of every sequence of requests\<close>

text \<open>C16. The audit trail is append-only: along every sequence of requests to any route of the server,
  to the session layer, and of uploads and downloads, no entry of the trail is removed,
  changed or reordered; new ones are added at its end.\<close>

theorem audit_append_only:
  assumes "(api_step post fmtTime lib cfg c)\<^sup>*\<^sup>* w w'"
  shows "\<exists>new. audit_logs (db w') = audit_logs (db w) @ new"
  using api_machine.steps_rel [OF assms] by (simp add: api_rel_def prefix_def)

lemma kept_invoices:
  assumes "api_rel d d'" and "invoice_pk d"
  shows "\<forall>i\<in>set (invoices d). statusOf d (inv_PeriodID i) \<in> {Some PeriodIssued, Some PeriodClosed} \<longrightarrow>
    (\<exists>j\<in>set (invoices d'). inv_ID j = inv_ID i \<and> inv_InvoiceNumber j = inv_InvoiceNumber i \<and> invoiceAmounts j = invoiceAmounts i \<and> invoiceOwner j = invoiceOwner i) \<and>
    (\<forall>x\<in>set (invoice_items d). ii_InvoiceID x = inv_ID i \<longrightarrow> x \<in> set (invoice_items d'))"
  using assms by (fastforce simp: api_rel_def billing_rel_def ledger_kept_def frozen_def frozenStatus_def sameInvoice_def)

lemma kept_periods:
  "api_rel d d' \<Longrightarrow> \<forall>pid s. statusOf d pid = Some s \<longrightarrow> (\<exists>s'. statusOf d' pid = Some s' \<and> period_edge\<^sup>*\<^sup>* s s')"
  by (simp add: api_rel_def billing_rel_def machine_ok_def)

lemma kept_managers:
  "api_rel d d' \<Longrightarrow> grants_wf d \<Longrightarrow> \<forall>g\<in>set (user_buildings d). \<exists>h\<in>set (user_buildings d'). ub_BuildingID h = ub_BuildingID g"
  by (auto simp: api_rel_def bld_rel_def grants_kept_def managed_def)

lemma kept_occupancies:
  "api_rel d d' \<Longrightarrow> occ_wf (occupancies d) \<Longrightarrow> \<forall>x\<in>set (occupancies d). \<exists>y\<in>set (occupancies d'). oc_ID y = oc_ID x \<and> oc_UnitID y = oc_UnitID x \<and>
     oc_PersonID y = oc_PersonID x \<and> oc_Relationship y = oc_Relationship x \<and> oc_StartDate y = oc_StartDate x \<and>
     (oc_EndDate x \<noteq> None \<longrightarrow> oc_EndDate y = oc_EndDate x)"
  by (fastforce simp: api_rel_def bld_rel_def occ_kept_def all_kept_def occKept_def)

lemma kept_requests:
  "api_rel d d' \<Longrightarrow> distinct (map mr_ID (maintenance_requests d)) \<Longrightarrow> \<forall>m\<in>set (maintenance_requests d). \<exists>n\<in>set (maintenance_requests d'). mr_ID n = mr_ID m \<and>
     mr_UnitID n = mr_UnitID m \<and> mr_SubmittedBy n = mr_SubmittedBy m \<and> canTransition\<^sup>*\<^sup>* (mr_Status m) (mr_Status n)"
  by (fastforce simp: api_rel_def maint_rel_def all_kept_def maintKept_def)

text \<open>C4. Invariants of the whole server: along every sequence of requests to any route, by anyone, to
  the session layer, and of uploads and downloads, whatever fails in them, an invoice of an
  issued or closed period is kept with its number, all its amounts, its building, period, unit
  and due date, and its items; a period moves only along its state machine; a managed building
  stays managed; every occupancy is kept with its unit, person, relationship and start, and
  with its end date once set; and a maintenance request is kept with its unit and submitter
  and moves only along its allowed transitions. It assumes of the tables at the start that ids
  of invoices and of maintenance requests are distinct, that no grant is stored twice, and
  that the occupancies are well formed: distinct ids, at most one open per unit and
  relationship, none ending before it starts.\<close>

theorem api_invariants:
  assumes "(api_step post fmtTime lib cfg c)\<^sup>*\<^sup>* w w'"
    and "invoice_pk (db w)" and "grants_wf (db w)" and "occ_wf (occupancies (db w))" and "distinct (map mr_ID (maintenance_requests (db w)))"
  shows "(\<forall>i\<in>set (invoices (db w)). statusOf (db w) (inv_PeriodID i) \<in> {Some PeriodIssued, Some PeriodClosed} \<longrightarrow>
        (\<exists>j\<in>set (invoices (db w')). inv_ID j = inv_ID i \<and> inv_InvoiceNumber j = inv_InvoiceNumber i \<and> invoiceAmounts j = invoiceAmounts i \<and>
           invoiceOwner j = invoiceOwner i) \<and>
        (\<forall>x\<in>set (invoice_items (db w)). ii_InvoiceID x = inv_ID i \<longrightarrow> x \<in> set (invoice_items (db w')))) \<and>
     (\<forall>pid s. statusOf (db w) pid = Some s \<longrightarrow> (\<exists>s'. statusOf (db w') pid = Some s' \<and> period_edge\<^sup>*\<^sup>* s s')) \<and>
     (\<forall>g\<in>set (user_buildings (db w)). \<exists>h\<in>set (user_buildings (db w')). ub_BuildingID h = ub_BuildingID g) \<and>
     (\<forall>x\<in>set (occupancies (db w)). \<exists>y\<in>set (occupancies (db w')). oc_ID y = oc_ID x \<and> oc_UnitID y = oc_UnitID x \<and> oc_PersonID y = oc_PersonID x \<and>
        oc_Relationship y = oc_Relationship x \<and> oc_StartDate y = oc_StartDate x \<and> (oc_EndDate x \<noteq> None \<longrightarrow> oc_EndDate y = oc_EndDate x)) \<and>
     (\<forall>m\<in>set (maintenance_requests (db w)). \<exists>n\<in>set (maintenance_requests (db w')). mr_ID n = mr_ID m \<and> mr_UnitID n = mr_UnitID m \<and>
        mr_SubmittedBy n = mr_SubmittedBy m \<and> canTransition\<^sup>*\<^sup>* (mr_Status m) (mr_Status n))"
proof -
  note r = api_machine.steps_rel [OF assms(1)]
  show ?thesis by (intro conjI kept_invoices [OF r assms(2)] kept_periods [OF r] kept_managers [OF r assms(3)] kept_occupancies [OF r assms(4)] kept_requests [OF r assms(5)])
qed


section \<open>Example\<close>

definition goodAdjustment :: request where
  "goodAdjustment = (emptyRequest None ''61'')\<lparr>rq_Adjustment := Some \<lparr>ai_Kind = ''debit'', ai_Amount = 5, ai_Reason = ''key''\<rparr>\<rparr>"

definition apiRun :: "db world" where
  "apiRun = snd (serveAuthed sampleCrypto ''Bearer 21'' adjustRoute goodAdjustment sampleWorld)"

lemma apiRun_steps: "(api_step (\<lambda>_ _. Inl (Sentinel ''offline'')) showInt sampleServices defaultConfig sampleCrypto)\<^sup>*\<^sup>* sampleWorld apiRun"
proof -
  have r: "adjustRoute \<in> set (appRoutes (wire (\<lambda>_ _. Inl (Sentinel ''offline'')) showInt sampleServices defaultConfig))"
    by (simp add: adjustRoute_def appRoutes_def billingRoutes_def)
  show ?thesis unfolding apiRun_def by (rule r_into_rtranclp, rule api_step.authed [OF r]) (rule surjective_pairing)
qed

lemma apiRun_trail: "audit_logs (db apiRun) \<noteq> []" "map inv_ID (invoices (db apiRun)) = map inv_ID (invoices sampleDb)"
  by code_simp+

theorem audit_append_only_witness:
  "\<exists>new. audit_logs (db apiRun) = audit_logs sampleDb @ new \<and> new \<noteq> []"
proof -
  have "audit_logs sampleDb = []" by (simp add: sampleDb_def emptyDb_def)
  thus ?thesis using audit_append_only [OF apiRun_steps] apiRun_trail(1) by (simp add: sampleWorld_def)
qed

theorem api_invariants_witness:
  "(\<exists>j\<in>set (invoices (db apiRun)). inv_ID j = 62 \<and> inv_FinalAmount j = 1500) \<and> (\<exists>h\<in>set (user_buildings (db apiRun)). ub_BuildingID h = 1) \<and>
   (\<exists>y\<in>set (occupancies (db apiRun)). oc_ID y = 41 \<and> oc_PersonID y = 31 \<and> oc_StartDate y = oc_StartDate (mkOccupancy 41 11 31))"
proof -
  let ?i = "mkInvoice 62 ''BLD-2026-0002'' 1 51 12 1500 InvoiceUnpaid"
  have h: "invoice_pk (db sampleWorld)" "grants_wf (db sampleWorld)" "occ_wf (occupancies (db sampleWorld))" "distinct (map mr_ID (maintenance_requests (db sampleWorld)))"
    and i: "?i \<in> set (invoices (db sampleWorld))" "statusOf (db sampleWorld) (inv_PeriodID ?i) \<in> {Some PeriodIssued, Some PeriodClosed}"
    and o': "occupancies (db sampleWorld) = [mkOccupancy 41 11 31]" and g: "\<exists>g\<in>set (user_buildings (db sampleWorld)). ub_BuildingID g = 1"
    by (simp_all add: sampleWorld_def sampleDb_def emptyDb_def statusOf_def mkPeriod_def mkInvoice_def invoice_pk_def grants_wf_def occ_wf_def mkOccupancy_def)
  note inv = api_invariants [OF apiRun_steps h]
  have "\<exists>j\<in>set (invoices (db apiRun)). inv_ID j = inv_ID ?i \<and> invoiceAmounts j = invoiceAmounts ?i" using inv i by blast
  moreover have "\<exists>h\<in>set (user_buildings (db apiRun)). ub_BuildingID h = 1" using inv g by metis
  moreover have "\<exists>y\<in>set (occupancies (db apiRun)). oc_ID y = 41 \<and> oc_PersonID y = 31 \<and> oc_StartDate y = oc_StartDate (mkOccupancy 41 11 31)"
    using inv o' by (simp add: mkOccupancy_def) blast
  ultimately show ?thesis by (auto simp: mkInvoice_def invoiceAmounts_def)
qed

end
