(* ===== verification/Router.thy ===== *)
theory Router
  imports Endpoints
begin

text \<open>
  \<open>internal/platform/httpx/router.go\<close> and the middleware around every request (\<open>middleware.go\<close>): request ids, the level of the log line,
  recovery from panics, CORS, the liveness probe, unmatched paths. How gin finds the handler of a method and path is a parameter.
\<close>

record httpRequest =
  hr_Method :: string
  hr_Path :: string
  hr_Origin :: string
  hr_RequestID :: string

datatype outcome = NoContent | Healthy | Answered answer | Failed app_error

record response =
  rs_RequestID :: string
  rs_CORS :: corsOut
  rs_Outcome :: outcome
  rs_LogLevel :: string

definition outcomeStatus :: "outcome \<Rightarrow> int" where
  "outcomeStatus oc = (case oc of NoContent \<Rightarrow> 204 | Healthy \<Rightarrow> 200 | Answered a \<Rightarrow> as_Status a | Failed e \<Rightarrow> Status e)"

definition logLevel :: "int \<Rightarrow> string" where
  "logLevel status = (if status \<ge> 500 then ''error'' else if status \<ge> 400 then ''warn'' else ''info'')"

text \<open>\<open>Recovery\<close> answers a panic with \<open>ErrInternal\<close>; a handler that fails has written the envelope of its error.\<close>

definition Recovery :: "answer dbm \<Rightarrow> outcome dbm" where
  "Recovery h = bindE (tryE h) (\<lambda>r. returnE (case r of
       Inr a \<Rightarrow> Answered a
     | Inl (Panic _) \<Rightarrow> Failed ErrInternal
     | Inl e \<Rightarrow> Failed (WriteError e)))"

definition NewRouter :: "(uuid \<Rightarrow> string) \<Rightarrow> string list \<Rightarrow> (string \<Rightarrow> string \<Rightarrow> answer dbm option) \<Rightarrow> httpRequest \<Rightarrow> response dbm" where
  "NewRouter str allowedOrigins tree r =
     bindE (RequestID str (hr_RequestID r)) (\<lambda>rid.
     let cors = CORS allowedOrigins (hr_Method r) (hr_Origin r)
     in bindE (if co_Aborted cors then returnE NoContent
               else if hr_Method r = ''GET'' \<and> hr_Path r = ''/healthz'' then returnE Healthy
               else Recovery (case tree (hr_Method r) (hr_Path r) of
                   None \<Rightarrow> throwE (AppErr (NotFound ''the path was not found''))
                 | Some h \<Rightarrow> h)) (\<lambda>oc.
        returnE \<lparr>rs_RequestID = rid, rs_CORS = cors, rs_Outcome = oc, rs_LogLevel = logLevel (outcomeStatus oc)\<rparr>))"

lemma Recovery_answers: "\<exists>oc w'. Recovery h w = (Inr oc, w')"
  by (auto simp: Recovery_def bindE_def tryE_def returnE_def split: prod.splits)

text \<open>Every request is answered, and carries the request id it came with.\<close>

lemma NewRouter_answers:
  "\<exists>rs w'. NewRouter str origins tree r w = (Inr rs, w') \<and> (hr_RequestID r \<noteq> '''' \<longrightarrow> rs_RequestID rs = hr_RequestID r)"
proof -
  obtain rid w1 where i: "RequestID str (hr_RequestID r) w = (Inr rid, w1)" "hr_RequestID r \<noteq> '''' \<longrightarrow> rid = hr_RequestID r"
    by (cases "hr_RequestID r = []") (simp_all add: RequestID_def bindE_def newUUID_def returnE_def)
  show ?thesis
    using i(2) Recovery_answers [of "case tree (hr_Method r) (hr_Path r) of None \<Rightarrow> throwE (AppErr (NotFound ''the path was not found'')) | Some h \<Rightarrow> h" w1]
    by (auto simp: NewRouter_def bindE_def [of "RequestID str (hr_RequestID r)"] i(1) Let_def) (auto simp: bindE_def returnE_def)
qed

text \<open>A preflight and an unmatched path reach no handler.\<close>

lemma NewRouter_preflight: "hr_Method r = ''OPTIONS'' \<Longrightarrow> db (snd (NewRouter str origins tree r w)) = db w"
  by (auto simp: NewRouter_def CORS_def RequestID_def bindE_def newUUID_def returnE_def Let_def)

lemma NewRouter_unmatched: "tree (hr_Method r) (hr_Path r) = None \<Longrightarrow> db (snd (NewRouter str origins tree r w)) = db w"
  by (auto simp: NewRouter_def CORS_def RequestID_def Recovery_def bindE_def tryE_def throwE_def newUUID_def returnE_def Let_def)

end
