(* ===== verification/Spec2Isabelle.thy ===== *)
theory Spec2Isabelle
  imports Conservation Scopes Api_Machine Router
begin

text \<open>
  \<^bold>\<open>Hamsa: billing and management of residential buildings.\<close> The program is the Go service under
  \<open>src/backend\<close>: a gin HTTP API over PostgreSQL (gorm). A building has units; its managers enter costs into billing
  periods, the charge engine distributes every cost over the units, the period is issued as numbered invoices, residents
  pay them manually or through the Zarinpal gateway, and a balance per unit is kept. Around this ledger stand accounts with
  invites and rotating sessions, people and occupancies, maintenance requests, announcements, expenses, notifications
  and an audit trail.

  \<^bold>\<open>The model.\<close> A request runs in the error monad of \<open>Prelude\<close>: a function from a world to a result (\<open>Inl\<close> a Go error,
  \<open>Inr\<close> a value) and the new world. A world holds the database, the stream of fresh ids (\<open>uuid.New\<close>), the clock readings and
  a schedule of database faults; a statement fails when the schedule says so or when a constraint of the schema rejects
  it, and \<open>transaction\<close> restores the tables when its body or the commit fails. Theorems quantify over all worlds, so
  they hold whatever fails and whatever the clock says; where a theorem says that a request succeeds it assumes \<open>no_faults\<close>.
  \<open>int64\<close> values are \<open>int\<close> with the wrap-around written out (\<open>i64\<close>). Texts for the user are replaced by short identifiers.
  One request is one step: requests of different clients are interleaved, statements of different requests are not.

  \<^bold>\<open>Theories and sources\<close> (paths under \<open>src/backend/internal\<close>).

  \<^item> \<open>Prelude\<close>, \<open>GoStd\<close>, \<open>Triples\<close>: 64-bit integers, errors (\<open>platform/httpx/errors.go\<close>), the monad and its proof rules; the parts
    of the Go library on strings, numbers and dates; Hoare triples and relations between the databases before and after.
  \<^item> \<open>Database\<close>: one record per gorm model, one field of \<open>db\<close> per table of \<open>migrations/0001\<close> to \<open>0011\<close>.
  \<^item> \<open>Engine\<close>: \<open>billing/engine/engine.go\<close>. Rounding by largest remainder, reconciliation, errors, the methods against a
    reference definition, late fees.
  \<^item> \<open>Billing_Repo\<close>, \<open>Period_Service\<close>, \<open>Calc_Service\<close>: \<open>billing/repository.go\<close> with the triggers of migration 0004,
    \<open>billing/period_service.go\<close>, \<open>billing/calc_service.go\<close>. \<open>Conservation\<close>: no money is lost or made between cost items and
    invoices. \<open>Billing_Machine\<close>: the period lifecycle, issued invoices do not change.
  \<^item> \<open>Payment_Repo\<close>, \<open>Gateway\<close>, \<open>Payment_Service\<close>: \<open>payment/*.go\<close> and \<open>payment/gateway\<close>. \<open>Payment_Ledger\<close>: manual payments and
    callbacks on every branch, atomicity, idempotence, balances, scopes, the return path. \<open>Ledger_Machine\<close>: billing and payments
    together as the steps of \<open>ledger_step\<close>.
  \<^item> \<open>Http\<close>, \<open>Auth_Token\<close>, \<open>Auth_Handlers\<close>: the request and reply types, CORS, \<open>auth/*.go\<close>. \<open>Auth_Machine\<close>, \<open>Auth_Facts\<close>: the
    session layer as the steps of \<open>auth_step\<close>; single use of refresh tokens and invites, the one superadmin, round
    trips of sessions and passwords, CSRF.
  \<^item> \<open>Building_Service\<close>, \<open>Occupancy_Service\<close>: \<open>building/*.go\<close>. \<open>Building_Machine\<close>: the steps of \<open>bld_step\<close>; managers, occupancies.
  \<^item> \<open>Maintenance\<close>: \<open>maintenance/*.go\<close>. \<open>Maintenance_Machine\<close>: the lifecycle of a request, that it can be closed and that its status
    settles.
  \<^item> \<open>GoTime\<close>, \<open>Announcement\<close>, \<open>Expense\<close>, \<open>Dashboard\<close>: RFC 3339 times, \<open>announcement/*.go\<close>, \<open>expense/*.go\<close>, \<open>dashboard/*.go\<close>.
    \<open>Announcement_Facts\<close>: the two definitions of the audience agree, types of stored rows, read marks. \<open>Dashboard_Facts\<close>: the dashboard
    against the report, deleted expenses, the sort of the home page.
  \<^item> \<open>Notification_Audit\<close>: \<open>notification/notification.go\<close>, \<open>audit/audit.go\<close>, called by all services.
  \<^item> \<open>Scopes\<close>: what it means that a request is refused, and the scope checks of the packages; the property below spans them.
  \<^item> \<open>Endpoints\<close>: requests, answers, guards, routes and the audit middleware. \<open>Billing_Endpoints\<close>, \<open>Building_Endpoints\<close>,
    \<open>Payment_Endpoints\<close>, \<open>Service_Endpoints\<close>: the \<open>handlers.go\<close> and \<open>marshal.go\<close> files, one definition per handler, and the route tables of
    their \<open>Register\<close> functions. \<open>Router\<close>: \<open>platform/httpx/router.go\<close> and \<open>middleware.go\<close>. \<open>Config\<close>, \<open>App\<close>: \<open>platform/config/config.go\<close> and
    the wiring of \<open>cmd/server/main.go\<close>.
  \<^item> \<open>Endpoint_Laws\<close>, \<open>Endpoint_Atomic\<close>, \<open>Api\<close>: which routes only read, which refuse callers who are not managers, which change nothing when
    they fail; the audit entries, who sees an invoice, the history of a unit. \<open>Api_Frames\<close>, \<open>Api_Machine\<close>: which tables each package can
    change, and the server as the steps of \<open>api_step\<close> (routes, sessions, uploads and downloads), along which the invariants of the packages and the
    audit trail are kept.
  \<^item> \<open>Storage\<close>: \<open>platform/storage\<close>, a state of its own: the database together with the disk. Its two routes, mounted behind the authentication
    in \<open>main.go\<close>, are the handlers themselves and not rows of the route table \<open>appRoutes\<close>.
  \<^item> \<open>Samples\<close>: the rows on which the examples run.

  \<^bold>\<open>Interfaces.\<close> The locale \<open>payment_gateway\<close> is what the payment service relies on from a gateway, interpreted for the Zarinpal
  adapter and the mock; \<open>billing_env\<close> is what billing relies on from its balance providers, interpreted for the balance service of the
  payment package. \<open>request_machine\<close> gives every step relation the invariants of its relation, \<open>building_scope\<close> is the
  scope check that each package makes in its own way, \<open>guarded_api\<close> a route table with its exempt routes, and \<open>audited_relation\<close> with its extensions
  for the ledger, the registry, maintenance and notices reduces a relation kept by all routes of a package to its services; each is interpreted
  for the code's definitions. Cryptography (\<open>crypto\<close>), the HTTP round trip to the gateway, \<open>uuid.Parse\<close>, the YAML and JSON
  decoders and gin's matching of paths are parameters: they are not code of the repository. What the proofs need of them is stated
  as hypotheses, which sample functions satisfy.

  \<^bold>\<open>Bounds and termination.\<close> All definitions are total: loops over rows are structural recursion, and the only
  other recursions, decoding and trimming a string and printing a number, decrease its length or value. No fuel is used. Sums of money are
  bounded by hypotheses where a theorem needs that no \<open>int64\<close> addition wraps. Times are seconds, dates are day numbers.

  \<^bold>\<open>Not modelled.\<close> The widths of text columns and of 32-bit columns (a statement they reject is one that the fault schedule
  fails), the push channel, the writing of log lines, opening the database and running the migrations, the listener and signals, the rendering of
  JSON beyond the amounts of payments and balances, range requests on files, and the interleaving of the statements of two requests. The
  components list of the manifest says so per package.
\<close>

section \<open>Building scopes across the services\<close>

text \<open>C10. Building scopes across the services: without a grant for a building, a manager's requests on
  it, or on an announcement, expense or maintenance request of it, are refused and change
  nothing: creating periods, changing the building, its units and managers, reading its
  ledger, report and dashboard, publishing, recording, deleting and updating.\<close>

theorem managers_only:
  assumes "\<not> granted (db w) (usr_ID m) bid"
    and "\<forall>a\<in>set (announcements (db w)). an_ID a = aid \<longrightarrow> an_BuildingID a = bid"
    and "\<forall>e\<in>set (expenses (db w)). ex_ID e = eid \<longrightarrow> ex_BuildingID e = bid"
    and "\<forall>r\<in>set (maintenance_requests (db w)). mr_ID r = mid \<longrightarrow> mr_BuildingID r = bid"
  shows "refused (CreatePeriod m bid pinp) w \<and>
     refused (UpdateBuilding iter m bid binp) w \<and>
     refused (CreateUnit iter m bid uinp) w \<and>
     refused (GrantManagerByPhone m bid phone) w \<and>
     refused (RevokeManager m bid uid) w \<and>
     refused (BuildingLedger m bid pf) w \<and>
     refused (annCreateFor parse (Some m) bid ainp) w \<and>
     refused (annUpdate parse (Some m) aid ainp) w \<and>
     refused (annDeleteFor (Some m) aid) w \<and>
     refused (expCreate parse m bid einp) w \<and>
     refused (expUpdate parse m eid einp) w \<and>
     refused (expDelete m eid) w \<and>
     refused (expReport m bid month) w \<and>
     refused (maintUpdate m mid upd) w \<and>
     refused (maintListForManager m bid mf) w \<and>
     refused (BuildingDashboardFor str (Some m) bid) w"
proof -
  note g = assms(1)
  have "refused (CreatePeriod m bid pinp) w" unfolding CreatePeriod_def by (intro refused_then scopes_refused g)
  moreover have "refused (UpdateBuilding iter m bid binp) w" unfolding UpdateBuilding_def by (intro refused_bind authorizedBuilding_refused g)
  moreover have "refused (CreateUnit iter m bid uinp) w" unfolding CreateUnit_def by (intro refused_bind authorizedBuilding_refused g)
  moreover have "refused (GrantManagerByPhone m bid phone) w" unfolding GrantManagerByPhone_def by (intro refused_bind authorizedBuilding_refused g)
  moreover have "refused (RevokeManager m bid uid) w" unfolding RevokeManager_def by (intro refused_bind authorizedBuilding_refused g)
  moreover have "refused (BuildingLedger m bid pf) w" unfolding BuildingLedger_def thenE_def
    by (rule refused_after [OF reads_rules(7)], fold thenE_def, rule payment_scope.denied_then) (simp add: g)
  moreover have "refused (annCreateFor parse (Some m) bid ainp) w" unfolding annCreateFor_def refused_auth by (intro refused_then scopes_refused g)
  moreover have "refused (annUpdate parse (Some m) aid ainp) w" unfolding annUpdate_def by (intro refused_bind annForManager_refused [OF g assms(2)])
  moreover have "refused (annDeleteFor (Some m) aid) w" unfolding annDeleteFor_def by (intro refused_bind annForManager_refused [OF g assms(2)])
  moreover have "refused (expCreate parse m bid einp) w" unfolding expCreate_def by (intro refused_then scopes_refused g)
  moreover have "refused (expUpdate parse m eid einp) w" unfolding expUpdate_def by (intro refused_bind expGet_refused [OF g assms(3)])
  moreover have "refused (expDelete m eid) w" unfolding expDelete_def by (intro refused_bind expGet_refused [OF g assms(3)])
  moreover have "refused (expReport m bid month) w" unfolding expReport_def by (intro refused_then scopes_refused g)
  moreover have "refused (maintUpdate m mid upd) w" unfolding maintUpdate_def by (intro refused_bind maintForManager_refused [OF g assms(4)])
  moreover have "refused (maintListForManager m bid mf) w" unfolding maintListForManager_def by (rule maint_scope.denied_then [OF g])
  moreover have "refused (BuildingDashboardFor str (Some m) bid) w" unfolding BuildingDashboardFor_def option.case by (rule access_scope.denied_then [OF g])
  ultimately show ?thesis by (intro conjI)
qed

definition scopeWorld :: "db world" where
  "scopeWorld = exampleWorld (sampleDb\<lparr>announcements := [sampleAnnouncement], expenses := [mkExpense 96 300 3], maintenance_requests := [sampleRequest]\<rparr>)"

theorem managers_only_witness:
  "refused (annUpdate sampleParse (Some (mkUser 23 ''09120000023'' ''manager'')) 95 sampleAnnInput) scopeWorld \<and>
   refused (expDelete (mkUser 23 ''09120000023'' ''manager'') 96) scopeWorld \<and>
   refused (maintUpdate (mkUser 23 ''09120000023'' ''manager'') 91 (statusUpdate MStatusUnderReview)) scopeWorld"
proof -
  have "\<not> granted (db scopeWorld) (usr_ID (mkUser 23 ''09120000023'' ''manager'')) 1" "\<forall>a\<in>set (announcements (db scopeWorld)). an_ID a = 95 \<longrightarrow> an_BuildingID a = 1"
    "\<forall>e\<in>set (expenses (db scopeWorld)). ex_ID e = 96 \<longrightarrow> ex_BuildingID e = 1" "\<forall>r\<in>set (maintenance_requests (db scopeWorld)). mr_ID r = 91 \<longrightarrow> mr_BuildingID r = 1"
    by (simp_all add: scopeWorld_def exampleWorld_def sampleDb_def granted_def mkUser_def sampleAnnouncement_def mkExpense_def sampleRequest_def)
  from managers_only [OF this] show ?thesis by blast
qed

end
